(* ===== verification/Prelude.thy ===== *)
theory Prelude
  imports Main "HOL-Library.Signed_Division" "HOL-Library.Word"
begin

text \<open>
  Shared vocabulary of the development: results of statements that may raise, the range of
  the database integers, decimal text, byte strings and hexadecimal decoding, and tables as
  lists of rows with the three statements the stored functions use on them (a lookup by key,
  an update by key and a membership test), with the laws the component theories rely on.

  A table is the list of its rows in insertion order. A lookup by primary key is
  \<open>sel_key\<close>, an \<^verbatim>\<open>UPDATE ... WHERE key = k\<close> is \<open>upd_key\<close>.
\<close>

section \<open>Collections of the development\<close>

named_theorems raise_simps \<open>inversion of sequenced statements that may raise\<close>
named_theorems frame_simps \<open>what a statement leaves unchanged\<close>
named_theorems gold_simps \<open>how a statement moves gold between the accounts\<close>

section \<open>Definitions\<close>

type_synonym byte = "8 word"
type_synonym bytea = "byte list"

text \<open>Statement sequencing: the first error ends the transaction.\<close>

definition bindE :: "'e + 'a \<Rightarrow> ('a \<Rightarrow> 'e + 'b) \<Rightarrow> 'e + 'b" where
  "bindE m f = (case m of Inl e \<Rightarrow> Inl e | Inr x \<Rightarrow> f x)"

text \<open>\<open>IF c THEN RAISE e; END IF\<close>.\<close>

definition raise_if :: "bool \<Rightarrow> 'e \<Rightarrow> 'e + 'a \<Rightarrow> 'e + 'a" where
  "raise_if c e m = (if c then Inl e else m)"

text \<open>Ranges of \<^verbatim>\<open>BIGINT\<close> and \<^verbatim>\<open>INT\<close>.\<close>

definition in_int8 :: "int \<Rightarrow> bool" where
  "in_int8 x \<longleftrightarrow> - (2 ^ 63) \<le> x \<and> x < 2 ^ 63"

definition in_int4 :: "int \<Rightarrow> bool" where
  "in_int4 x \<longleftrightarrow> - (2 ^ 31) \<le> x \<and> x < 2 ^ 31"

text \<open>Decimal text of an integer, as the database casts an integer to text.\<close>

fun show_nat :: "nat \<Rightarrow> string" where
  "show_nat n = (if n < 10 then [char_of (48 + n)]
                 else show_nat (n div 10) @ [char_of (48 + n mod 10)])"

declare show_nat.simps [simp del]

definition show_int :: "int \<Rightarrow> string" where
  "show_int i = (if i < 0 then CHR ''-'' # show_nat (nat (- i)) else show_nat (nat i))"

text \<open>Bytes of a text (\<^verbatim>\<open>convert_to(t, 'UTF8')\<close>, \<^verbatim>\<open>str.encode()\<close>); a
  \<open>string\<close> holds the UTF-8 bytes of the text.\<close>

definition text_bytes :: "string \<Rightarrow> bytea" where
  "text_bytes s = map of_char s"

text \<open>\<^verbatim>\<open>decode(t, 'hex')\<close>: white space is skipped, anything else that is not a
  pair of hexadecimal digits is an error.\<close>

fun hex_digit :: "char \<Rightarrow> nat option" where
  "hex_digit c =
     (let n = of_char c :: nat
      in if 48 \<le> n \<and> n \<le> 57 then Some (n - 48)
         else if 97 \<le> n \<and> n \<le> 102 then Some (n - 87)
         else if 65 \<le> n \<and> n \<le> 70 then Some (n - 55)
         else None)"

fun hex_pairs :: "string \<Rightarrow> bytea option" where
  "hex_pairs [] = Some []"
| "hex_pairs [c] = None"
| "hex_pairs (c # d # cs) =
     (case (hex_digit c, hex_digit d, hex_pairs cs) of
        (Some a, Some b, Some bs) \<Rightarrow> Some (word_of_nat (16 * a + b) # bs)
      | _ \<Rightarrow> None)"

definition hex_decode :: "string \<Rightarrow> bytea option" where
  "hex_decode s = hex_pairs (filter (\<lambda>c. c \<notin> {CHR '' '', CHR 0x09, CHR 0x0A, CHR 0x0D}) s)"

text \<open>\<^verbatim>\<open>encode(b, 'hex')\<close>: two lower-case digits per byte.\<close>

definition hex_char :: "nat \<Rightarrow> char" where
  "hex_char n = char_of (if n < 10 then 48 + n else 87 + n)"

definition hex_encode :: "bytea \<Rightarrow> string" where
  "hex_encode bs = concat (map (\<lambda>b. [hex_char (unat b div 16), hex_char (unat b mod 16)]) bs)"

text \<open>Rows by key.\<close>

definition sel_key :: "('r \<Rightarrow> 'k) \<Rightarrow> 'k \<Rightarrow> 'r list \<Rightarrow> 'r option" where
  "sel_key key k rs = find (\<lambda>r. key r = k) rs"

definition upd_key :: "('r \<Rightarrow> 'k) \<Rightarrow> 'k \<Rightarrow> ('r \<Rightarrow> 'r) \<Rightarrow> 'r list \<Rightarrow> 'r list" where
  "upd_key key k f rs = map (\<lambda>r. if key r = k then f r else r) rs"

definition has_key :: "('r \<Rightarrow> 'k) \<Rightarrow> 'k \<Rightarrow> 'r list \<Rightarrow> bool" where
  "has_key key k rs \<longleftrightarrow> k \<in> set (map key rs)"

text \<open>Sum of a column over the rows that satisfy a condition.\<close>

definition sum_where :: "('r \<Rightarrow> bool) \<Rightarrow> ('r \<Rightarrow> int) \<Rightarrow> 'r list \<Rightarrow> int" where
  "sum_where P w rs = sum_list (map w (filter P rs))"

section \<open>Sequenced statements\<close>

lemma bindE_simps [simp]:
  "bindE (Inl e) f = Inl e"
  "bindE (Inr x) f = f x"
  by (simp_all add: bindE_def)

lemma bindE_Inr [raise_simps]:
  "bindE m f = Inr y \<longleftrightarrow> (\<exists>x. m = Inr x \<and> f x = Inr y)"
  by (simp add: bindE_def split: sum.splits)

lemma raise_if_Inr [raise_simps]: "raise_if c e m = Inr y \<longleftrightarrow> \<not> c \<and> m = Inr y"
  by (simp add: raise_if_def)

lemma raise_if_simps [simp]:
  "raise_if True e m = Inl e"
  "raise_if False e m = m"
  by (simp_all add: raise_if_def)

lemma bindE_cong [fundef_cong]:
  "m = m' \<Longrightarrow> (\<And>x. m' = Inr x \<Longrightarrow> f x = f' x) \<Longrightarrow> bindE m f = bindE m' f'"
  by (simp add: bindE_def split: sum.splits)

section \<open>Decimal text\<close>

lemma show_nat_nonempty: "show_nat n \<noteq> []"
  by (subst show_nat.simps) simp

text \<open>Reading the digits back: the text determines the number.\<close>

definition digits_value :: "string \<Rightarrow> nat" where
  "digits_value s = foldl (\<lambda>a c. 10 * a + (of_char c - 48)) 0 s"

lemma digits_value_show_nat: "digits_value (show_nat n) = n"
proof (induction n rule: show_nat.induct)
  case (1 n)
  show ?case
  proof (cases "n < 10")
    case True
    then show ?thesis by (simp add: show_nat.simps [of n] digits_value_def)
  next
    case False
    with 1 have "digits_value (show_nat (n div 10)) = n div 10" by simp
    with False show ?thesis
      by (simp add: show_nat.simps [of n] digits_value_def)
  qed
qed

lemma show_nat_inject [simp]: "show_nat m = show_nat n \<longleftrightarrow> m = n"
  by (metis digits_value_show_nat)

lemma set_show_nat: "c \<in> set (show_nat n) \<Longrightarrow> 48 \<le> (of_char c :: nat) \<and> (of_char c :: nat) \<le> 57"
proof (induction n rule: show_nat.induct)
  case (1 n)
  show ?case
  proof (cases "n < 10")
    case True
    with "1.prems" show ?thesis by (simp add: show_nat.simps [of n])
  next
    case False
    with "1.prems" have "c \<in> set (show_nat (n div 10)) \<or> c = char_of (48 + n mod 10)"
      by (auto simp: show_nat.simps [of n])
    then show ?thesis
    proof
      assume "c \<in> set (show_nat (n div 10))"
      with False "1.IH" show ?thesis by simp
    next
      assume "c = char_of (48 + n mod 10)"
      then show ?thesis by simp
    qed
  qed
qed

lemma show_int_inject [simp]: "show_int i = show_int j \<longleftrightarrow> i = j"
proof -
  have neg: "show_nat n \<noteq> CHR ''-'' # cs" for n cs
    using set_show_nat [of "CHR ''-''" n] by auto
  show ?thesis
    using neg [symmetric] by (auto simp: show_int_def neg)
qed

text \<open>The same text computed on integers, for evaluation.\<close>

lemma show_int_code [code]:
  "show_int i =
    (if i < 0 then CHR ''-'' # show_int (- i)
     else if i < 10 then [char_of (48 + i)]
     else show_int (i div 10) @ [char_of (48 + i mod 10)])"
proof -
  have "show_int i = show_int (i div 10) @ [char_of (48 + i mod 10)]" if "10 \<le> i"
  proof -
    have "show_nat (nat i) = show_nat (nat i div 10) @ [char_of (48 + nat i mod 10)]"
      using that by (subst show_nat.simps) (simp add: nat_less_iff)
    moreover have "48 + i mod 10 = int (48 + nat i mod 10)"
      using that by (simp add: nat_mod_distrib zmod_int)
    then have "(char_of (48 + nat i mod 10) :: char) = char_of (48 + i mod 10)"
      by (simp only: char_of_nat)
    ultimately show ?thesis using that by (simp add: show_int_def nat_div_distrib)
  qed
  moreover have "show_int i = [char_of (48 + i)]" if "0 \<le> i" "i < 10"
  proof -
    have "48 + i = int (48 + nat i)" using that by simp
    then show ?thesis using that by (simp only: char_of_nat) (simp add: show_int_def show_nat.simps)
  qed
  ultimately show ?thesis by (auto simp: show_int_def)
qed

section \<open>Rows by key\<close>

lemma sel_key_simps [simp]:
  "sel_key key k [] = None"
  "sel_key key k (r # rs) = (if key r = k then Some r else sel_key key k rs)"
  by (simp_all add: sel_key_def)

lemma upd_key_simps [simp]:
  "upd_key key k f [] = []"
  "upd_key key k f (r # rs) = (if key r = k then f r else r) # upd_key key k f rs"
  by (simp_all add: upd_key_def)

lemma has_key_simps [simp]:
  "has_key key k [] = False"
  "has_key key k (r # rs) = (key r = k \<or> has_key key k rs)"
  by (auto simp: has_key_def)

lemma sum_where_simps [simp]:
  "sum_where P w [] = 0"
  "sum_where P w (r # rs) = (if P r then w r else 0) + sum_where P w rs"
  "sum_where P w (rs @ rs') = sum_where P w rs + sum_where P w rs'"
  by (simp_all add: sum_where_def)

lemma sel_key_append [simp]:
  "sel_key key k (rs @ rs') = (case sel_key key k rs of None \<Rightarrow> sel_key key k rs' | Some r \<Rightarrow> Some r)"
  by (induction rs) auto

lemma sel_key_Some_key: "sel_key key k rs = Some r \<Longrightarrow> key r = k"
  by (induction rs) (auto split: if_splits)

lemma sel_key_Some_in: "sel_key key k rs = Some r \<Longrightarrow> r \<in> set rs"
  by (induction rs) (auto split: if_splits)

lemma sel_key_None_iff: "sel_key key k rs = None \<longleftrightarrow> k \<notin> key ` set rs"
  by (induction rs) auto

lemma has_key_sel: "has_key key k rs \<longleftrightarrow> sel_key key k rs \<noteq> None"
  by (simp only: sel_key_None_iff has_key_def set_map not_not)

lemma has_key_append [simp]: "has_key key k (rs @ rs') = (has_key key k rs \<or> has_key key k rs')"
  by (auto simp: has_key_def)

lemma sel_key_in: "distinct (map key rs) \<Longrightarrow> r \<in> set rs \<Longrightarrow> sel_key key (key r) rs = Some r"
  by (induction rs) (auto simp: image_iff)

lemma map_key_upd [simp]: "(\<And>r. key (f r) = key r) \<Longrightarrow> map key (upd_key key' k f rs) = map key rs"
  by (induction rs) auto

lemma has_key_upd [simp]:
  "(\<And>r. key (f r) = key r) \<Longrightarrow> has_key key k' (upd_key key' k f rs) = has_key key k' rs"
  by (simp add: has_key_def del: set_map)

lemma sel_key_upd:
  assumes "\<And>r. key (f r) = key r"
  shows "sel_key key k' (upd_key key k f rs) =
    (if k' = k then map_option f (sel_key key k rs) else sel_key key k' rs)"
  by (induction rs) (auto simp: assms)

lemma upd_key_absent: "sel_key key k rs = None \<Longrightarrow> upd_key key k f rs = rs"
  by (induction rs) (auto split: if_splits)

lemma set_upd_key:
  "r \<in> set (upd_key key k f rs) \<Longrightarrow>
    (r \<in> set rs \<and> key r \<noteq> k) \<or> (\<exists>r0 \<in> set rs. key r0 = k \<and> r = f r0)"
  by (induction rs) (auto split: if_splits)

lemma ball_upd_key:
  assumes "\<forall>r \<in> set rs. P r" and "\<And>r. r \<in> set rs \<Longrightarrow> key r = k \<Longrightarrow> P r \<Longrightarrow> P (f r)"
  shows "\<forall>r \<in> set (upd_key key k f rs). P r"
  using assms by (induction rs) auto

text \<open>The two sums a ledger proof needs: over all rows and over a condition.\<close>

lemma sum_where_upd:
  assumes "distinct (map key rs)" and "sel_key key k rs = Some r"
  shows "sum_where P w (upd_key key k f rs) =
    sum_where P w rs + (if P (f r) then w (f r) else 0) - (if P r then w r else 0)"
  using assms
proof (induction rs)
  case Nil
  then show ?case by simp
next
  case (Cons r' rs)
  show ?case
  proof (cases "key r' = k")
    case True
    with Cons.prems have "sel_key key k rs = None" and "r' = r"
      by (auto simp: sel_key_None_iff)
    with True show ?thesis by (simp add: upd_key_absent)
  next
    case False
    with Cons show ?thesis by simp
  qed
qed

lemma sum_where_nonneg: "(\<And>r. r \<in> set rs \<Longrightarrow> P r \<Longrightarrow> 0 \<le> w r) \<Longrightarrow> 0 \<le> sum_where P w rs"
  by (induction rs) auto

lemma sum_where_member_le:
  assumes "\<And>r. r \<in> set rs \<Longrightarrow> P r \<Longrightarrow> 0 \<le> w r" and "r \<in> set rs" and "P r"
  shows "w r \<le> sum_where P w rs"
  using assms
proof (induction rs)
  case Nil
  then show ?case by simp
next
  case (Cons r' rs)
  then have rest: "0 \<le> sum_where P w rs"
    by (auto intro: sum_where_nonneg)
  from Cons.prems(2) show ?case
  proof (cases "r = r'")
    case True
    with rest Cons.prems(3) show ?thesis by simp
  next
    case False
    with Cons have "w r \<le> sum_where P w rs" by auto
    with Cons.prems(1) [of r'] show ?thesis by auto
  qed
qed

lemma sum_where_True: "sum_where (\<lambda>_. True) w rs = sum_list (map w rs)"
  by (simp add: sum_where_def)

lemma sum_where_cong: "(\<And>r. r \<in> set rs \<Longrightarrow> P r = Q r \<and> (P r \<longrightarrow> w r = v r)) \<Longrightarrow>
  sum_where P w rs = sum_where Q v rs"
  by (induction rs) auto

text \<open>An update that keeps both the condition and the summed column keeps the sum.\<close>

lemma sum_where_upd_same:
  assumes "\<And>r. key r = k \<Longrightarrow> P (f r) = P r \<and> w (f r) = w r"
  shows "sum_where P w (upd_key key k f rs) = sum_where P w rs"
  using assms by (induction rs) auto

section \<open>Integer division of the database\<close>

text \<open>The fee formulas divide by 10000, rounding towards zero; on the amounts the guards let
  through this is the floor.\<close>

lemma sdiv_nonneg: "0 \<le> a \<Longrightarrow> 0 < b \<Longrightarrow> (a::int) sdiv b = a div b"
  by (cases "a = 0") (simp_all add: signed_divide_int_def sgn_if)

lemma bps_bounds:
  assumes "0 \<le> a" and "0 \<le> bps" and "bps \<le> 10000"
  shows "0 \<le> (a * bps) sdiv (10000::int)" and "(a * bps) sdiv 10000 \<le> a"
proof -
  have "0 \<le> a * bps" and "a * bps \<le> a * 10000"
    using assms by (auto intro: mult_left_mono)
  then show "0 \<le> (a * bps) sdiv 10000" and "(a * bps) sdiv 10000 \<le> a"
    by (simp_all add: sdiv_nonneg)
qed

lemma bps_sum_bound:
  assumes "0 \<le> a" and "0 \<le> b1" and "0 \<le> b2" and "b1 + b2 \<le> 10000"
  shows "(a * b1) sdiv (10000::int) + (a * b2) sdiv 10000 \<le> a"
proof -
  have nn: "0 \<le> a * b1" "0 \<le> a * b2" using assms by auto
  have "(a * b1) div 10000 + (a * b2) div 10000 \<le> (a * b1 + a * b2) div 10000"
    by simp
  also have "\<dots> \<le> (a * 10000) div 10000"
    using assms by (intro zdiv_mono1) (auto simp: distrib_left [symmetric] intro: mult_left_mono)
  finally show ?thesis using nn by (simp add: sdiv_nonneg)
qed

end
