(* ===== verification/Schema.thy ===== *)
theory Schema
  imports Prelude
begin

text \<open>
  The database of the three bots: one record per table row (the columns of the
  \<^verbatim>\<open>CREATE TABLE\<close> statements of the migrations 0001 to 0005, 0014, 0019, 0020 and
  0023), one record for the whole database, the errors a statement can raise, and the
  statements on single tables with the constraints the tables declare (\<^verbatim>\<open>CHECK\<close>,
  \<^verbatim>\<open>UNIQUE\<close>, \<^verbatim>\<open>REFERENCES\<close>, \<^verbatim>\<open>NOT NULL\<close>, the triggers).

  \<^verbatim>\<open>NULL\<close> is \<open>None\<close>; \<^verbatim>\<open>BIGINT\<close> is \<open>int\<close> with the range checked where a
  value is computed or stored; \<^verbatim>\<open>TEXT\<close> is \<open>string\<close> (its UTF-8 bytes); a
  \<^verbatim>\<open>TIMESTAMPTZ\<close> is the number of microseconds since the epoch. A sequence is the last
  value it gave out.
\<close>

section \<open>Column types\<close>

datatype ticket_status = Open | Claimed | Confirmed | Cancelled | Expired | Disputed

datatype dispute_status = DOpen | DInvestigating | DResolved | DRejected

datatype cashier_state = Online | Offline | Break

datatype end_reason = Manual_offline | Manual_break | Auto_disconnect | Admin_force | Reason_expired

datatype bet_status = Bet_open | Resolved_win | Resolved_loss | Resolved_tie | Refunded | Voided

datatype period_status = Active | Drawing | Closed

datatype ticket_type = Deposit | Withdraw

datatype json = JNull | JBool bool | JInt int | JStr string | JObj "(string \<times> json) list"

text \<open>\<^verbatim>\<open>NUMERIC\<close>: an unscaled integer and the number of decimals.\<close>

datatype numeric = Numeric int nat

fun ticket_status_text :: "ticket_status \<Rightarrow> string" where
  "ticket_status_text Open = ''open''"
| "ticket_status_text Claimed = ''claimed''"
| "ticket_status_text Confirmed = ''confirmed''"
| "ticket_status_text Cancelled = ''cancelled''"
| "ticket_status_text Expired = ''expired''"
| "ticket_status_text Disputed = ''disputed''"

fun dispute_status_text :: "dispute_status \<Rightarrow> string" where
  "dispute_status_text DOpen = ''open''"
| "dispute_status_text DInvestigating = ''investigating''"
| "dispute_status_text DResolved = ''resolved''"
| "dispute_status_text DRejected = ''rejected''"

fun cashier_state_text :: "cashier_state \<Rightarrow> string" where
  "cashier_state_text Online = ''online''"
| "cashier_state_text Offline = ''offline''"
| "cashier_state_text Break = ''break''"

definition cashier_state_of_text :: "string \<Rightarrow> cashier_state option" where
  "cashier_state_of_text s =
     (if s = ''online'' then Some Online
      else if s = ''offline'' then Some Offline
      else if s = ''break'' then Some Break
      else None)"

fun bet_status_text :: "bet_status \<Rightarrow> string" where
  "bet_status_text Bet_open = ''open''"
| "bet_status_text Resolved_win = ''resolved_win''"
| "bet_status_text Resolved_loss = ''resolved_loss''"
| "bet_status_text Resolved_tie = ''resolved_tie''"
| "bet_status_text Refunded = ''refunded''"
| "bet_status_text Voided = ''voided''"

fun period_status_text :: "period_status \<Rightarrow> string" where
  "period_status_text Active = ''active''"
| "period_status_text Drawing = ''drawing''"
| "period_status_text Closed = ''closed''"

fun ticket_type_text :: "ticket_type \<Rightarrow> string" where
  "ticket_type_text Deposit = ''deposit''"
| "ticket_type_text Withdraw = ''withdraw''"

definition ticket_type_of_text :: "string \<Rightarrow> ticket_type option" where
  "ticket_type_of_text s =
     (if s = ''deposit'' then Some Deposit else if s = ''withdraw'' then Some Withdraw else None)"

definition is_terminal :: "ticket_status \<Rightarrow> bool" where
  "is_terminal st \<longleftrightarrow> st \<in> {Confirmed, Cancelled, Expired}"

definition valid_region :: "string \<Rightarrow> bool" where
  "valid_region r \<longleftrightarrow> r \<in> {''EU'', ''NA''}"

definition valid_faction :: "string \<Rightarrow> bool" where
  "valid_faction f \<longleftrightarrow> f \<in> {''Alliance'', ''Horde''}"

section \<open>Rows\<close>

record user_row =
  u_discord_id :: int
  u_created_at :: int
  u_updated_at :: int
  u_banned :: bool
  u_banned_reason :: "string option"
  u_banned_at :: "int option"

record balance_row =
  b_discord_id :: int
  b_balance :: int
  b_locked :: int
  b_total_wagered :: int
  b_total_won :: int
  b_updated_at :: int
  b_version :: int

record audit_row =
  a_id :: int
  a_ts :: int
  a_actor_type :: string
  a_actor_id :: int
  a_target_id :: int
  a_action :: string
  a_amount :: "int option"
  a_balance_before :: int
  a_balance_after :: int
  a_reason :: "string option"
  a_ref_type :: string
  a_ref_id :: "string option"
  a_bot_name :: string
  a_metadata :: json
  a_prev_hash :: "bytea option"
  a_row_hash :: bytea

text \<open>The columns the two ticket tables share are the columns of
  \<^verbatim>\<open>dw.deposit_tickets\<close>; \<^verbatim>\<open>dw.withdraw_tickets\<close> adds the fee and the
  delivered amount.\<close>

record ticket =
  t_id :: int
  t_ticket_uid :: string
  t_discord_id :: int
  t_char_name :: string
  t_realm :: string
  t_region :: string
  t_faction :: string
  t_amount :: int
  t_status :: ticket_status
  t_claimed_by :: "int option"
  t_claimed_at :: "int option"
  t_confirmed_at :: "int option"
  t_cancelled_at :: "int option"
  t_cancel_reason :: "string option"
  t_thread_id :: int
  t_parent_channel_id :: int
  t_expires_at :: int
  t_last_activity_at :: int
  t_created_at :: int

record withdraw_ticket = ticket +
  w_fee :: int
  w_amount_delivered :: "int option"

record character_row =
  cc_id :: int
  cc_discord_id :: int
  cc_char_name :: string
  cc_realm :: string
  cc_region :: string
  cc_faction :: string
  cc_is_active :: bool
  cc_added_at :: int
  cc_removed_at :: "int option"

record status_row =
  cs_discord_id :: int
  cs_status :: cashier_state
  cs_set_at :: int
  cs_auto_offline_at :: "int option"
  cs_last_active_at :: int

record session_row =
  ss_id :: int
  ss_discord_id :: int
  ss_started_at :: int
  ss_ended_at :: "int option"
  ss_duration_s :: "int option"
  ss_end_reason :: "end_reason option"

record stats_row =
  st_discord_id :: int
  st_deposits_completed :: int
  st_deposits_cancelled :: int
  st_withdraws_completed :: int
  st_withdraws_cancelled :: int
  st_total_volume_g :: int
  st_total_online_seconds :: int
  st_avg_claim_to_confirm_s :: "int option"
  st_last_active_at :: "int option"
  st_updated_at :: int

record dispute_row =
  d_id :: int
  d_ticket_type :: ticket_type
  d_ticket_uid :: string
  d_opener_id :: int
  d_opener_role :: string
  d_reason :: string
  d_status :: dispute_status
  d_resolution :: "string option"
  d_resolved_by :: "int option"
  d_resolved_at :: "int option"
  d_opened_at :: int
  d_discord_message_id :: "int option"

record config_row =
  g_key :: string
  g_value_int :: "int option"
  g_value_text :: "string option"
  g_updated_at :: int
  g_updated_by :: int

record seed_row =
  f_discord_id :: int
  f_server_seed :: bytea
  f_server_seed_hash :: bytea
  f_client_seed :: string
  f_nonce :: int
  f_created_at :: int
  f_rotated_at :: int

record history_row =
  h_id :: int
  h_discord_id :: int
  h_revealed_server_seed :: bytea
  h_server_seed_hash :: bytea
  h_client_seed :: string
  h_last_nonce :: int
  h_started_at :: int
  h_rotated_at :: int
  h_rotated_by :: string

record game_row =
  gm_game_name :: string
  gm_enabled :: bool
  gm_min_bet :: int
  gm_max_bet :: int
  gm_house_edge_bps :: int
  gm_payout_multiplier :: "numeric option"
  gm_extra_config :: json
  gm_updated_at :: int
  gm_updated_by :: int

record bet_row =
  bt_id :: int
  bt_bet_uid :: string
  bt_discord_id :: int
  bt_game_name :: string
  bt_channel_id :: int
  bt_bet_amount :: int
  bt_selection :: json
  bt_status :: bet_status
  bt_payout_amount :: int
  bt_profit :: "int option"
  bt_server_seed_hash :: bytea
  bt_client_seed :: string
  bt_nonce :: int
  bt_outcome :: "json option"
  bt_idempotency_key :: string
  bt_placed_at :: int
  bt_resolved_at :: "int option"
  bt_effective_stake :: int
  bt_commission :: int
  bt_rake :: int
  bt_rake_period_id :: "int option"

record rate_row =
  rl_discord_id :: int
  rl_scope :: string
  rl_bucket_start :: int
  rl_count :: int

record period_row =
  rp_id :: int
  rp_period_label :: string
  rp_starts_at :: int
  rp_ends_at :: int
  rp_pool_amount :: int
  rp_status :: period_status
  rp_created_at :: int

record raffle_ticket =
  rt_id :: int
  rt_period_id :: int
  rt_discord_id :: int
  rt_bet_id :: "int option"
  rt_granted_at :: int

section \<open>The database\<close>

record db =
  users :: "user_row list"
  balances :: "balance_row list"
  audit_log :: "audit_row list"
  last_row_hash :: "bytea option"
  deposit_tickets :: "ticket list"
  withdraw_tickets :: "withdraw_ticket list"
  cashier_characters :: "character_row list"
  cashier_status :: "status_row list"
  cashier_sessions :: "session_row list"
  cashier_stats :: "stats_row list"
  disputes :: "dispute_row list"
  dw_config :: "config_row list"
  user_seeds :: "seed_row list"
  seed_history :: "history_row list"
  game_config :: "game_row list"
  bets :: "bet_row list"
  rate_limit_entries :: "rate_row list"
  raffle_periods :: "period_row list"
  raffle_tickets :: "raffle_ticket list"
  luck_config :: "config_row list"
  audit_log_id_seq :: int
  deposit_tickets_id_seq :: int
  withdraw_tickets_id_seq :: int
  cashier_characters_id_seq :: int
  cashier_sessions_id_seq :: int
  disputes_id_seq :: int
  history_id_seq :: int
  bets_id_seq :: int
  raffle_tickets_id_seq :: int

text \<open>
  What a stored function takes from its surroundings: the transaction time, the setting
  \<^verbatim>\<open>app.audit_chain_key\<close>, and the functions of the database server it calls, pgcrypto's
  \<^verbatim>\<open>hmac(data, key, 'sha256')\<close> and \<^verbatim>\<open>digest(data, 'sha256')\<close>, the text of a
  \<^verbatim>\<open>jsonb\<close> value and of a timestamp, and the integer a text casts to (\<open>None\<close> when
  the cast raises).
\<close>

record pg_env =
  now :: int
  audit_chain_key :: "string option"
  hmac_sha256 :: "bytea \<Rightarrow> bytea \<Rightarrow> bytea"
  digest_sha256 :: "bytea \<Rightarrow> bytea"
  jsonb_text :: "json \<Rightarrow> string"
  timestamptz_text :: "int \<Rightarrow> string"
  text_to_int4 :: "string \<Rightarrow> int option"

section \<open>Errors\<close>

text \<open>The \<^verbatim>\<open>RAISE EXCEPTION\<close> statements of the core and dw functions, with what their
  format strings interpolate.\<close>

datatype (plugins only: code size) raised =
    Audit_chain_key_not_configured
  | Audit_chain_key_not_configured_verify
  | Audit_chain_key_empty
  | Audit_log_append_only
  | Ticket_status_locked string ticket_status ticket_status
  | Config_missing_deposit
  | Config_missing_withdraw
  | Amount_out_of_range int int int
  | Invalid_region string
  | Invalid_faction string
  | Invalid_region_char
  | Invalid_faction_char
  | Ticket_not_found
  | Ticket_not_claimed ticket_status
  | Wrong_cashier int int
  | Ticket_already_terminal ticket_status
  | User_not_registered
  | User_banned
  | Insufficient_balance int int
  | Locked_too_low int int
  | Invalid_ticket_type
  | Already_claimed ticket_status
  | Region_mismatch int string
  | Character_not_found
  | Invalid_status string
  | Cashier_not_online
  | Invalid_opener_role
  | Dispute_not_found
  | Dispute_already_terminal dispute_status
  | Invalid_action string
  | Partial_refund_amount
  | Refund_full_only_withdraw
  | Amount_must_be_positive
  | Treasury_row_missing
  | Insufficient_treasury_sweep int int
  | Insufficient_treasury_send int int
  | Withdraw_to_treasury_self
  | Cannot_ban_treasury

text \<open>The same for the luck and fairness functions.\<close>

datatype (plugins only: code size) luck_raised =
    Unknown_game string
  | Game_paused string
  | Bet_out_of_range int int int
  | Bet_user_not_registered int
  | Bet_user_banned int
  | Bet_insufficient_balance int int
  | Invalid_bet_status string
  | Invalid_payout int
  | Bet_not_found int
  | Bet_already_terminal int bet_status "string option"
  | Invalid_multiplier numeric
  | Not_mines_bet string
  | Invalid_rate_limit_args int int
  | Seed_not_found int
  | Invalid_ticket_count int
  | Period_not_found int
  | Period_not_active int period_status
  | Invalid_rotated_by string
  | History_append_only string

text \<open>An error ends the transaction: a raised exception, or an engine error with the name of
  the constraint.\<close>

datatype pg_error =
    Raised raised
  | Raised_luck luck_raised
  | Check_violation string
  | Unique_violation string
  | Foreign_key_violation string
  | Not_null_violation string
  | Numeric_out_of_range
  | Invalid_text_representation
  | Invalid_row_count_in_limit

section \<open>Three-valued logic\<close>

text \<open>An \<^verbatim>\<open>IF\<close> takes its branch only when the condition is true, not when it is
  \<^verbatim>\<open>NULL\<close>.\<close>

definition lt3 :: "int option \<Rightarrow> int option \<Rightarrow> bool" where
  "lt3 a b \<longleftrightarrow> (case (a, b) of (Some x, Some y) \<Rightarrow> x < y | _ \<Rightarrow> False)"

definition eq3 :: "'a option \<Rightarrow> 'a \<Rightarrow> bool" where
  "eq3 a y \<longleftrightarrow> (case a of Some x \<Rightarrow> x = y | None \<Rightarrow> False)"

definition neq3 :: "'a option \<Rightarrow> 'a \<Rightarrow> bool" where
  "neq3 a y \<longleftrightarrow> (case a of Some x \<Rightarrow> x \<noteq> y | None \<Rightarrow> False)"

definition coalesce :: "'a option \<Rightarrow> 'a \<Rightarrow> 'a" where
  "coalesce a d = (case a of Some x \<Rightarrow> x | None \<Rightarrow> d)"

definition not_null :: "string \<Rightarrow> 'a option \<Rightarrow> pg_error + 'a" where
  "not_null col v = (case v of Some x \<Rightarrow> Inr x | None \<Rightarrow> Inl (Not_null_violation col))"

text \<open>\<^verbatim>\<open>IF v IS NULL THEN RAISE e\<close>, and the value otherwise.\<close>

definition require :: "pg_error \<Rightarrow> 'a option \<Rightarrow> pg_error + 'a" where
  "require e v = (case v of Some x \<Rightarrow> Inr x | None \<Rightarrow> Inl e)"

definition chk8 :: "int \<Rightarrow> pg_error + int" where
  "chk8 x = (if in_int8 x then Inr x else Inl Numeric_out_of_range)"

definition chk4 :: "int \<Rightarrow> pg_error + int" where
  "chk4 x = (if in_int4 x then Inr x else Inl Numeric_out_of_range)"

section \<open>Statements on users and balances\<close>

definition select_user :: "int \<Rightarrow> db \<Rightarrow> user_row option" where
  "select_user uid d = sel_key u_discord_id uid (users d)"

definition select_balance :: "int \<Rightarrow> db \<Rightarrow> balance_row option" where
  "select_balance uid d = sel_key b_discord_id uid (balances d)"

text \<open>\<^verbatim>\<open>INSERT INTO core.users (discord_id) ... ON CONFLICT DO NOTHING\<close>.\<close>

definition insert_user :: "pg_env \<Rightarrow> int \<Rightarrow> db \<Rightarrow> db" where
  "insert_user E uid d =
     (if has_key u_discord_id uid (users d) then d
      else d\<lparr>users := users d @
        [\<lparr>u_discord_id = uid, u_created_at = now E, u_updated_at = now E, u_banned = False,
          u_banned_reason = None, u_banned_at = None\<rparr>]\<rparr>)"

text \<open>\<^verbatim>\<open>INSERT INTO core.balances (discord_id, balance) VALUES (uid, 0) ON CONFLICT DO
  NOTHING\<close>; the row references \<^verbatim>\<open>core.users\<close>.\<close>

definition insert_balance :: "pg_env \<Rightarrow> int \<Rightarrow> db \<Rightarrow> pg_error + db" where
  "insert_balance E uid d =
     (if has_key b_discord_id uid (balances d) then Inr d
      else if \<not> has_key u_discord_id uid (users d) then Inl (Foreign_key_violation ''balances_discord_id_fkey'')
      else Inr (d\<lparr>balances := balances d @
        [\<lparr>b_discord_id = uid, b_balance = 0, b_locked = 0, b_total_wagered = 0, b_total_won = 0,
          b_updated_at = now E, b_version = 0\<rparr>]\<rparr>))"

text \<open>The constraints of a \<^verbatim>\<open>core.balances\<close> row.\<close>

definition check_balance_row :: "balance_row \<Rightarrow> pg_error + balance_row" where
  "check_balance_row r =
     (if \<not> (in_int8 (b_balance r) \<and> in_int8 (b_locked r) \<and> in_int8 (b_total_wagered r)
            \<and> in_int8 (b_total_won r) \<and> in_int8 (b_version r)) then Inl Numeric_out_of_range
      else if b_balance r < 0 then Inl (Check_violation ''balances_balance_check'')
      else if b_locked r < 0 then Inl (Check_violation ''balances_locked_balance_check'')
      else if b_total_wagered r < 0 then Inl (Check_violation ''balances_total_wagered_check'')
      else if b_total_won r < 0 then Inl (Check_violation ''balances_total_won_check'')
      else Inr r)"

definition balance_ok :: "balance_row \<Rightarrow> bool" where
  "balance_ok r \<longleftrightarrow> (\<exists>x. check_balance_row r = Inr x)"

text \<open>\<^verbatim>\<open>UPDATE core.balances SET ... WHERE discord_id = uid\<close>: nothing when the row
  is absent, an error when the new row breaks a constraint.\<close>

definition update_balance :: "int \<Rightarrow> (balance_row \<Rightarrow> balance_row) \<Rightarrow> db \<Rightarrow> pg_error + db" where
  "update_balance uid f d =
     (case select_balance uid d of
        None \<Rightarrow> Inr d
      | Some r \<Rightarrow> bindE (check_balance_row (f r))
          (\<lambda>_. Inr (d\<lparr>balances := upd_key b_discord_id uid f (balances d)\<rparr>)))"

text \<open>\<^verbatim>\<open>COALESCE((SELECT discord_id FROM core.users WHERE discord_id = uid), 0)\<close>: the
  audit target, the treasury when the user has no row.\<close>

definition user_or_treasury :: "int \<Rightarrow> db \<Rightarrow> int" where
  "user_or_treasury uid d = (if has_key u_discord_id uid (users d) then uid else 0)"

text \<open>The balance read for an audit row, 0 when the user has no row.\<close>

definition balance_or_zero :: "int \<Rightarrow> db \<Rightarrow> int" where
  "balance_or_zero uid d = coalesce (map_option b_balance (select_balance uid d)) 0"

section \<open>Statements on cashier statistics\<close>

definition zero_stats :: "int \<Rightarrow> stats_row" where
  "zero_stats cid = \<lparr>st_discord_id = cid, st_deposits_completed = 0, st_deposits_cancelled = 0,
     st_withdraws_completed = 0, st_withdraws_cancelled = 0, st_total_volume_g = 0,
     st_total_online_seconds = 0, st_avg_claim_to_confirm_s = None, st_last_active_at = None,
     st_updated_at = 0\<rparr>"

text \<open>\<^verbatim>\<open>INSERT INTO dw.cashier_stats ... ON CONFLICT (discord_id) DO UPDATE\<close>: the
  inserted row is the increment of the default row, the updated one that of the stored row.\<close>

definition upsert_stats :: "int \<Rightarrow> (stats_row \<Rightarrow> stats_row) \<Rightarrow> db \<Rightarrow> pg_error + db" where
  "upsert_stats cid inc d =
     (let r = inc (coalesce (sel_key st_discord_id cid (cashier_stats d)) (zero_stats cid))
      in raise_if (\<not> (in_int8 (st_deposits_completed r) \<and> in_int8 (st_withdraws_completed r)
                       \<and> in_int8 (st_withdraws_cancelled r) \<and> in_int8 (st_total_volume_g r)))
           Numeric_out_of_range
           (Inr (if has_key st_discord_id cid (cashier_stats d)
                 then d\<lparr>cashier_stats := upd_key st_discord_id cid inc (cashier_stats d)\<rparr>
                 else d\<lparr>cashier_stats := cashier_stats d @ [r]\<rparr>)))"

section \<open>Statements on tickets\<close>

definition select_deposit :: "string \<Rightarrow> db \<Rightarrow> ticket option" where
  "select_deposit uid d = sel_key t_ticket_uid uid (deposit_tickets d)"

definition select_withdraw :: "string \<Rightarrow> db \<Rightarrow> withdraw_ticket option" where
  "select_withdraw uid d = sel_key t_ticket_uid uid (withdraw_tickets d)"

text \<open>The trigger \<^verbatim>\<open>ticket_terminal_status_immutable\<close>, run before every row update.\<close>

definition ticket_terminal_status_immutable ::
    "string \<Rightarrow> 'a ticket_scheme \<Rightarrow> 'a ticket_scheme \<Rightarrow> pg_error + 'a ticket_scheme" where
  "ticket_terminal_status_immutable tbl old new =
     raise_if (is_terminal (t_status old) \<and> t_status old \<noteq> t_status new)
       (Raised (Ticket_status_locked tbl (t_status old) (t_status new))) (Inr new)"

text \<open>\<^verbatim>\<open>UPDATE dw.deposit_tickets SET ... WHERE key = k\<close>, by the primary key or by
  the unique \<^verbatim>\<open>ticket_uid\<close>.\<close>

definition update_deposit_ticket ::
    "(ticket \<Rightarrow> 'k) \<Rightarrow> 'k \<Rightarrow> (ticket \<Rightarrow> ticket) \<Rightarrow> db \<Rightarrow> pg_error + db" where
  "update_deposit_ticket key k f d =
     (case sel_key key k (deposit_tickets d) of
        None \<Rightarrow> Inr d
      | Some t \<Rightarrow> bindE (ticket_terminal_status_immutable ''deposit_tickets'' t (f t))
          (\<lambda>_. Inr (d\<lparr>deposit_tickets := upd_key key k f (deposit_tickets d)\<rparr>)))"

definition update_withdraw_ticket ::
    "(withdraw_ticket \<Rightarrow> 'k) \<Rightarrow> 'k \<Rightarrow> (withdraw_ticket \<Rightarrow> withdraw_ticket) \<Rightarrow> db \<Rightarrow> pg_error + db" where
  "update_withdraw_ticket key k f d =
     (case sel_key key k (withdraw_tickets d) of
        None \<Rightarrow> Inr d
      | Some t \<Rightarrow> bindE (ticket_terminal_status_immutable ''withdraw_tickets'' t (f t))
          (\<lambda>_. Inr (d\<lparr>withdraw_tickets := upd_key key k f (withdraw_tickets d)\<rparr>)))"

text \<open>The constraints both ticket tables declare on an inserted row.\<close>

definition check_ticket_row :: "string \<Rightarrow> 'a ticket_scheme \<Rightarrow> 'a ticket_scheme list \<Rightarrow> pg_error + unit" where
  "check_ticket_row tbl t ts =
     (if \<not> valid_region (t_region t) then Inl (Check_violation (tbl @ ''_region_check''))
      else if \<not> valid_faction (t_faction t) then Inl (Check_violation (tbl @ ''_faction_check''))
      else if t_amount t \<le> 0 then Inl (Check_violation (tbl @ ''_amount_check''))
      else if has_key t_id (t_id t) ts then Inl (Unique_violation (tbl @ ''_pkey''))
      else if has_key t_ticket_uid (t_ticket_uid t) ts then Inl (Unique_violation (tbl @ ''_ticket_uid_key''))
      else if has_key t_thread_id (t_thread_id t) ts then Inl (Unique_violation (tbl @ ''_thread_id_key''))
      else Inr ())"

definition insert_deposit_ticket :: "ticket \<Rightarrow> db \<Rightarrow> pg_error + db" where
  "insert_deposit_ticket t d =
     bindE (check_ticket_row ''deposit_tickets'' t (deposit_tickets d))
       (\<lambda>_. Inr (d\<lparr>deposit_tickets := deposit_tickets d @ [t]\<rparr>))"

definition insert_withdraw_ticket :: "withdraw_ticket \<Rightarrow> db \<Rightarrow> pg_error + db" where
  "insert_withdraw_ticket t d =
     bindE (check_ticket_row ''withdraw_tickets'' t (withdraw_tickets d))
       (\<lambda>_. raise_if (w_fee t < 0) (Check_violation ''withdraw_tickets_fee_check'')
         (raise_if (\<not> has_key u_discord_id (t_discord_id t) (users d))
           (Foreign_key_violation ''withdraw_tickets_discord_id_fkey'')
           (Inr (d\<lparr>withdraw_tickets := withdraw_tickets d @ [t]\<rparr>))))"

section \<open>Configuration\<close>

text \<open>\<^verbatim>\<open>SELECT value_int INTO v FROM dw.global_config WHERE key = k\<close>.\<close>

definition config_int :: "string \<Rightarrow> config_row list \<Rightarrow> int option" where
  "config_int k cfg = Option.bind (sel_key g_key k cfg) g_value_int"

text \<open>The rows the migrations 0001, 0005 and 0021 insert.\<close>

definition config_seed :: "int \<Rightarrow> string \<times> int \<Rightarrow> config_row" where
  "config_seed t kv = \<lparr>g_key = fst kv, g_value_int = Some (snd kv), g_value_text = None,
     g_updated_at = t, g_updated_by = 0\<rparr>"

definition dw_config_seeds :: "(string \<times> int) list" where
  "dw_config_seeds =
    [(''min_deposit_g'', 200), (''max_deposit_g'', 200000), (''min_withdraw_g'', 1000),
     (''max_withdraw_g'', 200000), (''withdraw_fee_bps'', 200), (''deposit_fee_bps'', 0),
     (''daily_user_limit_g'', 0), (''ticket_expiry_open_s'', 86400), (''ticket_repinging_s'', 3600),
     (''ticket_claim_idle_s'', 1800), (''ticket_claim_expiry_s'', 7200),
     (''cashier_auto_offline_s'', 3600)]"

definition luck_config_seeds :: "(string \<times> int) list" where
  "luck_config_seeds =
    [(''raffle_rake_bps'', 100), (''raffle_ticket_threshold_g'', 100),
     (''bet_rate_limit_per_60s'', 30), (''command_rate_limit_per_60s'', 30)]"

definition game_seeds :: "(string \<times> json) list" where
  "game_seeds =
    [(''coinflip'', JObj []), (''dice'', JObj []), (''ninetyninex'', JObj []), (''hotcold'', JObj []),
     (''mines'', JObj [(''max_mines'', JInt 24), (''min_mines'', JInt 1), (''default_mines'', JInt 3),
                     (''grid_size'', JInt 25)]),
     (''blackjack'', JObj [(''commission_bps'', JInt 450),
                         (''rules'', JStr ''vegas_s17_3to2_noins_nosplit''), (''decks'', JInt 6)]),
     (''roulette'', JObj [(''commission_bps'', JInt 236), (''variant'', JStr ''european_single_zero'')]),
     (''diceduel'', JObj []), (''stakingduel'', JObj [])]"

definition game_seed :: "int \<Rightarrow> string \<times> json \<Rightarrow> game_row" where
  "game_seed t ge = \<lparr>gm_game_name = fst ge, gm_enabled = True, gm_min_bet = 100,
     gm_max_bet = 500000, gm_house_edge_bps = 500, gm_payout_multiplier = None,
     gm_extra_config = snd ge, gm_updated_at = t, gm_updated_by = 0\<rparr>"

definition initial_db :: "int \<Rightarrow> db" where
  "initial_db t = \<lparr>
     users = [\<lparr>u_discord_id = 0, u_created_at = t, u_updated_at = t, u_banned = False,
               u_banned_reason = None, u_banned_at = None\<rparr>],
     balances = [\<lparr>b_discord_id = 0, b_balance = 0, b_locked = 0, b_total_wagered = 0,
                  b_total_won = 0, b_updated_at = t, b_version = 0\<rparr>],
     audit_log = [], last_row_hash = None,
     deposit_tickets = [], withdraw_tickets = [], cashier_characters = [], cashier_status = [],
     cashier_sessions = [], cashier_stats = [], disputes = [],
     dw_config = map (config_seed t) dw_config_seeds,
     user_seeds = [], seed_history = [],
     game_config = map (game_seed t) game_seeds,
     bets = [], rate_limit_entries = [], raffle_periods = [], raffle_tickets = [],
     luck_config = map (config_seed t) luck_config_seeds,
     audit_log_id_seq = 0, deposit_tickets_id_seq = 0, withdraw_tickets_id_seq = 0,
     cashier_characters_id_seq = 0, cashier_sessions_id_seq = 0, disputes_id_seq = 0,
     history_id_seq = 0, bets_id_seq = 0, raffle_tickets_id_seq = 0\<rparr>"

section \<open>Inversion of the statements\<close>

lemma not_null_Inr [raise_simps]: "not_null col v = Inr x \<longleftrightarrow> v = Some x"
  by (cases v) (auto simp: not_null_def)

lemma not_null_Some [simp]: "not_null col (Some x) = Inr x"
  by (simp add: not_null_def)

lemma require_Inr [raise_simps]: "require e v = Inr x \<longleftrightarrow> v = Some x"
  by (cases v) (auto simp: require_def)

lemma require_simps [simp]:
  "require e (Some x) = Inr x"
  "require e None = Inl e"
  by (simp_all add: require_def)

lemma chk8_Inr [raise_simps]: "chk8 x = Inr y \<longleftrightarrow> in_int8 x \<and> y = x"
  by (auto simp: chk8_def)

lemma chk4_Inr [raise_simps]: "chk4 x = Inr y \<longleftrightarrow> in_int4 x \<and> y = x"
  by (auto simp: chk4_def)

lemma coalesce_simps [simp]:
  "coalesce None x = x"
  "coalesce (Some y) x = y"
  by (simp_all add: coalesce_def)

lemma null_logic_simps [simp]:
  "lt3 (Some x) (Some y) = (x < y)"
  "lt3 None b = False"
  "lt3 a None = False"
  "eq3 (Some x) y' = (x = y')"
  "eq3 None y' = False"
  "neq3 (Some x) y' = (x \<noteq> y')"
  "neq3 None y' = False"
  by (auto simp: lt3_def eq3_def neq3_def split: option.splits)

lemma check_balance_row_Inr [raise_simps]:
  "check_balance_row r = Inr r' \<longleftrightarrow>
    r' = r \<and> in_int8 (b_balance r) \<and> in_int8 (b_locked r) \<and> in_int8 (b_total_wagered r)
      \<and> in_int8 (b_total_won r) \<and> in_int8 (b_version r) \<and> 0 \<le> b_balance r \<and> 0 \<le> b_locked r
      \<and> 0 \<le> b_total_wagered r \<and> 0 \<le> b_total_won r"
  by (auto simp: check_balance_row_def)

lemma balance_ok_iff:
  "balance_ok r \<longleftrightarrow> in_int8 (b_balance r) \<and> in_int8 (b_locked r) \<and> in_int8 (b_total_wagered r)
      \<and> in_int8 (b_total_won r) \<and> in_int8 (b_version r) \<and> 0 \<le> b_balance r \<and> 0 \<le> b_locked r
      \<and> 0 \<le> b_total_wagered r \<and> 0 \<le> b_total_won r"
  by (simp add: balance_ok_def check_balance_row_Inr)

end
