(* ===== verification/Audit_Log.thy ===== *)
theory Audit_Log
  imports Schema
begin

text \<open>
  The hash-chained audit log: \<^verbatim>\<open>core.audit_log_insert_with_chain\<close> and the append-only
  triggers (migration 0002), \<^verbatim>\<open>core.verify_audit_chain\<close> (0017),
  \<^verbatim>\<open>core.list_audit_events\<close> (0018) and the verifier worker
  (\<^verbatim>\<open>workers/audit_chain_verifier.py\<close>).

  The inserter composes the canonical content from its parameters, the verifier from the
  stored row; that the two agree is a theorem, not a shared definition. The locale
  \<open>audit_sink\<close> is the interface the other components rely on: appending an audit row
  changes nothing but the log.
\<close>

section \<open>Definitions\<close>

record audit_args =
  aa_actor_type :: string
  aa_actor_id :: int
  aa_target_id :: int
  aa_action :: string
  aa_amount :: "int option"
  aa_balance_before :: "int option"
  aa_balance_after :: "int option"
  aa_reason :: "string option"
  aa_ref_type :: string
  aa_ref_id :: "string option"
  aa_bot_name :: string
  aa_metadata :: json

definition jopt :: "('a \<Rightarrow> json) \<Rightarrow> 'a option \<Rightarrow> json" where
  "jopt f v = (case v of None \<Rightarrow> JNull | Some x \<Rightarrow> f x)"

text \<open>The block hashed in place of a previous hash for the first row: the literal has 128
  hexadecimal zeros.\<close>

definition zero_block :: bytea where
  "zero_block = replicate 64 0"

definition actor_types :: "string list" where
  "actor_types = [''user'', ''admin'', ''system'', ''cashier'', ''bot'']"

text \<open>The chain key: an unset or malformed setting raises the given error, an empty key
  another one.\<close>

definition chain_key :: "raised \<Rightarrow> pg_env \<Rightarrow> pg_error + bytea" where
  "chain_key not_configured E =
     (case audit_chain_key E of
        None \<Rightarrow> Inl (Raised not_configured)
      | Some s \<Rightarrow>
         (case hex_decode s of
            None \<Rightarrow> Inl (Raised not_configured)
          | Some k \<Rightarrow> raise_if (k = []) (Raised Audit_chain_key_empty) (Inr k)))"

definition insert_canonical :: "pg_env \<Rightarrow> audit_args \<Rightarrow> string" where
  "insert_canonical E a = jsonb_text E (JObj
    [(''ts'', JStr (timestamptz_text E (now E))),
     (''actor_type'', JStr (aa_actor_type a)),
     (''actor_id'', JInt (aa_actor_id a)),
     (''target_id'', JInt (aa_target_id a)),
     (''action'', JStr (aa_action a)),
     (''amount'', jopt JInt (aa_amount a)),
     (''balance_before'', jopt JInt (aa_balance_before a)),
     (''balance_after'', jopt JInt (aa_balance_after a)),
     (''reason'', jopt JStr (aa_reason a)),
     (''ref_type'', JStr (aa_ref_type a)),
     (''ref_id'', jopt JStr (aa_ref_id a)),
     (''bot_name'', JStr (aa_bot_name a)),
     (''metadata'', aa_metadata a)])"

text \<open>\<^verbatim>\<open>INSERT INTO core.audit_log\<close> with the constraints of the table.\<close>

definition new_audit_row :: "pg_env \<Rightarrow> audit_args \<Rightarrow> int \<Rightarrow> int \<Rightarrow> int \<Rightarrow> bytea option \<Rightarrow> bytea \<Rightarrow> audit_row" where
  "new_audit_row E a new_id bal_before bal_after prev h =
     \<lparr>a_id = new_id, a_ts = now E, a_actor_type = aa_actor_type a, a_actor_id = aa_actor_id a,
      a_target_id = aa_target_id a, a_action = aa_action a, a_amount = aa_amount a,
      a_balance_before = bal_before, a_balance_after = bal_after, a_reason = aa_reason a,
      a_ref_type = aa_ref_type a, a_ref_id = aa_ref_id a, a_bot_name = aa_bot_name a,
      a_metadata = aa_metadata a, a_prev_hash = prev, a_row_hash = h\<rparr>"

definition insert_audit_row :: "pg_env \<Rightarrow> audit_args \<Rightarrow> bytea option \<Rightarrow> bytea \<Rightarrow> db \<Rightarrow> pg_error + int \<times> db" where
  "insert_audit_row E a prev h d =
     bindE (not_null ''balance_before'' (aa_balance_before a)) (\<lambda>bal_before.
     bindE (not_null ''balance_after'' (aa_balance_after a)) (\<lambda>bal_after.
     raise_if (aa_actor_type a \<notin> set actor_types) (Check_violation ''audit_log_actor_type_check'')
     (raise_if (\<not> has_key u_discord_id (aa_target_id a) (users d))
       (Foreign_key_violation ''audit_log_target_id_fkey'')
     (let new_id = audit_log_id_seq d + 1
      in Inr (new_id, d\<lparr>audit_log_id_seq := new_id,
                audit_log := audit_log d @ [new_audit_row E a new_id bal_before bal_after prev h]\<rparr>)))))"

definition audit_log_insert_with_chain :: "pg_env \<Rightarrow> audit_args \<Rightarrow> db \<Rightarrow> pg_error + int \<times> db" where
  "audit_log_insert_with_chain E a d =
     bindE (chain_key Audit_chain_key_not_configured E) (\<lambda>k.
     let v_prev_hash = last_row_hash d;
         v_canonical = insert_canonical E a;
         v_row_hash = hmac_sha256 E (coalesce v_prev_hash zero_block @ text_bytes v_canonical) k
     in bindE (insert_audit_row E a v_prev_hash v_row_hash d) (\<lambda>(new_id, d1).
        Inr (new_id, d1\<lparr>last_row_hash := Some v_row_hash\<rparr>)))"

text \<open>The triggers: any \<^verbatim>\<open>UPDATE\<close> or \<^verbatim>\<open>DELETE\<close> of a log row raises.\<close>

definition audit_log_immutable :: "(audit_row \<Rightarrow> bool) \<Rightarrow> db \<Rightarrow> pg_error + db" where
  "audit_log_immutable P d =
     raise_if (list_ex P (audit_log d)) (Raised Audit_log_append_only) (Inr d)"

definition verify_canonical :: "pg_env \<Rightarrow> audit_row \<Rightarrow> string" where
  "verify_canonical E r = jsonb_text E (JObj
    [(''ts'', JStr (timestamptz_text E (a_ts r))),
     (''actor_type'', JStr (a_actor_type r)),
     (''actor_id'', JInt (a_actor_id r)),
     (''target_id'', JInt (a_target_id r)),
     (''action'', JStr (a_action r)),
     (''amount'', jopt JInt (a_amount r)),
     (''balance_before'', JInt (a_balance_before r)),
     (''balance_after'', JInt (a_balance_after r)),
     (''reason'', jopt JStr (a_reason r)),
     (''ref_type'', JStr (a_ref_type r)),
     (''ref_id'', jopt JStr (a_ref_id r)),
     (''bot_name'', JStr (a_bot_name r)),
     (''metadata'', a_metadata r)])"

definition expected_hash :: "pg_env \<Rightarrow> bytea \<Rightarrow> bytea option \<Rightarrow> audit_row \<Rightarrow> bytea" where
  "expected_hash E k prev r =
     hmac_sha256 E (coalesce prev zero_block @ text_bytes (verify_canonical E r)) k"

text \<open>The verification loop, with the count, the last verified id and the previous hash.\<close>

fun verify_loop ::
    "pg_env \<Rightarrow> bytea \<Rightarrow> bytea option \<Rightarrow> int \<Rightarrow> int \<Rightarrow> audit_row list \<Rightarrow> int \<times> int \<times> int option" where
  "verify_loop E k prev cnt last_ok [] = (cnt, last_ok, None)"
| "verify_loop E k prev cnt last_ok (r # rs) =
     (if expected_hash E k prev r \<noteq> a_row_hash r then (cnt, last_ok, Some (a_id r))
      else verify_loop E k (Some (a_row_hash r)) (cnt + 1) (a_id r) rs)"

text \<open>The hash of the row with the greatest id below \<open>p_from\<close>, if there is one.\<close>

definition hash_before :: "int \<Rightarrow> db \<Rightarrow> bytea option" where
  "hash_before p_from d =
     (let below = filter (\<lambda>r. a_id r < p_from) (audit_log d)
      in if below = [] then None
         else map_option a_row_hash (sel_key a_id (Max (set (map a_id below))) (audit_log d)))"

definition verify_audit_chain ::
    "pg_env \<Rightarrow> int option \<Rightarrow> int \<Rightarrow> db \<Rightarrow> pg_error + int \<times> int \<times> int option" where
  "verify_audit_chain E p_from_id p_max_rows d =
     bindE (chain_key Audit_chain_key_not_configured_verify E) (\<lambda>k.
     raise_if (p_max_rows < 0) Invalid_row_count_in_limit
     (let v_prev_hash = (case p_from_id of
                           Some p_from \<Rightarrow> if 0 < p_from then hash_before p_from d else None
                         | None \<Rightarrow> None);
          v_rows = take (nat p_max_rows)
            (sort_key a_id (filter (\<lambda>r. coalesce p_from_id 0 \<le> a_id r) (audit_log d)))
      in Inr (verify_loop E k v_prev_hash 0 (coalesce p_from_id 0) v_rows)))"

text \<open>\<^verbatim>\<open>core.list_audit_events\<close>: the newest rows first, at most 100 and at least one.\<close>

definition list_audit_limit :: "int option \<Rightarrow> int" where
  "list_audit_limit p_limit = min (max (coalesce p_limit 25) 1) 100"

definition list_audit_events :: "int option \<Rightarrow> int option \<Rightarrow> db \<Rightarrow> audit_row list" where
  "list_audit_events p_target_id p_limit d =
     take (nat (list_audit_limit p_limit))
       (sort_key (\<lambda>r. - a_ts r)
         (filter (\<lambda>r. case p_target_id of None \<Rightarrow> True | Some t \<Rightarrow> a_target_id r = t) (audit_log d)))"

text \<open>\<^verbatim>\<open>INSERT INTO dw.global_config ... ON CONFLICT (key) DO UPDATE\<close>.\<close>

definition upsert_config :: "pg_env \<Rightarrow> string \<Rightarrow> int \<Rightarrow> int \<Rightarrow> db \<Rightarrow> db" where
  "upsert_config E k v actor d =
     (if has_key g_key k (dw_config d)
      then d\<lparr>dw_config := upd_key g_key k
             (\<lambda>r. r\<lparr>g_value_int := Some v, g_updated_by := actor, g_updated_at := now E\<rparr>) (dw_config d)\<rparr>
      else d\<lparr>dw_config := dw_config d @ [\<lparr>g_key = k, g_value_int = Some v, g_value_text = None,
             g_updated_at = now E, g_updated_by = actor\<rparr>]\<rparr>)"

text \<open>The worker: the resume pointer, one verification pass, the pointer written back.\<close>

definition verifier_key :: string where
  "verifier_key = ''last_verified_audit_row_id''"

definition max_rows_per_tick :: int where
  "max_rows_per_tick = 1000"

record verify_result =
  checked_count :: int
  last_verified_id :: int
  broken_at_id :: "int option"

definition read_last_verified :: "db \<Rightarrow> int" where
  "read_last_verified d = coalesce (config_int verifier_key (dw_config d)) 0"

definition persist_last_verified :: "pg_env \<Rightarrow> int \<Rightarrow> db \<Rightarrow> db" where
  "persist_last_verified E new_id d = upsert_config E verifier_key new_id 0 d"

definition verifier_tick :: "pg_env \<Rightarrow> db \<Rightarrow> pg_error + verify_result \<times> db" where
  "verifier_tick E d =
     (let last_id = read_last_verified d
      in bindE (verify_audit_chain E (Some last_id) max_rows_per_tick d)
        (\<lambda>(checked, new_last, broken).
          let res = \<lparr>checked_count = checked, last_verified_id = new_last, broken_at_id = broken\<rparr>
          in case broken of
               Some _ \<Rightarrow> Inr (res, d)
             | None \<Rightarrow>
                 if 0 < checked then Inr (res, persist_last_verified E new_last d)
                 else Inr (res, d)))"

text \<open>A log whose hashes link up, starting from a previous hash.\<close>

fun chain_linked :: "pg_env \<Rightarrow> bytea \<Rightarrow> bytea option \<Rightarrow> audit_row list \<Rightarrow> bool" where
  "chain_linked E k prev [] = True"
| "chain_linked E k prev (r # rs) =
     (a_prev_hash r = prev \<and> a_row_hash r = expected_hash E k prev r
      \<and> chain_linked E k (Some (a_row_hash r)) rs)"

definition last_hash :: "bytea option \<Rightarrow> audit_row list \<Rightarrow> bytea option" where
  "last_hash prev rs = (if rs = [] then prev else Some (a_row_hash (last rs)))"

text \<open>The invariant of the log: the rows are linked, the chain state holds the last hash, the
  ids increase and the sequence is not behind them.\<close>

definition audit_inv :: "pg_env \<Rightarrow> bytea \<Rightarrow> db \<Rightarrow> bool" where
  "audit_inv E k d \<longleftrightarrow>
     chain_linked E k None (audit_log d)
     \<and> last_row_hash d = last_hash None (audit_log d)
     \<and> sorted_wrt (<) (map a_id (audit_log d))
     \<and> (\<forall>r \<in> set (audit_log d). 0 < a_id r \<and> a_id r \<le> audit_log_id_seq d)
     \<and> 0 \<le> audit_log_id_seq d"

text \<open>Two environments of one deployment: the same key and server functions, another time.\<close>

definition same_crypto :: "pg_env \<Rightarrow> pg_env \<Rightarrow> bool" where
  "same_crypto E E' \<longleftrightarrow> (\<exists>t. E' = E\<lparr>now := t\<rparr>)"

section \<open>Appending a row\<close>

lemma chain_key_cases:
  "chain_key e E = Inr k \<Longrightarrow>
    k \<noteq> [] \<and> (\<exists>s. audit_chain_key E = Some s \<and> hex_decode s = Some k)"
  by (auto simp: chain_key_def raise_simps split: option.splits)

lemma chain_key_now [simp]: "chain_key e (E\<lparr>now := t\<rparr>) = chain_key e E"
  by (simp add: chain_key_def)

lemma chain_key_any: "chain_key e E = Inr k \<Longrightarrow> chain_key e' E = Inr k"
  by (auto simp: chain_key_def raise_simps split: option.splits)

text \<open>The interface of the log: what every stored function relies on when it ends with
  \<^verbatim>\<open>PERFORM core.audit_log_insert_with_chain(...)\<close>.\<close>

locale audit_sink =
  fixes append :: "pg_env \<Rightarrow> audit_args \<Rightarrow> db \<Rightarrow> pg_error + int \<times> db"
  assumes append_row: "append E a d = Inr (i, d') \<Longrightarrow>
      \<exists>r. d' = d\<lparr>audit_log_id_seq := i, audit_log := audit_log d @ [r],
                 last_row_hash := Some (a_row_hash r)\<rparr>
        \<and> a_id r = i \<and> i = audit_log_id_seq d + 1
        \<and> a_action r = aa_action a \<and> a_amount r = aa_amount a \<and> a_target_id r = aa_target_id a
        \<and> has_key u_discord_id (aa_target_id a) (users d)"
    and append_needs_target: "\<not> has_key u_discord_id (aa_target_id a) (users d) \<Longrightarrow>
      \<exists>e. append E a d = Inl e"
begin

lemma append_obs:
  assumes "append E a d = Inr (i, d')"
    and "\<And>d l h s. obs (d\<lparr>audit_log_id_seq := s, audit_log := l, last_row_hash := h\<rparr>) = obs d"
  shows "obs d' = obs d"
  using append_row [OF assms(1)] assms(2) by auto

lemma append_sum:
  assumes "append E a d = Inr (i, d')"
  shows "sum_where (\<lambda>r. a_action r = act) (\<lambda>r. coalesce (a_amount r) 0) (audit_log d') =
    sum_where (\<lambda>r. a_action r = act) (\<lambda>r. coalesce (a_amount r) 0) (audit_log d)
      + (if aa_action a = act then coalesce (aa_amount a) 0 else 0)"
  using append_row [OF assms] by auto

lemma append_target:
  assumes "append E a d = Inr (i, d')"
  shows "has_key u_discord_id (aa_target_id a) (users d)"
  using append_row [OF assms] by blast

end

lemma audit_insert_Inr:
  "audit_log_insert_with_chain E a d = Inr (i, d') \<longleftrightarrow>
    (\<exists>k bal_before bal_after h. chain_key Audit_chain_key_not_configured E = Inr k
      \<and> aa_balance_before a = Some bal_before \<and> aa_balance_after a = Some bal_after
      \<and> aa_actor_type a \<in> set actor_types \<and> has_key u_discord_id (aa_target_id a) (users d)
      \<and> i = audit_log_id_seq d + 1
      \<and> h = hmac_sha256 E (coalesce (last_row_hash d) zero_block @ text_bytes (insert_canonical E a)) k
      \<and> d' = d\<lparr>audit_log_id_seq := i,
             audit_log := audit_log d @ [new_audit_row E a i bal_before bal_after (last_row_hash d) h],
             last_row_hash := Some h\<rparr>)"
  by (auto simp: audit_log_insert_with_chain_def insert_audit_row_def raise_simps Let_def)

interpretation chain: audit_sink audit_log_insert_with_chain
proof unfold_locales
  fix E a d i d'
  assume "audit_log_insert_with_chain E a d = Inr (i, d')"
  then show "\<exists>r. d' = d\<lparr>audit_log_id_seq := i, audit_log := audit_log d @ [r],
                 last_row_hash := Some (a_row_hash r)\<rparr>
        \<and> a_id r = i \<and> i = audit_log_id_seq d + 1
        \<and> a_action r = aa_action a \<and> a_amount r = aa_amount a \<and> a_target_id r = aa_target_id a
        \<and> has_key u_discord_id (aa_target_id a) (users d)"
    unfolding audit_insert_Inr
    by (elim exE conjE, intro exI [of _ "new_audit_row E a i _ _ _ _"]) (simp add: new_audit_row_def)
next
  fix a :: audit_args and d :: db and E :: pg_env
  assume "\<not> has_key u_discord_id (aa_target_id a) (users d)"
  then have "audit_log_insert_with_chain E a d \<noteq> Inr (i, d')" for i d'
    unfolding audit_insert_Inr by simp
  then show "\<exists>e. audit_log_insert_with_chain E a d = Inl e"
    by (metis old.prod.exhaust sum.exhaust)
qed

section \<open>The chain\<close>

lemma expected_hash_now [simp]: "expected_hash (E\<lparr>now := t\<rparr>) k prev r = expected_hash E k prev r"
  by (simp add: expected_hash_def verify_canonical_def)

lemma chain_linked_now [simp]: "chain_linked (E\<lparr>now := t\<rparr>) k prev rs = chain_linked E k prev rs"
  by (induction rs arbitrary: prev) auto

lemma verify_loop_now [simp]: "verify_loop (E\<lparr>now := t\<rparr>) k prev c l rs = verify_loop E k prev c l rs"
  by (induction rs arbitrary: prev c l) auto

lemma last_hash_simps [simp]:
  "last_hash prev [] = prev"
  "last_hash prev (r # rs) = last_hash (Some (a_row_hash r)) rs"
  "last_hash prev (rs @ [r]) = Some (a_row_hash r)"
  by (simp_all add: last_hash_def)

lemma chain_linked_append:
  "chain_linked E k prev (rs @ rs') \<longleftrightarrow>
    chain_linked E k prev rs \<and> chain_linked E k (last_hash prev rs) rs'"
  by (induction rs arbitrary: prev) auto

lemma last_hash_append [simp]: "last_hash prev (rs @ rs') = last_hash (last_hash prev rs) rs'"
  by (induction rs arbitrary: prev) auto

text \<open>The inserter and the verifier compose the same canonical text, so the stored hash is
  the one the verifier expects.\<close>

lemma insert_hash_expected:
  assumes "audit_log_insert_with_chain E a d = Inr (i, d')"
    and "chain_key e E = Inr k"
  shows "\<exists>r. audit_log d' = audit_log d @ [r] \<and> a_prev_hash r = last_row_hash d
    \<and> a_row_hash r = expected_hash E k (last_row_hash d) r"
proof -
  have k: "chain_key Audit_chain_key_not_configured E = Inr k"
    using assms(2) by (rule chain_key_any)
  show ?thesis
    using assms(1) k unfolding audit_insert_Inr
    by (auto simp: new_audit_row_def expected_hash_def verify_canonical_def insert_canonical_def jopt_def)
qed

lemma audit_inv_append:
  assumes inv: "audit_inv E k d" and key: "chain_key e E = Inr k"
    and app: "audit_log_insert_with_chain (E\<lparr>now := t\<rparr>) a d = Inr (i, d')"
  shows "audit_inv E k d'"
proof -
  obtain r where log: "audit_log d' = audit_log d @ [r]"
    and r: "a_prev_hash r = last_row_hash d" "a_row_hash r = expected_hash E k (last_row_hash d) r"
    using insert_hash_expected [OF app, of e k] key by auto
  obtain r' where d': "d' = d\<lparr>audit_log_id_seq := i, audit_log := audit_log d @ [r'],
       last_row_hash := Some (a_row_hash r')\<rparr>" "a_id r' = i" "i = audit_log_id_seq d + 1"
    using chain.append_row [OF app] by auto
  with log have "r' = r" by simp
  with d' r inv show ?thesis
    by (auto simp: audit_inv_def chain_linked_append sorted_wrt_append)
qed

lemma audit_inv_frame:
  assumes "audit_log d' = audit_log d" and "last_row_hash d' = last_row_hash d"
    and "audit_log_id_seq d' = audit_log_id_seq d"
  shows "audit_inv E k d' = audit_inv E k d"
  by (simp add: audit_inv_def assms)

section \<open>Verification\<close>

lemma verify_loop_linked:
  "chain_linked E k prev rs \<Longrightarrow>
    verify_loop E k prev c l rs = (c + int (length rs), (if rs = [] then l else a_id (last rs)), None)"
  by (induction rs arbitrary: prev c l) auto

text \<open>A passing run means that every stored hash is the expected one; a failing run names the
  first row whose hash is not.\<close>

fun hashes_ok :: "pg_env \<Rightarrow> bytea \<Rightarrow> bytea option \<Rightarrow> audit_row list \<Rightarrow> bool" where
  "hashes_ok E k prev [] = True"
| "hashes_ok E k prev (r # rs) =
     (a_row_hash r = expected_hash E k prev r \<and> hashes_ok E k (Some (a_row_hash r)) rs)"

lemma verify_loop_None_iff:
  "snd (snd (verify_loop E k prev c l rs)) = None \<longleftrightarrow> hashes_ok E k prev rs"
  by (induction rs arbitrary: prev c l) auto

lemma verify_loop_Some:
  assumes "snd (snd (verify_loop E k prev c l rs)) = Some b"
  shows "\<exists>xs r ys. rs = xs @ r # ys \<and> hashes_ok E k prev xs \<and> a_id r = b
    \<and> a_row_hash r \<noteq> expected_hash E k (last_hash prev xs) r"
  using assms
proof (induction rs arbitrary: prev c l)
  case Nil
  then show ?case by simp
next
  case (Cons r rs)
  show ?case
  proof (cases "expected_hash E k prev r = a_row_hash r")
    case False
    with Cons.prems show ?thesis
      by (intro exI [of _ "[]"] exI [of _ r] exI [of _ rs]) auto
  next
    case True
    with Cons.prems Cons.IH [of "Some (a_row_hash r)" "c + 1" "a_id r"] obtain xs r' ys where
      "rs = xs @ r' # ys" "hashes_ok E k (Some (a_row_hash r)) xs" "a_id r' = b"
      "a_row_hash r' \<noteq> expected_hash E k (last_hash (Some (a_row_hash r)) xs) r'"
      by auto
    with True show ?thesis
      by (intro exI [of _ "r # xs"] exI [of _ r'] exI [of _ ys]) auto
  qed
qed

lemma chain_linked_hashes_ok: "chain_linked E k prev rs \<Longrightarrow> hashes_ok E k prev rs"
  by (induction rs arbitrary: prev) auto

text \<open>In a log with increasing ids the rows from an id on are a suffix.\<close>

lemma ids_split:
  assumes "sorted_wrt (<) (map a_id rs)"
  shows "rs = filter (\<lambda>r. a_id r < p_from) rs @ filter (\<lambda>r. p_from \<le> a_id r) rs"
  using assms
proof (induction rs)
  case Nil
  then show ?case by simp
next
  case (Cons r rs)
  show ?case
  proof (cases "a_id r < p_from")
    case True
    with Cons show ?thesis by simp
  next
    case False
    with Cons.prems have "\<forall>s \<in> set (r # rs). p_from \<le> a_id s" by auto
    then have "filter (\<lambda>s. a_id s < p_from) (r # rs) = []"
      and "filter (\<lambda>s. p_from \<le> a_id s) (r # rs) = r # rs"
      by (auto simp: filter_empty_conv filter_id_conv)
    then show ?thesis by simp
  qed
qed

lemma sort_key_sorted_ids: "sorted_wrt (<) (map a_id rs) \<Longrightarrow> sort_key a_id rs = rs"
  by (intro sort_key_id_if_sorted) (auto simp: sorted_wrt_map intro: sorted_wrt_mono_rel [rotated])

lemma sorted_wrt_filter_ids:
  "sorted_wrt (<) (map a_id rs) \<Longrightarrow> sorted_wrt (<) (map a_id (filter P rs))"
  by (induction rs) auto

lemma Max_ids_last:
  "sorted_wrt (<) (map a_id rs) \<Longrightarrow> rs \<noteq> [] \<Longrightarrow> Max (set (map a_id rs)) = a_id (last rs)"
proof (induction rs rule: rev_induct)
  case Nil
  then show ?case by simp
next
  case (snoc r rs)
  then have "\<forall>x \<in> set (map a_id rs). x < a_id r" by (simp add: sorted_wrt_append)
  then show ?case by (intro Max_eqI) (auto simp: less_imp_le)
qed

lemma distinct_ids: "sorted_wrt (<) (map a_id rs) \<Longrightarrow> distinct (map a_id rs)"
  by (induction rs) auto

lemma hash_before_last:
  assumes "sorted_wrt (<) (map a_id (audit_log d))"
  shows "hash_before p_from d = last_hash None (filter (\<lambda>r. a_id r < p_from) (audit_log d))"
proof (cases "filter (\<lambda>r. a_id r < p_from) (audit_log d) = []")
  case True
  then show ?thesis by (simp add: hash_before_def)
next
  case False
  let ?below = "filter (\<lambda>r. a_id r < p_from) (audit_log d)"
  have "Max (set (map a_id ?below)) = a_id (last ?below)"
    using assms False by (intro Max_ids_last sorted_wrt_filter_ids)
  moreover have "last ?below \<in> set (audit_log d)"
    using last_in_set [OF False] by auto
  ultimately have "sel_key a_id (Max (set (map a_id ?below))) (audit_log d) = Some (last ?below)"
    using assms by (metis distinct_ids sel_key_in)
  with False show ?thesis by (simp add: hash_before_def last_hash_def Let_def del: set_map)
qed

lemma verify_from_linked:
  assumes inv: "audit_inv E k d" and key: "chain_key e E = Inr k" and "0 \<le> p_from" and "0 \<le> n"
  shows "verify_audit_chain E (Some p_from) n d =
    (let rs = take (nat n) (filter (\<lambda>r. p_from \<le> a_id r) (audit_log d))
     in Inr (int (length rs), (if rs = [] then p_from else a_id (last rs)), None))"
proof -
  let ?log = "audit_log d"
  let ?below = "filter (\<lambda>r. a_id r < p_from) ?log"
  let ?rest = "filter (\<lambda>r. p_from \<le> a_id r) ?log"
  have sorted: "sorted_wrt (<) (map a_id ?log)" and linked: "chain_linked E k None ?log"
    and pos: "\<forall>r \<in> set ?log. 0 < a_id r"
    using inv by (auto simp: audit_inv_def)
  have "chain_linked E k None (?below @ ?rest)"
    using linked ids_split [OF sorted, of p_from] by simp
  then have rest: "chain_linked E k (last_hash None ?below) ?rest"
    by (simp add: chain_linked_append)
  then have "chain_linked E k (last_hash None ?below) (take (nat n) ?rest @ drop (nat n) ?rest)"
    by simp
  then have taken: "chain_linked E k (last_hash None ?below) (take (nat n) ?rest)"
    unfolding chain_linked_append by simp
  have prev: "(if 0 < p_from then hash_before p_from d else None) = last_hash None ?below"
  proof (cases "0 < p_from")
    case True
    then show ?thesis by (simp add: hash_before_last [OF sorted])
  next
    case False
    with assms(3) pos have "?below = []" by (auto simp: filter_empty_conv)
    with False show ?thesis by simp
  qed
  have "sort_key a_id ?rest = ?rest"
    using sorted by (intro sort_key_sorted_ids sorted_wrt_filter_ids)
  with prev taken chain_key_any [OF key] assms(4) show ?thesis
    by (simp add: verify_audit_chain_def coalesce_def verify_loop_linked Let_def)
qed

section \<open>Tampering\<close>

text \<open>The messages the chain hashes, one per row.\<close>

fun chain_messages :: "pg_env \<Rightarrow> bytea option \<Rightarrow> audit_row list \<Rightarrow> bytea list" where
  "chain_messages E prev [] = []"
| "chain_messages E prev (r # rs) =
     (coalesce prev zero_block @ text_bytes (verify_canonical E r))
       # chain_messages E (Some (a_row_hash r)) rs"

lemma length_chain_messages [simp]: "length (chain_messages E prev rs) = length rs"
  by (induction rs arbitrary: prev) auto

lemma of_char_byte_inject: "(of_char c :: byte) = of_char c' \<longleftrightarrow> c = c'"
proof
  assume eq: "(of_char c :: byte) = of_char c'"
  have byte: "unat (of_char x :: byte) = of_char x" for x :: char
  proof -
    have "unat (word_of_nat (of_char x) :: byte) = of_char x mod 256"
      by (simp add: unat_of_nat)
    then show ?thesis by (simp add: of_nat_of_char)
  qed
  have "(of_char c :: nat) = of_char c'"
    using arg_cong [OF eq, of unat] by (simp add: byte)
  then show "c = c'" by simp
qed simp

lemma text_bytes_inject [simp]: "text_bytes s = text_bytes t \<longleftrightarrow> s = t"
proof -
  have "inj (of_char :: char \<Rightarrow> byte)"
    by (rule injI) (simp add: of_char_byte_inject)
  then show ?thesis by (simp add: text_bytes_def inj_map_eq_map)
qed

lemma coalesce_length:
  assumes "prev = None \<longleftrightarrow> prev' = None"
    and "\<And>p. prev = Some p \<Longrightarrow> length p = 32" and "\<And>p. prev' = Some p \<Longrightarrow> length p = 32"
  shows "length (coalesce prev zero_block) = length (coalesce prev' zero_block)"
  using assms by (cases prev; cases prev') auto

text \<open>Two logs of one length that verify and end in the same hash: they hash the same
  messages, or two different messages at one position have the same hash.\<close>

lemma chain_messages_agree:
  assumes len: "\<And>m. length (hmac_sha256 E m k) = 32"
    and "hashes_ok E k prev rs" and "hashes_ok E k prev' rs'"
    and "length rs = length rs'" and "rs \<noteq> []"
    and "last_hash prev rs = last_hash prev' rs'"
    and "prev = None \<longleftrightarrow> prev' = None"
    and "\<And>p. prev = Some p \<Longrightarrow> length p = 32" and "\<And>p. prev' = Some p \<Longrightarrow> length p = 32"
    and nocoll: "\<And>i. i < length rs \<Longrightarrow>
      hmac_sha256 E (chain_messages E prev rs ! i) k = hmac_sha256 E (chain_messages E prev' rs' ! i) k \<Longrightarrow>
      chain_messages E prev rs ! i = chain_messages E prev' rs' ! i"
  shows "map (verify_canonical E) rs = map (verify_canonical E) rs' \<and> prev = prev'"
  using assms(2-)
proof (induction rs arbitrary: rs' prev prev')
  case Nil
  then show ?case by simp
next
  case (Cons r rs)
  then obtain r' rs2 where rs': "rs' = r' # rs2" by (cases rs') auto
  let ?m = "coalesce prev zero_block @ text_bytes (verify_canonical E r)"
  let ?m' = "coalesce prev' zero_block @ text_bytes (verify_canonical E r')"
  have h: "a_row_hash r = hmac_sha256 E ?m k" and h': "a_row_hash r' = hmac_sha256 E ?m' k"
    using Cons.prems(1,2) rs' by (auto simp: expected_hash_def)
  have len32: "length (a_row_hash r) = 32" "length (a_row_hash r') = 32"
    by (simp_all add: h h' len)
  have tail: "map (verify_canonical E) rs = map (verify_canonical E) rs2 \<and> a_row_hash r = a_row_hash r'"
  proof (cases "rs = []")
    case True
    with Cons.prems(3,5) rs' show ?thesis by simp
  next
    case False
    have "map (verify_canonical E) rs = map (verify_canonical E) rs2
        \<and> Some (a_row_hash r) = Some (a_row_hash r')"
    proof (rule Cons.IH)
      show "i < length rs \<Longrightarrow>
        hmac_sha256 E (chain_messages E (Some (a_row_hash r)) rs ! i) k
          = hmac_sha256 E (chain_messages E (Some (a_row_hash r')) rs2 ! i) k \<Longrightarrow>
        chain_messages E (Some (a_row_hash r)) rs ! i = chain_messages E (Some (a_row_hash r')) rs2 ! i" for i
        using Cons.prems(9) [of "Suc i"] rs' by simp
    qed (use Cons.prems(1-5) rs' False len32 in auto)
    then show ?thesis by simp
  qed
  then have "?m = ?m'"
    using Cons.prems(9) [of 0] h h' rs' by simp
  moreover have "length (coalesce prev zero_block) = length (coalesce prev' zero_block)"
    by (rule coalesce_length) (use Cons.prems(6-8) in auto)
  ultimately have "coalesce prev zero_block = coalesce prev' zero_block"
    and "verify_canonical E r = verify_canonical E r'"
    by (simp_all add: append_eq_append_conv)
  with tail rs' Cons.prems(6) show ?case
    by (cases prev; cases prev') auto
qed

end
