(* ===== verification/Deposits.thy ===== *)
theory Deposits
  imports Audit_Log
begin

text \<open>
  The deposit lifecycle: \<^verbatim>\<open>dw.create_deposit_ticket\<close> (migration 0015, which replaces
  the one of 0006 by adding the ban check), \<^verbatim>\<open>dw.confirm_deposit\<close> and
  \<^verbatim>\<open>dw.cancel_deposit\<close> (0006).
\<close>

section \<open>Definitions\<close>

text \<open>The expiry of a new ticket, in microseconds.\<close>

definition expires_after :: "pg_env \<Rightarrow> int \<Rightarrow> int" where
  "expires_after E ttl_s = now E + 1000000 * ttl_s"

definition deposit_uid :: "int \<Rightarrow> string" where
  "deposit_uid n = ''deposit-'' @ show_int n"

text \<open>The row of a new ticket: the columns of the \<^verbatim>\<open>INSERT\<close> and the defaults.\<close>

definition new_ticket ::
    "pg_env \<Rightarrow> int \<Rightarrow> string \<Rightarrow> int \<Rightarrow> string \<Rightarrow> string \<Rightarrow> string \<Rightarrow> string \<Rightarrow> int \<Rightarrow> int \<Rightarrow> int \<Rightarrow> int \<Rightarrow> ticket" where
  "new_ticket E tid uid user chr realm region faction amount thread parent expires =
     \<lparr>t_id = tid, t_ticket_uid = uid, t_discord_id = user, t_char_name = chr, t_realm = realm,
      t_region = region, t_faction = faction, t_amount = amount, t_status = Open,
      t_claimed_by = None, t_claimed_at = None, t_confirmed_at = None, t_cancelled_at = None,
      t_cancel_reason = None, t_thread_id = thread, t_parent_channel_id = parent,
      t_expires_at = expires, t_last_activity_at = now E, t_created_at = now E\<rparr>"

definition create_deposit_ticket ::
    "pg_env \<Rightarrow> int \<Rightarrow> string \<Rightarrow> string \<Rightarrow> string \<Rightarrow> string \<Rightarrow> int \<Rightarrow> int \<Rightarrow> int \<Rightarrow> db \<Rightarrow> pg_error + string \<times> db" where
  "create_deposit_ticket E p_discord_id p_char p_realm p_region p_faction p_amount p_thread_id
      p_parent_channel_id d =
     raise_if (eq3 (map_option u_banned (select_user p_discord_id d)) True) (Raised User_banned)
     (bindE (require (Raised Config_missing_deposit) (config_int ''min_deposit_g'' (dw_config d))) (\<lambda>v_min.
      bindE (require (Raised Config_missing_deposit) (config_int ''max_deposit_g'' (dw_config d))) (\<lambda>v_max.
      bindE (require (Raised Config_missing_deposit) (config_int ''ticket_expiry_open_s'' (dw_config d))) (\<lambda>v_ttl_s.
      raise_if (p_amount < v_min \<or> v_max < p_amount) (Raised (Amount_out_of_range p_amount v_min v_max))
      (raise_if (\<not> valid_region p_region) (Raised (Invalid_region p_region))
      (raise_if (\<not> valid_faction p_faction) (Raised (Invalid_faction p_faction))
      (let v_expires = expires_after E v_ttl_s;
           v_uid = deposit_uid (deposit_tickets_id_seq d + 1);
           v_id = deposit_tickets_id_seq d + 2;
           d1 = d\<lparr>deposit_tickets_id_seq := v_id\<rparr>
       in bindE (insert_deposit_ticket
                  (new_ticket E v_id v_uid p_discord_id p_char p_realm p_region p_faction p_amount
                    p_thread_id p_parent_channel_id v_expires) d1) (\<lambda>d2.
          let v_balance = balance_or_zero p_discord_id d2
          in bindE (audit_log_insert_with_chain E
               \<lparr>aa_actor_type = ''user'', aa_actor_id = p_discord_id,
                aa_target_id = user_or_treasury p_discord_id d2,
                aa_action = ''deposit_ticket_opened'', aa_amount = Some p_amount,
                aa_balance_before = Some v_balance, aa_balance_after = Some v_balance,
                aa_reason = Some (''Deposit ticket opened for '' @ p_char @ '' on '' @ p_realm @ ''-'' @ p_region),
                aa_ref_type = ''deposit_ticket'', aa_ref_id = Some v_uid, aa_bot_name = ''dw'',
                aa_metadata = JObj [(''char'', JStr p_char), (''realm'', JStr p_realm),
                                   (''region'', JStr p_region), (''faction'', JStr p_faction)]\<rparr> d2) (\<lambda>(_, d3).
             Inr (v_uid, d3))))))))))"

definition confirm_deposit :: "pg_env \<Rightarrow> string \<Rightarrow> int \<Rightarrow> db \<Rightarrow> pg_error + int option \<times> db" where
  "confirm_deposit E p_ticket_uid p_cashier_id d =
     bindE (require (Raised Ticket_not_found) (select_deposit p_ticket_uid d)) (\<lambda>v_ticket.
     if t_status v_ticket = Confirmed \<and> eq3 (t_claimed_by v_ticket) p_cashier_id
     then Inr (map_option b_balance (select_balance (t_discord_id v_ticket) d), d)
     else
     raise_if (t_status v_ticket \<noteq> Claimed) (Raised (Ticket_not_claimed (t_status v_ticket)))
     (raise_if (neq3 (t_claimed_by v_ticket) p_cashier_id)
       (Raised (Wrong_cashier (the (t_claimed_by v_ticket)) p_cashier_id))
     (bindE (insert_balance E (t_discord_id v_ticket) (insert_user E (t_discord_id v_ticket) d)) (\<lambda>d1.
      let v_before = map_option b_balance (select_balance (t_discord_id v_ticket) d1);
          v_after = map_option (\<lambda>b. b + t_amount v_ticket) v_before
      in bindE (update_balance (t_discord_id v_ticket)
                 (\<lambda>r. r\<lparr>b_balance := coalesce v_after 0, b_updated_at := now E,
                       b_version := b_version r + 1\<rparr>) d1) (\<lambda>d2.
         bindE (update_deposit_ticket t_id (t_id v_ticket)
                 (\<lambda>t. t\<lparr>t_status := Confirmed, t_confirmed_at := Some (now E),
                       t_last_activity_at := now E\<rparr>) d2) (\<lambda>d3.
         bindE (audit_log_insert_with_chain E
            \<lparr>aa_actor_type = ''cashier'', aa_actor_id = p_cashier_id,
             aa_target_id = t_discord_id v_ticket,
             aa_action = ''deposit_confirmed'', aa_amount = Some (t_amount v_ticket),
             aa_balance_before = v_before, aa_balance_after = v_after,
             aa_reason = Some (''Deposit confirmed by cashier '' @ show_int p_cashier_id @ '' for char ''
                @ t_char_name v_ticket @ '' on '' @ t_realm v_ticket @ ''-'' @ t_region v_ticket),
             aa_ref_type = ''deposit_ticket'', aa_ref_id = Some p_ticket_uid, aa_bot_name = ''dw'',
             aa_metadata = JObj [(''char'', JStr (t_char_name v_ticket)), (''realm'', JStr (t_realm v_ticket)),
                                (''region'', JStr (t_region v_ticket)), (''faction'', JStr (t_faction v_ticket))]\<rparr> d3) (\<lambda>(_, d4).
         bindE (upsert_stats p_cashier_id
                 (\<lambda>r. r\<lparr>st_deposits_completed := st_deposits_completed r + 1,
                       st_total_volume_g := st_total_volume_g r + t_amount v_ticket,
                       st_last_active_at := Some (now E), st_updated_at := now E\<rparr>) d4) (\<lambda>d5.
         Inr (v_after, d5)))))))))"

definition cancel_deposit :: "pg_env \<Rightarrow> string \<Rightarrow> int \<Rightarrow> string option \<Rightarrow> db \<Rightarrow> pg_error + unit \<times> db" where
  "cancel_deposit E p_ticket_uid p_actor_id p_reason d =
     bindE (require (Raised Ticket_not_found) (select_deposit p_ticket_uid d)) (\<lambda>v_ticket.
     raise_if (is_terminal (t_status v_ticket)) (Raised (Ticket_already_terminal (t_status v_ticket)))
     (bindE (update_deposit_ticket t_id (t_id v_ticket)
              (\<lambda>t. t\<lparr>t_status := Cancelled, t_cancelled_at := Some (now E), t_cancel_reason := p_reason,
                    t_last_activity_at := now E\<rparr>) d) (\<lambda>d1.
      let v_balance = balance_or_zero (t_discord_id v_ticket) d1
      in bindE (audit_log_insert_with_chain E
           \<lparr>aa_actor_type = (if p_actor_id = t_discord_id v_ticket then ''user'' else ''cashier''),
            aa_actor_id = p_actor_id,
            aa_target_id = user_or_treasury (t_discord_id v_ticket) d1,
            aa_action = ''deposit_cancelled'', aa_amount = Some (t_amount v_ticket),
            aa_balance_before = Some v_balance, aa_balance_after = Some v_balance,
            aa_reason = Some (coalesce p_reason ''cancelled''),
            aa_ref_type = ''deposit_ticket'', aa_ref_id = Some p_ticket_uid, aa_bot_name = ''dw'',
            aa_metadata = JObj [(''char'', JStr (t_char_name v_ticket)), (''realm'', JStr (t_realm v_ticket))]\<rparr> d1)
          (\<lambda>(_, d2). Inr ((), d2)))))"

end
