(* ===== verification/Withdraws.thy ===== *)
theory Withdraws
  imports Deposits
begin

text \<open>
  The withdraw lifecycle (migration 0007): \<^verbatim>\<open>dw.create_withdraw_ticket\<close> locks the amount
  and captures the fee, \<^verbatim>\<open>dw.confirm_withdraw\<close> turns the lock into a deduction and
  credits the fee to the treasury, \<^verbatim>\<open>dw.cancel_withdraw\<close> refunds the lock.
\<close>

section \<open>Definitions\<close>

definition withdraw_uid :: "int \<Rightarrow> string" where
  "withdraw_uid n = ''withdraw-'' @ show_int n"

text \<open>\<^verbatim>\<open>(p_amount * v_fee_bps) / 10000\<close> on \<^verbatim>\<open>BIGINT\<close>.\<close>

definition bps_of :: "int \<Rightarrow> int \<Rightarrow> pg_error + int" where
  "bps_of amount bps = bindE (chk8 (amount * bps)) (\<lambda>x. Inr (x sdiv 10000))"

definition create_withdraw_ticket ::
    "pg_env \<Rightarrow> int \<Rightarrow> string \<Rightarrow> string \<Rightarrow> string \<Rightarrow> string \<Rightarrow> int \<Rightarrow> int \<Rightarrow> int \<Rightarrow> db \<Rightarrow> pg_error + string \<times> db" where
  "create_withdraw_ticket E p_discord_id p_char p_realm p_region p_faction p_amount p_thread_id
      p_parent_channel_id d =
     bindE (require (Raised Config_missing_withdraw) (config_int ''min_withdraw_g'' (dw_config d))) (\<lambda>v_min.
     bindE (require (Raised Config_missing_withdraw) (config_int ''max_withdraw_g'' (dw_config d))) (\<lambda>v_max.
     bindE (require (Raised Config_missing_withdraw) (config_int ''withdraw_fee_bps'' (dw_config d))) (\<lambda>v_fee_bps.
     bindE (require (Raised Config_missing_withdraw) (config_int ''ticket_expiry_open_s'' (dw_config d))) (\<lambda>v_ttl_s.
     raise_if (p_amount < v_min \<or> v_max < p_amount) (Raised (Amount_out_of_range p_amount v_min v_max))
     (raise_if (\<not> valid_region p_region) (Raised (Invalid_region p_region))
     (raise_if (\<not> valid_faction p_faction) (Raised (Invalid_faction p_faction))
     (bindE (require (Raised User_not_registered) (map_option u_banned (select_user p_discord_id d))) (\<lambda>v_banned.
      raise_if v_banned (Raised User_banned)
      (let v_balance = map_option b_balance (select_balance p_discord_id d)
       in raise_if (lt3 v_balance (Some p_amount)) (Raised (Insufficient_balance (the v_balance) p_amount))
       (bindE (bps_of p_amount v_fee_bps) (\<lambda>v_fee.
        let v_expires = expires_after E v_ttl_s;
            v_uid = withdraw_uid (withdraw_tickets_id_seq d + 1);
            v_id = withdraw_tickets_id_seq d + 2;
            d1 = d\<lparr>withdraw_tickets_id_seq := v_id\<rparr>
        in bindE (update_balance p_discord_id
                   (\<lambda>r. r\<lparr>b_balance := b_balance r - p_amount, b_locked := b_locked r + p_amount,
                         b_updated_at := now E, b_version := b_version r + 1\<rparr>) d1) (\<lambda>d2.
           bindE (insert_withdraw_ticket
                   (ticket.extend
                     (new_ticket E v_id v_uid p_discord_id p_char p_realm p_region p_faction p_amount
                       p_thread_id p_parent_channel_id v_expires)
                     (withdraw_ticket.fields v_fee None)) d2) (\<lambda>d3.
           bindE (audit_log_insert_with_chain E
              \<lparr>aa_actor_type = ''user'', aa_actor_id = p_discord_id, aa_target_id = p_discord_id,
               aa_action = ''withdraw_locked'', aa_amount = Some p_amount,
               aa_balance_before = v_balance,
               aa_balance_after = map_option (\<lambda>b. b - p_amount) v_balance,
               aa_reason = Some (''Withdraw locked '' @ show_int p_amount @ '' G (fee '' @ show_int v_fee
                  @ '' G); deliver '' @ show_int (p_amount - v_fee) @ '' G ingame to '' @ p_char
                  @ '' on '' @ p_realm @ ''-'' @ p_region),
               aa_ref_type = ''withdraw_ticket'', aa_ref_id = Some v_uid, aa_bot_name = ''dw'',
               aa_metadata = JObj [(''char'', JStr p_char), (''realm'', JStr p_realm),
                                  (''region'', JStr p_region), (''faction'', JStr p_faction),
                                  (''fee_bps'', JInt v_fee_bps), (''fee'', JInt v_fee)]\<rparr> d3) (\<lambda>(_, d4).
           Inr (v_uid, d4)))))))))))))))"

definition confirm_withdraw :: "pg_env \<Rightarrow> string \<Rightarrow> int \<Rightarrow> db \<Rightarrow> pg_error + int option \<times> db" where
  "confirm_withdraw E p_ticket_uid p_cashier_id d =
     bindE (require (Raised Ticket_not_found) (select_withdraw p_ticket_uid d)) (\<lambda>v_ticket.
     if t_status v_ticket = Confirmed \<and> eq3 (t_claimed_by v_ticket) p_cashier_id
     then Inr (map_option b_balance (select_balance (t_discord_id v_ticket) d), d)
     else
     raise_if (t_status v_ticket \<noteq> Claimed) (Raised (Ticket_not_claimed (t_status v_ticket)))
     (raise_if (neq3 (t_claimed_by v_ticket) p_cashier_id)
       (Raised (Wrong_cashier (the (t_claimed_by v_ticket)) p_cashier_id))
     (let v_before = map_option b_balance (select_balance (t_discord_id v_ticket) d);
          v_locked = map_option b_locked (select_balance (t_discord_id v_ticket) d)
      in raise_if (lt3 v_locked (Some (t_amount v_ticket)))
           (Raised (Locked_too_low (the v_locked) (t_amount v_ticket)))
      (bindE (update_balance (t_discord_id v_ticket)
               (\<lambda>r. r\<lparr>b_locked := b_locked r - t_amount v_ticket, b_updated_at := now E,
                     b_version := b_version r + 1\<rparr>) d) (\<lambda>d1.
       let v_treasury_before = map_option b_balance (select_balance 0 d1)
       in bindE (update_balance 0
                  (\<lambda>r. r\<lparr>b_balance := b_balance r + w_fee v_ticket, b_updated_at := now E,
                        b_version := b_version r + 1\<rparr>) d1) (\<lambda>d2.
          bindE (update_withdraw_ticket t_id (t_id v_ticket)
                  (\<lambda>t. t\<lparr>t_status := Confirmed, t_confirmed_at := Some (now E),
                        w_amount_delivered := Some (t_amount v_ticket - w_fee v_ticket),
                        t_last_activity_at := now E\<rparr>) d2) (\<lambda>d3.
          bindE (audit_log_insert_with_chain E
             \<lparr>aa_actor_type = ''cashier'', aa_actor_id = p_cashier_id,
              aa_target_id = t_discord_id v_ticket,
              aa_action = ''withdraw_confirmed'', aa_amount = Some (t_amount v_ticket),
              aa_balance_before = v_before, aa_balance_after = v_before,
              aa_reason = Some (''Withdraw confirmed: '' @ show_int (t_amount v_ticket) @ '' G out, ''
                 @ show_int (t_amount v_ticket - w_fee v_ticket) @ '' G delivered ingame, ''
                 @ show_int (w_fee v_ticket) @ '' G fee''),
              aa_ref_type = ''withdraw_ticket'', aa_ref_id = Some p_ticket_uid, aa_bot_name = ''dw'',
              aa_metadata = JObj [(''char'', JStr (t_char_name v_ticket)), (''realm'', JStr (t_realm v_ticket)),
                                 (''region'', JStr (t_region v_ticket)), (''faction'', JStr (t_faction v_ticket)),
                                 (''fee'', JInt (w_fee v_ticket)),
                                 (''amount_delivered'', JInt (t_amount v_ticket - w_fee v_ticket))]\<rparr> d3) (\<lambda>(_, d4).
          bindE (audit_log_insert_with_chain E
             \<lparr>aa_actor_type = ''system'', aa_actor_id = 0, aa_target_id = 0,
              aa_action = ''treasury_fee_credit'', aa_amount = Some (w_fee v_ticket),
              aa_balance_before = v_treasury_before,
              aa_balance_after = map_option (\<lambda>b. b + w_fee v_ticket) v_treasury_before,
              aa_reason = Some ''Withdraw fee accrued to treasury'',
              aa_ref_type = ''withdraw_ticket'', aa_ref_id = Some p_ticket_uid, aa_bot_name = ''dw'',
              aa_metadata = JObj [(''source_user'', JInt (t_discord_id v_ticket))]\<rparr> d4) (\<lambda>(_, d5).
          bindE (upsert_stats p_cashier_id
                  (\<lambda>r. r\<lparr>st_withdraws_completed := st_withdraws_completed r + 1,
                        st_total_volume_g := st_total_volume_g r + t_amount v_ticket,
                        st_last_active_at := Some (now E), st_updated_at := now E\<rparr>) d5) (\<lambda>d6.
          Inr (v_before, d6)))))))))))"

definition cancel_withdraw :: "pg_env \<Rightarrow> string \<Rightarrow> int \<Rightarrow> string option \<Rightarrow> db \<Rightarrow> pg_error + int option \<times> db" where
  "cancel_withdraw E p_ticket_uid p_actor_id p_reason d =
     bindE (require (Raised Ticket_not_found) (select_withdraw p_ticket_uid d)) (\<lambda>v_ticket.
     raise_if (is_terminal (t_status v_ticket)) (Raised (Ticket_already_terminal (t_status v_ticket)))
     (let v_before = map_option b_balance (select_balance (t_discord_id v_ticket) d);
          v_locked = map_option b_locked (select_balance (t_discord_id v_ticket) d)
      in raise_if (lt3 v_locked (Some (t_amount v_ticket)))
           (Raised (Locked_too_low (the v_locked) (t_amount v_ticket)))
      (let v_after = map_option (\<lambda>b. b + t_amount v_ticket) v_before
       in bindE (update_balance (t_discord_id v_ticket)
                  (\<lambda>r. r\<lparr>b_balance := coalesce v_after 0, b_locked := b_locked r - t_amount v_ticket,
                        b_updated_at := now E, b_version := b_version r + 1\<rparr>) d) (\<lambda>d1.
          bindE (update_withdraw_ticket t_id (t_id v_ticket)
                  (\<lambda>t. t\<lparr>t_status := Cancelled, t_cancelled_at := Some (now E),
                        t_cancel_reason := p_reason, t_last_activity_at := now E\<rparr>) d1) (\<lambda>d2.
          bindE (audit_log_insert_with_chain E
             \<lparr>aa_actor_type = (if p_actor_id = t_discord_id v_ticket then ''user'' else ''cashier''),
              aa_actor_id = p_actor_id, aa_target_id = t_discord_id v_ticket,
              aa_action = ''withdraw_cancelled_refund'', aa_amount = Some (t_amount v_ticket),
              aa_balance_before = v_before, aa_balance_after = v_after,
              aa_reason = Some (coalesce p_reason ''cancelled''),
              aa_ref_type = ''withdraw_ticket'', aa_ref_id = Some p_ticket_uid, aa_bot_name = ''dw'',
              aa_metadata = JObj [(''refunded'', JInt (t_amount v_ticket))]\<rparr> d2) (\<lambda>(_, d3).
          bindE (if p_actor_id \<noteq> t_discord_id v_ticket \<and> t_claimed_by v_ticket \<noteq> None
                 then upsert_stats (the (t_claimed_by v_ticket))
                   (\<lambda>r. r\<lparr>st_withdraws_cancelled := st_withdraws_cancelled r + 1,
                         st_last_active_at := Some (now E), st_updated_at := now E\<rparr>) d3
                 else Inr d3) (\<lambda>d4.
          Inr (v_after, d4))))))))"

end
