(* ===== verification/Bets.thy ===== *)
theory Bets
  imports Withdraws
begin

text \<open>
  The bets of the luck bot (migration 0023): \<^verbatim>\<open>luck.apply_bet\<close> locks the effective
  stake and takes commission and rake, \<^verbatim>\<open>luck.resolve_bet\<close> settles against the
  treasury, \<^verbatim>\<open>luck.refund_bet\<close> unwinds a bet and \<^verbatim>\<open>luck.cashout_mines\<close> pays a
  multiple of the effective stake.
\<close>

section \<open>Definitions\<close>

definition select_game :: "string \<Rightarrow> db \<Rightarrow> game_row option" where
  "select_game g d = sel_key gm_game_name g (game_config d)"

definition select_bet :: "int \<Rightarrow> db \<Rightarrow> bet_row option" where
  "select_bet i d = sel_key bt_id i (bets d)"

definition bet_key :: "bet_row \<Rightarrow> int \<times> string" where
  "bet_key b = (bt_discord_id b, bt_idempotency_key b)"

text \<open>\<^verbatim>\<open>COALESCE((extra_config->>'commission_bps')::INT, 0)\<close>.\<close>

definition json_field :: "json \<Rightarrow> string \<Rightarrow> json option" where
  "json_field j k = (case j of JObj kvs \<Rightarrow> map_of kvs k | _ \<Rightarrow> None)"

definition json_int4 :: "pg_env \<Rightarrow> json option \<Rightarrow> pg_error + int option" where
  "json_int4 E v =
     (case v of
        None \<Rightarrow> Inr None
      | Some JNull \<Rightarrow> Inr None
      | Some (JInt i) \<Rightarrow> bindE (chk4 i) (\<lambda>x. Inr (Some x))
      | Some (JStr s) \<Rightarrow> (case text_to_int4 E s of
            Some x \<Rightarrow> bindE (chk4 x) (\<lambda>x. Inr (Some x))
          | None \<Rightarrow> Inl Invalid_text_representation)
      | Some _ \<Rightarrow> Inl Invalid_text_representation)"

definition commission_bps :: "pg_env \<Rightarrow> game_row \<Rightarrow> pg_error + int" where
  "commission_bps E g =
     bindE (json_int4 E (json_field (gm_extra_config g) ''commission_bps'')) (\<lambda>v. Inr (coalesce v 0))"

definition rake_bps :: "db \<Rightarrow> pg_error + int" where
  "rake_bps d = chk4 (coalesce (config_int ''raffle_rake_bps'' (luck_config d)) 0)"

text \<open>\<^verbatim>\<open>SELECT id ... WHERE status = 'active' ORDER BY id DESC LIMIT 1\<close>.\<close>

definition active_period :: "db \<Rightarrow> int option" where
  "active_period d =
     (case filter (\<lambda>p. rp_status p = Active) (raffle_periods d) of
        [] \<Rightarrow> None
      | ps \<Rightarrow> Some (Max (set (map rp_id ps))))"

text \<open>\<^verbatim>\<open>UPDATE luck.raffle_periods SET pool_amount = pool_amount + delta\<close>, with the
  constraint on the pool.\<close>

definition update_pool :: "int \<Rightarrow> int \<Rightarrow> db \<Rightarrow> pg_error + db" where
  "update_pool pid delta d =
     (case sel_key rp_id pid (raffle_periods d) of
        None \<Rightarrow> Inr d
      | Some p \<Rightarrow> bindE (chk8 (rp_pool_amount p + delta)) (\<lambda>x.
          raise_if (x < 0) (Check_violation ''raffle_periods_pool_amount_check'')
          (Inr (d\<lparr>raffle_periods := upd_key rp_id pid
             (\<lambda>p. p\<lparr>rp_pool_amount := rp_pool_amount p + delta\<rparr>) (raffle_periods d)\<rparr>))))"

text \<open>\<^verbatim>\<open>INSERT INTO luck.raffle_periods (id, period_label, starts_at, ends_at, status)\<close>, with the
  constraints and defaults of the table: a new period has an empty pool. No function inserts a period;
  the operator opens one for the raffle.\<close>

definition insert_raffle_period ::
    "pg_env \<Rightarrow> int \<Rightarrow> string \<Rightarrow> int \<Rightarrow> int \<Rightarrow> period_status \<Rightarrow> db \<Rightarrow> pg_error + db" where
  "insert_raffle_period E period_id label starts_at ends_at status d =
     bindE (chk8 period_id) (\<lambda>v_id.
     raise_if (ends_at \<le> starts_at) (Check_violation ''raffle_periods_check'')
     (raise_if (has_key rp_id v_id (raffle_periods d)) (Unique_violation ''raffle_periods_pkey'')
     (raise_if (has_key rp_period_label label (raffle_periods d))
       (Unique_violation ''raffle_periods_period_label_key'')
     (Inr (d\<lparr>raffle_periods := raffle_periods d @
        [\<lparr>rp_id = v_id, rp_period_label = label, rp_starts_at = starts_at, rp_ends_at = ends_at,
          rp_pool_amount = 0, rp_status = status, rp_created_at = now E\<rparr>]\<rparr>)))))"

text \<open>\<^verbatim>\<open>UPDATE core.balances SET balance = balance + delta WHERE discord_id = 0\<close>.\<close>

definition credit_treasury :: "pg_env \<Rightarrow> int \<Rightarrow> db \<Rightarrow> pg_error + db" where
  "credit_treasury E delta d =
     update_balance 0 (\<lambda>r. r\<lparr>b_balance := b_balance r + delta, b_updated_at := now E,
                            b_version := b_version r + 1\<rparr>) d"

text \<open>The rake goes to the pool of the period, or to the treasury when there is none.\<close>

definition credit_rake :: "pg_env \<Rightarrow> int option \<Rightarrow> int \<Rightarrow> db \<Rightarrow> pg_error + db" where
  "credit_rake E period delta d =
     (case period of Some pid \<Rightarrow> update_pool pid delta d | None \<Rightarrow> credit_treasury E delta d)"

definition insert_bet :: "bet_row \<Rightarrow> db \<Rightarrow> pg_error + db" where
  "insert_bet b d =
     raise_if (bt_bet_amount b \<le> 0) (Check_violation ''bets_bet_amount_check'')
     (raise_if (has_key bt_id (bt_id b) (bets d)) (Unique_violation ''bets_pkey'')
     (raise_if (has_key bt_bet_uid (bt_bet_uid b) (bets d)) (Unique_violation ''bets_bet_uid_key'')
     (raise_if (has_key bet_key (bet_key b) (bets d))
       (Unique_violation ''bets_discord_id_idempotency_key_key'')
     (raise_if (\<not> has_key u_discord_id (bt_discord_id b) (users d))
       (Foreign_key_violation ''bets_discord_id_fkey'')
     (raise_if (\<not> has_key gm_game_name (bt_game_name b) (game_config d))
       (Foreign_key_violation ''bets_game_name_fkey'')
     (Inr (d\<lparr>bets := bets d @ [b]\<rparr>)))))))"

definition update_bet :: "int \<Rightarrow> (bet_row \<Rightarrow> bet_row) \<Rightarrow> db \<Rightarrow> db" where
  "update_bet i f d = d\<lparr>bets := upd_key bt_id i f (bets d)\<rparr>"

text \<open>The row of a new bet and the arguments of its audit row.\<close>

definition new_bet ::
    "pg_env \<Rightarrow> int \<Rightarrow> int \<Rightarrow> string \<Rightarrow> int \<Rightarrow> int \<Rightarrow> json \<Rightarrow> bytea \<Rightarrow> string \<Rightarrow> int \<Rightarrow> string \<Rightarrow> string
      \<Rightarrow> int \<Rightarrow> int \<Rightarrow> int \<Rightarrow> int option \<Rightarrow> bet_row" where
  "new_bet E i user game channel amount selection seed_hash client nonce idem uid commission rake
      stake period =
     \<lparr>bt_id = i, bt_bet_uid = uid, bt_discord_id = user, bt_game_name = game, bt_channel_id = channel,
      bt_bet_amount = amount, bt_selection = selection, bt_status = Bet_open, bt_payout_amount = 0,
      bt_profit = None, bt_server_seed_hash = seed_hash, bt_client_seed = client, bt_nonce = nonce,
      bt_outcome = None, bt_idempotency_key = idem, bt_placed_at = now E, bt_resolved_at = None,
      bt_effective_stake = stake, bt_commission = commission, bt_rake = rake,
      bt_rake_period_id = period\<rparr>"

definition bet_placed_args :: "int \<Rightarrow> bet_row \<Rightarrow> audit_args" where
  "bet_placed_args v_balance b =
     \<lparr>aa_actor_type = ''user'', aa_actor_id = bt_discord_id b, aa_target_id = bt_discord_id b,
      aa_action = ''bet_placed'', aa_amount = Some (bt_bet_amount b),
      aa_balance_before = Some v_balance, aa_balance_after = Some (v_balance - bt_bet_amount b),
      aa_reason = Some (''Bet placed: '' @ bt_bet_uid b @ '' '' @ show_int (bt_bet_amount b) @ '' G on '' @ bt_game_name b),
      aa_ref_type = ''luck_bet'', aa_ref_id = Some (show_int (bt_id b)), aa_bot_name = ''luck'',
      aa_metadata = JObj [(''game_name'', JStr (bt_game_name b)), (''bet_uid'', JStr (bt_bet_uid b)),
         (''channel_id'', JInt (bt_channel_id b)), (''commission'', JInt (bt_commission b)),
         (''rake'', JInt (bt_rake b)), (''effective_stake'', JInt (bt_effective_stake b)),
         (''nonce'', JInt (bt_nonce b))]\<rparr>"

definition apply_bet ::
    "pg_env \<Rightarrow> int \<Rightarrow> string \<Rightarrow> int \<Rightarrow> int \<Rightarrow> json \<Rightarrow> bytea \<Rightarrow> string \<Rightarrow> int \<Rightarrow> string \<Rightarrow> string \<Rightarrow> db
      \<Rightarrow> pg_error + (int \<times> bool) \<times> db" where
  "apply_bet E p_discord_id p_game_name p_channel_id p_bet_amount p_selection p_server_seed_hash
      p_client_seed p_nonce p_idempotency_key p_bet_uid d =
     (case sel_key bet_key (p_discord_id, p_idempotency_key) (bets d) of
        Some b \<Rightarrow> Inr ((bt_id b, True), d)
      | None \<Rightarrow>
        bindE (require (Raised_luck (Unknown_game p_game_name)) (select_game p_game_name d)) (\<lambda>g.
        bindE (commission_bps E g) (\<lambda>v_commission_bps.
        raise_if (\<not> gm_enabled g) (Raised_luck (Game_paused p_game_name))
        (raise_if (p_bet_amount < gm_min_bet g \<or> gm_max_bet g < p_bet_amount)
          (Raised_luck (Bet_out_of_range p_bet_amount (gm_min_bet g) (gm_max_bet g)))
        (bindE (rake_bps d) (\<lambda>v_rake_bps.
         bindE (bps_of p_bet_amount v_commission_bps) (\<lambda>v_commission.
         bindE (bps_of p_bet_amount v_rake_bps) (\<lambda>v_rake.
         bindE (chk8 (p_bet_amount - v_commission)) (\<lambda>net.
         bindE (chk8 (net - v_rake)) (\<lambda>v_effective_stake.
         bindE (require (Raised_luck (Bet_user_not_registered p_discord_id))
                 (map_option b_balance (select_balance p_discord_id d))) (\<lambda>v_user_balance.
         raise_if (eq3 (map_option u_banned (select_user p_discord_id d)) True)
           (Raised_luck (Bet_user_banned p_discord_id))
         (raise_if (v_user_balance < p_bet_amount)
           (Raised_luck (Bet_insufficient_balance v_user_balance p_bet_amount))
         (let v_active_period = active_period d
          in bindE (update_balance p_discord_id
                     (\<lambda>r. r\<lparr>b_balance := b_balance r - p_bet_amount,
                           b_locked := b_locked r + v_effective_stake,
                           b_total_wagered := b_total_wagered r + p_bet_amount,
                           b_updated_at := now E, b_version := b_version r + 1\<rparr>) d) (\<lambda>d1.
             bindE (if 0 < v_commission then credit_treasury E v_commission d1 else Inr d1) (\<lambda>d2.
             bindE (if 0 < v_rake then credit_rake E v_active_period v_rake d2 else Inr d2) (\<lambda>d3.
             let v_new_bet_id = bets_id_seq d3 + 1
             in bindE (insert_bet
                  (new_bet E v_new_bet_id p_discord_id p_game_name p_channel_id p_bet_amount p_selection
                    p_server_seed_hash p_client_seed p_nonce p_idempotency_key p_bet_uid
                    v_commission v_rake v_effective_stake v_active_period)
                  (d3\<lparr>bets_id_seq := v_new_bet_id\<rparr>)) (\<lambda>d4.
                bindE (audit_log_insert_with_chain E
                  (bet_placed_args v_user_balance
                    (new_bet E v_new_bet_id p_discord_id p_game_name p_channel_id p_bet_amount p_selection
                      p_server_seed_hash p_client_seed p_nonce p_idempotency_key p_bet_uid
                      v_commission v_rake v_effective_stake v_active_period)) d4) (\<lambda>(_, d5).
                Inr ((v_new_bet_id, False), d5)))))))))))))))))))"

definition bet_outcome_of_text :: "string \<Rightarrow> bet_status option" where
  "bet_outcome_of_text s =
     (if s = ''resolved_win'' then Some Resolved_win
      else if s = ''resolved_loss'' then Some Resolved_loss
      else if s = ''resolved_tie'' then Some Resolved_tie
      else None)"

text \<open>What the user is credited and what the treasury gains.\<close>

definition settlement :: "bet_status \<Rightarrow> int \<Rightarrow> int \<Rightarrow> int \<times> int" where
  "settlement st stake payout =
     (case st of
        Resolved_win \<Rightarrow> (payout, stake - payout)
      | Resolved_loss \<Rightarrow> (0, stake)
      | _ \<Rightarrow> (stake, 0))"

definition resolve_bet :: "pg_env \<Rightarrow> int \<Rightarrow> string \<Rightarrow> int \<Rightarrow> json option \<Rightarrow> db \<Rightarrow> pg_error + unit \<times> db" where
  "resolve_bet E p_bet_id p_status p_payout p_outcome d =
     bindE (require (Raised_luck (Invalid_bet_status p_status)) (bet_outcome_of_text p_status)) (\<lambda>st.
     raise_if (p_payout < 0) (Raised_luck (Invalid_payout p_payout))
     (bindE (require (Raised_luck (Bet_not_found p_bet_id)) (select_bet p_bet_id d)) (\<lambda>v_bet.
      if bt_status v_bet = st \<and> bt_payout_amount v_bet = p_payout then Inr ((), d)
      else
      raise_if (bt_status v_bet \<noteq> Bet_open)
        (Raised_luck (Bet_already_terminal p_bet_id (bt_status v_bet) (Some p_status)))
      (let v_balance_before = map_option b_balance (select_balance (bt_discord_id v_bet) d);
           v_credit_user = fst (settlement st (bt_effective_stake v_bet) p_payout)
       in bindE (chk8 (snd (settlement st (bt_effective_stake v_bet) p_payout))) (\<lambda>v_treasury_delta.
          bindE (update_balance (bt_discord_id v_bet)
                  (\<lambda>r. r\<lparr>b_balance := b_balance r + v_credit_user,
                        b_locked := b_locked r - bt_effective_stake v_bet,
                        b_total_won := b_total_won r + v_credit_user,
                        b_updated_at := now E, b_version := b_version r + 1\<rparr>) d) (\<lambda>d1.
          let v_balance_after = map_option (\<lambda>b. b + v_credit_user) v_balance_before
          in bindE (if v_treasury_delta \<noteq> 0 then credit_treasury E v_treasury_delta d1 else Inr d1) (\<lambda>d2.
             bindE (chk8 (p_payout - bt_bet_amount v_bet)) (\<lambda>profit.
             let d3 = update_bet p_bet_id
                        (\<lambda>b. b\<lparr>bt_status := st, bt_payout_amount := p_payout, bt_profit := Some profit,
                              bt_outcome := p_outcome, bt_resolved_at := Some (now E)\<rparr>) d2
             in bindE (audit_log_insert_with_chain E
                  \<lparr>aa_actor_type = ''system'', aa_actor_id = bt_discord_id v_bet,
                   aa_target_id = bt_discord_id v_bet,
                   aa_action = ''bet_resolved'', aa_amount = Some p_payout,
                   aa_balance_before = v_balance_before, aa_balance_after = v_balance_after,
                   aa_reason = Some (''Bet resolved: '' @ bt_bet_uid v_bet @ '' status='' @ p_status
                      @ '' payout='' @ show_int p_payout),
                   aa_ref_type = ''luck_bet'', aa_ref_id = Some (show_int p_bet_id), aa_bot_name = ''luck'',
                   aa_metadata = JObj [(''game_name'', JStr (bt_game_name v_bet)),
                      (''bet_uid'', JStr (bt_bet_uid v_bet)), (''status'', JStr p_status),
                      (''effective_stake'', JInt (bt_effective_stake v_bet)),
                      (''treasury_delta'', JInt v_treasury_delta), (''outcome'', jopt id p_outcome)]\<rparr> d3)
                (\<lambda>(_, d4). Inr ((), d4))))))))))"

definition refund_bet :: "pg_env \<Rightarrow> int \<Rightarrow> string option \<Rightarrow> db \<Rightarrow> pg_error + unit \<times> db" where
  "refund_bet E p_bet_id p_reason d =
     bindE (require (Raised_luck (Bet_not_found p_bet_id)) (select_bet p_bet_id d)) (\<lambda>v_bet.
     if bt_status v_bet = Refunded then Inr ((), d)
     else
     raise_if (bt_status v_bet \<noteq> Bet_open)
       (Raised_luck (Bet_already_terminal p_bet_id (bt_status v_bet) None))
     (let v_balance_before = map_option b_balance (select_balance (bt_discord_id v_bet) d)
      in bindE (update_balance (bt_discord_id v_bet)
                 (\<lambda>r. r\<lparr>b_balance := b_balance r + bt_bet_amount v_bet,
                       b_locked := b_locked r - bt_effective_stake v_bet,
                       b_total_wagered := b_total_wagered r - bt_bet_amount v_bet,
                       b_updated_at := now E, b_version := b_version r + 1\<rparr>) d) (\<lambda>d1.
         let v_balance_after = map_option (\<lambda>b. b + bt_bet_amount v_bet) v_balance_before
         in bindE (if 0 < bt_commission v_bet then credit_treasury E (- bt_commission v_bet) d1
                   else Inr d1) (\<lambda>d2.
            bindE (if 0 < bt_rake v_bet then credit_rake E (bt_rake_period_id v_bet) (- bt_rake v_bet) d2
                   else Inr d2) (\<lambda>d3.
            let d4 = update_bet p_bet_id
                       (\<lambda>b. b\<lparr>bt_status := Refunded, bt_payout_amount := 0, bt_profit := Some 0,
                             bt_outcome := Some (JObj [(''reason'', jopt JStr p_reason)]),
                             bt_resolved_at := Some (now E)\<rparr>) d3
            in bindE (audit_log_insert_with_chain E
                 \<lparr>aa_actor_type = ''system'', aa_actor_id = bt_discord_id v_bet,
                  aa_target_id = bt_discord_id v_bet,
                  aa_action = ''bet_refunded'', aa_amount = Some (bt_bet_amount v_bet),
                  aa_balance_before = v_balance_before, aa_balance_after = v_balance_after,
                  aa_reason = Some (''Bet refunded: '' @ bt_bet_uid v_bet @ '' reason='' @ coalesce p_reason ''''),
                  aa_ref_type = ''luck_bet'', aa_ref_id = Some (show_int p_bet_id), aa_bot_name = ''luck'',
                  aa_metadata = JObj [(''game_name'', JStr (bt_game_name v_bet)),
                     (''bet_uid'', JStr (bt_bet_uid v_bet)), (''reason'', jopt JStr p_reason)]\<rparr> d4)
               (\<lambda>(_, d5). Inr ((), d5)))))))"

text \<open>\<^verbatim>\<open>FLOOR(stake * multiplier)\<close> and the text of a \<^verbatim>\<open>NUMERIC\<close>.\<close>

fun numeric_floor_mult :: "int \<Rightarrow> numeric \<Rightarrow> int" where
  "numeric_floor_mult a (Numeric u s) = (a * u) div 10 ^ s"

fun numeric_positive :: "numeric \<Rightarrow> bool" where
  "numeric_positive (Numeric u s) = (0 < u)"

fun numeric_text :: "numeric \<Rightarrow> string" where
  "numeric_text (Numeric u s) =
     (let m = nat \<bar>u\<bar>; frac = show_nat (m mod 10 ^ s)
      in (if u < 0 then ''-'' else '''') @ show_nat (m div 10 ^ s)
         @ (if s = 0 then '''' else ''.'' @ replicate (s - length frac) CHR ''0'' @ frac))"

definition cashout_mines :: "pg_env \<Rightarrow> int \<Rightarrow> numeric \<Rightarrow> db \<Rightarrow> pg_error + unit \<times> db" where
  "cashout_mines E p_bet_id p_multiplier d =
     raise_if (\<not> numeric_positive p_multiplier) (Raised_luck (Invalid_multiplier p_multiplier))
     (bindE (require (Raised_luck (Bet_not_found p_bet_id)) (select_bet p_bet_id d)) (\<lambda>v_bet.
      raise_if (bt_game_name v_bet \<noteq> ''mines'') (Raised_luck (Not_mines_bet (bt_game_name v_bet)))
      (raise_if (bt_status v_bet \<noteq> Bet_open)
        (Raised_luck (Bet_already_terminal p_bet_id (bt_status v_bet) None))
      (bindE (chk8 (numeric_floor_mult (bt_effective_stake v_bet) p_multiplier)) (\<lambda>v_payout.
       resolve_bet E p_bet_id ''resolved_win'' v_payout
         (Some (JObj [(''cashout'', JBool True), (''multiplier'', JStr (numeric_text p_multiplier))])) d)))))"

end
