(* ===== verification/Errors.thy ===== *)
theory Errors
  imports Bets "HOL-Library.Sublist"
begin

text \<open>
  The boundary between the database and Python (\<^verbatim>\<open>deathroll_core/balance/exceptions.py\<close>): the
  text of every \<^verbatim>\<open>RAISE EXCEPTION\<close>, and the translation of that text into a typed exception by
  searching for sentinel words. The theorem at the end says that the search finds the intended
  class for every error the stored functions raise.
\<close>

section \<open>Messages\<close>

fun raised_text :: "raised \<Rightarrow> string" where
  "raised_text Audit_chain_key_not_configured =
     ''audit chain key not configured (set app.audit_chain_key on the database)''"
| "raised_text Audit_chain_key_not_configured_verify = ''audit chain key not configured''"
| "raised_text Audit_chain_key_empty = ''audit chain key is empty''"
| "raised_text Audit_log_append_only =
     ''audit_log is append-only '' @ [CHR 0xE2, CHR 0x80, CHR 0x94] @ '' UPDATE/DELETE forbidden''"
| "raised_text (Ticket_status_locked tbl old new) =
     ''cannot transition '' @ tbl @ '' from terminal status '' @ ticket_status_text old @ '' to '' @ ticket_status_text new"
| "raised_text Config_missing_deposit = ''global_config missing required deposit keys''"
| "raised_text Config_missing_withdraw = ''global_config missing required withdraw keys''"
| "raised_text (Amount_out_of_range n lo hi) =
     ''amount_out_of_range (got '' @ show_int n @ '', expected '' @ show_int lo @ '' to '' @ show_int hi @ '')''"
| "raised_text (Invalid_region s) = ''invalid_region ('' @ s @ '')''"
| "raised_text (Invalid_faction s) = ''invalid_faction ('' @ s @ '')''"
| "raised_text Invalid_region_char = ''invalid_region''"
| "raised_text Invalid_faction_char = ''invalid_faction''"
| "raised_text Ticket_not_found = ''ticket_not_found''"
| "raised_text (Ticket_not_claimed st) = ''ticket_not_claimed (status='' @ ticket_status_text st @ '')''"
| "raised_text (Wrong_cashier a b) =
     ''wrong_cashier (claimed_by='' @ show_int a @ '' calling='' @ show_int b @ '')''"
| "raised_text (Ticket_already_terminal st) = ''ticket_already_terminal (status='' @ ticket_status_text st @ '')''"
| "raised_text User_not_registered = ''user_not_registered''"
| "raised_text User_banned = ''user_banned''"
| "raised_text (Insufficient_balance a b) =
     ''insufficient_balance (have '' @ show_int a @ '', need '' @ show_int b @ '')''"
| "raised_text (Locked_too_low a b) =
     ''invariant_violation_locked_too_low (locked='' @ show_int a @ '', ticket_amount='' @ show_int b @ '')''"
| "raised_text Invalid_ticket_type = ''invalid_ticket_type''"
| "raised_text (Already_claimed st) = ''already_claimed (status='' @ ticket_status_text st @ '')''"
| "raised_text (Region_mismatch c s) =
     ''region_mismatch (cashier '' @ show_int c @ '' has no active char in region '' @ s @ '')''"
| "raised_text Character_not_found = ''character_not_found_or_already_removed''"
| "raised_text (Invalid_status s) = ''invalid_status ('' @ s @ '')''"
| "raised_text Cashier_not_online = ''cashier_not_online''"
| "raised_text Invalid_opener_role = ''invalid_opener_role''"
| "raised_text Dispute_not_found = ''dispute_not_found''"
| "raised_text (Dispute_already_terminal st) = ''dispute_already_terminal ('' @ dispute_status_text st @ '')''"
| "raised_text (Invalid_action s) = ''invalid_action ('' @ s @ '')''"
| "raised_text Partial_refund_amount = ''partial_refund_requires_positive_amount''"
| "raised_text Refund_full_only_withdraw = ''refund_full_only_for_withdraw_disputes''"
| "raised_text Amount_must_be_positive = ''amount_must_be_positive''"
| "raised_text Treasury_row_missing = ''treasury_row_missing''"
| "raised_text (Insufficient_treasury_sweep a b) =
     ''insufficient_treasury (have '' @ show_int a @ '', sweeping '' @ show_int b @ '')''"
| "raised_text (Insufficient_treasury_send a b) =
     ''insufficient_treasury (have '' @ show_int a @ '', sending '' @ show_int b @ '')''"
| "raised_text Withdraw_to_treasury_self = ''cannot_withdraw_to_treasury_self''"
| "raised_text Cannot_ban_treasury = ''cannot_ban_treasury''"

section \<open>Exception classes\<close>

datatype (plugins only: code size) balance_error =
    BalanceError | InsufficientBalance | InsufficientTreasury | UserNotRegistered | UserBanned
  | TicketNotFound | TicketAlreadyClaimed | TicketNotClaimed | TicketAlreadyTerminal | WrongCashier
  | RegionMismatch | AmountOutOfRange | InvalidRegion | InvalidFaction | InvalidStatus
  | InvalidTicketType | GlobalConfigMissing | InvariantViolation
  | CharacterNotFoundOrAlreadyRemoved | DuplicateIdempotency | CannotBanTreasury
  | CannotWithdrawToTreasurySelf | TreasuryRowMissing | AmountMustBePositive
  | PartialRefundRequiresPositiveAmount | RefundFullOnlyForWithdrawDisputes | DisputeNotFound
  | DisputeAlreadyTerminal | InvalidAction | InvalidOpenerRole | CashierNotOnline

definition error_table :: "(string \<times> balance_error) list" where
  "error_table =
    [(''invariant_violation_locked_too_low'', InvariantViolation),
     (''partial_refund_requires_positive_amount'', PartialRefundRequiresPositiveAmount),
     (''refund_full_only_for_withdraw_disputes'', RefundFullOnlyForWithdrawDisputes),
     (''character_not_found_or_already_removed'', CharacterNotFoundOrAlreadyRemoved),
     (''cannot_withdraw_to_treasury_self'', CannotWithdrawToTreasurySelf),
     (''amount_must_be_positive'', AmountMustBePositive),
     (''ticket_already_terminal'', TicketAlreadyTerminal),
     (''dispute_already_terminal'', DisputeAlreadyTerminal),
     (''ticket_not_claimed'', TicketNotClaimed),
     (''ticket_not_found'', TicketNotFound),
     (''dispute_not_found'', DisputeNotFound),
     (''treasury_row_missing'', TreasuryRowMissing),
     (''user_not_registered'', UserNotRegistered),
     (''invalid_ticket_type'', InvalidTicketType),
     (''invalid_opener_role'', InvalidOpenerRole),
     (''amount_out_of_range'', AmountOutOfRange),
     (''global_config missing'', GlobalConfigMissing),
     (''insufficient_treasury'', InsufficientTreasury),
     (''insufficient_balance'', InsufficientBalance),
     (''cannot_ban_treasury'', CannotBanTreasury),
     (''region_mismatch'', RegionMismatch),
     (''already_claimed'', TicketAlreadyClaimed),
     (''invalid_faction'', InvalidFaction),
     (''invalid_region'', InvalidRegion),
     (''invalid_status'', InvalidStatus),
     (''invalid_action'', InvalidAction),
     (''wrong_cashier'', WrongCashier),
     (''user_banned'', UserBanned),
     (''cashier_not_online'', CashierNotOnline)]"

text \<open>\<^verbatim>\<open>str.lower()\<close> on the bytes of an ASCII text (a byte of a longer sequence stays), and
  \<^verbatim>\<open>k in s\<close>.\<close>

definition lower_char :: "char \<Rightarrow> char" where
  "lower_char c = (let n = of_char c :: nat in if 65 \<le> n \<and> n \<le> 90 then char_of (n + 32) else c)"

definition lower :: "string \<Rightarrow> string" where
  "lower s = map lower_char s"

fun contains :: "string \<Rightarrow> string \<Rightarrow> bool" where
  "contains k [] = (k = [])"
| "contains k (c # cs) = (take (length k) (c # cs) = k \<or> contains k cs)"

definition translate_pg_error :: "string \<Rightarrow> balance_error \<times> string" where
  "translate_pg_error message =
     (case find (\<lambda>(sentinel, cls). contains sentinel (lower message)) error_table of
        Some (sentinel, cls) \<Rightarrow> (cls, message)
      | None \<Rightarrow> (BalanceError, message))"

text \<open>The class each error is meant to become.\<close>

fun error_class :: "raised \<Rightarrow> balance_error" where
  "error_class Config_missing_deposit = GlobalConfigMissing"
| "error_class Config_missing_withdraw = GlobalConfigMissing"
| "error_class (Amount_out_of_range n lo hi) = AmountOutOfRange"
| "error_class (Invalid_region s) = InvalidRegion"
| "error_class (Invalid_faction s) = InvalidFaction"
| "error_class Invalid_region_char = InvalidRegion"
| "error_class Invalid_faction_char = InvalidFaction"
| "error_class Ticket_not_found = TicketNotFound"
| "error_class (Ticket_not_claimed st) = TicketNotClaimed"
| "error_class (Wrong_cashier a b) = WrongCashier"
| "error_class (Ticket_already_terminal st) = TicketAlreadyTerminal"
| "error_class User_not_registered = UserNotRegistered"
| "error_class User_banned = UserBanned"
| "error_class (Insufficient_balance a b) = InsufficientBalance"
| "error_class (Locked_too_low a b) = InvariantViolation"
| "error_class Invalid_ticket_type = InvalidTicketType"
| "error_class (Already_claimed st) = TicketAlreadyClaimed"
| "error_class (Region_mismatch c s) = RegionMismatch"
| "error_class Character_not_found = CharacterNotFoundOrAlreadyRemoved"
| "error_class (Invalid_status s) = InvalidStatus"
| "error_class Cashier_not_online = CashierNotOnline"
| "error_class Invalid_opener_role = InvalidOpenerRole"
| "error_class Dispute_not_found = DisputeNotFound"
| "error_class (Dispute_already_terminal st) = DisputeAlreadyTerminal"
| "error_class (Invalid_action s) = InvalidAction"
| "error_class Partial_refund_amount = PartialRefundRequiresPositiveAmount"
| "error_class Refund_full_only_withdraw = RefundFullOnlyForWithdrawDisputes"
| "error_class Amount_must_be_positive = AmountMustBePositive"
| "error_class Treasury_row_missing = TreasuryRowMissing"
| "error_class (Insufficient_treasury_sweep a b) = InsufficientTreasury"
| "error_class (Insufficient_treasury_send a b) = InsufficientTreasury"
| "error_class Withdraw_to_treasury_self = CannotWithdrawToTreasurySelf"
| "error_class Cannot_ban_treasury = CannotBanTreasury"
| "error_class _ = BalanceError"

text \<open>The texts that come from the caller hold no sentinel; the region of a ticket and the name of
  a table are what the schema allows.\<close>

definition sentinel_free :: "string \<Rightarrow> bool" where
  "sentinel_free s \<longleftrightarrow> list_all (\<lambda>(k, _). \<not> contains k (lower s)) error_table"

fun plain_args :: "raised \<Rightarrow> bool" where
  "plain_args (Invalid_region s) = sentinel_free s"
| "plain_args (Invalid_faction s) = sentinel_free s"
| "plain_args (Invalid_status s) = sentinel_free s"
| "plain_args (Invalid_action s) = sentinel_free s"
| "plain_args (Region_mismatch c s) = valid_region s"
| "plain_args (Ticket_status_locked tbl old new) = (tbl \<in> {''deposit_tickets'', ''withdraw_tickets''})"
| "plain_args _ = True"

section \<open>Searching a message\<close>

text \<open>The letters of the sentinels; everything else breaks a match.\<close>

definition sentinel_char :: "char \<Rightarrow> bool" where
  "sentinel_char c = (let n = of_char c :: nat in (97 \<le> n \<and> n \<le> 122) \<or> n = 95 \<or> n = 32)"

lemma contains_iff: "contains k s \<longleftrightarrow> (\<exists>xs ys. s = xs @ k @ ys)"
proof (induction s)
  case Nil
  then show ?case by auto
next
  case (Cons c s)
  have "take (length k) (c # s) = k \<longleftrightarrow> (\<exists>ys. c # s = k @ ys)"
    by (metis append_eq_conv_conj append_take_drop_id)
  moreover have "(\<exists>xs ys. c # s = xs @ k @ ys) \<longleftrightarrow> (\<exists>ys. c # s = k @ ys) \<or> (\<exists>xs ys. s = xs @ k @ ys)"
    by (metis append_Cons append_Nil list.exhaust list.inject)
  ultimately show ?case using Cons by auto
qed

lemma contains_break_one:
  assumes "k \<noteq> []" and "\<forall>c \<in> set k. sentinel_char c" and "\<not> sentinel_char b"
  shows "contains k (xs @ b # ys) \<longleftrightarrow> contains k xs \<or> contains k ys"
proof
  assume "contains k (xs @ b # ys)"
  then obtain us vs where eq: "xs @ b # ys = us @ k @ vs" by (auto simp: contains_iff)
  then consider zs where "us = xs @ b # zs" "ys = zs @ k @ vs"
    | zs where "xs = us @ zs" "zs @ b # ys = k @ vs"
    using assms(1) by (auto simp: append_eq_append_conv2 Cons_eq_append_conv)
  then show "contains k xs \<or> contains k ys"
  proof cases
    case 1
    then show ?thesis by (auto simp: contains_iff)
  next
    case 2
    then consider ws where "zs = k @ ws" | ws where "k = zs @ b # ws"
      using append_eq_append_conv2 [of zs "b # ys" k vs] by (auto simp: Cons_eq_append_conv)
    then show ?thesis
    proof cases
      case 1
      with 2 show ?thesis by (auto simp: contains_iff)
    next
      case 2
      with assms(2,3) show ?thesis by auto
    qed
  qed
next
  assume "contains k xs \<or> contains k ys"
  then show "contains k (xs @ b # ys)"
    unfolding contains_iff by (metis append.assoc append_Cons)
qed

lemma contains_break:
  assumes "k \<noteq> []" and "\<forall>c \<in> set k. sentinel_char c" and "bs \<noteq> []" and "\<forall>b \<in> set bs. \<not> sentinel_char b"
  shows "contains k (xs @ bs @ ys) \<longleftrightarrow> contains k xs \<or> contains k ys"
  using assms(3,4)
proof (induction bs arbitrary: xs)
  case (Cons b bs)
  show ?case
  proof (cases "bs = []")
    case True
    with Cons.prems contains_break_one [OF assms(1,2)] show ?thesis by simp
  next
    case False
    have "contains k (xs @ (b # bs) @ ys) \<longleftrightarrow> contains k xs \<or> contains k (bs @ ys)"
      using contains_break_one [OF assms(1,2), of b xs "bs @ ys"] Cons.prems by simp
    also have "contains k (bs @ ys) \<longleftrightarrow> contains k ys"
      using Cons.IH [of "[]"] Cons.prems False assms(1) by simp
    finally show ?thesis .
  qed
qed simp

text \<open>The test at one position can stop at the first mismatch.\<close>

lemma contains_code [code]:
  "contains k [] = (k = [])"
  "contains k (c # cs) = (prefix k (c # cs) \<or> contains k cs)"
proof -
  have "take (length k) (c # cs) = k \<longleftrightarrow> prefix k (c # cs)"
    by (metis append_eq_conv_conj prefix_def append_take_drop_id)
  then show "contains k (c # cs) = (prefix k (c # cs) \<or> contains k cs)" by simp
qed simp

text \<open>Lower case on the bits of a character.\<close>

lemma lower_char_code [code]:
  "lower_char (Char b0 b1 b2 b3 b4 b5 b6 b7) =
     Char b0 b1 b2 b3 b4
       (b5 \<or> (\<not> b7 \<and> b6 \<and> (b0 \<or> b1 \<or> b2 \<or> b3 \<or> b4) \<and> \<not> (b4 \<and> b3 \<and> (b2 \<or> (b1 \<and> b0))))) b6 b7"
  unfolding lower_char_def of_char_Char
  by (cases b0; cases b1; cases b2; cases b3; cases b4; cases b5; cases b6; cases b7) (simp_all add: char_of_def bit_simps)

text \<open>The search over a message cut into pieces.\<close>

definition search :: "string list \<Rightarrow> balance_error" where
  "search ms =
     (case find (\<lambda>(k, _). list_ex (contains k) ms) error_table of Some (_, cls) \<Rightarrow> cls | None \<Rightarrow> BalanceError)"

lemma table_sentinels: "list_all (\<lambda>(k, _). k \<noteq> [] \<and> list_all sentinel_char k) error_table"
  by code_simp

lemma search_cong:
  assumes "\<And>k. k \<noteq> [] \<Longrightarrow> \<forall>c \<in> set k. sentinel_char c \<Longrightarrow> list_ex (contains k) ms = list_ex (contains k) ms'"
  shows "search ms = search ms'"
proof -
  have "find (\<lambda>(k, _). list_ex (contains k) ms) t = find (\<lambda>(k, _). list_ex (contains k) ms') t"
    if "list_all (\<lambda>(k, _). k \<noteq> [] \<and> list_all sentinel_char k) t" for t :: "(string \<times> balance_error) list"
    using that by (induction t) (auto simp: list_all_iff assms)
  then show ?thesis using table_sentinels by (simp add: search_def)
qed

lemma search_break:
  assumes "bs \<noteq> []" and "\<forall>b \<in> set bs. \<not> sentinel_char b"
  shows "search ((xs @ bs @ ys) # ms) = search (xs # ys # ms)"
  by (rule search_cong) (simp add: contains_break [OF _ _ assms])

lemma translate_search: "translate_pg_error m = (search [lower m], m)"
  by (simp add: translate_pg_error_def search_def case_prod_unfold split: option.splits)

lemma lower_append: "lower (xs @ ys) = lower xs @ lower ys"
  by (simp add: lower_def)

lemma digits_break:
  "show_int n \<noteq> []" "\<forall>c \<in> set (show_int n). \<not> sentinel_char c" "lower (show_int n) = show_int n"
proof -
  have digit: "48 \<le> (of_char c :: nat) \<and> (of_char c :: nat) \<le> 57 \<or> c = CHR ''-''" if "c \<in> set (show_int n)" for c
    using that set_show_nat by (auto simp: show_int_def split: if_splits)
  show "show_int n \<noteq> []" by (simp add: show_int_def show_nat_nonempty)
  show "\<forall>c \<in> set (show_int n). \<not> sentinel_char c"
    using digit by (fastforce simp: sentinel_char_def Let_def)
  show "lower (show_int n) = show_int n"
    unfolding lower_def by (rule map_idI) (use digit in \<open>fastforce simp: lower_char_def Let_def\<close>)
qed

lemma search_digits: "search ((xs @ show_int n @ ys) # ms) = search (xs # ys # ms)"
  by (rule search_break [OF digits_break(1,2)])

text \<open>A piece without sentinel can be dropped.\<close>

lemma search_drop:
  assumes "sentinel_free s"
  shows "search (xs # lower s # ms) = search (xs # ms)"
proof -
  have "find (\<lambda>(k, _). list_ex (contains k) (xs # lower s # ms)) t = find (\<lambda>(k, _). list_ex (contains k) (xs # ms)) t"
    if "list_all (\<lambda>(k, _). \<not> contains k (lower s)) t" for t :: "(string \<times> balance_error) list"
    using that by (induction t) auto
  then show ?thesis using assms by (simp add: search_def sentinel_free_def)
qed

section \<open>The translation\<close>

text \<open>The parts of a text with an argument of finite type are constants.\<close>

lemma search_status_all:
  "list_all (\<lambda>st.
     search [lower (''ticket_not_claimed (status='' @ ticket_status_text st @ '')'')] = TicketNotClaimed
     \<and> search [lower (''ticket_already_terminal (status='' @ ticket_status_text st @ '')'')] = TicketAlreadyTerminal
     \<and> search [lower (''already_claimed (status='' @ ticket_status_text st @ '')'')] = TicketAlreadyClaimed)
   [Open, Claimed, Confirmed, Cancelled, Expired, Disputed]"
  by code_simp

lemma all_status: "list_all P [Open, Claimed, Confirmed, Cancelled, Expired, Disputed] \<Longrightarrow> P st"
  by (cases st) simp_all

lemmas search_status = all_status [OF search_status_all]

lemma search_dispute_status_all:
  "list_all (\<lambda>st. search [lower (''dispute_already_terminal ('' @ dispute_status_text st @ '')'')] = DisputeAlreadyTerminal)
   [DOpen, DInvestigating, DResolved, DRejected]"
  by code_simp

lemma all_dispute_status: "list_all P [DOpen, DInvestigating, DResolved, DRejected] \<Longrightarrow> P st"
  by (cases st) simp_all

lemmas search_dispute_status = all_dispute_status [OF search_dispute_status_all]

lemma contains_underscore:
  assumes "contains k (xs @ CHR ''_'' # ys)" and "CHR ''_'' \<in> set k" and "CHR ''_'' \<notin> set xs" and "CHR ''_'' \<notin> set ys"
  shows "suffix (takeWhile (\<lambda>c. c \<noteq> CHR ''_'') k) xs"
proof -
  let ?u = "takeWhile (\<lambda>c. c \<noteq> CHR ''_'') k"
  have "dropWhile (\<lambda>c. c \<noteq> CHR ''_'') k \<noteq> []" using assms(2) by (auto simp: dropWhile_eq_Nil_conv)
  then obtain a v where d: "dropWhile (\<lambda>c. c \<noteq> CHR ''_'') k = a # v" by (meson list.exhaust)
  then have "a = CHR ''_''" by (simp add: dropWhile_eq_Cons_conv)
  with d have k: "k = ?u @ CHR ''_'' # v" using takeWhile_dropWhile_id [of "\<lambda>c. c \<noteq> CHR ''_''" k] by simp
  obtain us vs where "xs @ CHR ''_'' # ys = us @ k @ vs"
    using assms(1) by (auto simp: contains_iff)
  also have "\<dots> = (us @ ?u) @ CHR ''_'' # (v @ vs)" by (subst k) simp
  finally have "us @ ?u = xs"
    using assms(3,4) append_Cons_eq_iff [of "CHR ''_''" xs ys "us @ ?u" "v @ vs"] by simp
  then show ?thesis by (auto simp: suffix_def)
qed

lemma search_one_underscore:
  assumes "list_all (\<lambda>(k, _). CHR ''_'' \<in> set k \<and> \<not> suffix (takeWhile (\<lambda>c. c \<noteq> CHR ''_'') k) xs) error_table"
    and "CHR ''_'' \<notin> set xs" and "CHR ''_'' \<notin> set ys"
  shows "search [xs @ CHR ''_'' # ys] = BalanceError"
proof -
  have "find (\<lambda>(k, _). contains k (xs @ CHR ''_'' # ys)) t = None"
    if "list_all (\<lambda>(k, _). CHR ''_'' \<in> set k \<and> \<not> suffix (takeWhile (\<lambda>c. c \<noteq> CHR ''_'') k) xs) t"
    for t :: "(string \<times> balance_error) list"
    using that contains_underscore assms(2,3) by (induction t) auto
  then show ?thesis using assms(1) by (simp add: search_def)
qed

lemma status_no_underscore: "CHR ''_'' \<notin> set (lower (ticket_status_text st))"
  by (cases st) (simp_all add: lower_def lower_char_def Let_def)

lemma search_locked:
  assumes "tbl \<in> {''deposit_tickets'', ''withdraw_tickets''}"
  shows "search [lower (''cannot transition '' @ tbl @ '' from terminal status '' @ ticket_status_text old @ '' to ''
    @ ticket_status_text new)] = BalanceError"
proof -
  have "tbl = ''deposit'' @ CHR ''_'' # ''tickets'' \<or> tbl = ''withdraw'' @ CHR ''_'' # ''tickets''"
    using assms by simp
  then obtain w where w: "w \<in> {''deposit'', ''withdraw''}" and tbl: "tbl = w @ CHR ''_'' # ''tickets''"
    by (metis insertI1 insertI2)
  let ?ys = "lower (''tickets from terminal status '' @ ticket_status_text old @ '' to '' @ ticket_status_text new)"
  have l: "lower (''cannot transition '' @ w) = ''cannot transition '' @ w" "lower ''_'' = ''_''"
    using w by (auto simp: lower_def lower_char_def Let_def)
  have "lower (''cannot transition '' @ tbl @ '' from terminal status '' @ ticket_status_text old @ '' to ''
    @ ticket_status_text new) = (''cannot transition '' @ w) @ ''_'' @ ?ys"
    unfolding tbl using l by (simp only: lower_append append.assoc append_Cons append_Nil flip: append_Cons)
      (simp add: lower_def lower_char_def Let_def)
  moreover have "CHR ''_'' \<notin> set ?ys"
    using status_no_underscore [of old] status_no_underscore [of new]
    by (simp add: lower_append) (simp add: lower_def lower_char_def Let_def)
  moreover have "list_all (\<lambda>(k, _). CHR ''_'' \<in> set k \<and> \<not> suffix (takeWhile (\<lambda>c. c \<noteq> CHR ''_'') k) (''cannot transition '' @ w)) error_table"
    "CHR ''_'' \<notin> set (''cannot transition '' @ w)"
    using w by (auto simp: error_table_def suffix_def)
  ultimately show ?thesis using search_one_underscore [of "''cannot transition '' @ w" ?ys] by simp
qed

text \<open>A text with numbers in it, and a text around caller input in brackets.\<close>

lemma search_numbers:
  "search [lower (p @ show_int a @ q)] = search [lower p, lower q]"
  "search [lower (p @ show_int a @ q @ show_int b @ r)] = search [lower p, lower q, lower r]"
  "search [lower (p @ show_int a @ q @ show_int b @ r @ show_int c @ t)] = search [lower p, lower q, lower r, lower t]"
proof -
  have swap: "search (xs # ys # ms) = search (ys # xs # ms)" for xs ys ms by (rule search_cong) auto
  have one: "search (lower (p @ show_int a @ q) # ms) = search (lower q # lower p # ms)" for p q a ms
    by (simp only: lower_append digits_break(3) search_digits swap [of "lower q"])
  show "search [lower (p @ show_int a @ q)] = search [lower p, lower q]"
    by (simp only: one swap [of "lower q"])
  have two: "search (lower (p @ show_int a @ q @ show_int b @ r) # ms) = search (lower r # lower q # lower p # ms)" for p q r a b ms
    by (simp only: one)
  show "search [lower (p @ show_int a @ q @ show_int b @ r)] = search [lower p, lower q, lower r]"
    unfolding two by (rule search_cong) auto
  show "search [lower (p @ show_int a @ q @ show_int b @ r @ show_int c @ t)] = search [lower p, lower q, lower r, lower t]"
    unfolding one by (rule search_cong) auto
qed

lemma search_bracketed:
  assumes "sentinel_free s"
  shows "search [lower (p @ ''('' @ s @ '')'')] = search [lower p]"
proof -
  have lp: "lower ''('' = ''(''" "lower '')'' = '')''" by code_simp+
  have b: "\<forall>b \<in> set ''(''. \<not> sentinel_char b" "\<forall>b \<in> set '')''. \<not> sentinel_char b" by code_simp+
  have "search [lower (p @ ''('' @ s @ '')'')] = search [lower p @ ''('' @ (lower s @ '')'')]"
    by (simp only: lower_append lp)
  also have "\<dots> = search (lower p # [lower s @ '')''])" by (rule search_break) (simp, rule b)
  also have "\<dots> = search ((lower s @ '')'' @ []) # [lower p])"
    by (rule search_cong) auto
  also have "\<dots> = search (lower s # [] # [lower p])" by (rule search_break) (simp, rule b)
  also have "\<dots> = search (lower p # lower s # [])" by (rule search_cong) auto
  also have "\<dots> = search [lower p]" by (rule search_drop [OF assms])
  finally show ?thesis .
qed

text \<open>The remaining messages, one by one.\<close>

lemma search_amounts:
  "search [lower (''amount_out_of_range (got '' @ show_int n @ '', expected '' @ show_int lo @ '' to '' @ show_int hi @ '')'')] = AmountOutOfRange"
  "search [lower (''wrong_cashier (claimed_by='' @ show_int a @ '' calling='' @ show_int b @ '')'')] = WrongCashier"
  "search [lower (''insufficient_balance (have '' @ show_int a @ '', need '' @ show_int b @ '')'')] = InsufficientBalance"
  "search [lower (''invariant_violation_locked_too_low (locked='' @ show_int a @ '', ticket_amount='' @ show_int b @ '')'')] = InvariantViolation"
  "search [lower (''insufficient_treasury (have '' @ show_int a @ '', sweeping '' @ show_int b @ '')'')] = InsufficientTreasury"
  "search [lower (''insufficient_treasury (have '' @ show_int a @ '', sending '' @ show_int b @ '')'')] = InsufficientTreasury"
  by (subst search_numbers(3), code_simp) (subst search_numbers(2), code_simp)+

lemma search_region:
  "valid_region s \<Longrightarrow>
   search [lower (''region_mismatch (cashier '' @ show_int c @ '' has no active char in region '' @ s @ '')'')] = RegionMismatch"
  unfolding valid_region_def by (elim insertE emptyE; hypsubst; subst search_numbers(1); code_simp)

lemma search_constant:
  "search [lower (''audit chain key not configured (set app.audit_chain_key on the database)'')] = BalanceError"
    "search [lower (''audit chain key not configured'')] = BalanceError"
    "search [lower (''audit chain key is empty'')] = BalanceError"
    "search [lower (''audit_log is append-only '' @ [CHR 0xE2, CHR 0x80, CHR 0x94] @ '' UPDATE/DELETE forbidden'')] = BalanceError"
    "search [lower (''global_config missing required deposit keys'')] = GlobalConfigMissing"
    "search [lower (''global_config missing required withdraw keys'')] = GlobalConfigMissing"
    "search [lower (''invalid_region'')] = InvalidRegion"
    "search [lower (''invalid_faction'')] = InvalidFaction"
    "search [lower (''ticket_not_found'')] = TicketNotFound"
    "search [lower (''user_not_registered'')] = UserNotRegistered"
    "search [lower (''user_banned'')] = UserBanned"
    "search [lower (''invalid_ticket_type'')] = InvalidTicketType"
    "search [lower (''character_not_found_or_already_removed'')] = CharacterNotFoundOrAlreadyRemoved"
    "search [lower (''cashier_not_online'')] = CashierNotOnline"
    "search [lower (''invalid_opener_role'')] = InvalidOpenerRole"
    "search [lower (''dispute_not_found'')] = DisputeNotFound"
    "search [lower (''partial_refund_requires_positive_amount'')] = PartialRefundRequiresPositiveAmount"
    "search [lower (''refund_full_only_for_withdraw_disputes'')] = RefundFullOnlyForWithdrawDisputes"
    "search [lower (''amount_must_be_positive'')] = AmountMustBePositive"
    "search [lower (''treasury_row_missing'')] = TreasuryRowMissing"
    "search [lower (''cannot_withdraw_to_treasury_self'')] = CannotWithdrawToTreasurySelf"
    "search [lower (''cannot_ban_treasury'')] = CannotBanTreasury"
  by code_simp+

lemma translate_raised:
  assumes "plain_args r"
  shows "translate_pg_error (raised_text r) = (error_class r, raised_text r)"
proof -
  have plain: "search [lower ''invalid_region ''] = InvalidRegion" "search [lower ''invalid_faction ''] = InvalidFaction"
    "search [lower ''invalid_status ''] = InvalidStatus" "search [lower ''invalid_action ''] = InvalidAction"
    by code_simp+
  have br: "search [lower (''invalid_region ('' @ s @ '')'')] = InvalidRegion"
    "search [lower (''invalid_faction ('' @ s @ '')'')] = InvalidFaction"
    "search [lower (''invalid_status ('' @ s @ '')'')] = InvalidStatus"
    "search [lower (''invalid_action ('' @ s @ '')'')] = InvalidAction" if "sentinel_free s" for s
    using search_bracketed [OF that, of "''invalid_region ''"] search_bracketed [OF that, of "''invalid_faction ''"]
      search_bracketed [OF that, of "''invalid_status ''"] search_bracketed [OF that, of "''invalid_action ''"]
    by (simp_all add: plain)
  show ?thesis
    using assms
    by (cases r) (simp_all only: translate_search raised_text.simps error_class.simps plain_args.simps prod.inject
        search_constant search_amounts search_region br search_status search_dispute_status search_locked simp_thms)
qed

text \<open>The typed exception a caller sees is the one meant for the error raised in the database,
  with the full database text kept as the detail. The search by sentinel words never confuses two
  errors, whatever numbers, statuses and regions the text carries and whatever names the caller
  passed in, as long as those names hold no sentinel themselves. Errors about the log and about
  final tickets, for which there is no class of their own, become the base class.\<close>

theorem translation_faithful:
  assumes "plain_args r"
  shows "translate_pg_error (raised_text r) = (error_class r, raised_text r)"
  using assms by (rule translate_raised)

end
