(* ===== verification/Cashiers.thy ===== *)
theory Cashiers
  imports Audit_Log
begin

text \<open>
  Cashier management: characters and the online status with its sessions
  (\<^verbatim>\<open>dw.add_cashier_character\<close>, \<^verbatim>\<open>dw.remove_cashier_character\<close>,
  \<^verbatim>\<open>dw.set_cashier_status\<close> of migration 0009) and the auto-offline
  \<^verbatim>\<open>dw.expire_cashier\<close> (0016).
\<close>

section \<open>Definitions\<close>

text \<open>\<^verbatim>\<open>EXTRACT(EPOCH FROM interval)::BIGINT\<close>: seconds, rounded to the nearest, halves
  away from zero.\<close>

definition epoch_seconds :: "int \<Rightarrow> int" where
  "epoch_seconds us =
     (if 0 \<le> us then (us + 500000) div 1000000 else - ((- us + 500000) div 1000000))"

definition char_key :: "character_row \<Rightarrow> int \<times> string \<times> string \<times> string" where
  "char_key c = (cc_discord_id c, cc_char_name c, cc_realm c, cc_region c)"

text \<open>The upsert takes a new id from the sequence also when the key exists.\<close>

definition upsert_character ::
    "pg_env \<Rightarrow> int \<Rightarrow> string \<Rightarrow> string \<Rightarrow> string \<Rightarrow> string \<Rightarrow> db \<Rightarrow> int \<times> db" where
  "upsert_character E uid chr realm region faction d =
     (let new_id = cashier_characters_id_seq d + 1;
          d1 = d\<lparr>cashier_characters_id_seq := new_id\<rparr>;
          k = (uid, chr, realm, region)
      in case sel_key char_key k (cashier_characters d1) of
           Some c \<Rightarrow> (cc_id c, d1\<lparr>cashier_characters :=
             upd_key char_key k (\<lambda>c. c\<lparr>cc_is_active := True, cc_removed_at := None\<rparr>) (cashier_characters d1)\<rparr>)
         | None \<Rightarrow> (new_id, d1\<lparr>cashier_characters := cashier_characters d1 @
             [\<lparr>cc_id = new_id, cc_discord_id = uid, cc_char_name = chr, cc_realm = realm,
               cc_region = region, cc_faction = faction, cc_is_active = True, cc_added_at = now E,
               cc_removed_at = None\<rparr>]\<rparr>))"

definition add_cashier_character ::
    "pg_env \<Rightarrow> int \<Rightarrow> string \<Rightarrow> string \<Rightarrow> string \<Rightarrow> string \<Rightarrow> db \<Rightarrow> pg_error + int \<times> db" where
  "add_cashier_character E p_discord_id p_char p_realm p_region p_faction d =
     raise_if (\<not> valid_region p_region) (Raised Invalid_region_char)
     (raise_if (\<not> valid_faction p_faction) (Raised Invalid_faction_char)
     (case upsert_character E p_discord_id p_char p_realm p_region p_faction d of (v_id, d1) \<Rightarrow>
        bindE (audit_log_insert_with_chain E
          \<lparr>aa_actor_type = ''cashier'', aa_actor_id = p_discord_id,
           aa_target_id = user_or_treasury p_discord_id d1,
           aa_action = ''cashier_addchar'', aa_amount = None,
           aa_balance_before = Some 0, aa_balance_after = Some 0,
           aa_reason = Some (''Cashier registered char '' @ p_char @ '' on '' @ p_realm @ ''-'' @ p_region
              @ '' ('' @ p_faction @ '')''),
           aa_ref_type = ''cashier_character'', aa_ref_id = Some (show_int v_id), aa_bot_name = ''dw'',
           aa_metadata = JObj [(''char'', JStr p_char), (''realm'', JStr p_realm),
                              (''region'', JStr p_region), (''faction'', JStr p_faction)]\<rparr> d1) (\<lambda>(_, d2).
        Inr (v_id, d2))))"

definition remove_cashier_character ::
    "pg_env \<Rightarrow> int \<Rightarrow> string \<Rightarrow> string \<Rightarrow> string \<Rightarrow> db \<Rightarrow> pg_error + unit \<times> db" where
  "remove_cashier_character E p_discord_id p_char p_realm p_region d =
     (let hit = (\<lambda>c. char_key c = (p_discord_id, p_char, p_realm, p_region) \<and> cc_is_active c);
          d1 = d\<lparr>cashier_characters := map (\<lambda>c. if hit c
                  then c\<lparr>cc_is_active := False, cc_removed_at := Some (now E)\<rparr> else c) (cashier_characters d)\<rparr>;
          v_count = length (filter hit (cashier_characters d))
      in raise_if (v_count = 0) (Raised Character_not_found)
         (bindE (audit_log_insert_with_chain E
           \<lparr>aa_actor_type = ''cashier'', aa_actor_id = p_discord_id,
            aa_target_id = user_or_treasury p_discord_id d1,
            aa_action = ''cashier_removechar'', aa_amount = None,
            aa_balance_before = Some 0, aa_balance_after = Some 0,
            aa_reason = Some (''Cashier removed char '' @ p_char @ '' on '' @ p_realm @ ''-'' @ p_region),
            aa_ref_type = ''cashier_character'', aa_ref_id = None, aa_bot_name = ''dw'',
            aa_metadata = JObj [(''char'', JStr p_char), (''realm'', JStr p_realm),
                               (''region'', JStr p_region)]\<rparr> d1) (\<lambda>(_, d2). Inr ((), d2))))"

text \<open>The status row, inserted or overwritten.\<close>

definition upsert_status :: "pg_env \<Rightarrow> int \<Rightarrow> cashier_state \<Rightarrow> db \<Rightarrow> db" where
  "upsert_status E uid st d =
     (if has_key cs_discord_id uid (cashier_status d)
      then d\<lparr>cashier_status := upd_key cs_discord_id uid
             (\<lambda>r. r\<lparr>cs_status := st, cs_set_at := now E, cs_last_active_at := now E\<rparr>) (cashier_status d)\<rparr>
      else d\<lparr>cashier_status := cashier_status d @
             [\<lparr>cs_discord_id = uid, cs_status = st, cs_set_at = now E, cs_auto_offline_at = None,
               cs_last_active_at = now E\<rparr>]\<rparr>)"

definition open_session :: "pg_env \<Rightarrow> int \<Rightarrow> db \<Rightarrow> db" where
  "open_session E uid d =
     d\<lparr>cashier_sessions_id_seq := cashier_sessions_id_seq d + 1,
       cashier_sessions := cashier_sessions d @
         [\<lparr>ss_id = cashier_sessions_id_seq d + 1, ss_discord_id = uid, ss_started_at = now E,
           ss_ended_at = None, ss_duration_s = None, ss_end_reason = None\<rparr>]\<rparr>"

definition close_sessions :: "pg_env \<Rightarrow> int \<Rightarrow> end_reason \<Rightarrow> db \<Rightarrow> db" where
  "close_sessions E uid why d =
     d\<lparr>cashier_sessions := map (\<lambda>s. if ss_discord_id s = uid \<and> ss_ended_at s = None
          then s\<lparr>ss_ended_at := Some (now E), ss_duration_s := Some (epoch_seconds (now E - ss_started_at s)),
                 ss_end_reason := Some why\<rparr>
          else s) (cashier_sessions d)\<rparr>"

definition set_cashier_status :: "pg_env \<Rightarrow> int \<Rightarrow> string \<Rightarrow> db \<Rightarrow> pg_error + unit \<times> db" where
  "set_cashier_status E p_discord_id p_status d =
     bindE (require (Raised (Invalid_status p_status)) (cashier_state_of_text p_status)) (\<lambda>st.
     let v_old_status = map_option cs_status (sel_key cs_discord_id p_discord_id (cashier_status d));
         d1 = upsert_status E p_discord_id st d;
         d2 = (if st = Online \<and> v_old_status \<noteq> Some Online then open_session E p_discord_id d1
               else if v_old_status = Some Online \<and> st \<noteq> Online
               then close_sessions E p_discord_id
                 (case st of Offline \<Rightarrow> Manual_offline | Break \<Rightarrow> Manual_break | _ \<Rightarrow> Manual_offline) d1
               else d1)
     in bindE (audit_log_insert_with_chain E
          \<lparr>aa_actor_type = ''cashier'', aa_actor_id = p_discord_id,
           aa_target_id = user_or_treasury p_discord_id d2,
           aa_action = ''cashier_status_'' @ p_status, aa_amount = None,
           aa_balance_before = Some 0, aa_balance_after = Some 0,
           aa_reason = Some (''Cashier moved to '' @ p_status),
           aa_ref_type = ''cashier_status'', aa_ref_id = Some (show_int p_discord_id), aa_bot_name = ''dw'',
           aa_metadata = JObj [(''previous'', JStr (coalesce (map_option cashier_state_text v_old_status) ''never''))]\<rparr> d2)
         (\<lambda>(_, d3). Inr ((), d3)))"

definition expire_cashier :: "pg_env \<Rightarrow> int \<Rightarrow> db \<Rightarrow> pg_error + unit \<times> db" where
  "expire_cashier E p_discord_id d =
     (let v_old_status = map_option cs_status (sel_key cs_discord_id p_discord_id (cashier_status d))
      in raise_if (v_old_status = None \<or> v_old_status \<noteq> Some Online) (Raised Cashier_not_online)
      (let d1 = d\<lparr>cashier_status := upd_key cs_discord_id p_discord_id
                   (\<lambda>r. r\<lparr>cs_status := Offline, cs_set_at := now E, cs_last_active_at := now E\<rparr>)
                   (cashier_status d)\<rparr>;
           d2 = close_sessions E p_discord_id Reason_expired d1
       in bindE (audit_log_insert_with_chain E
            \<lparr>aa_actor_type = ''system'', aa_actor_id = 0, aa_target_id = p_discord_id,
             aa_action = ''cashier_status_offline_expired'', aa_amount = None,
             aa_balance_before = Some 0, aa_balance_after = Some 0,
             aa_reason = Some (''idle for >1h '' @ [CHR 0xE2, CHR 0x80, CHR 0x94]
                @ '' auto-offline by cashier_idle_worker''),
             aa_ref_type = ''cashier_status'', aa_ref_id = Some (show_int p_discord_id), aa_bot_name = ''dw'',
             aa_metadata = JObj [(''previous'', jopt (JStr \<circ> cashier_state_text) v_old_status)]\<rparr> d2)
           (\<lambda>(_, d3). Inr ((), d3))))"

text \<open>The statistics of a cashier recomputed (\<^verbatim>\<open>workers/stats_aggregator.py\<close>): the average time
  from claim to confirmation over the latest hundred confirmed tickets, in seconds rounded half
  away from zero, and the length of all closed sessions. The cast of the average to
  \<^verbatim>\<open>INTEGER\<close> and the assignment of the sum check their range.\<close>

definition round_away :: "int \<Rightarrow> int \<Rightarrow> int" where
  "round_away a b = (if 0 \<le> a then (2 * a + b) div (2 * b) else - ((- 2 * a + b) div (2 * b)))"

definition confirmed_claims :: "int \<Rightarrow> 'a ticket_scheme list \<Rightarrow> (int \<times> int) list" where
  "confirmed_claims c ts =
     List.map_filter (\<lambda>t. case (t_confirmed_at t, t_claimed_at t) of
         (Some done, Some begun) \<Rightarrow> if t_claimed_by t = Some c \<and> t_status t = Confirmed then Some (done, begun) else None
       | _ \<Rightarrow> None) ts"

definition recent_claim_times :: "int \<Rightarrow> db \<Rightarrow> int list" where
  "recent_claim_times c d =
     map (\<lambda>(done, begun). done - begun)
       (take 100 (sort_key (\<lambda>(done, _). - done)
         (confirmed_claims c (deposit_tickets d) @ confirmed_claims c (withdraw_tickets d))))"

definition avg_claim_time :: "int \<Rightarrow> db \<Rightarrow> pg_error + int option" where
  "avg_claim_time c d =
     (let ts = recent_claim_times c d
      in if ts = [] then Inr None
         else bindE (chk4 (round_away (sum_list ts) (int (length ts) * 1000000))) (\<lambda>s. Inr (Some s)))"

definition closed_session_seconds :: "int \<Rightarrow> db \<Rightarrow> int" where
  "closed_session_seconds c d =
     sum_list (List.map_filter ss_duration_s (filter (\<lambda>s. ss_discord_id s = c) (cashier_sessions d)))"

definition recompute_stats :: "pg_env \<Rightarrow> int \<Rightarrow> db \<Rightarrow> pg_error + db" where
  "recompute_stats E c d =
     (if \<not> has_key st_discord_id c (cashier_stats d) then Inr d
      else bindE (avg_claim_time c d) (\<lambda>avg.
        bindE (chk8 (closed_session_seconds c d)) (\<lambda>total.
        Inr (d\<lparr>cashier_stats := upd_key st_discord_id c
               (\<lambda>r. r\<lparr>st_avg_claim_to_confirm_s := avg, st_total_online_seconds := total, st_updated_at := now E\<rparr>)
               (cashier_stats d)\<rparr>))))"

end
