(* ===== verification/Treasury.thy ===== *)
theory Treasury
  imports Cashiers
begin

text \<open>
  Treasury operations (migration 0011) and the blacklist (0012). The treasury is the account
  with \<^verbatim>\<open>discord_id = 0\<close>.
\<close>

section \<open>Definitions\<close>

text \<open>The text \<^verbatim>\<open>treasury -> user\<close> of the source, with its arrow in UTF-8.\<close>

definition treasury_to_user_text :: string where
  "treasury_to_user_text = ''treasury '' @ [CHR 0xE2, CHR 0x86, CHR 0x92] @ '' user''"

definition treasury_sweep :: "pg_env \<Rightarrow> int option \<Rightarrow> int \<Rightarrow> string option \<Rightarrow> db \<Rightarrow> pg_error + int \<times> db" where
  "treasury_sweep E p_amount p_admin_id p_reason d =
     bindE (require (Raised Amount_must_be_positive) p_amount) (\<lambda>amount.
     raise_if (amount \<le> 0) (Raised Amount_must_be_positive)
     (bindE (require (Raised Treasury_row_missing) (map_option b_balance (select_balance 0 d))) (\<lambda>v_before.
      raise_if (v_before < amount) (Raised (Insufficient_treasury_sweep v_before amount))
      (let v_after = v_before - amount
       in bindE (update_balance 0
                  (\<lambda>r. r\<lparr>b_balance := v_after, b_updated_at := now E, b_version := b_version r + 1\<rparr>) d) (\<lambda>d1.
          bindE (audit_log_insert_with_chain E
             \<lparr>aa_actor_type = ''admin'', aa_actor_id = p_admin_id, aa_target_id = 0,
              aa_action = ''treasury_swept'', aa_amount = Some amount,
              aa_balance_before = Some v_before, aa_balance_after = Some v_after,
              aa_reason = Some (coalesce p_reason ''admin treasury sweep''),
              aa_ref_type = ''treasury'',
              aa_ref_id = Some (''sweep:'' @ show_int (epoch_seconds (now E))), aa_bot_name = ''dw'',
              aa_metadata = JObj [(''admin_id'', JInt p_admin_id)]\<rparr> d1) (\<lambda>(_, d2).
          Inr (v_after, d2)))))))"

definition treasury_withdraw_to_user ::
    "pg_env \<Rightarrow> int option \<Rightarrow> int option \<Rightarrow> int \<Rightarrow> string option \<Rightarrow> db \<Rightarrow> pg_error + unit \<times> db" where
  "treasury_withdraw_to_user E p_amount p_target_user p_admin_id p_reason d =
     bindE (require (Raised Amount_must_be_positive) p_amount) (\<lambda>amount.
     raise_if (amount \<le> 0) (Raised Amount_must_be_positive)
     (raise_if (eq3 p_target_user 0) (Raised Withdraw_to_treasury_self)
     (bindE (require (Raised Treasury_row_missing) (map_option b_balance (select_balance 0 d))) (\<lambda>v_treasury_before.
      raise_if (v_treasury_before < amount) (Raised (Insufficient_treasury_send v_treasury_before amount))
      (bindE (not_null ''discord_id'' p_target_user) (\<lambda>tgt.
       bindE (insert_balance E tgt (insert_user E tgt d)) (\<lambda>d1.
       let v_user_before = map_option b_balance (select_balance tgt d1);
           v_user_after = map_option (\<lambda>b. b + amount) v_user_before
       in bindE (update_balance 0
                  (\<lambda>r. r\<lparr>b_balance := b_balance r - amount, b_updated_at := now E,
                        b_version := b_version r + 1\<rparr>) d1) (\<lambda>d2.
          bindE (update_balance tgt
                  (\<lambda>r. r\<lparr>b_balance := coalesce v_user_after 0, b_updated_at := now E,
                        b_version := b_version r + 1\<rparr>) d2) (\<lambda>d3.
          bindE (audit_log_insert_with_chain E
             \<lparr>aa_actor_type = ''admin'', aa_actor_id = p_admin_id, aa_target_id = 0,
              aa_action = ''treasury_to_user_debit'', aa_amount = Some amount,
              aa_balance_before = Some v_treasury_before,
              aa_balance_after = Some (v_treasury_before - amount),
              aa_reason = Some (coalesce p_reason treasury_to_user_text),
              aa_ref_type = ''treasury'', aa_ref_id = Some (''to_user:'' @ show_int tgt), aa_bot_name = ''dw'',
              aa_metadata = JObj [(''target_user'', JInt tgt)]\<rparr> d3) (\<lambda>(_, d4).
          bindE (audit_log_insert_with_chain E
             \<lparr>aa_actor_type = ''admin'', aa_actor_id = p_admin_id, aa_target_id = tgt,
              aa_action = ''treasury_to_user_credit'', aa_amount = Some amount,
              aa_balance_before = v_user_before, aa_balance_after = v_user_after,
              aa_reason = Some (coalesce p_reason treasury_to_user_text),
              aa_ref_type = ''treasury'', aa_ref_id = Some (''from_treasury:'' @ show_int p_admin_id),
              aa_bot_name = ''dw'',
              aa_metadata = JObj [(''admin_id'', JInt p_admin_id)]\<rparr> d4) (\<lambda>(_, d5).
          Inr ((), d5))))))))))))"

definition ban_user :: "pg_env \<Rightarrow> int \<Rightarrow> string option \<Rightarrow> int \<Rightarrow> db \<Rightarrow> pg_error + unit \<times> db" where
  "ban_user E p_user_id p_reason p_admin_id d =
     raise_if (p_user_id = 0) (Raised Cannot_ban_treasury)
     (bindE (insert_balance E p_user_id (insert_user E p_user_id d)) (\<lambda>d1.
      let v_was_banned = map_option u_banned (select_user p_user_id d1);
          d2 = d1\<lparr>users := upd_key u_discord_id p_user_id
                 (\<lambda>u. u\<lparr>u_banned := True, u_banned_reason := p_reason, u_banned_at := Some (now E),
                       u_updated_at := now E\<rparr>) (users d1)\<rparr>
      in bindE (audit_log_insert_with_chain E
           \<lparr>aa_actor_type = ''admin'', aa_actor_id = p_admin_id, aa_target_id = p_user_id,
            aa_action = ''user_banned'', aa_amount = None,
            aa_balance_before = Some 0, aa_balance_after = Some 0,
            aa_reason = Some (coalesce p_reason ''banned''),
            aa_ref_type = ''user'', aa_ref_id = Some (show_int p_user_id), aa_bot_name = ''dw'',
            aa_metadata = JObj [(''was_already_banned'', JBool (coalesce v_was_banned False))]\<rparr> d2)
          (\<lambda>(_, d3). Inr ((), d3))))"

definition unban_user :: "pg_env \<Rightarrow> int \<Rightarrow> int \<Rightarrow> db \<Rightarrow> pg_error + unit \<times> db" where
  "unban_user E p_user_id p_admin_id d =
     (let d1 = d\<lparr>users := upd_key u_discord_id p_user_id
                 (\<lambda>u. u\<lparr>u_banned := False, u_banned_reason := None, u_banned_at := None,
                       u_updated_at := now E\<rparr>) (users d)\<rparr>
      in raise_if (\<not> has_key u_discord_id p_user_id (users d)) (Raised User_not_registered)
         (bindE (audit_log_insert_with_chain E
           \<lparr>aa_actor_type = ''admin'', aa_actor_id = p_admin_id, aa_target_id = p_user_id,
            aa_action = ''user_unbanned'', aa_amount = None,
            aa_balance_before = Some 0, aa_balance_after = Some 0,
            aa_reason = Some ''admin unban'',
            aa_ref_type = ''user'', aa_ref_id = Some (show_int p_user_id), aa_bot_name = ''dw'',
            aa_metadata = JObj []\<rparr> d1) (\<lambda>(_, d2). Inr ((), d2))))"

end
