(* ===== verification/Lifecycle.thy ===== *)
theory Lifecycle
  imports Withdraws
begin

text \<open>
  Claim and release of a ticket of either kind (migration 0008). A claim needs an active
  character of the cashier in the ticket's region; a release is for the current claimer.
\<close>

section \<open>Definitions\<close>

text \<open>The row of the table the ticket type names, with the columns the two tables share.\<close>

definition select_ticket :: "ticket_type \<Rightarrow> string \<Rightarrow> db \<Rightarrow> ticket option" where
  "select_ticket ty uid d =
     (case ty of
        Deposit \<Rightarrow> select_deposit uid d
      | Withdraw \<Rightarrow> map_option ticket.truncate (select_withdraw uid d))"

definition has_active_char :: "int \<Rightarrow> string \<Rightarrow> db \<Rightarrow> bool" where
  "has_active_char cid region d =
     list_ex (\<lambda>c. cc_discord_id c = cid \<and> cc_region c = region \<and> cc_is_active c) (cashier_characters d)"

definition claim_ticket :: "pg_env \<Rightarrow> string \<Rightarrow> string \<Rightarrow> int \<Rightarrow> db \<Rightarrow> pg_error + unit \<times> db" where
  "claim_ticket E p_ticket_type p_ticket_uid p_cashier_id d =
     bindE (require (Raised Invalid_ticket_type) (ticket_type_of_text p_ticket_type)) (\<lambda>ty.
     bindE (require (Raised Ticket_not_found) (select_ticket ty p_ticket_uid d)) (\<lambda>v.
     raise_if (t_status v \<noteq> Open) (Raised (Already_claimed (t_status v)))
     (raise_if (\<not> has_active_char p_cashier_id (t_region v) d)
       (Raised (Region_mismatch p_cashier_id (t_region v)))
     (bindE (case ty of
               Deposit \<Rightarrow> update_deposit_ticket t_ticket_uid p_ticket_uid
                 (\<lambda>t. t\<lparr>t_status := Claimed, t_claimed_by := Some p_cashier_id,
                       t_claimed_at := Some (now E), t_last_activity_at := now E\<rparr>) d
             | Withdraw \<Rightarrow> update_withdraw_ticket t_ticket_uid p_ticket_uid
                 (\<lambda>t. t\<lparr>t_status := Claimed, t_claimed_by := Some p_cashier_id,
                       t_claimed_at := Some (now E), t_last_activity_at := now E\<rparr>) d) (\<lambda>d1.
      let v_balance = balance_or_zero (t_discord_id v) d1
      in bindE (audit_log_insert_with_chain E
           \<lparr>aa_actor_type = ''cashier'', aa_actor_id = p_cashier_id,
            aa_target_id = user_or_treasury (t_discord_id v) d1,
            aa_action = p_ticket_type @ ''_claimed'', aa_amount = Some (t_amount v),
            aa_balance_before = Some v_balance, aa_balance_after = Some v_balance,
            aa_reason = Some (''Cashier '' @ show_int p_cashier_id @ '' claimed '' @ p_ticket_type @ '' ticket''),
            aa_ref_type = p_ticket_type @ ''_ticket'', aa_ref_id = Some p_ticket_uid, aa_bot_name = ''dw'',
            aa_metadata = JObj [(''region'', JStr (t_region v))]\<rparr> d1) (\<lambda>(_, d2). Inr ((), d2)))))))"

definition release_ticket :: "pg_env \<Rightarrow> string \<Rightarrow> string \<Rightarrow> int \<Rightarrow> db \<Rightarrow> pg_error + unit \<times> db" where
  "release_ticket E p_ticket_type p_ticket_uid p_actor_id d =
     bindE (require (Raised Invalid_ticket_type) (ticket_type_of_text p_ticket_type)) (\<lambda>ty.
     bindE (require (Raised Ticket_not_found) (select_ticket ty p_ticket_uid d)) (\<lambda>v.
     raise_if (t_status v \<noteq> Claimed) (Raised (Ticket_not_claimed (t_status v)))
     (raise_if (neq3 (t_claimed_by v) p_actor_id)
       (Raised (Wrong_cashier (the (t_claimed_by v)) p_actor_id))
     (bindE (case ty of
               Deposit \<Rightarrow> update_deposit_ticket t_ticket_uid p_ticket_uid
                 (\<lambda>t. t\<lparr>t_status := Open, t_claimed_by := None, t_claimed_at := None,
                       t_last_activity_at := now E\<rparr>) d
             | Withdraw \<Rightarrow> update_withdraw_ticket t_ticket_uid p_ticket_uid
                 (\<lambda>t. t\<lparr>t_status := Open, t_claimed_by := None, t_claimed_at := None,
                       t_last_activity_at := now E\<rparr>) d) (\<lambda>d1.
      let v_balance = balance_or_zero (t_discord_id v) d1
      in bindE (audit_log_insert_with_chain E
           \<lparr>aa_actor_type = ''cashier'', aa_actor_id = p_actor_id,
            aa_target_id = user_or_treasury (t_discord_id v) d1,
            aa_action = p_ticket_type @ ''_released'', aa_amount = Some (t_amount v),
            aa_balance_before = Some v_balance, aa_balance_after = Some v_balance,
            aa_reason = Some (''Cashier '' @ show_int p_actor_id @ '' released the ticket''),
            aa_ref_type = p_ticket_type @ ''_ticket'', aa_ref_id = Some p_ticket_uid, aa_bot_name = ''dw'',
            aa_metadata = JObj []\<rparr> d1) (\<lambda>(_, d2). Inr ((), d2)))))))"

end
