(* ===== verification/Disputes.thy ===== *)
theory Disputes
  imports Treasury Lifecycle
begin

text \<open>
  Disputes on tickets: \<^verbatim>\<open>dw.open_dispute\<close> and \<^verbatim>\<open>dw.resolve_dispute\<close> (migration
  0010), \<^verbatim>\<open>dw.reject_dispute\<close> (0013).
\<close>

section \<open>Definitions\<close>

definition opener_roles :: "string list" where
  "opener_roles = [''admin'', ''user'', ''system'']"

definition dispute_actions :: "string list" where
  "dispute_actions = [''no-action'', ''refund-full'', ''force-confirm'', ''partial-refund'']"

definition is_terminal_dispute :: "dispute_status \<Rightarrow> bool" where
  "is_terminal_dispute st \<longleftrightarrow> st \<in> {DResolved, DRejected}"

text \<open>\<^verbatim>\<open>SELECT discord_id FROM dw.<type>_tickets WHERE ticket_uid = uid\<close>.\<close>

definition ticket_user :: "ticket_type \<Rightarrow> string \<Rightarrow> db \<Rightarrow> int option" where
  "ticket_user ty uid d = map_option t_discord_id (select_ticket ty uid d)"

definition select_dispute :: "int \<Rightarrow> db \<Rightarrow> dispute_row option" where
  "select_dispute i d = sel_key d_id i (disputes d)"

text \<open>\<^verbatim>\<open>INSERT INTO dw.disputes\<close> with \<^verbatim>\<open>UNIQUE (ticket_type, ticket_uid)\<close>.\<close>

definition insert_dispute ::
    "pg_env \<Rightarrow> ticket_type \<Rightarrow> string \<Rightarrow> int \<Rightarrow> string \<Rightarrow> string option \<Rightarrow> db \<Rightarrow> pg_error + int \<times> db" where
  "insert_dispute E ty uid opener role reason d =
     bindE (not_null ''reason'' reason) (\<lambda>txt.
     raise_if (has_key (\<lambda>r. (d_ticket_type r, d_ticket_uid r)) (ty, uid) (disputes d))
       (Unique_violation ''disputes_ticket_type_ticket_uid_key'')
     (let v_id = disputes_id_seq d + 1
      in Inr (v_id, d\<lparr>disputes_id_seq := v_id, disputes := disputes d @
           [\<lparr>d_id = v_id, d_ticket_type = ty, d_ticket_uid = uid, d_opener_id = opener,
             d_opener_role = role, d_reason = txt, d_status = DOpen, d_resolution = None,
             d_resolved_by = None, d_resolved_at = None, d_opened_at = now E,
             d_discord_message_id = None\<rparr>]\<rparr>)))"

text \<open>\<^verbatim>\<open>UPDATE dw.disputes SET discord_message_id = msg WHERE id = i\<close>, which the bot runs
  itself after posting the embed of a dispute.\<close>

definition set_dispute_message :: "int \<Rightarrow> int \<Rightarrow> db \<Rightarrow> db" where
  "set_dispute_message i msg d =
     d\<lparr>disputes := upd_key d_id i (\<lambda>r. r\<lparr>d_discord_message_id := Some msg\<rparr>) (disputes d)\<rparr>"

definition open_dispute ::
    "pg_env \<Rightarrow> string \<Rightarrow> string \<Rightarrow> int \<Rightarrow> string \<Rightarrow> string option \<Rightarrow> db \<Rightarrow> pg_error + int \<times> db" where
  "open_dispute E p_ticket_type p_ticket_uid p_opener_id p_opener_role p_reason d =
     bindE (require (Raised Invalid_ticket_type) (ticket_type_of_text p_ticket_type)) (\<lambda>ty.
     raise_if (p_opener_role \<notin> set opener_roles) (Raised Invalid_opener_role)
     (bindE (require (Raised Ticket_not_found) (ticket_user ty p_ticket_uid d)) (\<lambda>v_user.
      bindE (insert_dispute E ty p_ticket_uid p_opener_id p_opener_role p_reason d) (\<lambda>(v_id, d1).
      bindE (audit_log_insert_with_chain E
         \<lparr>aa_actor_type = p_opener_role, aa_actor_id = p_opener_id, aa_target_id = v_user,
          aa_action = ''dispute_opened'', aa_amount = None,
          aa_balance_before = Some 0, aa_balance_after = Some 0, aa_reason = p_reason,
          aa_ref_type = ''dispute'', aa_ref_id = Some (show_int v_id), aa_bot_name = ''dw'',
          aa_metadata = JObj [(''ticket_type'', JStr p_ticket_type), (''ticket_uid'', JStr p_ticket_uid)]\<rparr> d1)
        (\<lambda>(_, d2). Inr (v_id, d2))))))"

text \<open>The money the chosen action moves: from the treasury to the user of the ticket.\<close>

definition dispute_payout ::
    "pg_env \<Rightarrow> dispute_row \<Rightarrow> string \<Rightarrow> int option \<Rightarrow> int option \<Rightarrow> int \<Rightarrow> db \<Rightarrow> pg_error + db" where
  "dispute_payout E v_dispute p_action p_amount v_user p_resolved_by d =
     (if p_action = ''partial-refund'' then
        bindE (require (Raised Partial_refund_amount) p_amount) (\<lambda>amount.
        raise_if (amount \<le> 0) (Raised Partial_refund_amount)
        (bindE (treasury_withdraw_to_user E (Some amount) v_user p_resolved_by
           (Some (''partial-refund dispute='' @ show_int (d_id v_dispute))) d) (\<lambda>(_, d1). Inr d1)))
      else if p_action = ''refund-full'' then
        raise_if (d_ticket_type v_dispute \<noteq> Withdraw) (Raised Refund_full_only_withdraw)
        (bindE (treasury_withdraw_to_user E
           (map_option t_amount (select_withdraw (d_ticket_uid v_dispute) d)) v_user p_resolved_by
           (Some (''refund-full dispute='' @ show_int (d_id v_dispute))) d) (\<lambda>(_, d1). Inr d1))
      else Inr d)"

definition resolve_dispute :: "pg_env \<Rightarrow> int \<Rightarrow> string \<Rightarrow> int option \<Rightarrow> int \<Rightarrow> db \<Rightarrow> pg_error + unit \<times> db" where
  "resolve_dispute E p_dispute_id p_action p_amount p_resolved_by d =
     bindE (require (Raised Dispute_not_found) (select_dispute p_dispute_id d)) (\<lambda>v_dispute.
     raise_if (is_terminal_dispute (d_status v_dispute))
       (Raised (Dispute_already_terminal (d_status v_dispute)))
     (raise_if (p_action \<notin> set dispute_actions) (Raised (Invalid_action p_action))
     (let v_user = ticket_user (d_ticket_type v_dispute) (d_ticket_uid v_dispute) d
      in bindE (dispute_payout E v_dispute p_action p_amount v_user p_resolved_by d) (\<lambda>d1.
         let d2 = d1\<lparr>disputes := upd_key d_id p_dispute_id
                    (\<lambda>r. r\<lparr>d_status := DResolved, d_resolution := Some p_action,
                          d_resolved_by := Some p_resolved_by, d_resolved_at := Some (now E)\<rparr>) (disputes d1)\<rparr>
         in bindE (not_null ''target_id'' v_user) (\<lambda>user.
            bindE (audit_log_insert_with_chain E
              \<lparr>aa_actor_type = ''admin'', aa_actor_id = p_resolved_by, aa_target_id = user,
               aa_action = ''dispute_resolved_'' @ p_action, aa_amount = p_amount,
               aa_balance_before = Some 0, aa_balance_after = Some 0,
               aa_reason = Some (''Dispute #'' @ show_int p_dispute_id @ '' resolved as '' @ p_action),
               aa_ref_type = ''dispute'', aa_ref_id = Some (show_int p_dispute_id), aa_bot_name = ''dw'',
               aa_metadata = JObj [(''ticket_type'', JStr (ticket_type_text (d_ticket_type v_dispute))),
                                  (''ticket_uid'', JStr (d_ticket_uid v_dispute))]\<rparr> d2)
             (\<lambda>(_, d3). Inr ((), d3)))))))"

definition reject_dispute :: "pg_env \<Rightarrow> int \<Rightarrow> string option \<Rightarrow> int \<Rightarrow> db \<Rightarrow> pg_error + unit \<times> db" where
  "reject_dispute E p_dispute_id p_reason p_admin_id d =
     bindE (require (Raised Dispute_not_found) (select_dispute p_dispute_id d)) (\<lambda>v_dispute.
     raise_if (is_terminal_dispute (d_status v_dispute))
       (Raised (Dispute_already_terminal (d_status v_dispute)))
     (let v_user = coalesce (ticket_user (d_ticket_type v_dispute) (d_ticket_uid v_dispute) d)
                     (d_opener_id v_dispute);
          d1 = d\<lparr>disputes := upd_key d_id p_dispute_id
                 (\<lambda>r. r\<lparr>d_status := DRejected, d_resolution := p_reason,
                       d_resolved_by := Some p_admin_id, d_resolved_at := Some (now E)\<rparr>) (disputes d)\<rparr>
      in bindE (audit_log_insert_with_chain E
           \<lparr>aa_actor_type = ''admin'', aa_actor_id = p_admin_id, aa_target_id = v_user,
            aa_action = ''dispute_rejected'', aa_amount = None,
            aa_balance_before = Some 0, aa_balance_after = Some 0, aa_reason = p_reason,
            aa_ref_type = ''dispute'', aa_ref_id = Some (show_int p_dispute_id), aa_bot_name = ''dw'',
            aa_metadata = JObj [(''ticket_type'', JStr (ticket_type_text (d_ticket_type v_dispute))),
                               (''ticket_uid'', JStr (d_ticket_uid v_dispute))]\<rparr> d1)
          (\<lambda>(_, d2). Inr ((), d2))))"

end
