(* ===== verification/Manager.thy ===== *)
theory Manager
  imports Errors Disputes
begin

text \<open>
  The Python facade over the stored functions (\<^verbatim>\<open>deathroll_core/balance/dw_manager.py\<close>). Every
  wrapper runs one statement, which is one transaction: it answers with the value and the changed
  database, or with an exception and the database as it was. An \<^verbatim>\<open>asyncpg.RaiseError\<close> becomes a
  typed exception; every other error of the engine (a violated constraint, a number out of range)
  passes through. None of these functions raises an error of the luck schema.
\<close>

section \<open>Running a statement\<close>

datatype (plugins only: code size) py_error =
    Typed balance_error string
  | Engine pg_error

type_synonym 'a py = "(py_error + 'a) \<times> db"

definition facade :: "db \<Rightarrow> pg_error + 'a \<times> db \<Rightarrow> 'a py" where
  "facade d m =
     (case m of
        Inr (x, d') \<Rightarrow> (Inr x, d')
      | Inl e \<Rightarrow>
          (case e of
             Raised r \<Rightarrow> (case translate_pg_error (raised_text r) of (cls, msg) \<Rightarrow> (Inl (Typed cls msg), d))
           | _ \<Rightarrow> (Inl (Engine e), d)))"

section \<open>Deposits\<close>

definition apply_deposit_ticket ::
    "pg_env \<Rightarrow> int \<Rightarrow> string \<Rightarrow> string \<Rightarrow> string \<Rightarrow> string \<Rightarrow> int \<Rightarrow> int \<Rightarrow> int \<Rightarrow> db \<Rightarrow> string py" where
  "apply_deposit_ticket E discord_id char_name realm region faction amount thread_id parent_channel_id d =
     facade d (create_deposit_ticket E discord_id char_name realm region faction amount thread_id parent_channel_id d)"

definition confirm_deposit_py :: "pg_env \<Rightarrow> string \<Rightarrow> int \<Rightarrow> db \<Rightarrow> int option py" where
  "confirm_deposit_py E ticket_uid cashier_id d = facade d (confirm_deposit E ticket_uid cashier_id d)"

definition cancel_deposit_py :: "pg_env \<Rightarrow> string \<Rightarrow> int \<Rightarrow> string \<Rightarrow> db \<Rightarrow> unit py" where
  "cancel_deposit_py E ticket_uid actor_id reason d = facade d (cancel_deposit E ticket_uid actor_id (Some reason) d)"

section \<open>Claims\<close>

definition claim_ticket_py :: "pg_env \<Rightarrow> string \<Rightarrow> string \<Rightarrow> int \<Rightarrow> db \<Rightarrow> unit py" where
  "claim_ticket_py E ticket_type ticket_uid cashier_id d = facade d (claim_ticket E ticket_type ticket_uid cashier_id d)"

definition release_ticket_py :: "pg_env \<Rightarrow> string \<Rightarrow> string \<Rightarrow> int \<Rightarrow> db \<Rightarrow> unit py" where
  "release_ticket_py E ticket_type ticket_uid actor_id d = facade d (release_ticket E ticket_type ticket_uid actor_id d)"

section \<open>Cashiers\<close>

definition add_cashier_character_py ::
    "pg_env \<Rightarrow> int \<Rightarrow> string \<Rightarrow> string \<Rightarrow> string \<Rightarrow> string \<Rightarrow> db \<Rightarrow> int py" where
  "add_cashier_character_py E discord_id chr realm region faction d =
     facade d (add_cashier_character E discord_id chr realm region faction d)"

definition remove_cashier_character_py ::
    "pg_env \<Rightarrow> int \<Rightarrow> string \<Rightarrow> string \<Rightarrow> string \<Rightarrow> db \<Rightarrow> unit py" where
  "remove_cashier_character_py E discord_id chr realm region d =
     facade d (remove_cashier_character E discord_id chr realm region d)"

definition set_cashier_status_py :: "pg_env \<Rightarrow> int \<Rightarrow> string \<Rightarrow> db \<Rightarrow> unit py" where
  "set_cashier_status_py E discord_id status d = facade d (set_cashier_status E discord_id status d)"

definition expire_cashier_py :: "pg_env \<Rightarrow> int \<Rightarrow> db \<Rightarrow> unit py" where
  "expire_cashier_py E discord_id d = facade d (expire_cashier E discord_id d)"

section \<open>Withdraws\<close>

definition apply_withdraw_ticket ::
    "pg_env \<Rightarrow> int \<Rightarrow> string \<Rightarrow> string \<Rightarrow> string \<Rightarrow> string \<Rightarrow> int \<Rightarrow> int \<Rightarrow> int \<Rightarrow> db \<Rightarrow> string py" where
  "apply_withdraw_ticket E discord_id char_name realm region faction amount thread_id parent_channel_id d =
     facade d (create_withdraw_ticket E discord_id char_name realm region faction amount thread_id parent_channel_id d)"

definition confirm_withdraw_py :: "pg_env \<Rightarrow> string \<Rightarrow> int \<Rightarrow> db \<Rightarrow> int option py" where
  "confirm_withdraw_py E ticket_uid cashier_id d = facade d (confirm_withdraw E ticket_uid cashier_id d)"

definition cancel_withdraw_py :: "pg_env \<Rightarrow> string \<Rightarrow> int \<Rightarrow> string \<Rightarrow> db \<Rightarrow> int option py" where
  "cancel_withdraw_py E ticket_uid actor_id reason d = facade d (cancel_withdraw E ticket_uid actor_id (Some reason) d)"

section \<open>Treasury, disputes, bans\<close>

definition treasury_sweep_py :: "pg_env \<Rightarrow> int \<Rightarrow> int \<Rightarrow> string \<Rightarrow> db \<Rightarrow> int py" where
  "treasury_sweep_py E amount admin_id reason d = facade d (treasury_sweep E (Some amount) admin_id (Some reason) d)"

definition treasury_withdraw_to_user_py :: "pg_env \<Rightarrow> int \<Rightarrow> int \<Rightarrow> int \<Rightarrow> string \<Rightarrow> db \<Rightarrow> unit py" where
  "treasury_withdraw_to_user_py E amount target_user admin_id reason d =
     facade d (treasury_withdraw_to_user E (Some amount) (Some target_user) admin_id (Some reason) d)"

definition open_dispute_py :: "pg_env \<Rightarrow> string \<Rightarrow> string \<Rightarrow> int \<Rightarrow> string \<Rightarrow> string \<Rightarrow> db \<Rightarrow> int py" where
  "open_dispute_py E ticket_type ticket_uid opener_id opener_role reason d =
     facade d (open_dispute E ticket_type ticket_uid opener_id opener_role (Some reason) d)"

definition resolve_dispute_py :: "pg_env \<Rightarrow> int \<Rightarrow> string \<Rightarrow> int option \<Rightarrow> int \<Rightarrow> db \<Rightarrow> unit py" where
  "resolve_dispute_py E dispute_id action amount resolved_by d =
     facade d (resolve_dispute E dispute_id action amount resolved_by d)"

definition reject_dispute_py :: "pg_env \<Rightarrow> int \<Rightarrow> string \<Rightarrow> int \<Rightarrow> db \<Rightarrow> unit py" where
  "reject_dispute_py E dispute_id reason admin_id d = facade d (reject_dispute E dispute_id (Some reason) admin_id d)"

definition ban_user_py :: "pg_env \<Rightarrow> int \<Rightarrow> string \<Rightarrow> int \<Rightarrow> db \<Rightarrow> unit py" where
  "ban_user_py E user_id reason admin_id d = facade d (ban_user E user_id (Some reason) admin_id d)"

definition unban_user_py :: "pg_env \<Rightarrow> int \<Rightarrow> int \<Rightarrow> db \<Rightarrow> unit py" where
  "unban_user_py E user_id admin_id d = facade d (unban_user E user_id admin_id d)"

text \<open>The reading function raises no typed exception.\<close>

definition list_audit_events_py :: "int option \<Rightarrow> int \<Rightarrow> db \<Rightarrow> audit_row list" where
  "list_audit_events_py target_id limit d = list_audit_events target_id (Some limit) d"

section \<open>What a wrapper answers\<close>

lemma facade_cases:
  obtains (ok) x d' where "m = Inr (x, d')" "facade d m = (Inr x, d')"
  | (raised) r where "m = Inl (Raised r)"
      "facade d m = (Inl (Typed (fst (translate_pg_error (raised_text r))) (raised_text r)), d)"
  | (engine) e where "m = Inl e" "\<And>r. e \<noteq> Raised r" "facade d m = (Inl (Engine e), d)"
proof (cases m)
  case (Inl e)
  show ?thesis
  proof (cases e)
    case (Raised r)
    with Inl show ?thesis
      by (intro raised [of r]) (simp_all add: facade_def case_prod_unfold translate_search)
  qed (use Inl engine in \<open>simp_all add: facade_def\<close>)
next
  case (Inr p)
  then show ?thesis using ok by (cases p) (simp add: facade_def)
qed

lemma facade_typed:
  assumes "plain_args r"
  shows "facade d (Inl (Raised r)) = (Inl (Typed (error_class r) (raised_text r)), d)"
  using translate_raised [OF assms] by (simp add: facade_def)

end
