(* ===== verification/Luck_Helpers.thy ===== *)
theory Luck_Helpers
  imports Bets Cashiers
begin

text \<open>
  The helper functions of the luck bot (migration 0024): the rate-limit bucket
  \<^verbatim>\<open>luck.consume_rate_token\<close>, the nonce counter \<^verbatim>\<open>fairness.next_nonce\<close> and
  \<^verbatim>\<open>luck.grant_raffle_tickets\<close>, and the seed rotation \<^verbatim>\<open>fairness.rotate_user_seed\<close>
  (0025) with the append-only history (0019).
\<close>

section \<open>Definitions\<close>

definition rate_key :: "rate_row \<Rightarrow> int \<times> string \<times> int" where
  "rate_key r = (rl_discord_id r, rl_scope r, rl_bucket_start r)"

text \<open>The start of the window, in microseconds.\<close>

definition bucket_start :: "pg_env \<Rightarrow> int \<Rightarrow> int" where
  "bucket_start E w = ((epoch_seconds (now E) sdiv w) * w) * 1000000"

definition consume_rate_token :: "pg_env \<Rightarrow> int \<Rightarrow> string \<Rightarrow> int \<Rightarrow> int \<Rightarrow> db \<Rightarrow> pg_error + bool \<times> db" where
  "consume_rate_token E p_discord_id p_scope p_window_s p_max_count d =
     raise_if (p_window_s \<le> 0 \<or> p_max_count \<le> 0)
       (Raised_luck (Invalid_rate_limit_args p_window_s p_max_count))
     (let v_bucket_start = bucket_start E p_window_s;
          k = (p_discord_id, p_scope, v_bucket_start)
      in case sel_key rate_key k (rate_limit_entries d) of
           None \<Rightarrow> Inr (1 \<le> p_max_count, d\<lparr>rate_limit_entries := rate_limit_entries d @
             [\<lparr>rl_discord_id = p_discord_id, rl_scope = p_scope, rl_bucket_start = v_bucket_start,
               rl_count = 1\<rparr>]\<rparr>)
         | Some r \<Rightarrow> bindE (chk4 (rl_count r + 1)) (\<lambda>v_count.
             Inr (v_count \<le> p_max_count, d\<lparr>rate_limit_entries := upd_key rate_key k
               (\<lambda>r. r\<lparr>rl_count := rl_count r + 1\<rparr>) (rate_limit_entries d)\<rparr>)))"

definition next_nonce :: "int \<Rightarrow> db \<Rightarrow> pg_error + int \<times> db" where
  "next_nonce p_discord_id d =
     bindE (require (Raised_luck (Seed_not_found p_discord_id))
             (sel_key f_discord_id p_discord_id (user_seeds d))) (\<lambda>s.
     bindE (chk8 (f_nonce s + 1)) (\<lambda>_.
     Inr (f_nonce s, d\<lparr>user_seeds := upd_key f_discord_id p_discord_id
           (\<lambda>s. s\<lparr>f_nonce := f_nonce s + 1\<rparr>) (user_seeds d)\<rparr>)))"

text \<open>One row per ticket, with consecutive ids.\<close>

definition new_raffle_tickets ::
    "pg_env \<Rightarrow> int \<Rightarrow> int \<Rightarrow> int \<Rightarrow> int option \<Rightarrow> int \<Rightarrow> raffle_ticket list" where
  "new_raffle_tickets E seq period user bet n =
     map (\<lambda>i. \<lparr>rt_id = seq + i, rt_period_id = period, rt_discord_id = user, rt_bet_id = bet,
              rt_granted_at = now E\<rparr>) [1..n]"

definition grant_raffle_tickets ::
    "pg_env \<Rightarrow> int \<Rightarrow> int \<Rightarrow> int \<Rightarrow> int option \<Rightarrow> db \<Rightarrow> pg_error + int \<times> db" where
  "grant_raffle_tickets E p_discord_id p_period_id p_ticket_count p_bet_id d =
     raise_if (p_ticket_count < 0) (Raised_luck (Invalid_ticket_count p_ticket_count))
     (if p_ticket_count = 0 then Inr (0, d)
      else
      bindE (require (Raised_luck (Period_not_found p_period_id))
              (map_option rp_status (sel_key rp_id p_period_id (raffle_periods d)))) (\<lambda>v_period_status.
      raise_if (v_period_status \<noteq> Active) (Raised_luck (Period_not_active p_period_id v_period_status))
      (raise_if (\<not> has_key u_discord_id p_discord_id (users d))
        (Foreign_key_violation ''raffle_tickets_discord_id_fkey'')
      (raise_if (case p_bet_id of None \<Rightarrow> False | Some b \<Rightarrow> \<not> has_key bt_id b (bets d))
        (Foreign_key_violation ''raffle_tickets_bet_id_fkey'')
      (Inr (p_ticket_count,
        d\<lparr>raffle_tickets_id_seq := raffle_tickets_id_seq d + p_ticket_count,
          raffle_tickets := raffle_tickets d @
            new_raffle_tickets E (raffle_tickets_id_seq d) p_period_id p_discord_id p_bet_id p_ticket_count\<rparr>))))))"

definition rotators :: "string list" where
  "rotators = [''user'', ''system'', ''admin'']"

text \<open>\<^verbatim>\<open>rnd_seed\<close> and \<^verbatim>\<open>rnd_client\<close> are what \<^verbatim>\<open>gen_random_bytes(32)\<close> and
  \<^verbatim>\<open>gen_random_bytes(8)\<close> return. The result is the revealed seed and the hash of the
  new one.\<close>

definition rotate_user_seed ::
    "pg_env \<Rightarrow> bytea \<Rightarrow> bytea \<Rightarrow> int \<Rightarrow> string \<Rightarrow> db \<Rightarrow> pg_error + (bytea option \<times> bytea) \<times> db" where
  "rotate_user_seed E rnd_seed rnd_client p_discord_id p_rotated_by d =
     raise_if (p_rotated_by \<notin> set rotators) (Raised_luck (Invalid_rotated_by p_rotated_by))
     (let v_new_seed = rnd_seed; v_new_hash = digest_sha256 E v_new_seed
      in case sel_key f_discord_id p_discord_id (user_seeds d) of
           None \<Rightarrow>
             raise_if (\<not> has_key u_discord_id p_discord_id (users d))
               (Foreign_key_violation ''user_seeds_discord_id_fkey'')
             (Inr ((None, v_new_hash), d\<lparr>user_seeds := user_seeds d @
               [\<lparr>f_discord_id = p_discord_id, f_server_seed = v_new_seed, f_server_seed_hash = v_new_hash,
                 f_client_seed = hex_encode rnd_client, f_nonce = 0, f_created_at = now E,
                 f_rotated_at = now E\<rparr>]\<rparr>))
         | Some v_existing \<Rightarrow>
             raise_if (\<not> has_key u_discord_id p_discord_id (users d))
               (Foreign_key_violation ''history_discord_id_fkey'')
             (Inr ((Some (f_server_seed v_existing), v_new_hash),
               d\<lparr>history_id_seq := history_id_seq d + 1,
                 seed_history := seed_history d @
                   [\<lparr>h_id = history_id_seq d + 1, h_discord_id = p_discord_id,
                     h_revealed_server_seed = f_server_seed v_existing,
                     h_server_seed_hash = f_server_seed_hash v_existing,
                     h_client_seed = f_client_seed v_existing, h_last_nonce = f_nonce v_existing,
                     h_started_at = f_rotated_at v_existing, h_rotated_at = now E,
                     h_rotated_by = p_rotated_by\<rparr>],
                 user_seeds := upd_key f_discord_id p_discord_id
                   (\<lambda>s. s\<lparr>f_server_seed := v_new_seed, f_server_seed_hash := v_new_hash, f_nonce := 0,
                         f_rotated_at := now E\<rparr>) (user_seeds d)\<rparr>)))"

text \<open>\<^verbatim>\<open>UPDATE fairness.user_seeds SET client_seed = v WHERE discord_id = uid\<close>, the statement
  of \<^verbatim>\<open>set_client_seed\<close>.\<close>

definition update_client_seed :: "int \<Rightarrow> string \<Rightarrow> db \<Rightarrow> db" where
  "update_client_seed uid v d =
     d\<lparr>user_seeds := upd_key f_discord_id uid (\<lambda>s. s\<lparr>f_client_seed := v\<rparr>) (user_seeds d)\<rparr>"

text \<open>The history triggers: any \<^verbatim>\<open>UPDATE\<close> or \<^verbatim>\<open>DELETE\<close> of a row raises.\<close>

definition history_block_mutation :: "string \<Rightarrow> (history_row \<Rightarrow> bool) \<Rightarrow> db \<Rightarrow> pg_error + db" where
  "history_block_mutation tg_op P d =
     raise_if (list_ex P (seed_history d)) (Raised_luck (History_append_only tg_op)) (Inr d)"

end
