(* ===== verification/Books.thy ===== *)
theory Books
  imports Disputes Luck_Helpers
begin

text \<open>
  The abstract specification of the economy: double-entry bookkeeping. An account is the
  available or the held gold of a user, the raffle pools, or the world outside the database
  (the gold in the game). A posting moves gold from one account to another. \<open>book_of\<close>
  abstracts a database to a book; the theory \<open>Ledger\<close> shows that every stored function that
  moves gold refines a list of postings.
\<close>

section \<open>Definitions\<close>

datatype account = Avail int | Held int | Pool | Outside

type_synonym book = "account \<Rightarrow> int"

definition post :: "book \<Rightarrow> account \<times> account \<times> int \<Rightarrow> book" where
  "post b e = (case e of (src, dst, n) \<Rightarrow>
     let b1 = b(src := b src - n) in b1(dst := b1 dst + n))"

text \<open>All the gold of a set of users, the pools and the outside.\<close>

definition total :: "int set \<Rightarrow> book \<Rightarrow> int" where
  "total S b = (\<Sum>u\<in>S. b (Avail u) + b (Held u)) + b Pool + b Outside"

definition account_in :: "int set \<Rightarrow> account \<Rightarrow> bool" where
  "account_in S a = (case a of Avail u \<Rightarrow> u \<in> S | Held u \<Rightarrow> u \<in> S | _ \<Rightarrow> True)"

text \<open>What the database records: balances, pools, gold brought in by confirmed deposits, gold
  delivered by confirmed withdraws, gold swept out of the treasury.\<close>

definition user_ids :: "db \<Rightarrow> int set" where
  "user_ids d = set (map u_discord_id (users d))"

definition avail_of :: "int \<Rightarrow> db \<Rightarrow> int" where
  "avail_of u d = coalesce (map_option b_balance (select_balance u d)) 0"

definition held_of :: "int \<Rightarrow> db \<Rightarrow> int" where
  "held_of u d = coalesce (map_option b_locked (select_balance u d)) 0"

definition pools_of :: "db \<Rightarrow> int" where
  "pools_of d = sum_where (\<lambda>_. True) rp_pool_amount (raffle_periods d)"

definition deposited :: "db \<Rightarrow> int" where
  "deposited d = sum_where (\<lambda>t. t_status t = Confirmed) t_amount (deposit_tickets d)"

definition delivered :: "db \<Rightarrow> int" where
  "delivered d = sum_where (\<lambda>t. t_status t = Confirmed) (\<lambda>t. t_amount t - w_fee t) (withdraw_tickets d)"

definition swept :: "db \<Rightarrow> int" where
  "swept d = sum_where (\<lambda>r. a_action r = ''treasury_swept'') (\<lambda>r. coalesce (a_amount r) 0) (audit_log d)"

definition book_of :: "db \<Rightarrow> book" where
  "book_of d a =
     (case a of
        Avail u \<Rightarrow> avail_of u d
      | Held u \<Rightarrow> held_of u d
      | Pool \<Rightarrow> pools_of d
      | Outside \<Rightarrow> delivered d + swept d - deposited d)"

text \<open>Gold a user has locked in open withdraw tickets and in open bets.\<close>

definition ticket_locks :: "int \<Rightarrow> db \<Rightarrow> int" where
  "ticket_locks u d =
     sum_where (\<lambda>t. t_discord_id t = u \<and> \<not> is_terminal (t_status t)) t_amount (withdraw_tickets d)"

definition bet_locks :: "int \<Rightarrow> db \<Rightarrow> int" where
  "bet_locks u d =
     sum_where (\<lambda>b. bt_discord_id b = u \<and> bt_status b = Bet_open) bt_effective_stake (bets d)"

section \<open>Postings\<close>

lemma book_of_simps [simp]:
  "book_of d (Avail u) = avail_of u d"
  "book_of d (Held u) = held_of u d"
  "book_of d Pool = pools_of d"
  "book_of d Outside = delivered d + swept d - deposited d"
  by (simp_all add: book_of_def)

lemma sum_upd_point: "finite S \<Longrightarrow> u \<in> S \<Longrightarrow>
  (\<Sum>x\<in>S. f x + (if x = u then n else 0)) = (\<Sum>x\<in>S. f x) + (n::int)"
  by (simp add: sum.distrib)

lemma total_upd:
  assumes "finite S" and "account_in S a"
  shows "total S (b(a := b a + n)) = total S b + n"
proof (cases a)
  case (Avail u)
  then have "(\<Sum>x\<in>S. (b(a := b a + n)) (Avail x) + (b(a := b a + n)) (Held x)) =
      (\<Sum>x\<in>S. (b (Avail x) + b (Held x)) + (if x = u then n else 0))"
    by (intro sum.cong) auto
  with Avail assms show ?thesis by (simp add: total_def account_in_def sum_upd_point del: fun_upd_apply) simp
next
  case (Held u)
  then have "(\<Sum>x\<in>S. (b(a := b a + n)) (Avail x) + (b(a := b a + n)) (Held x)) =
      (\<Sum>x\<in>S. (b (Avail x) + b (Held x)) + (if x = u then n else 0))"
    by (intro sum.cong) auto
  with Held assms show ?thesis by (simp add: total_def account_in_def sum_upd_point del: fun_upd_apply) simp
qed (simp_all add: total_def)

lemma total_post:
  assumes "finite S" and "account_in S src" and "account_in S dst"
  shows "total S (post b (src, dst, n)) = total S b"
proof -
  have "total S (b(src := b src + (- n))) = total S b + (- n)"
    by (rule total_upd [OF assms(1,2)])
  moreover have "total S ((b(src := b src - n))(dst := (b(src := b src - n)) dst + n))
      = total S (b(src := b src - n)) + n"
    by (rule total_upd [OF assms(1,3)])
  ultimately show ?thesis by (simp add: post_def Let_def)
qed

definition posting_in :: "int set \<Rightarrow> account \<times> account \<times> int \<Rightarrow> bool" where
  "posting_in S e = (case e of (src, dst, n) \<Rightarrow> account_in S src \<and> account_in S dst)"

lemma total_posts:
  "finite S \<Longrightarrow> list_all (posting_in S) es \<Longrightarrow> total S (foldl post b es) = total S b"
proof (induction es arbitrary: b)
  case Nil
  then show ?case by simp
next
  case (Cons e es)
  obtain src dst n where e: "e = (src, dst, n)" by (cases e) auto
  with Cons.prems have "total S (post b e) = total S b"
    by (simp add: total_post posting_in_def)
  with Cons show ?case by simp
qed

lemma account_in_simps [simp]:
  "account_in S (Avail u) = (u \<in> S)"
  "account_in S (Held u) = (u \<in> S)"
  "account_in S Pool"
  "account_in S Outside"
  by (simp_all add: account_in_def)

lemma total_insert: "finite S \<Longrightarrow> b (Avail u) = 0 \<Longrightarrow> b (Held u) = 0 \<Longrightarrow>
  total (insert u S) b = total S b"
  by (cases "u \<in> S") (simp_all add: total_def insert_absorb)

section \<open>The book after a statement\<close>

text \<open>Two databases with the same money tables have the same book.\<close>

lemma book_of_cong:
  assumes "balances d' = balances d" and "raffle_periods d' = raffle_periods d"
    and "deposited d' = deposited d" and "delivered d' = delivered d" and "swept d' = swept d"
  shows "book_of d' = book_of d"
  by (rule ext) (simp add: book_of_def avail_of_def held_of_def pools_of_def select_balance_def assms
      split: account.splits)

lemma update_balance_Some:
  assumes "update_balance u f d = Inr d'" and "select_balance u d = Some r"
  shows "d' = d\<lparr>balances := upd_key b_discord_id u f (balances d)\<rparr>
    \<and> balance_ok (f r)"
  using assms by (auto simp: update_balance_def balance_ok_def bindE_Inr)

lemma update_balance_None: "select_balance u d = None \<Longrightarrow> update_balance u f d = Inr d"
  by (simp add: update_balance_def)

text \<open>A row update that keeps the key.\<close>

definition keeps_id :: "(balance_row \<Rightarrow> balance_row) \<Rightarrow> bool" where
  "keeps_id f \<longleftrightarrow> (\<forall>r. b_discord_id (f r) = b_discord_id r)"

lemma select_balance_upd:
  assumes "keeps_id f"
  shows "select_balance u' (d\<lparr>balances := upd_key b_discord_id u f (balances d)\<rparr>) =
    (if u' = u then map_option f (select_balance u d) else select_balance u' d)"
  using assms by (simp add: select_balance_def sel_key_upd keeps_id_def)

lemma book_update_balance:
  assumes upd: "update_balance u f d = Inr d'" and row: "select_balance u d = Some r" and "keeps_id f"
  shows "book_of d' = (book_of d)(Avail u := b_balance (f r), Held u := b_locked (f r))"
proof (rule ext)
  fix a
  have d': "d' = d\<lparr>balances := upd_key b_discord_id u f (balances d)\<rparr>"
    using update_balance_Some [OF upd row] by simp
  show "book_of d' a = ((book_of d)(Avail u := b_balance (f r), Held u := b_locked (f r))) a"
    using row by (cases a)
      (simp_all add: d' avail_of_def held_of_def select_balance_upd [OF assms(3)] pools_of_def
        deposited_def delivered_def swept_def)
qed

lemma select_balance_update:
  assumes "update_balance u f d = Inr d'" and "select_balance u d = Some r" and "keeps_id f"
  shows "select_balance u' d' = (if u' = u then Some (f r) else select_balance u' d)"
  using update_balance_Some [OF assms(1,2)] assms by (simp add: select_balance_upd)

lemma audit_book:
  assumes "audit_log_insert_with_chain E a d = Inr (i, d')"
  shows "book_of d' = (book_of d)(Outside := book_of d Outside +
    (if aa_action a = ''treasury_swept'' then coalesce (aa_amount a) 0 else 0))"
proof (rule ext)
  fix acc
  have fr: "obs d' = obs d"
    if "\<And>d l h s. obs (d\<lparr>audit_log_id_seq := s, audit_log := l, last_row_hash := h\<rparr>) = obs d"
    for obs :: "db \<Rightarrow> 'x"
    using chain.append_obs [OF assms that] by simp
  have "swept d' = swept d + (if aa_action a = ''treasury_swept'' then coalesce (aa_amount a) 0 else 0)"
    unfolding swept_def by (rule chain.append_sum [OF assms])
  moreover have "avail_of u d' = avail_of u d" and "held_of u d' = held_of u d" for u
    by (rule fr, simp add: avail_of_def held_of_def select_balance_def)+
  moreover have "pools_of d' = pools_of d" and "deposited d' = deposited d" and "delivered d' = delivered d"
    by (rule fr, simp add: pools_of_def deposited_def delivered_def)+
  ultimately show "book_of d' acc = ((book_of d)(Outside := book_of d Outside +
    (if aa_action a = ''treasury_swept'' then coalesce (aa_amount a) 0 else 0))) acc"
    by (cases acc) simp_all
qed

end
