(* ===== verification/Ledger.thy ===== *)
theory Ledger
  imports Books
begin

text \<open>
  The invariant of the economy and its preservation by every stored function: the tables are
  well formed, the locked gold of a user is exactly what the open withdraw tickets and the open
  bets of that user hold, and the books balance. For every function that moves gold, the
  postings of \<open>Books\<close> it refines.
\<close>

section \<open>Definitions\<close>

definition accounts_ok :: "db \<Rightarrow> bool" where
  "accounts_ok d \<longleftrightarrow>
     distinct (map u_discord_id (users d)) \<and> distinct (map b_discord_id (balances d))
     \<and> set (map b_discord_id (balances d)) = user_ids d \<and> 0 \<in> user_ids d
     \<and> (\<forall>r \<in> set (balances d). balance_ok r)"

text \<open>A claimed ticket names its cashier, and its last activity is the claim: no other function
  touches a ticket and leaves it claimed.\<close>

definition claim_ok :: "'a ticket_scheme \<Rightarrow> bool" where
  [simp]: "claim_ok t \<longleftrightarrow> (t_status t = Claimed \<longrightarrow> t_claimed_by t \<noteq> None \<and> t_claimed_at t = Some (t_last_activity_at t))"

definition deposits_ok :: "ticket list \<Rightarrow> bool" where
  "deposits_ok ts \<longleftrightarrow>
     distinct (map t_id ts) \<and> distinct (map t_ticket_uid ts)
     \<and> (\<forall>t \<in> set ts. 0 < t_amount t \<and> valid_region (t_region t) \<and> claim_ok t)"

definition withdraws_ok :: "int set \<Rightarrow> withdraw_ticket list \<Rightarrow> bool" where
  "withdraws_ok U ts \<longleftrightarrow>
     distinct (map t_id ts) \<and> distinct (map t_ticket_uid ts)
     \<and> (\<forall>t \<in> set ts. 0 < t_amount t \<and> 0 \<le> w_fee t \<and> t_discord_id t \<in> U
          \<and> valid_region (t_region t) \<and> claim_ok t)"

text \<open>An open bet: its stake, commission and rake add up to the amount.\<close>

definition open_bet_ok :: "int set \<Rightarrow> int set \<Rightarrow> bet_row \<Rightarrow> bool" where
  "open_bet_ok U P b \<longleftrightarrow>
     bt_discord_id b \<in> U \<and> 0 \<le> bt_effective_stake b \<and> 0 \<le> bt_commission b \<and> 0 \<le> bt_rake b
     \<and> bt_bet_amount b = bt_effective_stake b + bt_commission b + bt_rake b
     \<and> (case bt_rake_period_id b of None \<Rightarrow> True | Some p \<Rightarrow> p \<in> P)"

definition bets_ok :: "int set \<Rightarrow> int set \<Rightarrow> bet_row list \<Rightarrow> bool" where
  "bets_ok U P bs \<longleftrightarrow>
     distinct (map bt_id bs) \<and> distinct (map bet_key bs)
     \<and> (\<forall>b \<in> set bs. bt_status b = Bet_open \<longrightarrow> open_bet_ok U P b)"

definition period_ids :: "db \<Rightarrow> int set" where
  "period_ids d = set (map rp_id (raffle_periods d))"

definition periods_ok :: "db \<Rightarrow> bool" where
  "periods_ok d \<longleftrightarrow> distinct (map rp_id (raffle_periods d))"

text \<open>Commission and rake are shares of the stake.\<close>

definition config_ok :: "pg_env \<Rightarrow> db \<Rightarrow> bool" where
  "config_ok E d \<longleftrightarrow>
     (\<forall>g \<in> set (game_config d). \<forall>c r. commission_bps E g = Inr c \<longrightarrow> rake_bps d = Inr r \<longrightarrow>
        0 \<le> c \<and> 0 \<le> r \<and> c + r \<le> 10000)"

definition locks_ok :: "db \<Rightarrow> bool" where
  "locks_ok d \<longleftrightarrow> (\<forall>u. held_of u d = ticket_locks u d + bet_locks u d)"

definition books_ok :: "db \<Rightarrow> bool" where
  "books_ok d \<longleftrightarrow> total (user_ids d) (book_of d) = 0"

definition tables_ok :: "pg_env \<Rightarrow> db \<Rightarrow> bool" where
  "tables_ok E d \<longleftrightarrow>
     accounts_ok d \<and> deposits_ok (deposit_tickets d)
     \<and> withdraws_ok (user_ids d) (withdraw_tickets d)
     \<and> bets_ok (user_ids d) (period_ids d) (bets d) \<and> periods_ok d \<and> config_ok E d"

definition ledger_inv :: "pg_env \<Rightarrow> db \<Rightarrow> bool" where
  "ledger_inv E d \<longleftrightarrow> tables_ok E d \<and> locks_ok d \<and> books_ok d"

text \<open>The tables the invariant looks at.\<close>

definition same_money :: "db \<Rightarrow> db \<Rightarrow> bool" where
  "same_money d d' \<longleftrightarrow>
     map u_discord_id (users d') = map u_discord_id (users d) \<and> balances d' = balances d
     \<and> deposit_tickets d' = deposit_tickets d \<and> withdraw_tickets d' = withdraw_tickets d
     \<and> bets d' = bets d \<and> raffle_periods d' = raffle_periods d
     \<and> game_config d' = game_config d \<and> luck_config d' = luck_config d \<and> swept d' = swept d"

section \<open>Frames\<close>

lemma same_money_refl [simp]: "same_money d d"
  by (simp add: same_money_def)

lemma same_money_trans: "same_money d d1 \<Longrightarrow> same_money d1 d2 \<Longrightarrow> same_money d d2"
  by (simp add: same_money_def)

lemma same_money_ids:
  assumes "same_money d d'"
  shows "user_ids d' = user_ids d" and "period_ids d' = period_ids d"
proof -
  have "set (map u_discord_id (users d')) = set (map u_discord_id (users d))"
    using assms by (metis same_money_def)
  then show "user_ids d' = user_ids d" by (simp add: user_ids_def)
  show "period_ids d' = period_ids d" using assms by (simp add: period_ids_def same_money_def)
qed

lemma same_money_book: "same_money d d' \<Longrightarrow> book_of d' = book_of d"
  by (rule book_of_cong) (simp_all add: same_money_def deposited_def delivered_def)

lemma same_money_inv:
  assumes "same_money d d'"
  shows "ledger_inv E d' = ledger_inv E d"
proof -
  have "accounts_ok d' = accounts_ok d"
    using assms same_money_ids [OF assms] by (simp add: accounts_ok_def same_money_def)
  moreover have "locks_ok d' = locks_ok d"
    using assms
    by (simp add: locks_ok_def same_money_def held_of_def select_balance_def ticket_locks_def bet_locks_def)
  ultimately show ?thesis
    using assms same_money_ids [OF assms] same_money_book [OF assms]
    by (simp add: ledger_inv_def tables_ok_def books_ok_def periods_ok_def config_ok_def rake_bps_def
        same_money_def)
qed

lemma audit_same_money:
  assumes "audit_log_insert_with_chain E a d = Inr (i, d')" and "aa_action a \<noteq> ''treasury_swept''"
  shows "same_money d d'"
proof -
  have "swept d' = swept d"
    unfolding swept_def using chain.append_sum [OF assms(1), of "''treasury_swept''"] assms(2) by simp
  then show ?thesis
    using chain.append_row [OF assms(1)] by (auto simp: same_money_def)
qed

text \<open>The other tables: a change outside the money tables.\<close>

lemma same_money_updates [simp]:
  "same_money d (d\<lparr>cashier_stats := a\<rparr>)"
  "same_money d (d\<lparr>cashier_status := b\<rparr>)"
  "same_money d (d\<lparr>cashier_sessions := c\<rparr>)"
  "same_money d (d\<lparr>cashier_characters := e\<rparr>)"
  "same_money d (d\<lparr>disputes := f\<rparr>)"
  "same_money d (d\<lparr>dw_config := g\<rparr>)"
  "same_money d (d\<lparr>user_seeds := h\<rparr>)"
  "same_money d (d\<lparr>seed_history := j\<rparr>)"
  "same_money d (d\<lparr>rate_limit_entries := k\<rparr>)"
  "same_money d (d\<lparr>raffle_tickets := l\<rparr>)"
  "same_money d (d\<lparr>deposit_tickets_id_seq := n\<rparr>)"
  "same_money d (d\<lparr>withdraw_tickets_id_seq := n\<rparr>)"
  "same_money d (d\<lparr>bets_id_seq := n\<rparr>)"
  by (simp_all add: same_money_def swept_def)

lemma upsert_stats_same_money: "upsert_stats cid inc d = Inr d' \<Longrightarrow> same_money d d'"
  by (auto simp: upsert_stats_def raise_simps Let_def split: if_splits)

section \<open>Accounts\<close>

lemma finite_user_ids [simp]: "finite (user_ids d)"
  by (simp add: user_ids_def)

lemma has_user [simp]: "has_key u_discord_id u (users d) \<longleftrightarrow> u \<in> user_ids d"
  by (simp add: has_key_def user_ids_def)

lemma accounts_row:
  assumes "accounts_ok d" and "u \<in> user_ids d"
  obtains r where "select_balance u d = Some r" "0 \<le> b_balance r" "0 \<le> b_locked r"
    "avail_of u d = b_balance r" "held_of u d = b_locked r"
proof (cases "select_balance u d")
  case None
  then have "u \<notin> b_discord_id ` set (balances d)"
    by (simp add: select_balance_def sel_key_None_iff)
  with assms show ?thesis by (simp add: accounts_ok_def)
next
  case (Some r)
  then have "r \<in> set (balances d)" by (simp add: select_balance_def sel_key_Some_in)
  with assms Some that show ?thesis by (auto simp: accounts_ok_def avail_of_def held_of_def balance_ok_iff)
qed

lemma accounts_row_ex: "accounts_ok d \<Longrightarrow> u \<in> user_ids d \<Longrightarrow> \<exists>r. select_balance u d = Some r"
  by (metis accounts_row)

lemma user_ids_frame [simp]:
  "user_ids (d\<lparr>balances := bs\<rparr>) = user_ids d"
  "user_ids (d\<lparr>deposit_tickets := dt\<rparr>) = user_ids d"
  "user_ids (d\<lparr>withdraw_tickets := wt\<rparr>) = user_ids d"
  "user_ids (d\<lparr>bets := bt\<rparr>) = user_ids d"
  "user_ids (d\<lparr>raffle_periods := rp\<rparr>) = user_ids d"
  "user_ids (d\<lparr>deposit_tickets_id_seq := n\<rparr>) = user_ids d"
  "user_ids (d\<lparr>withdraw_tickets_id_seq := n\<rparr>) = user_ids d"
  "user_ids (d\<lparr>bets_id_seq := n\<rparr>) = user_ids d"
  by (simp_all add: user_ids_def)

lemma accounts_ok_frame [simp]:
  "accounts_ok (d\<lparr>deposit_tickets := dt\<rparr>) = accounts_ok d"
  "accounts_ok (d\<lparr>withdraw_tickets := wt\<rparr>) = accounts_ok d"
  "accounts_ok (d\<lparr>bets := bt\<rparr>) = accounts_ok d"
  "accounts_ok (d\<lparr>raffle_periods := rp\<rparr>) = accounts_ok d"
  "accounts_ok (d\<lparr>deposit_tickets_id_seq := n\<rparr>) = accounts_ok d"
  "accounts_ok (d\<lparr>withdraw_tickets_id_seq := n\<rparr>) = accounts_ok d"
  "accounts_ok (d\<lparr>bets_id_seq := n\<rparr>) = accounts_ok d"
  by (simp_all add: accounts_ok_def)

lemma select_balance_frame [simp]:
  "select_balance u (d\<lparr>deposit_tickets := dt\<rparr>) = select_balance u d"
  "select_balance u (d\<lparr>withdraw_tickets := wt\<rparr>) = select_balance u d"
  "select_balance u (d\<lparr>bets := bt\<rparr>) = select_balance u d"
  "select_balance u (d\<lparr>raffle_periods := rp\<rparr>) = select_balance u d"
  "select_balance u (d\<lparr>deposit_tickets_id_seq := n\<rparr>) = select_balance u d"
  "select_balance u (d\<lparr>withdraw_tickets_id_seq := n\<rparr>) = select_balance u d"
  "select_balance u (d\<lparr>bets_id_seq := n\<rparr>) = select_balance u d"
  by (simp_all add: select_balance_def)

lemma accounts_no_row:
  assumes "accounts_ok d" and "u \<notin> user_ids d"
  shows "select_balance u d = None" and "avail_of u d = 0" and "held_of u d = 0"
proof -
  show "select_balance u d = None"
    using assms by (simp add: select_balance_def sel_key_None_iff accounts_ok_def)
  then show "avail_of u d = 0" and "held_of u d = 0"
    by (simp_all add: avail_of_def held_of_def)
qed

lemma update_balance_frame:
  "update_balance u f d = Inr d' \<Longrightarrow> \<exists>bs. d' = d\<lparr>balances := bs\<rparr>"
  by (auto simp: update_balance_def raise_simps split: option.splits intro: exI [of _ "balances d"])

lemma accounts_ok_update:
  assumes ok: "accounts_ok d" and upd: "update_balance u f d = Inr d'" and f: "keeps_id f"
  shows "accounts_ok d'"
proof (cases "select_balance u d")
  case None
  with ok upd show ?thesis by (simp add: update_balance_None)
next
  case (Some r)
  have d': "d' = d\<lparr>balances := upd_key b_discord_id u f (balances d)\<rparr>"
    and nn: "balance_ok (f r)"
    using update_balance_Some [OF upd Some] by auto
  have keys: "map b_discord_id (upd_key b_discord_id u f (balances d)) = map b_discord_id (balances d)"
    using f by (simp add: keeps_id_def)
  have dist: "distinct (map b_discord_id (balances d))" using ok by (simp add: accounts_ok_def)
  have "balance_ok s" if "s \<in> set (upd_key b_discord_id u f (balances d))" for s
  proof -
    from set_upd_key [OF that] consider "s \<in> set (balances d)"
      | s0 where "s0 \<in> set (balances d)" "b_discord_id s0 = u" "s = f s0" by auto
    then show ?thesis
    proof cases
      case 1
      with ok show ?thesis by (simp add: accounts_ok_def)
    next
      case 2
      then have "s0 = r"
        using Some sel_key_in [OF dist 2(1)] by (simp add: select_balance_def)
      with 2 nn show ?thesis by simp
    qed
  qed
  moreover have "set (map b_discord_id (upd_key b_discord_id u f (balances d))) = user_ids d"
    using ok by (simp only: keys accounts_ok_def)
  ultimately show ?thesis
    using ok f unfolding accounts_ok_def by (simp add: d' keeps_id_def user_ids_def)
qed

text \<open>The account of a user who may be new: the book does not change.\<close>

lemma ensure_account:
  assumes ok: "accounts_ok d" and ins: "insert_balance E u (insert_user E u d) = Inr d'"
  shows "accounts_ok d'" and "user_ids d' = insert u (user_ids d)"
    and "book_of d' = book_of d" and "\<exists>us bs. d' = d\<lparr>users := us, balances := bs\<rparr>"
proof -
  have "accounts_ok d' \<and> user_ids d' = insert u (user_ids d) \<and> book_of d' = book_of d
      \<and> (\<exists>us bs. d' = d\<lparr>users := us, balances := bs\<rparr>)"
  proof (cases "u \<in> user_ids d")
    case True
    then obtain r where "select_balance u d = Some r" using accounts_row [OF ok] by blast
    then have "has_key b_discord_id u (balances d)" by (simp add: has_key_sel select_balance_def)
    with True ins have "d' = d" by (simp add: insert_user_def insert_balance_def)
    moreover have "d = d\<lparr>users := users d, balances := balances d\<rparr>" by simp
    ultimately show ?thesis using True ok by (metis insert_absorb)
  next
    case False
    note none = accounts_no_row [OF ok False]
    have nokey: "u \<notin> b_discord_id ` set (balances d)" "u \<notin> u_discord_id ` set (users d)"
      using none(1) False by (simp_all add: select_balance_def sel_key_None_iff user_ids_def)
    with False ins obtain us bs where d': "d' = d\<lparr>users := users d @ [us], balances := balances d @ [bs]\<rparr>"
      and us: "u_discord_id us = u" and bs: "b_discord_id bs = u" "b_balance bs = 0" "b_locked bs = 0" "balance_ok bs"
      by (auto simp: insert_user_def insert_balance_def has_key_def user_ids_def balance_ok_iff in_int8_def)
    have "book_of d' a = book_of d a" for a
      using none by (cases a)
        (simp_all add: d' avail_of_def held_of_def select_balance_def pools_of_def deposited_def
          delivered_def swept_def bs split: option.splits)
    with d' us bs ok nokey show ?thesis
      by (auto simp: accounts_ok_def user_ids_def)
  qed
  then show "accounts_ok d'" and "user_ids d' = insert u (user_ids d)" and "book_of d' = book_of d"
    and "\<exists>us bs. d' = d\<lparr>users := us, balances := bs\<rparr>" by auto
qed

section \<open>A balanced step\<close>

lemma total_superset:
  assumes ok: "accounts_ok d" and "finite S" and "user_ids d \<subseteq> S"
  shows "total S (book_of d) = total (user_ids d) (book_of d)"
proof -
  have "(\<Sum>u\<in>S. avail_of u d + held_of u d) = (\<Sum>u\<in>user_ids d. avail_of u d + held_of u d)"
    using assms by (intro sum.mono_neutral_right) (auto simp: accounts_no_row)
  then show ?thesis by (simp add: total_def)
qed

text \<open>A step that posts entries of known users keeps the books balanced.\<close>

lemma ledger_step:
  assumes inv: "ledger_inv E d" and tab: "tables_ok E d'" and locks: "locks_ok d'"
    and sub: "user_ids d \<subseteq> user_ids d'"
    and book: "book_of d' = foldl post (book_of d) es"
    and es: "list_all (posting_in (user_ids d')) es"
  shows "ledger_inv E d'"
proof -
  have "total (user_ids d') (book_of d') = total (user_ids d') (book_of d)"
    using es by (simp add: book total_posts)
  also have "\<dots> = total (user_ids d) (book_of d)"
    using inv sub by (intro total_superset) (auto simp: ledger_inv_def tables_ok_def)
  also have "\<dots> = 0" using inv by (simp add: ledger_inv_def books_ok_def)
  finally show ?thesis using tab locks by (simp add: ledger_inv_def books_ok_def)
qed

lemma withdraws_ok_mono: "withdraws_ok U ts \<Longrightarrow> U \<subseteq> V \<Longrightarrow> withdraws_ok V ts"
  by (auto simp: withdraws_ok_def)

lemma bets_ok_mono: "bets_ok U P bs \<Longrightarrow> U \<subseteq> V \<Longrightarrow> bets_ok V P bs"
  by (auto simp: bets_ok_def open_bet_ok_def)

text \<open>An update of ticket rows that keeps their identity.\<close>

definition keeps_ticket :: "('a ticket_scheme \<Rightarrow> 'a ticket_scheme) \<Rightarrow> bool" where
  "keeps_ticket f \<longleftrightarrow> (\<forall>t. t_id (f t) = t_id t \<and> t_ticket_uid (f t) = t_ticket_uid t
     \<and> t_discord_id (f t) = t_discord_id t \<and> t_amount (f t) = t_amount t \<and> t_region (f t) = t_region t)"

lemma deposits_ok_upd:
  assumes "deposits_ok ts" and "keeps_ticket f"
    and "\<And>t. claim_ok (f t)"
  shows "deposits_ok (upd_key key k f ts)"
proof -
  have "\<forall>t \<in> set (upd_key key k f ts). 0 < t_amount t \<and> valid_region (t_region t) \<and> claim_ok t"
    using assms by (intro ball_upd_key) (auto simp: deposits_ok_def keeps_ticket_def)
  moreover have "map t_id (upd_key key k f ts) = map t_id ts"
    and "map t_ticket_uid (upd_key key k f ts) = map t_ticket_uid ts"
    using assms(2) by (simp_all add: keeps_ticket_def)
  ultimately show ?thesis using assms(1) unfolding deposits_ok_def by metis
qed

lemma withdraws_ok_upd:
  assumes "withdraws_ok U ts" and "keeps_ticket f" and "\<And>t. w_fee (f t) = w_fee t"
    and "\<And>t. claim_ok (f t)"
  shows "withdraws_ok U (upd_key key k f ts)"
proof -
  have "\<forall>t \<in> set (upd_key key k f ts). 0 < t_amount t \<and> 0 \<le> w_fee t \<and> t_discord_id t \<in> U
      \<and> valid_region (t_region t) \<and> claim_ok t"
    using assms by (intro ball_upd_key) (auto simp: withdraws_ok_def keeps_ticket_def)
  moreover have "map t_id (upd_key key k f ts) = map t_id ts"
    and "map t_ticket_uid (upd_key key k f ts) = map t_ticket_uid ts"
    using assms(2) by (simp_all add: keeps_ticket_def)
  ultimately show ?thesis using assms(1) unfolding withdraws_ok_def by metis
qed

lemmas ledger_parts = ledger_inv_def tables_ok_def

text \<open>The ticket found by its uid is also the one found by its id.\<close>

lemma deposit_row:
  assumes "deposits_ok (deposit_tickets d)" and "select_deposit uid d = Some t"
  shows "t \<in> set (deposit_tickets d)" and "sel_key t_id (t_id t) (deposit_tickets d) = Some t"
    and "0 < t_amount t" and "t_ticket_uid t = uid"
proof -
  show "t \<in> set (deposit_tickets d)"
    using assms(2) by (simp add: select_deposit_def sel_key_Some_in)
  with assms(1) show "sel_key t_id (t_id t) (deposit_tickets d) = Some t" and "0 < t_amount t"
    by (simp_all add: deposits_ok_def sel_key_in)
  show "t_ticket_uid t = uid" using assms(2) unfolding select_deposit_def by (rule sel_key_Some_key)
qed

lemma withdraw_row:
  assumes "withdraws_ok U (withdraw_tickets d)" and "select_withdraw uid d = Some t"
  shows "t \<in> set (withdraw_tickets d)" and "sel_key t_id (t_id t) (withdraw_tickets d) = Some t"
    and "0 < t_amount t" and "0 \<le> w_fee t" and "t_discord_id t \<in> U" and "t_ticket_uid t = uid"
proof -
  show "t \<in> set (withdraw_tickets d)"
    using assms(2) by (simp add: select_withdraw_def sel_key_Some_in)
  with assms(1) show "sel_key t_id (t_id t) (withdraw_tickets d) = Some t" and "0 < t_amount t"
    and "0 \<le> w_fee t" and "t_discord_id t \<in> U"
    by (simp_all add: withdraws_ok_def sel_key_in)
  show "t_ticket_uid t = uid" using assms(2) unfolding select_withdraw_def by (rule sel_key_Some_key)
qed

lemma update_deposit_Inr:
  assumes "update_deposit_ticket key k f d = Inr d'" and "sel_key key k (deposit_tickets d) = Some t"
  shows "d' = d\<lparr>deposit_tickets := upd_key key k f (deposit_tickets d)\<rparr>
    \<and> (is_terminal (t_status t) \<longrightarrow> t_status (f t) = t_status t)"
  using assms by (auto simp: update_deposit_ticket_def ticket_terminal_status_immutable_def raise_simps)

lemma update_withdraw_Inr:
  assumes "update_withdraw_ticket key k f d = Inr d'" and "sel_key key k (withdraw_tickets d) = Some t"
  shows "d' = d\<lparr>withdraw_tickets := upd_key key k f (withdraw_tickets d)\<rparr>
    \<and> (is_terminal (t_status t) \<longrightarrow> t_status (f t) = t_status t)"
  using assms by (auto simp: update_withdraw_ticket_def ticket_terminal_status_immutable_def raise_simps)

text \<open>A deposit ticket changes: the book sees whether it is confirmed.\<close>

lemma book_deposit_upd:
  assumes "distinct (map key (deposit_tickets d))" and "sel_key key k (deposit_tickets d) = Some t"
    and "keeps_ticket f" and "t_status t \<noteq> Confirmed"
  shows "book_of (d\<lparr>deposit_tickets := upd_key key k f (deposit_tickets d)\<rparr>) =
    (book_of d)(Outside := book_of d Outside - (if t_status (f t) = Confirmed then t_amount t else 0))"
proof (rule ext)
  fix a
  have "deposited (d\<lparr>deposit_tickets := upd_key key k f (deposit_tickets d)\<rparr>) =
      deposited d + (if t_status (f t) = Confirmed then t_amount t else 0)"
    using assms by (simp add: deposited_def sum_where_upd keeps_ticket_def)
  then show "book_of (d\<lparr>deposit_tickets := upd_key key k f (deposit_tickets d)\<rparr>) a =
    ((book_of d)(Outside := book_of d Outside - (if t_status (f t) = Confirmed then t_amount t else 0))) a"
    by (cases a) (simp_all add: avail_of_def held_of_def select_balance_def pools_of_def delivered_def swept_def)
qed

lemma book_withdraw_upd:
  assumes "distinct (map key (withdraw_tickets d))" and "sel_key key k (withdraw_tickets d) = Some t"
    and "keeps_ticket f" and "\<And>t. w_fee (f t) = w_fee t" and "t_status t \<noteq> Confirmed"
  shows "book_of (d\<lparr>withdraw_tickets := upd_key key k f (withdraw_tickets d)\<rparr>) =
    (book_of d)(Outside := book_of d Outside
       + (if t_status (f t) = Confirmed then t_amount t - w_fee t else 0))"
proof (rule ext)
  fix a
  have "delivered (d\<lparr>withdraw_tickets := upd_key key k f (withdraw_tickets d)\<rparr>) =
      delivered d + (if t_status (f t) = Confirmed then t_amount t - w_fee t else 0)"
    using assms by (simp add: delivered_def sum_where_upd keeps_ticket_def)
  then show "book_of (d\<lparr>withdraw_tickets := upd_key key k f (withdraw_tickets d)\<rparr>) a =
    ((book_of d)(Outside := book_of d Outside
       + (if t_status (f t) = Confirmed then t_amount t - w_fee t else 0))) a"
    by (cases a) (simp_all add: avail_of_def held_of_def select_balance_def pools_of_def deposited_def swept_def)
qed

text \<open>A withdraw ticket that ends releases its lock.\<close>

lemma ticket_locks_upd:
  assumes "distinct (map key (withdraw_tickets d))" and "sel_key key k (withdraw_tickets d) = Some t"
    and "keeps_ticket f" and "\<not> is_terminal (t_status t)"
  shows "ticket_locks u (d\<lparr>withdraw_tickets := upd_key key k f (withdraw_tickets d)\<rparr>) =
    ticket_locks u d - (if u = t_discord_id t \<and> is_terminal (t_status (f t)) then t_amount t else 0)"
  using assms by (auto simp: ticket_locks_def sum_where_upd keeps_ticket_def)

lemma ticket_locks_cong: "withdraw_tickets d' = withdraw_tickets d \<Longrightarrow> ticket_locks u d' = ticket_locks u d"
  by (simp add: ticket_locks_def)

lemma bet_locks_cong: "bets d' = bets d \<Longrightarrow> bet_locks u d' = bet_locks u d"
  by (simp add: bet_locks_def)

lemma held_of_book: "held_of u d = book_of d (Held u)"
  by simp

end
