(* ===== verification/Ledger_Tickets.thy ===== *)
theory Ledger_Tickets
  imports Ledger
begin

text \<open>
  The deposit, withdraw and claim functions keep the invariant of the economy, with the postings
  the confirming and refunding ones refine.
\<close>

section \<open>Tables after a ticket statement\<close>

lemma keeps_id_simps [simp]:
  "keeps_id (\<lambda>r. r\<lparr>b_balance := f1 r, b_updated_at := t, b_version := f2 r\<rparr>)"
  "keeps_id (\<lambda>r. r\<lparr>b_locked := f1 r, b_updated_at := t, b_version := f2 r\<rparr>)"
  "keeps_id (\<lambda>r. r\<lparr>b_balance := f1 r, b_locked := f3 r, b_updated_at := t, b_version := f2 r\<rparr>)"
  "keeps_id (\<lambda>r. r\<lparr>b_balance := f1 r, b_locked := f3 r, b_total_wagered := f4 r, b_updated_at := t,
      b_version := f2 r\<rparr>)"
  "keeps_id (\<lambda>r. r\<lparr>b_balance := f1 r, b_locked := f3 r, b_total_won := f4 r, b_updated_at := t,
      b_version := f2 r\<rparr>)"
  by (simp_all add: keeps_id_def)

text \<open>Users, configuration, bets and periods do not change when only the balances and the
  tickets do.\<close>

lemma tables_ok_tickets:
  assumes "tables_ok E d" and "accounts_ok d'" and "user_ids d \<subseteq> user_ids d'"
    and "deposits_ok (deposit_tickets d')" and "withdraws_ok (user_ids d') (withdraw_tickets d')"
    and "bets d' = bets d" and "raffle_periods d' = raffle_periods d"
    and "game_config d' = game_config d" and "luck_config d' = luck_config d"
  shows "tables_ok E d'"
  using assms bets_ok_mono [of "user_ids d" _ "bets d" "user_ids d'"]
  by (simp add: tables_ok_def period_ids_def periods_ok_def config_ok_def rake_bps_def)

section \<open>Deposits\<close>

lemma create_deposit_inv:
  assumes inv: "ledger_inv E d"
    and ret: "create_deposit_ticket E' u chr realm region faction n th pc d = Inr (uid, d')"
  shows "ledger_inv E d'" and "book_of d' = book_of d"
proof -
  from ret obtain t d1 where
    ins: "insert_deposit_ticket t (d\<lparr>deposit_tickets_id_seq := deposit_tickets_id_seq d + 2\<rparr>) = Inr d1"
    and t: "t_status t = Open" and aud: "same_money d1 d'"
  proof -
    assume goal: "\<And>t d1. insert_deposit_ticket t (d\<lparr>deposit_tickets_id_seq := deposit_tickets_id_seq d + 2\<rparr>) = Inr d1
      \<Longrightarrow> t_status t = Open \<Longrightarrow> same_money d1 d' \<Longrightarrow> thesis"
    show thesis
      using ret by (clarsimp simp: create_deposit_ticket_def raise_simps Let_def)
        (rule goal, assumption, simp_all add: new_ticket_def audit_same_money)
  qed
  have d1: "d1 = d\<lparr>deposit_tickets_id_seq := deposit_tickets_id_seq d + 2,
      deposit_tickets := deposit_tickets d @ [t]\<rparr>"
    and fresh: "\<not> has_key t_id (t_id t) (deposit_tickets d)"
      "\<not> has_key t_ticket_uid (t_ticket_uid t) (deposit_tickets d)" "0 < t_amount t" "valid_region (t_region t)"
    using ins by (auto simp: insert_deposit_ticket_def check_ticket_row_def raise_simps split: if_splits)
  have b1: "book_of d1 = book_of d"
    by (rule book_of_cong) (simp_all add: d1 deposited_def delivered_def swept_def t)
  have ids: "user_ids d1 = user_ids d" by (simp add: d1)
  have "deposits_ok (deposit_tickets d1)"
    using inv fresh t by (auto simp: ledger_parts d1 deposits_ok_def has_key_def)
  then have "tables_ok E d1"
    using inv by - (rule tables_ok_tickets [of E d], auto simp: ledger_parts d1)
  moreover have "locks_ok d1"
    using inv by (simp add: ledger_inv_def locks_ok_def d1 held_of_def select_balance_def ticket_locks_def bet_locks_def)
  ultimately have "ledger_inv E d1"
    using b1 ids by - (rule ledger_step [OF inv, where es = "[]"], auto)
  then show "ledger_inv E d'" using same_money_inv [OF aud] by simp
  show "book_of d' = book_of d" using same_money_book [OF aud] b1 by simp
qed

lemma confirm_deposit_cases:
  assumes "confirm_deposit E uid c d = Inr (res, d')"
  obtains (again) t where "select_deposit uid d = Some t" "t_status t = Confirmed" "t_claimed_by t = Some c"
      "d' = d" "res = map_option b_balance (select_balance (t_discord_id t) d)"
  | (first) t d1 d2 d3 d4 a i where
      "audit_log_insert_with_chain E a d3 = Inr (i, d4)"
      "select_deposit uid d = Some t" "t_status t = Claimed" "\<not> neq3 (t_claimed_by t) c"
      "insert_balance E (t_discord_id t) (insert_user E (t_discord_id t) d) = Inr d1"
      "res = map_option (\<lambda>b. b + t_amount t) (map_option b_balance (select_balance (t_discord_id t) d1))"
      "update_balance (t_discord_id t) (\<lambda>r. r\<lparr>b_balance := coalesce res 0, b_updated_at := now E,
         b_version := b_version r + 1\<rparr>) d1 = Inr d2"
      "update_deposit_ticket t_id (t_id t) (\<lambda>t. t\<lparr>t_status := Confirmed, t_confirmed_at := Some (now E),
         t_last_activity_at := now E\<rparr>) d2 = Inr d3"
      "aa_action a = ''deposit_confirmed''" "same_money d4 d'"
proof -
  from assms obtain t where t: "select_deposit uid d = Some t"
    by (auto simp: confirm_deposit_def raise_simps)
  show ?thesis
  proof (cases "t_status t = Confirmed \<and> eq3 (t_claimed_by t) c")
    case True
    with assms t again show ?thesis by (cases "t_claimed_by t") (auto simp: confirm_deposit_def)
  next
    case False
    show ?thesis
      using assms t by (clarsimp simp: confirm_deposit_def False raise_simps Let_def)
        (rule first, assumption+, simp_all add: upsert_stats_same_money)
  qed
qed

lemma confirm_deposit_refines:
  assumes inv: "ledger_inv E d" and ret: "confirm_deposit E' uid c d = Inr (res, d')"
    and sel: "select_deposit uid d = Some t"
  shows "ledger_inv E d'" and "user_ids d' = (if t_status t = Confirmed then user_ids d
      else insert (t_discord_id t) (user_ids d))"
    and "book_of d' = (if t_status t = Confirmed then book_of d
      else post (book_of d) (Outside, Avail (t_discord_id t), t_amount t))"
    and "deposit_tickets d' = (if t_status t = Confirmed then deposit_tickets d
      else upd_key t_id (t_id t) (\<lambda>t. t\<lparr>t_status := Confirmed, t_confirmed_at := Some (now E'),
         t_last_activity_at := now E'\<rparr>) (deposit_tickets d))"
proof -
  let ?u = "t_discord_id t"
  let ?conf = "\<lambda>t. t\<lparr>t_status := Confirmed, t_confirmed_at := Some (now E'), t_last_activity_at := now E'\<rparr> :: ticket"
  have "ledger_inv E d' \<and> user_ids d' = (if t_status t = Confirmed then user_ids d else insert ?u (user_ids d))
    \<and> book_of d' = (if t_status t = Confirmed then book_of d else post (book_of d) (Outside, Avail ?u, t_amount t))
    \<and> deposit_tickets d' = (if t_status t = Confirmed then deposit_tickets d
        else upd_key t_id (t_id t) ?conf (deposit_tickets d))"
    using ret
  proof (cases rule: confirm_deposit_cases)
    case again
    with sel inv show ?thesis by auto
  next
    case (first t' d1 d2 d3 d4 a i)
    have acc: "accounts_ok d" and dep: "deposits_ok (deposit_tickets d)"
      using inv by (simp_all add: ledger_parts)
    note ens = ensure_account [OF acc]
    have [simp]: "t' = t" using first sel by simp
    note e1 = ens [OF first(5), simplified]
    obtain us bs where d1: "d1 = d\<lparr>users := us, balances := bs\<rparr>" using e1(4) by auto
    obtain r where r: "select_balance ?u d1 = Some r"
      using accounts_row_ex [OF e1(1)] e1(2) by auto
    obtain bs2 where d2: "d2 = d1\<lparr>balances := bs2\<rparr>" using update_balance_frame [OF first(7)] by auto
    have b2: "book_of d2 = (book_of d)(Avail ?u := book_of d (Avail ?u) + t_amount t)"
    proof -
      have "book_of d2 = (book_of d1)(Avail ?u := b_balance r + t_amount t, Held ?u := b_locked r)"
        using book_update_balance [OF first(7), of r] first(6) r by simp
      also have "\<dots> = (book_of d1)(Avail ?u := book_of d1 (Avail ?u) + t_amount t)"
        using r by (auto simp: fun_eq_iff avail_of_def held_of_def)
      finally show ?thesis by (simp only: e1(3))
    qed
    have row: "sel_key t_id (t_id t) (deposit_tickets d2) = Some t"
      using deposit_row [OF dep sel] by (simp add: d2 d1)
    have d3: "d3 = d2\<lparr>deposit_tickets := upd_key t_id (t_id t) ?conf (deposit_tickets d2)\<rparr>"
      using update_deposit_Inr [OF first(8)] row by simp
    have b3: "book_of d3 = post (book_of d) (Outside, Avail ?u, t_amount t)"
    proof -
      have "book_of d3 = (book_of d2)(Outside := book_of d2 Outside - t_amount t)"
        using book_deposit_upd [OF _ row, of ?conf] dep first(3)
        by (simp add: d3 keeps_ticket_def deposits_ok_def d2 d1)
      then show ?thesis by (auto simp: b2 post_def fun_eq_iff)
    qed
    have same: "same_money d3 d'"
      using audit_same_money [OF first(1)] first(9,10) same_money_trans by auto
    have ids: "user_ids d3 = insert ?u (user_ids d)"
      using e1(2) by (simp add: d3 d2)
    have acc3: "accounts_ok d3"
      using accounts_ok_update [OF e1(1) first(7)] by (simp add: d3)
    have "deposits_ok (deposit_tickets d3)"
      using dep by (auto simp: d3 d2 d1 keeps_ticket_def intro!: deposits_ok_upd)
    then have tab: "tables_ok E d3"
      using inv acc3 ids withdraws_ok_mono [of "user_ids d" "withdraw_tickets d" "user_ids d3"]
      by - (rule tables_ok_tickets [of E d], auto simp: ledger_parts d3 d2 d1)
    have "held_of v d3 = held_of v d" for v
      unfolding held_of_book b3 by (simp add: post_def)
    then have "locks_ok d3"
      using inv by (simp add: ledger_inv_def locks_ok_def ticket_locks_def bet_locks_def) (simp add: d3 d2 d1)
    then have "ledger_inv E d3"
      using tab ids b3
      by - (rule ledger_step [OF inv, where es = "[(Outside, Avail ?u, t_amount t)]"], auto simp: posting_in_def)
    then have "ledger_inv E d'" using same_money_inv [OF same] by simp
    moreover have "deposit_tickets d' = upd_key t_id (t_id t) ?conf (deposit_tickets d)"
      using same by (simp add: same_money_def d3 d2 d1)
    ultimately show ?thesis
      using ids b3 same_money_ids(1) [OF same] same_money_book [OF same] first(3) by simp
  qed
  then show "ledger_inv E d'" and "user_ids d' = (if t_status t = Confirmed then user_ids d
      else insert (t_discord_id t) (user_ids d))"
    and "book_of d' = (if t_status t = Confirmed then book_of d
      else post (book_of d) (Outside, Avail (t_discord_id t), t_amount t))"
    and "deposit_tickets d' = (if t_status t = Confirmed then deposit_tickets d
      else upd_key t_id (t_id t) ?conf (deposit_tickets d))" by blast+
qed

text \<open>A change of a deposit ticket that is not a confirmation.\<close>

lemma deposit_change_inv:
  assumes inv: "ledger_inv E d" and row: "sel_key key k (deposit_tickets d) = Some t"
    and dist: "distinct (map key (deposit_tickets d))"
    and f: "keeps_ticket f" and claims: "\<And>t. claim_ok (f t)"
    and st: "t_status t \<noteq> Confirmed" "t_status (f t) \<noteq> Confirmed"
  shows "ledger_inv E (d\<lparr>deposit_tickets := upd_key key k f (deposit_tickets d)\<rparr>)" (is "ledger_inv E ?d'")
    and "book_of (d\<lparr>deposit_tickets := upd_key key k f (deposit_tickets d)\<rparr>) = book_of d"
proof -
  show b: "book_of ?d' = book_of d"
    using book_deposit_upd [OF dist row f] st by (simp add: fun_upd_idem)
  have "tables_ok E ?d'"
    using inv deposits_ok_upd [OF _ f claims, of "deposit_tickets d" key k]
    by - (rule tables_ok_tickets [of E d], auto simp: ledger_parts)
  moreover have "locks_ok ?d'"
    using inv by (simp add: ledger_inv_def locks_ok_def held_of_def ticket_locks_def bet_locks_def)
  ultimately show "ledger_inv E ?d'"
    using b by - (rule ledger_step [OF inv, where es = "[]"], auto)
qed

lemma cancel_deposit_inv:
  assumes inv: "ledger_inv E d" and ret: "cancel_deposit E' uid actor reason d = Inr (x, d')"
  shows "ledger_inv E d'" and "book_of d' = book_of d"
proof -
  let ?f = "\<lambda>t. t\<lparr>t_status := Cancelled, t_cancelled_at := Some (now E'), t_cancel_reason := reason,
      t_last_activity_at := now E'\<rparr> :: ticket"
  from ret obtain t d1 where sel: "select_deposit uid d = Some t" and nt: "\<not> is_terminal (t_status t)"
    and upd: "update_deposit_ticket t_id (t_id t) ?f d = Inr d1" and same: "same_money d1 d'"
    by (auto simp: cancel_deposit_def raise_simps Let_def dest!: audit_same_money)
  have dep: "deposits_ok (deposit_tickets d)" using inv by (simp add: ledger_parts)
  note row = deposit_row [OF dep sel]
  have d1: "d1 = d\<lparr>deposit_tickets := upd_key t_id (t_id t) ?f (deposit_tickets d)\<rparr>"
    using update_deposit_Inr [OF upd row(2)] by simp
  have "ledger_inv E d1 \<and> book_of d1 = book_of d"
    using deposit_change_inv [OF inv row(2), of ?f] dep nt
    by (auto simp: d1 deposits_ok_def keeps_ticket_def is_terminal_def)
  then show "ledger_inv E d'" and "book_of d' = book_of d"
    using same_money_inv [OF same] same_money_book [OF same] by simp_all
qed

section \<open>Withdraws\<close>

lemma withdraw_change_inv:
  assumes inv: "ledger_inv E d" and row: "sel_key key k (withdraw_tickets d) = Some t"
    and dist: "distinct (map key (withdraw_tickets d))"
    and f: "keeps_ticket f" "\<And>t. w_fee (f t) = w_fee t"
    and claims: "\<And>t. claim_ok (f t)"
    and st: "\<not> is_terminal (t_status t)" "\<not> is_terminal (t_status (f t))"
  shows "ledger_inv E (d\<lparr>withdraw_tickets := upd_key key k f (withdraw_tickets d)\<rparr>)" (is "ledger_inv E ?d'")
    and "book_of (d\<lparr>withdraw_tickets := upd_key key k f (withdraw_tickets d)\<rparr>) = book_of d"
proof -
  have nc: "t_status t \<noteq> Confirmed" "t_status (f t) \<noteq> Confirmed" using st by (auto simp: is_terminal_def)
  show b: "book_of ?d' = book_of d"
    using book_withdraw_upd [OF dist row f] nc by (simp add: fun_upd_idem)
  have "tables_ok E ?d'"
    using inv withdraws_ok_upd [OF _ f claims, of "user_ids d" "withdraw_tickets d" key k]
    by - (rule tables_ok_tickets [of E d], auto simp: ledger_parts)
  moreover have "locks_ok ?d'"
    using inv ticket_locks_upd [OF dist row f(1) st(1)] st(2)
    by (simp add: ledger_inv_def locks_ok_def held_of_def bet_locks_def)
  ultimately show "ledger_inv E ?d'"
    using b by - (rule ledger_step [OF inv, where es = "[]"], auto)
qed

text \<open>The end of a withdraw ticket: the lock of the user falls by the amount.\<close>

lemma withdraw_end_inv:
  assumes inv: "ledger_inv E d" and sel: "select_withdraw uid d = Some t" and nt: "\<not> is_terminal (t_status t)"
    and d2: "accounts_ok d2" "d2 = d\<lparr>balances := bs\<rparr>"
    and held: "\<And>v. held_of v d2 = held_of v d - (if v = t_discord_id t then t_amount t else 0)"
    and f: "keeps_ticket f" "\<And>t. w_fee (f t) = w_fee t" "\<And>t. is_terminal (t_status (f t))"
    and d3: "d3 = d2\<lparr>withdraw_tickets := upd_key t_id (t_id t) f (withdraw_tickets d)\<rparr>"
    and book: "book_of d3 = foldl post (book_of d) es" and es: "list_all (posting_in (user_ids d)) es"
  shows "ledger_inv E d3"
proof -
  have wok: "withdraws_ok (user_ids d) (withdraw_tickets d)" using inv by (simp add: ledger_parts)
  note row = withdraw_row [OF wok sel]
  have dist: "distinct (map t_id (withdraw_tickets d))" using wok by (simp add: withdraws_ok_def)
  have ids: "user_ids d3 = user_ids d" by (simp add: d3 d2)
  have cl: "claim_ok (f t)" for t
    using f(3) [of t] by (auto simp: is_terminal_def)
  have "withdraws_ok (user_ids d) (withdraw_tickets d3)"
    using withdraws_ok_upd [OF wok f(1,2) cl] by (simp add: d3)
  moreover have "accounts_ok d3" using d2(1) by (simp add: d3)
  ultimately have "tables_ok E d3"
    using inv ids by - (rule tables_ok_tickets [of E d], auto simp: ledger_parts d3 d2(2))
  moreover have "locks_ok d3"
    unfolding locks_ok_def
  proof
    fix v
    have "ticket_locks v d3 = ticket_locks v d - (if v = t_discord_id t then t_amount t else 0)"
      using ticket_locks_upd [OF dist row(2) f(1) nt, of v] f(3)
      by (simp add: d3 d2(2) ticket_locks_def)
    moreover have "held_of v d3 = held_of v d2" by (simp add: d3 held_of_def)
    moreover have "bet_locks v d3 = bet_locks v d" by (simp add: d3 d2(2) bet_locks_def)
    ultimately show "held_of v d3 = ticket_locks v d3 + bet_locks v d3"
      using held [of v] inv by (simp add: ledger_inv_def locks_ok_def)
  qed
  ultimately show ?thesis
    using book es ids by - (rule ledger_step [OF inv], auto)
qed

lemma create_withdraw_refines:
  assumes inv: "ledger_inv E d"
    and ret: "create_withdraw_ticket E' u chr realm region faction n th pc d = Inr (uid, d')"
  shows "ledger_inv E d'" and "book_of d' = post (book_of d) (Avail u, Held u, n)"
proof -
  let ?lock = "\<lambda>r. r\<lparr>b_balance := b_balance r - n, b_locked := b_locked r + n, b_updated_at := now E',
      b_version := b_version r + 1\<rparr>"
  let ?d0 = "d\<lparr>withdraw_tickets_id_seq := withdraw_tickets_id_seq d + 2\<rparr>"
  from ret obtain t d2 d3 where
    ins: "insert_withdraw_ticket t d2 = Inr d3" and upd: "update_balance u ?lock ?d0 = Inr d2"
    and t: "t_status t = Open" "t_discord_id t = u" "t_amount t = n" and same: "same_money d3 d'"
  proof -
    assume goal: "\<And>t d2 d3. insert_withdraw_ticket t d2 = Inr d3 \<Longrightarrow> update_balance u ?lock ?d0 = Inr d2
      \<Longrightarrow> t_status t = Open \<Longrightarrow> t_discord_id t = u \<Longrightarrow> t_amount t = n \<Longrightarrow> same_money d3 d' \<Longrightarrow> thesis"
    show thesis
      using ret by (clarsimp simp: create_withdraw_ticket_def raise_simps Let_def)
        (rule goal, assumption+,
         simp_all add: new_ticket_def audit_same_money ticket.defs withdraw_ticket.defs)
  qed
  obtain bs where d2: "d2 = ?d0\<lparr>balances := bs\<rparr>" using update_balance_frame [OF upd] by auto
  have d3: "d3 = d2\<lparr>withdraw_tickets := withdraw_tickets d @ [t]\<rparr>"
    and fresh: "\<not> has_key t_id (t_id t) (withdraw_tickets d)"
      "\<not> has_key t_ticket_uid (t_ticket_uid t) (withdraw_tickets d)" "0 < t_amount t" "0 \<le> w_fee t" "valid_region (t_region t)"
    and user: "u \<in> user_ids d"
    using ins t by (auto simp: insert_withdraw_ticket_def check_ticket_row_def raise_simps d2 split: if_splits)
  have acc: "accounts_ok ?d0" and wok: "withdraws_ok (user_ids d) (withdraw_tickets d)"
    using inv by (simp_all add: ledger_parts)
  obtain r where r: "select_balance u ?d0 = Some r" using accounts_row_ex [OF acc, of u] user by auto
  have b0: "book_of ?d0 = book_of d"
    by (rule book_of_cong) (simp_all add: deposited_def delivered_def swept_def)
  have "book_of d2 = (book_of ?d0)(Avail u := b_balance r - n, Held u := b_locked r + n)"
    using book_update_balance [OF upd r] by simp
  also have "\<dots> = post (book_of ?d0) (Avail u, Held u, n)"
    using r by (auto simp: post_def fun_eq_iff avail_of_def held_of_def)
  finally have b2: "book_of d2 = post (book_of d) (Avail u, Held u, n)" by (simp only: b0)
  have b3: "book_of d3 = post (book_of d) (Avail u, Held u, n)"
  proof -
    have "book_of d3 = book_of d2"
      by (rule book_of_cong) (simp_all add: d3 deposited_def delivered_def swept_def t d2)
    then show ?thesis using b2 by simp
  qed
  have "withdraws_ok (user_ids d) (withdraw_tickets d3)"
    using wok fresh t user by (auto simp: d3 withdraws_ok_def has_key_def)
  moreover have "accounts_ok d3" using accounts_ok_update [OF acc upd] by (simp add: d3)
  ultimately have "tables_ok E d3"
    using inv by - (rule tables_ok_tickets [of E d], auto simp: ledger_parts d3 d2)
  moreover have "locks_ok d3"
    unfolding locks_ok_def
  proof
    fix v
    have "held_of v d3 = held_of v d + (if v = u then n else 0)"
      unfolding held_of_book b3 by (simp add: post_def)
    moreover have "ticket_locks v d3 = ticket_locks v d + (if v = u then n else 0)"
      using t by (auto simp: d3 ticket_locks_def is_terminal_def)
    moreover have "bet_locks v d3 = bet_locks v d" by (simp add: d3 d2 bet_locks_def)
    ultimately show "held_of v d3 = ticket_locks v d3 + bet_locks v d3"
      using inv by (simp add: ledger_inv_def locks_ok_def)
  qed
  ultimately have "ledger_inv E d3"
    using b3 user by - (rule ledger_step [OF inv, where es = "[(Avail u, Held u, n)]"],
      auto simp: posting_in_def d3 d2)
  then show "ledger_inv E d'" and "book_of d' = post (book_of d) (Avail u, Held u, n)"
    using same_money_inv [OF same] same_money_book [OF same] b3 by simp_all
qed

lemma cancel_withdraw_refines:
  assumes inv: "ledger_inv E d" and ret: "cancel_withdraw E' uid actor reason d = Inr (res, d')"
    and sel: "select_withdraw uid d = Some t"
  shows "ledger_inv E d'"
    and "book_of d' = post (book_of d) (Held (t_discord_id t), Avail (t_discord_id t), t_amount t)"
proof -
  let ?u = "t_discord_id t"
  let ?f = "\<lambda>t. t\<lparr>t_status := Cancelled, t_cancelled_at := Some (now E'), t_cancel_reason := reason,
      t_last_activity_at := now E'\<rparr> :: withdraw_ticket"
  have acc: "accounts_ok d" and wok: "withdraws_ok (user_ids d) (withdraw_tickets d)"
    using inv by (simp_all add: ledger_parts)
  note row = withdraw_row [OF wok sel]
  obtain r where r: "select_balance ?u d = Some r" using accounts_row_ex [OF acc row(5)] by auto
  let ?unlock = "\<lambda>r'. r'\<lparr>b_balance := b_balance r + t_amount t, b_locked := b_locked r' - t_amount t,
      b_updated_at := now E', b_version := b_version r' + 1\<rparr>"
  from ret sel r obtain d1 d2 where nt: "\<not> is_terminal (t_status t)"
    and upd: "update_balance ?u ?unlock d = Inr d1"
    and tick: "update_withdraw_ticket t_id (t_id t) ?f d1 = Inr d2" and same: "same_money d2 d'"
    by (auto simp: cancel_withdraw_def raise_simps Let_def
        dest!: audit_same_money upsert_stats_same_money intro: same_money_trans split: if_splits)
  obtain bs where d1: "d1 = d\<lparr>balances := bs\<rparr>" using update_balance_frame [OF upd] by auto
  have b1: "book_of d1 = post (book_of d) (Held ?u, Avail ?u, t_amount t)"
    using book_update_balance [OF upd r] r
    by (auto simp: post_def fun_eq_iff avail_of_def held_of_def)
  have row1: "sel_key t_id (t_id t) (withdraw_tickets d1) = Some t" using row(2) by (simp add: d1)
  have d2: "d2 = d1\<lparr>withdraw_tickets := upd_key t_id (t_id t) ?f (withdraw_tickets d)\<rparr>"
    using update_withdraw_Inr [OF tick row1] by (simp add: d1)
  have b2: "book_of d2 = post (book_of d) (Held ?u, Avail ?u, t_amount t)"
  proof -
    have "book_of (d1\<lparr>withdraw_tickets := upd_key t_id (t_id t) ?f (withdraw_tickets d1)\<rparr>) = book_of d1"
      using book_withdraw_upd [OF _ row1, of ?f] wok nt
      by (simp add: d1 keeps_ticket_def withdraws_ok_def is_terminal_def fun_upd_idem)
    then show ?thesis using b1 by (simp add: d2 d1)
  qed
  have held: "held_of v d1 = held_of v d - (if v = ?u then t_amount t else 0)" for v
    unfolding held_of_book b1 by (simp add: post_def)
  have "ledger_inv E d2"
    by (rule withdraw_end_inv [OF inv sel nt accounts_ok_update [OF acc upd] d1 held _ _ _ d2,
          where es = "[(Held ?u, Avail ?u, t_amount t)]"])
      (use b2 row(5) in \<open>auto simp: keeps_ticket_def is_terminal_def posting_in_def\<close>)
  then show "ledger_inv E d'"
    and "book_of d' = post (book_of d) (Held ?u, Avail ?u, t_amount t)"
    using same_money_inv [OF same] same_money_book [OF same] b2 by simp_all
qed

lemma confirm_withdraw_cases:
  assumes ret: "confirm_withdraw E uid c d = Inr (res, d')" and t: "select_withdraw uid d = Some t"
  obtains (again) "t_status t = Confirmed" "t_claimed_by t = Some c" "d' = d"
      "res = map_option b_balance (select_balance (t_discord_id t) d)"
  | (first) d1 d2 d3 where "t_status t = Claimed" "\<not> neq3 (t_claimed_by t) c"
      "update_balance (t_discord_id t) (\<lambda>r. r\<lparr>b_locked := b_locked r - t_amount t, b_updated_at := now E,
         b_version := b_version r + 1\<rparr>) d = Inr d1"
      "update_balance 0 (\<lambda>r. r\<lparr>b_balance := b_balance r + w_fee t, b_updated_at := now E,
         b_version := b_version r + 1\<rparr>) d1 = Inr d2"
      "update_withdraw_ticket t_id (t_id t) (\<lambda>t'. t'\<lparr>t_status := Confirmed, t_confirmed_at := Some (now E),
         w_amount_delivered := Some (t_amount t - w_fee t), t_last_activity_at := now E\<rparr>) d2 = Inr d3"
      "same_money d3 d'" "res = map_option b_balance (select_balance (t_discord_id t) d)"
proof (cases "t_status t = Confirmed \<and> eq3 (t_claimed_by t) c")
  case True
  with ret t again show ?thesis by (cases "t_claimed_by t") (auto simp: confirm_withdraw_def)
next
  case False
  show ?thesis
    using ret t by (clarsimp simp: confirm_withdraw_def False raise_simps Let_def)
      (rule first, assumption+, auto dest!: audit_same_money upsert_stats_same_money intro: same_money_trans)
qed

definition confirm_withdraw_postings :: "withdraw_ticket \<Rightarrow> (account \<times> account \<times> int) list" where
  "confirm_withdraw_postings t =
     (if t_status t = Confirmed then []
      else [(Held (t_discord_id t), Outside, t_amount t - w_fee t),
            (Held (t_discord_id t), Avail 0, w_fee t)])"

lemma confirm_withdraw_refines:
  assumes inv: "ledger_inv E d" and ret: "confirm_withdraw E' uid c d = Inr (res, d')"
    and sel: "select_withdraw uid d = Some t"
  shows "ledger_inv E d'" and "book_of d' = foldl post (book_of d) (confirm_withdraw_postings t)"
proof -
  have "ledger_inv E d' \<and> book_of d' = foldl post (book_of d) (confirm_withdraw_postings t)"
    using ret sel
  proof (cases rule: confirm_withdraw_cases)
    case again
    with inv show ?thesis by (simp add: confirm_withdraw_postings_def)
  next
    case (first d1 d2 d3)
    let ?u = "t_discord_id t"
    let ?f = "\<lambda>t'. t'\<lparr>t_status := Confirmed, t_confirmed_at := Some (now E'),
         w_amount_delivered := Some (t_amount t - w_fee t), t_last_activity_at := now E'\<rparr> :: withdraw_ticket"
    have acc: "accounts_ok d" and wok: "withdraws_ok (user_ids d) (withdraw_tickets d)"
      using inv by (simp_all add: ledger_parts)
    note row = withdraw_row [OF wok sel]
    have nt: "\<not> is_terminal (t_status t)" using first(1) by (simp add: is_terminal_def)
    obtain bs1 where d1: "d1 = d\<lparr>balances := bs1\<rparr>" using update_balance_frame [OF first(3)] by auto
    obtain bs2 where d2: "d2 = d\<lparr>balances := bs2\<rparr>" using update_balance_frame [OF first(4)] d1 by auto
    have acc1: "accounts_ok d1" using accounts_ok_update [OF acc first(3)] by simp
    obtain r where r: "select_balance ?u d = Some r" using accounts_row_ex [OF acc row(5)] by auto
    have "0 \<in> user_ids d1" using acc1 by (simp add: accounts_ok_def)
    then obtain r0 where r0: "select_balance 0 d1 = Some r0" using accounts_row_ex [OF acc1] by auto
    have b1: "book_of d1 = (book_of d)(Held ?u := book_of d (Held ?u) - t_amount t)"
      using book_update_balance [OF first(3) r] r by (auto simp: fun_eq_iff avail_of_def held_of_def)
    have b2: "book_of d2 = (book_of d1)(Avail 0 := book_of d1 (Avail 0) + w_fee t)"
      using book_update_balance [OF first(4) r0] r0 by (auto simp: fun_eq_iff avail_of_def held_of_def)
    have row2: "sel_key t_id (t_id t) (withdraw_tickets d2) = Some t" using row(2) by (simp add: d2)
    have d3: "d3 = d2\<lparr>withdraw_tickets := upd_key t_id (t_id t) ?f (withdraw_tickets d)\<rparr>"
      using update_withdraw_Inr [OF first(5) row2] by (simp add: d2)
    have wt: "withdraw_tickets d2 = withdraw_tickets d" by (simp add: d2)
    have "book_of d3 = (book_of d2)(Outside := book_of d2 Outside + (t_amount t - w_fee t))"
      using book_withdraw_upd [OF _ row2, of ?f] wok first(1) unfolding d3 wt
      by (simp add: keeps_ticket_def withdraws_ok_def)
    then have b3: "book_of d3 = foldl post (book_of d) (confirm_withdraw_postings t)"
      using first(1) by (simp add: confirm_withdraw_postings_def post_def b2 b1 fun_eq_iff)
    have held: "held_of v d2 = held_of v d - (if v = ?u then t_amount t else 0)" for v
      unfolding held_of_book b2 b1 by simp
    have "0 \<in> user_ids d" using acc by (simp add: accounts_ok_def)
    then have "list_all (posting_in (user_ids d)) (confirm_withdraw_postings t)"
      using row(5) by (simp add: posting_in_def confirm_withdraw_postings_def)
    then have "ledger_inv E d3"
      using b3 by - (rule withdraw_end_inv [OF inv sel nt accounts_ok_update [OF acc1 first(4)] d2 held _ _ _ d3],
        auto simp: keeps_ticket_def is_terminal_def)
    then show ?thesis
      using same_money_inv [OF first(6)] same_money_book [OF first(6)] b3 by simp
  qed
  then show "ledger_inv E d'" and "book_of d' = foldl post (book_of d) (confirm_withdraw_postings t)" by auto
qed

section \<open>Claims\<close>

text \<open>A claim or a release changes one ticket of one table and appends an audit row.\<close>

definition claim_row :: "pg_env \<Rightarrow> int \<Rightarrow> 'a ticket_scheme \<Rightarrow> 'a ticket_scheme" where
  "claim_row E c t = t\<lparr>t_status := Claimed, t_claimed_by := Some c, t_claimed_at := Some (now E),
     t_last_activity_at := now E\<rparr>"

definition release_row :: "pg_env \<Rightarrow> 'a ticket_scheme \<Rightarrow> 'a ticket_scheme" where
  "release_row E t = t\<lparr>t_status := Open, t_claimed_by := None, t_claimed_at := None,
     t_last_activity_at := now E\<rparr>"

definition update_ticket ::
    "ticket_type \<Rightarrow> string \<Rightarrow> (ticket \<Rightarrow> ticket) \<Rightarrow> (withdraw_ticket \<Rightarrow> withdraw_ticket) \<Rightarrow> db \<Rightarrow> pg_error + db" where
  "update_ticket ty uid f g d = (case ty of
      Deposit \<Rightarrow> update_deposit_ticket t_ticket_uid uid f d
    | Withdraw \<Rightarrow> update_withdraw_ticket t_ticket_uid uid g d)"

lemma ticket_type_prefix: "ticket_type_of_text tt \<noteq> None \<Longrightarrow> tt @ s \<noteq> ''treasury_swept''"
  by (auto simp: ticket_type_of_text_def split: if_splits)

lemma claim_ticket_Inr:
  assumes "claim_ticket E tt uid c d = Inr (x, d')"
  obtains ty v d1 where "ticket_type_of_text tt = Some ty" "select_ticket ty uid d = Some v"
    "t_status v = Open" "has_active_char c (t_region v) d"
    "update_ticket ty uid (claim_row E c) (claim_row E c) d = Inr d1" "same_money d1 d'"
  using assms by (clarsimp simp: claim_ticket_def raise_simps Let_def)
    (rule that, assumption+, simp_all add: update_ticket_def claim_row_def [abs_def],
     erule audit_same_money, simp add: ticket_type_prefix)

lemma release_ticket_Inr:
  assumes "release_ticket E tt uid c d = Inr (x, d')"
  obtains ty v d1 where "ticket_type_of_text tt = Some ty" "select_ticket ty uid d = Some v"
    "t_status v = Claimed" "\<not> neq3 (t_claimed_by v) c"
    "update_ticket ty uid (release_row E) (release_row E) d = Inr d1" "same_money d1 d'"
  using assms by (clarsimp simp: release_ticket_def raise_simps Let_def)
    (rule that, assumption+, simp_all add: update_ticket_def release_row_def [abs_def],
     erule audit_same_money, simp add: ticket_type_prefix)

lemma update_ticket_inv:
  assumes inv: "ledger_inv E d" and upd: "update_ticket ty uid f g d = Inr d1"
    and sel: "select_ticket ty uid d = Some v" and nt: "\<not> is_terminal (t_status v)"
    and f: "keeps_ticket f" "\<And>t. claim_ok (f t)"
      "\<And>t. \<not> is_terminal (t_status (f t))"
    and g: "keeps_ticket g" "\<And>t. claim_ok (g t)"
      "\<And>t. \<not> is_terminal (t_status (g t))" "\<And>t. w_fee (g t) = w_fee t"
  shows "ledger_inv E d1 \<and> book_of d1 = book_of d"
proof (cases ty)
  case Deposit
  have dep: "deposits_ok (deposit_tickets d)" using inv by (simp add: ledger_parts)
  have row: "sel_key t_ticket_uid uid (deposit_tickets d) = Some v"
    using sel Deposit by (simp add: select_ticket_def select_deposit_def)
  have d1: "d1 = d\<lparr>deposit_tickets := upd_key t_ticket_uid uid f (deposit_tickets d)\<rparr>"
    using upd Deposit update_deposit_Inr [OF _ row] by (simp add: update_ticket_def)
  show ?thesis
    using deposit_change_inv [OF inv row _ f(1,2)] dep nt f(3) [of v]
    by (auto simp: d1 deposits_ok_def is_terminal_def)
next
  case Withdraw
  have wok: "withdraws_ok (user_ids d) (withdraw_tickets d)" using inv by (simp add: ledger_parts)
  obtain w where row: "sel_key t_ticket_uid uid (withdraw_tickets d) = Some w" and w: "t_status w = t_status v"
    using sel Withdraw by (auto simp: select_ticket_def select_withdraw_def ticket.defs)
  have d1: "d1 = d\<lparr>withdraw_tickets := upd_key t_ticket_uid uid g (withdraw_tickets d)\<rparr>"
    using upd Withdraw update_withdraw_Inr [OF _ row] by (simp add: update_ticket_def)
  show ?thesis
    using withdraw_change_inv [OF inv row _ g(1,4,2)] wok nt g(3) [of w] w
    by (auto simp: d1 withdraws_ok_def)
qed

lemma claim_ticket_inv:
  assumes inv: "ledger_inv E d" and ret: "claim_ticket E' tt uid c d = Inr (x, d')"
  shows "ledger_inv E d' \<and> book_of d' = book_of d"
  using ret
proof (cases rule: claim_ticket_Inr)
  case (1 ty v d1)
  then have "ledger_inv E d1 \<and> book_of d1 = book_of d"
    by (intro update_ticket_inv [OF inv 1(5)]) (auto simp: keeps_ticket_def claim_row_def is_terminal_def)
  then show ?thesis using same_money_inv [OF 1(6)] same_money_book [OF 1(6)] by simp
qed

lemma release_ticket_inv:
  assumes inv: "ledger_inv E d" and ret: "release_ticket E' tt uid c d = Inr (x, d')"
  shows "ledger_inv E d' \<and> book_of d' = book_of d"
  using ret
proof (cases rule: release_ticket_Inr)
  case (1 ty v d1)
  then have "ledger_inv E d1 \<and> book_of d1 = book_of d"
    by (intro update_ticket_inv [OF inv 1(5)]) (auto simp: keeps_ticket_def release_row_def is_terminal_def)
  then show ?thesis using same_money_inv [OF 1(6)] same_money_book [OF 1(6)] by simp
qed

end
