(* ===== verification/Ledger_Treasury.thy ===== *)
theory Ledger_Treasury
  imports Ledger_Tickets
begin

text \<open>
  The treasury, blacklist, dispute and cashier functions keep the invariant of the economy.
\<close>

section \<open>Balances only\<close>

text \<open>The same tables, whatever the audit log records as swept.\<close>

definition same_tables :: "db \<Rightarrow> db \<Rightarrow> bool" where
  "same_tables d d' \<longleftrightarrow>
     map u_discord_id (users d') = map u_discord_id (users d) \<and> balances d' = balances d
     \<and> deposit_tickets d' = deposit_tickets d \<and> withdraw_tickets d' = withdraw_tickets d
     \<and> bets d' = bets d \<and> raffle_periods d' = raffle_periods d
     \<and> game_config d' = game_config d \<and> luck_config d' = luck_config d"

lemma same_money_tables: "same_money d d' \<Longrightarrow> same_tables d d'"
  by (simp add: same_money_def same_tables_def)

lemma audit_same_tables: "audit_log_insert_with_chain E a d = Inr (i, d') \<Longrightarrow> same_tables d d'"
  by (auto dest!: chain.append_row simp: same_tables_def)

lemma same_tables_ids:
  assumes "same_tables d d'"
  shows "user_ids d' = user_ids d"
proof -
  have "map u_discord_id (users d') = map u_discord_id (users d)"
    using assms by (simp add: same_tables_def)
  then show ?thesis unfolding user_ids_def by (simp only:)
qed

text \<open>A step that changes only balances and users: locks stay, the rest is a posting.\<close>

lemma balances_step:
  assumes inv: "ledger_inv E d" and acc: "accounts_ok d1" and d1: "d1 = d\<lparr>users := us, balances := bs\<rparr>"
    and same: "same_tables d1 d'" and sub: "user_ids d \<subseteq> user_ids d1"
    and held: "\<And>v. held_of v d1 = held_of v d"
    and book: "book_of d' = foldl post (book_of d) es" and es: "list_all (posting_in (user_ids d1)) es"
  shows "ledger_inv E d'"
proof -
  note ids = same_tables_ids [OF same]
  have "accounts_ok d'" using acc ids same by (simp add: accounts_ok_def same_tables_def)
  then have "tables_ok E d'"
    using inv sub ids same withdraws_ok_mono [of "user_ids d" "withdraw_tickets d" "user_ids d1"]
    by - (rule tables_ok_tickets [of E d], auto simp: ledger_parts same_tables_def d1)
  moreover have "held_of v d' = held_of v d" for v
    using held [of v] same by (simp add: held_of_def select_balance_def same_tables_def)
  then have "locks_ok d'"
    using inv same by (simp add: ledger_inv_def locks_ok_def ticket_locks_def bet_locks_def same_tables_def d1)
  ultimately show ?thesis
    using book es sub ids by - (rule ledger_step [OF inv], auto)
qed

lemma treasury_in: "ledger_inv E d \<Longrightarrow> 0 \<in> user_ids d"
  by (simp add: ledger_parts accounts_ok_def)

section \<open>Treasury\<close>

lemma treasury_sweep_refines:
  assumes inv: "ledger_inv E d" and ret: "treasury_sweep E' (Some n) admin reason d = Inr (res, d')"
  shows "ledger_inv E d'" and "book_of d' = post (book_of d) (Avail 0, Outside, n)"
proof -
  have acc: "accounts_ok d" using inv by (simp add: ledger_parts)
  obtain r where r: "select_balance 0 d = Some r" using accounts_row_ex [OF acc treasury_in [OF inv]] by auto
  let ?f = "\<lambda>r'. r'\<lparr>b_balance := b_balance r - n, b_updated_at := now E', b_version := b_version r' + 1\<rparr>"
  from ret r obtain d1 a i where upd: "update_balance 0 ?f d = Inr d1"
    and aud: "audit_log_insert_with_chain E' a d1 = Inr (i, d')"
    and a: "aa_action a = ''treasury_swept''" "aa_amount a = Some n"
    by (auto simp: treasury_sweep_def raise_simps Let_def)
  obtain bs where d1: "d1 = d\<lparr>balances := bs\<rparr>" using update_balance_frame [OF upd] by auto
  have b1: "book_of d1 = (book_of d)(Avail 0 := book_of d (Avail 0) - n)"
    using book_update_balance [OF upd r] r by (auto simp: fun_eq_iff avail_of_def held_of_def)
  have b2: "book_of d' = post (book_of d) (Avail 0, Outside, n)"
    using audit_book [OF aud] a by (simp add: b1 post_def fun_eq_iff)
  then show "book_of d' = post (book_of d) (Avail 0, Outside, n)" .
  have held: "held_of v d1 = held_of v d" for v unfolding held_of_book b1 by simp
  show "ledger_inv E d'"
    by (rule balances_step [OF inv accounts_ok_update [OF acc upd] _ audit_same_tables [OF aud] _ held,
          where es = "[(Avail 0, Outside, n)]" and us = "users d" and bs = bs])
      (use b2 treasury_in [OF inv] in \<open>auto simp: d1 posting_in_def\<close>)
qed

lemma treasury_withdraw_refines:
  assumes inv: "ledger_inv E d" and ret: "treasury_withdraw_to_user E' (Some n) (Some u) admin reason d = Inr (x, d')"
  shows "ledger_inv E d'" and "book_of d' = post (book_of d) (Avail 0, Avail u, n)"
    and "user_ids d' = insert u (user_ids d)"
proof -
  have acc: "accounts_ok d" using inv by (simp add: ledger_parts)
  let ?f = "\<lambda>r. r\<lparr>b_balance := b_balance r - n, b_updated_at := now E', b_version := b_version r + 1\<rparr>"
  let ?g = "\<lambda>r r'. r'\<lparr>b_balance := b_balance r + n, b_updated_at := now E', b_version := b_version r' + 1\<rparr>"
  from ret obtain d1 where u: "u \<noteq> 0" and ens: "insert_balance E' u (insert_user E' u d) = Inr d1"
    by (auto simp: treasury_withdraw_to_user_def raise_simps Let_def)
  note e1 = ensure_account [OF acc ens]
  obtain us bs where d1: "d1 = d\<lparr>users := us, balances := bs\<rparr>" using e1(4) by auto
  obtain r where r: "select_balance u d1 = Some r" using accounts_row_ex [OF e1(1)] e1(2) by auto
  obtain r0 where r0: "select_balance 0 d1 = Some r0"
    using accounts_row_ex [OF e1(1)] e1(2) treasury_in [OF inv] by auto
  from ret ens r obtain d2 d3 where upd: "update_balance 0 ?f d1 = Inr d2"
    and upd2: "update_balance u (?g r) d2 = Inr d3" and same: "same_money d3 d'"
    by (auto simp: treasury_withdraw_to_user_def raise_simps Let_def
        dest!: audit_same_money intro: same_money_trans)
  obtain bs2 where d2: "d2 = d1\<lparr>balances := bs2\<rparr>" using update_balance_frame [OF upd] by auto
  obtain bs3 where d3: "d3 = d1\<lparr>balances := bs3\<rparr>" using update_balance_frame [OF upd2] d2 by auto
  have r2: "select_balance u d2 = Some r" using select_balance_update [OF upd r0] u r by simp
  have b2: "book_of d2 = (book_of d)(Avail 0 := book_of d (Avail 0) - n)"
    using book_update_balance [OF upd r0] r0 e1(3) by (auto simp: fun_eq_iff avail_of_def held_of_def)
      (metis book_of_simps(1,2) avail_of_def held_of_def coalesce_simps(2) option.simps(9))+
  have b3: "book_of d3 = post (book_of d) (Avail 0, Avail u, n)"
  proof -
    have "book_of d3 = (book_of d2)(Avail u := book_of d2 (Avail u) + n)"
      using book_update_balance [OF upd2 r2] r2 by (auto simp: fun_eq_iff avail_of_def held_of_def)
    then show ?thesis by (simp add: b2 post_def fun_eq_iff)
  qed
  then show b: "book_of d' = post (book_of d) (Avail 0, Avail u, n)" using same_money_book [OF same] by simp
  have ids: "user_ids d3 = insert u (user_ids d)" using e1(2) by (simp add: d3)
  then show "user_ids d' = insert u (user_ids d)" using same_money_ids(1) [OF same] by simp
  have held: "held_of v d3 = held_of v d" for v unfolding held_of_book b3 by (simp add: post_def)
  have acc3: "accounts_ok d3" using accounts_ok_update [OF accounts_ok_update [OF e1(1) upd] upd2] by simp
  show "ledger_inv E d'"
    by (rule balances_step [OF inv acc3 _ same_money_tables [OF same] _ held,
          where es = "[(Avail 0, Avail u, n)]" and us = us and bs = bs3])
      (use b ids treasury_in [OF inv] in \<open>auto simp: d3 d1 posting_in_def\<close>)
qed

lemma treasury_withdraw_args:
  "treasury_withdraw_to_user E' pn pu admin reason d = Inr (x, d') \<Longrightarrow> \<exists>n u. pn = Some n \<and> pu = Some u \<and> 0 < n"
  by (auto simp: treasury_withdraw_to_user_def raise_simps)

lemma treasury_sweep_args:
  "treasury_sweep E' pn admin reason d = Inr (x, d') \<Longrightarrow> \<exists>n. pn = Some n \<and> 0 < n"
  by (auto simp: treasury_sweep_def raise_simps)

section \<open>Blacklist\<close>

lemma ensure_inv:
  assumes inv: "ledger_inv E d" and ens: "insert_balance E' u (insert_user E' u d) = Inr d1"
  shows "ledger_inv E d1"
proof -
  have acc: "accounts_ok d" using inv by (simp add: ledger_parts)
  note e1 = ensure_account [OF acc ens]
  obtain us bs where d1: "d1 = d\<lparr>users := us, balances := bs\<rparr>" using e1(4) by auto
  have held: "held_of v d1 = held_of v d" for v using e1(3) by (metis held_of_book)
  show ?thesis
    by (rule balances_step [OF inv e1(1) d1 same_money_tables [OF same_money_refl] _ held, where es = "[]"])
      (use e1(2,3) in auto)
qed

lemma users_same_money:
  "(\<And>r. u_discord_id (f r) = u_discord_id r) \<Longrightarrow>
    same_money d (d\<lparr>users := upd_key u_discord_id u f (users d)\<rparr>)"
  by (simp add: same_money_def swept_def)

lemma ban_user_inv:
  assumes inv: "ledger_inv E d" and ret: "ban_user E' u reason admin d = Inr (x, d')"
  shows "ledger_inv E d' \<and> book_of d' = book_of d"
proof -
  from ret obtain d1 where ens: "insert_balance E' u (insert_user E' u d) = Inr d1"
    and same: "same_money d1 d'"
  proof -
    assume goal: "\<And>d1. insert_balance E' u (insert_user E' u d) = Inr d1 \<Longrightarrow> same_money d1 d' \<Longrightarrow> thesis"
    show thesis
      using ret by (clarsimp simp: ban_user_def raise_simps Let_def)
        (rule goal, assumption, rule same_money_trans [OF users_same_money audit_same_money], auto)
  qed
  have "accounts_ok d" using inv by (simp add: ledger_parts)
  then show ?thesis
    using ensure_inv [OF inv ens] ensure_account(3) [OF _ ens] same_money_inv [OF same] same_money_book [OF same]
    by simp
qed

lemma unban_user_same: "unban_user E u admin d = Inr (x, d') \<Longrightarrow> same_money d d'"
  by (clarsimp simp: unban_user_def raise_simps Let_def)
    (rule same_money_trans [OF users_same_money audit_same_money], auto)

section \<open>Disputes\<close>

lemma open_dispute_same: "open_dispute E tt uid op role reason d = Inr (x, d') \<Longrightarrow> same_money d d'"
  by (auto simp: open_dispute_def insert_dispute_def raise_simps Let_def same_money_def swept_def
      dest!: audit_same_money)

lemma reject_dispute_same: "reject_dispute E i reason admin d = Inr (x, d') \<Longrightarrow> same_money d d'"
  by (auto simp: reject_dispute_def raise_simps Let_def dest!: audit_same_money
      intro: same_money_trans [OF same_money_updates(5)])

lemma resolve_dispute_Inr:
  assumes "resolve_dispute E i action amt rb d = Inr (x, d')"
  obtains v u d1 where "select_dispute i d = Some v" "\<not> is_terminal_dispute (d_status v)"
    "action \<in> set dispute_actions"
    "ticket_user (d_ticket_type v) (d_ticket_uid v) d = Some u"
    "dispute_payout E v action amt (Some u) rb d = Inr d1"
    "same_money d1 d'"
  using assms by (clarsimp simp: resolve_dispute_def raise_simps Let_def)
    (rule that, assumption+, rule same_money_trans [OF same_money_updates(5)], erule audit_same_money, simp)

text \<open>What a resolution moves: nothing, or gold from the treasury to the user of the ticket.\<close>

lemma resolve_dispute_inv:
  assumes inv: "ledger_inv E d" and ret: "resolve_dispute E' i action amt rb d = Inr (x, d')"
  shows "ledger_inv E d' \<and> (book_of d' = book_of d
    \<or> (\<exists>n u. 0 < n \<and> action \<in> {''partial-refund'', ''refund-full''} \<and> book_of d' = post (book_of d) (Avail 0, Avail u, n)))"
  using ret
proof (cases rule: resolve_dispute_Inr)
  case (1 v u d1)
  then consider (none) "d1 = d"
    | (pay) pn pu r x where "treasury_withdraw_to_user E' pn pu rb r d = Inr (x, d1)"
        "action \<in> {''partial-refund'', ''refund-full''}"
    by (fastforce simp: dispute_payout_def raise_simps split: if_splits)
  then have "ledger_inv E d1 \<and> (book_of d1 = book_of d
    \<or> (\<exists>n u. 0 < n \<and> action \<in> {''partial-refund'', ''refund-full''} \<and> book_of d1 = post (book_of d) (Avail 0, Avail u, n)))"
  proof cases
    case none
    with inv show ?thesis by simp
  next
    case pay
    obtain n u where "pn = Some n" "pu = Some u" "0 < n" using treasury_withdraw_args [OF pay(1)] by auto
    with pay treasury_withdraw_refines [OF inv, of E' n u rb r x d1] show ?thesis by blast
  qed
  then show ?thesis using same_money_inv [OF 1(6)] same_money_book [OF 1(6)] by simp
qed

section \<open>Cashiers, configuration, seeds\<close>

lemma add_cashier_character_same:
  "add_cashier_character E u chr realm region faction d = Inr (x, d') \<Longrightarrow> same_money d d'"
  by (auto simp: add_cashier_character_def upsert_character_def raise_simps Let_def same_money_def swept_def
      split: option.splits dest!: audit_same_money)

lemma remove_cashier_character_same:
  "remove_cashier_character E u chr realm region d = Inr (x, d') \<Longrightarrow> same_money d d'"
  by (auto simp: remove_cashier_character_def raise_simps Let_def dest!: audit_same_money
      intro: same_money_trans [OF same_money_updates(4)])

lemma status_same_money [simp]:
  "same_money d0 d \<Longrightarrow> same_money d0 (upsert_status E u st d)"
  "same_money d0 d \<Longrightarrow> same_money d0 (open_session E u d)"
  "same_money d0 d \<Longrightarrow> same_money d0 (close_sessions E u why d)"
  by (simp_all add: upsert_status_def open_session_def close_sessions_def same_money_def swept_def)

lemma set_cashier_status_same:
  assumes "set_cashier_status E u st d = Inr (x, d')"
  shows "same_money d d'"
  using assms
  by (auto simp: set_cashier_status_def raise_simps Let_def dest!: audit_same_money split: if_splits
      elim!: same_money_trans [rotated])

lemma expire_cashier_same: "expire_cashier E u d = Inr (x, d') \<Longrightarrow> same_money d d'"
  by (auto simp: expire_cashier_def raise_simps Let_def dest!: audit_same_money
      elim!: same_money_trans [rotated])

lemma upsert_config_same: "same_money d (upsert_config E k v actor d)"
  by (simp add: upsert_config_def)

lemma set_dispute_message_same: "same_money d (set_dispute_message i m d)"
  by (simp add: set_dispute_message_def)

lemma recompute_stats_same: "recompute_stats E c d = Inr d' \<Longrightarrow> same_money d d'"
  by (auto simp: recompute_stats_def raise_simps split: if_splits)

lemma consume_rate_token_same: "consume_rate_token E u sc w m d = Inr (x, d') \<Longrightarrow> same_money d d'"
  by (auto simp: consume_rate_token_def raise_simps Let_def split: option.splits)

lemma next_nonce_same: "next_nonce u d = Inr (x, d') \<Longrightarrow> same_money d d'"
  by (auto simp: next_nonce_def raise_simps)

lemma update_client_seed_same: "same_money d (update_client_seed u c d)"
  by (simp add: update_client_seed_def)

lemma grant_raffle_tickets_same: "grant_raffle_tickets E u p n b d = Inr (x, d') \<Longrightarrow> same_money d d'"
  by (auto simp: grant_raffle_tickets_def raise_simps same_money_def swept_def split: if_splits)

lemma rotate_user_seed_same: "rotate_user_seed E s c u b d = Inr (x, d') \<Longrightarrow> same_money d d'"
  by (auto simp: rotate_user_seed_def raise_simps Let_def same_money_def swept_def split: option.splits)

end
