(* ===== verification/Ledger_Bets.thy ===== *)
theory Ledger_Bets
  imports Ledger_Treasury
begin

text \<open>
  The bet functions keep the invariant of the economy, with the postings they refine: a bet
  splits the amount into the held stake, the commission of the treasury and the rake of the
  pool, a resolution settles the stake against the treasury, a refund is the inverse of the bet.
\<close>

section \<open>Definitions\<close>

definition rake_account :: "int option \<Rightarrow> account" where
  "rake_account p = (case p of None \<Rightarrow> Avail 0 | Some _ \<Rightarrow> Pool)"

definition bet_postings :: "bet_row \<Rightarrow> (account \<times> account \<times> int) list" where
  "bet_postings b =
     [(Avail (bt_discord_id b), Held (bt_discord_id b), bt_effective_stake b),
      (Avail (bt_discord_id b), Avail 0, bt_commission b),
      (Avail (bt_discord_id b), rake_account (bt_rake_period_id b), bt_rake b)]"

definition refund_postings :: "bet_row \<Rightarrow> (account \<times> account \<times> int) list" where
  "refund_postings b =
     [(Held (bt_discord_id b), Avail (bt_discord_id b), bt_effective_stake b),
      (Avail 0, Avail (bt_discord_id b), bt_commission b),
      (rake_account (bt_rake_period_id b), Avail (bt_discord_id b), bt_rake b)]"

definition settle_postings :: "bet_status \<Rightarrow> int \<Rightarrow> bet_row \<Rightarrow> (account \<times> account \<times> int) list" where
  "settle_postings st payout b =
     (case st of
        Resolved_win \<Rightarrow> [(Held (bt_discord_id b), Avail 0, bt_effective_stake b),
                        (Avail 0, Avail (bt_discord_id b), payout)]
      | Resolved_loss \<Rightarrow> [(Held (bt_discord_id b), Avail 0, bt_effective_stake b)]
      | _ \<Rightarrow> [(Held (bt_discord_id b), Avail (bt_discord_id b), bt_effective_stake b)])"

section \<open>Pools\<close>

lemma active_period_in: "active_period d = Some p \<Longrightarrow> p \<in> period_ids d"
proof -
  assume a: "active_period d = Some p"
  let ?ps = "filter (\<lambda>p. rp_status p = Active) (raffle_periods d)"
  from a have ne: "?ps \<noteq> []" and p: "p = Max (set (map rp_id ?ps))"
    by (cases ?ps; simp add: active_period_def del: set_filter)+
  have "p \<in> set (map rp_id ?ps)" unfolding p using ne by (intro Max_in) (auto simp: filter_empty_conv)
  then show ?thesis by (auto simp: period_ids_def)
qed

lemma update_pool_Inr:
  assumes "update_pool pid n d = Inr d'" and "pid \<in> period_ids d" and "periods_ok d"
  shows "\<exists>ps. d' = d\<lparr>raffle_periods := ps\<rparr> \<and> map rp_id ps = map rp_id (raffle_periods d)"
    and "book_of d' = (book_of d)(Pool := book_of d Pool + n)"
proof -
  obtain p where p: "sel_key rp_id pid (raffle_periods d) = Some p"
    using assms(2) by (cases "sel_key rp_id pid (raffle_periods d)")
      (auto simp: sel_key_None_iff period_ids_def)
  let ?f = "\<lambda>p. p\<lparr>rp_pool_amount := rp_pool_amount p + n\<rparr>"
  have d': "d' = d\<lparr>raffle_periods := upd_key rp_id pid ?f (raffle_periods d)\<rparr>"
    using assms(1) p by (auto simp: update_pool_def raise_simps)
  then show "\<exists>ps. d' = d\<lparr>raffle_periods := ps\<rparr> \<and> map rp_id ps = map rp_id (raffle_periods d)"
    by (intro exI [of _ "upd_key rp_id pid ?f (raffle_periods d)"]) simp
  have "pools_of d' = pools_of d + n"
    using sum_where_upd [of rp_id "raffle_periods d" pid p "\<lambda>_. True" rp_pool_amount ?f] p assms(3)
    by (simp add: d' pools_of_def periods_ok_def)
  then show "book_of d' = (book_of d)(Pool := book_of d Pool + n)"
    by (intro ext) (simp add: d' book_of_def avail_of_def held_of_def deposited_def delivered_def swept_def
        split: account.splits)
qed

text \<open>A new period has an empty pool: it leaves the books as they are.\<close>

lemma insert_raffle_period_Inr:
  assumes ret: "insert_raffle_period E' i label s e st d = Inr d'" and inv: "ledger_inv E d"
  shows "ledger_inv E d'" and "book_of d' = book_of d"
proof -
  obtain p where d': "d' = d\<lparr>raffle_periods := raffle_periods d @ [p]\<rparr>"
    and p: "rp_id p \<notin> rp_id ` set (raffle_periods d)" "rp_pool_amount p = 0"
    using ret by (auto simp: insert_raffle_period_def raise_simps has_key_def)
  show book: "book_of d' = book_of d"
    by (intro ext) (simp add: d' p book_of_def avail_of_def held_of_def pools_of_def deposited_def delivered_def swept_def
        split: account.splits)
  have "period_ids d \<subseteq> period_ids d'" by (auto simp: period_ids_def d')
  then have "bets_ok (user_ids d) (period_ids d') (bets d)"
    using inv by (fastforce simp: ledger_parts bets_ok_def open_bet_ok_def split: option.splits)
  moreover have "periods_ok d'" using inv p by (simp add: d' ledger_parts periods_ok_def)
  moreover have "locks_ok d'"
    using inv by (simp add: ledger_inv_def locks_ok_def d' held_of_def select_balance_def ticket_locks_def bet_locks_def)
  moreover have "books_ok d'" using inv book by (simp add: ledger_inv_def books_ok_def d')
  ultimately show "ledger_inv E d'"
    using inv by (simp add: ledger_inv_def tables_ok_def d' config_ok_def rake_bps_def)
qed

lemma credit_treasury_Inr:
  assumes ret: "credit_treasury E n d = Inr d'" and acc: "accounts_ok d"
  shows "accounts_ok d'" and "\<exists>bs. d' = d\<lparr>balances := bs\<rparr>"
    and "book_of d' = (book_of d)(Avail 0 := book_of d (Avail 0) + n)"
proof -
  have "0 \<in> user_ids d" using acc by (simp add: accounts_ok_def)
  then obtain r where r: "select_balance 0 d = Some r" using accounts_row_ex [OF acc] by auto
  note upd = ret [unfolded credit_treasury_def]
  show "accounts_ok d'" using accounts_ok_update [OF acc upd] by simp
  show "\<exists>bs. d' = d\<lparr>balances := bs\<rparr>" by (rule update_balance_frame [OF upd])
  show "book_of d' = (book_of d)(Avail 0 := book_of d (Avail 0) + n)"
    using book_update_balance [OF upd r] r by (auto simp: fun_eq_iff avail_of_def held_of_def)
qed

text \<open>A conditional credit: nothing happens when the amount is zero.\<close>

lemma credit_if:
  assumes ret: "(if c then credit_treasury E n d else Inr d) = Inr d'" and acc: "accounts_ok d"
    and "\<not> c \<Longrightarrow> n = 0"
  shows "accounts_ok d'" and "\<exists>bs. d' = d\<lparr>balances := bs\<rparr>"
    and "book_of d' = (book_of d)(Avail 0 := book_of d (Avail 0) + n)"
proof -
  have "accounts_ok d' \<and> (\<exists>bs. d' = d\<lparr>balances := bs\<rparr>) \<and> book_of d' = (book_of d)(Avail 0 := book_of d (Avail 0) + n)"
  proof (cases c)
    case True
    with ret credit_treasury_Inr [OF _ acc, of E n d'] show ?thesis by simp
  next
    case False
    with ret assms(3) have "d' = d" and "n = 0" by auto
    moreover have "d = d\<lparr>balances := balances d\<rparr>" by simp
    ultimately show ?thesis using acc by (metis add.right_neutral fun_upd_triv)
  qed
  then show "accounts_ok d'" and "\<exists>bs. d' = d\<lparr>balances := bs\<rparr>"
    and "book_of d' = (book_of d)(Avail 0 := book_of d (Avail 0) + n)" by auto
qed

lemma credit_rake_if:
  assumes ret: "(if c then credit_rake E p n d else Inr d) = Inr d'" and acc: "accounts_ok d"
    and "\<not> c \<Longrightarrow> n = 0" and "case p of None \<Rightarrow> True | Some i \<Rightarrow> i \<in> period_ids d" and "periods_ok d"
  shows "accounts_ok d'"
    and "\<exists>bs ps. d' = d\<lparr>balances := bs, raffle_periods := ps\<rparr> \<and> map rp_id ps = map rp_id (raffle_periods d)"
    and "book_of d' = (book_of d)(rake_account p := book_of d (rake_account p) + n)"
proof -
  have eq: "d = d\<lparr>balances := balances d, raffle_periods := raffle_periods d\<rparr>" by simp
  have "accounts_ok d' \<and> (\<exists>bs ps. d' = d\<lparr>balances := bs, raffle_periods := ps\<rparr>
      \<and> map rp_id ps = map rp_id (raffle_periods d))
      \<and> book_of d' = (book_of d)(rake_account p := book_of d (rake_account p) + n)"
  proof (cases c)
    case False
    with ret assms(3) have "d' = d" and "n = 0" by auto
    with acc eq show ?thesis by (metis add.right_neutral fun_upd_triv)
  next
    case True
    show ?thesis
    proof (cases p)
      case None
      with True ret credit_treasury_Inr [OF _ acc, of E n d'] obtain bs where
        1: "accounts_ok d'" "d' = d\<lparr>balances := bs\<rparr>" "book_of d' = (book_of d)(Avail 0 := book_of d (Avail 0) + n)"
        by (auto simp: credit_rake_def)
      from 1(2) have "d' = d\<lparr>balances := bs, raffle_periods := raffle_periods d\<rparr>" by simp
      moreover have ra: "rake_account p = Avail 0" using None by (simp add: rake_account_def)
      ultimately show ?thesis using 1(1,3) unfolding ra by blast
    next
      case (Some i)
      with True ret assms(4) update_pool_Inr [of i n d d', OF _ _ assms(5)] obtain ps where
        1: "d' = d\<lparr>raffle_periods := ps\<rparr>" "map rp_id ps = map rp_id (raffle_periods d)"
        "book_of d' = (book_of d)(Pool := book_of d Pool + n)"
        by (auto simp: credit_rake_def)
      from 1(1) have "d' = d\<lparr>balances := balances d, raffle_periods := ps\<rparr>" and "accounts_ok d'"
        using acc by simp_all
      moreover have ra: "rake_account p = Pool" using Some by (simp add: rake_account_def)
      ultimately show ?thesis using 1(2,3) unfolding ra by blast
    qed
  qed
  then show "accounts_ok d'"
    and "\<exists>bs ps. d' = d\<lparr>balances := bs, raffle_periods := ps\<rparr> \<and> map rp_id ps = map rp_id (raffle_periods d)"
    and "book_of d' = (book_of d)(rake_account p := book_of d (rake_account p) + n)" by auto
qed

section \<open>Placing a bet\<close>

lemma tables_ok_bets:
  assumes "tables_ok E d" and "accounts_ok d'" and "user_ids d' = user_ids d"
    and "bets_ok (user_ids d) (period_ids d) (bets d')"
    and "map rp_id (raffle_periods d') = map rp_id (raffle_periods d)"
    and "deposit_tickets d' = deposit_tickets d" and "withdraw_tickets d' = withdraw_tickets d"
    and "game_config d' = game_config d" and "luck_config d' = luck_config d"
  shows "tables_ok E d'"
proof -
  have "period_ids d' = period_ids d" unfolding period_ids_def by (simp only: assms(5))
  with assms show ?thesis
    by (simp add: tables_ok_def periods_ok_def config_ok_def rake_bps_def)
qed

lemma commission_bps_now [simp]: "commission_bps (E\<lparr>now := t\<rparr>) g = commission_bps E g"
  by (simp add: commission_bps_def json_int4_def cong: json.case_cong option.case_cong)

lemma apply_bet_cases:
  assumes ret: "apply_bet E u game ch n sel sh cs nonce key uid d = Inr ((i, idem), d')"
  obtains (replay) b where "sel_key bet_key (u, key) (bets d) = Some b" "i = bt_id b" "idem" "d' = d"
  | (fresh) g cb rb c r b d1 d2 d3 d4 where
      "insert_bet b (d3\<lparr>bets_id_seq := bets_id_seq d3 + 1\<rparr>) = Inr d4"
      "update_balance u (\<lambda>r'. r'\<lparr>b_balance := b_balance r' - n, b_locked := b_locked r' + (n - c - r),
         b_total_wagered := b_total_wagered r' + n, b_updated_at := now E, b_version := b_version r' + 1\<rparr>) d = Inr d1"
      "(if 0 < c then credit_treasury E c d1 else Inr d1) = Inr d2"
      "(if 0 < r then credit_rake E (active_period d) r d2 else Inr d2) = Inr d3"
      "bps_of n cb = Inr c" "bps_of n rb = Inr r" "select_game game d = Some g"
      "commission_bps E g = Inr cb" "rake_bps d = Inr rb" "gm_enabled g" "\<not> n < gm_min_bet g"
      "\<not> gm_max_bet g < n" "sel_key bet_key (u, key) (bets d) = None" "same_money d4 d'" "\<not> idem"
      "bt_commission b = c" "bt_rake b = r" "bt_effective_stake b = n - c - r" "bt_bet_amount b = n"
      "bt_discord_id b = u" "bt_idempotency_key b = key" "bt_status b = Bet_open"
      "bt_rake_period_id b = active_period d" "bt_id b = i"
proof (cases "sel_key bet_key (u, key) (bets d)")
  case (Some b)
  with ret show ?thesis by (intro replay [OF Some]) (simp_all add: apply_bet_def)
next
  case None
  show ?thesis
    using ret None
    by (clarsimp simp: apply_bet_def raise_simps Let_def)
      (rule fresh, assumption+, erule audit_same_money, simp_all add: new_bet_def bet_placed_args_def)
qed

text \<open>Commission and rake are shares of the amount.\<close>

lemma bet_shares:
  assumes cfg: "config_ok E d" and g: "select_game game d = Some g"
    and bps: "commission_bps E g = Inr cb" "rake_bps d = Inr rb"
    and shares: "bps_of n cb = Inr c" "bps_of n rb = Inr r" and n: "0 < n"
  shows "0 \<le> c" and "0 \<le> r" and "c + r \<le> n"
proof -
  have "g \<in> set (game_config d)" using g by (simp add: select_game_def sel_key_Some_in)
  with cfg bps have b: "0 \<le> cb" "0 \<le> rb" "cb + rb \<le> 10000" by (auto simp: config_ok_def)
  have c: "c = (n * cb) sdiv 10000" "r = (n * rb) sdiv 10000"
    using shares by (auto simp: bps_of_def raise_simps)
  show "0 \<le> c" "0 \<le> r" "c + r \<le> n"
    using bps_bounds [of n cb] bps_bounds [of n rb] bps_sum_bound [of n cb rb] b n by (auto simp: c)
qed

lemma insert_bet_Inr:
  assumes "insert_bet b d = Inr d'"
  shows "d' = d\<lparr>bets := bets d @ [b]\<rparr>" and "0 < bt_bet_amount b" and "bt_discord_id b \<in> user_ids d"
    and "bt_id b \<notin> bt_id ` set (bets d)" and "bet_key b \<notin> bet_key ` set (bets d)"
  using assms by (auto simp: insert_bet_def raise_simps has_key_def user_ids_def)

lemma bet_locks_insert:
  "bet_locks v (d\<lparr>bets := bets d @ [b]\<rparr>) = bet_locks v d
    + (if bt_discord_id b = v \<and> bt_status b = Bet_open then bt_effective_stake b else 0)"
  by (simp add: bet_locks_def)

lemma apply_bet_refines:
  assumes inv: "ledger_inv E d"
    and ret: "apply_bet (E\<lparr>now := t\<rparr>) u game ch n sel sh cs nonce key uid d = Inr ((i, False), d')"
  shows "ledger_inv E d'"
    and "\<exists>b. select_bet i d' = Some b \<and> bt_discord_id b = u \<and> bt_bet_amount b = n \<and> bt_status b = Bet_open
      \<and> open_bet_ok (user_ids d) (period_ids d) b \<and> bt_idempotency_key b = key
      \<and> book_of d' = foldl post (book_of d) (bet_postings b)"
proof -
  let ?E = "E\<lparr>now := t\<rparr>"
  have goal: "ledger_inv E d' \<and> (\<exists>b. select_bet i d' = Some b \<and> bt_discord_id b = u \<and> bt_bet_amount b = n
      \<and> bt_status b = Bet_open \<and> open_bet_ok (user_ids d) (period_ids d) b \<and> bt_idempotency_key b = key
      \<and> book_of d' = foldl post (book_of d) (bet_postings b))"
    using ret
  proof (cases rule: apply_bet_cases)
    case replay
    then show ?thesis by simp
  next
    case (fresh g cb rb c r b d1 d2 d3 d4)
    note b = fresh(16-24)
    have acc: "accounts_ok d" and cfg: "config_ok E d" and per: "periods_ok d"
      and bok: "bets_ok (user_ids d) (period_ids d) (bets d)"
      using inv by (simp_all add: ledger_parts)
    note ins = insert_bet_Inr [OF fresh(1)]
    have sh: "0 \<le> c" "0 \<le> r" "c + r \<le> n"
      using bet_shares [OF cfg fresh(7) _ fresh(9) fresh(5,6)] fresh(8) ins(2) b(4) by simp_all
    obtain bs1 where d1: "d1 = d\<lparr>balances := bs1\<rparr>" using update_balance_frame [OF fresh(2)] by auto
    have acc1: "accounts_ok d1" using accounts_ok_update [OF acc fresh(2)] by simp
    note t2 = credit_if [OF fresh(3) acc1]
    obtain bs2 where d2: "d2 = d\<lparr>balances := bs2\<rparr>" using t2(2) sh d1 by auto
    have apd: "case active_period d of None \<Rightarrow> True | Some i \<Rightarrow> i \<in> period_ids d"
      using active_period_in by (simp split: option.splits)
    have "period_ids d2 = period_ids d" by (simp add: d2 period_ids_def)
    with apd have apd2: "case active_period d of None \<Rightarrow> True | Some i \<Rightarrow> i \<in> period_ids d2"
      by (simp split: option.splits)
    have per2: "periods_ok d2" using per by (simp add: d2 periods_ok_def)
    have acc2: "accounts_ok d2" and b2: "book_of d2 = (book_of d1)(Avail 0 := book_of d1 (Avail 0) + c)"
      using t2 sh by auto
    note t3 = credit_rake_if [OF fresh(4) acc2 _ apd2 per2]
    obtain bs3 ps where d3: "d3 = d\<lparr>balances := bs3, raffle_periods := ps\<rparr>"
      and ps: "map rp_id ps = map rp_id (raffle_periods d)"
      using t3(2) sh d2 by auto
    have acc3: "accounts_ok d3"
      and b3: "book_of d3 = (book_of d2)(rake_account (active_period d) := book_of d2 (rake_account (active_period d)) + r)"
      using t3 sh by auto
    have d4: "d4 = d3\<lparr>bets_id_seq := bets_id_seq d + 1, bets := bets d @ [b]\<rparr>"
      using ins(1) by (simp add: d3)
    have user: "u \<in> user_ids d" using ins(3) b(5) by (simp add: d3)
    obtain row where row: "select_balance u d = Some row" using accounts_row_ex [OF acc user] by auto
    have b1: "book_of d1 = (book_of d)(Avail u := book_of d (Avail u) - n, Held u := book_of d (Held u) + (n - c - r))"
      using book_update_balance [OF fresh(2) row] row by (auto simp: fun_eq_iff avail_of_def held_of_def)
    have b4: "book_of d4 = foldl post (book_of d) (bet_postings b)"
    proof -
      have "book_of d4 = book_of d3"
        by (rule book_of_cong) (simp_all add: d4 deposited_def delivered_def swept_def)
      then show ?thesis
        by (cases "active_period d"; cases "u = 0")
          (auto simp: b3 b2 b1 bet_postings_def post_def rake_account_def b fun_eq_iff)
    qed
    have ob: "open_bet_ok (user_ids d) (period_ids d) b"
      using sh user apd by (simp add: open_bet_ok_def b)
    then have "bets_ok (user_ids d) (period_ids d) (bets d4)"
      using bok ins(4,5) by (auto simp: bets_ok_def d4 d3)
    then have tab: "tables_ok E d4"
      using inv acc3 ps by - (rule tables_ok_bets [of E d], auto simp: ledger_inv_def d4 d3)
    have "locks_ok d4"
      unfolding locks_ok_def
    proof
      fix v
      have "held_of v d4 = held_of v d + (if v = u then n - c - r else 0)"
        unfolding held_of_book b4 by (simp add: bet_postings_def post_def b rake_account_def split: option.splits)
      moreover have "bet_locks v d4 = bet_locks v d + (if v = u then n - c - r else 0)"
        using b by (simp add: bet_locks_def d4 d3)
      moreover have "ticket_locks v d4 = ticket_locks v d" by (simp add: ticket_locks_def d4 d3)
      ultimately show "held_of v d4 = ticket_locks v d4 + bet_locks v d4"
        using inv by (simp add: ledger_inv_def locks_ok_def)
    qed
    then have "ledger_inv E d4"
      using tab b4 user treasury_in [OF inv]
      by - (rule ledger_step [OF inv, where es = "bet_postings b"],
        auto simp: bet_postings_def posting_in_def b rake_account_def d4 d3 split: option.splits)
    moreover have "select_bet i d' = Some b"
      using fresh(14) ins(4) b(9) by (auto simp: select_bet_def same_money_def d4 d3 sel_key_None_iff split: option.splits)
        (metis image_eqI sel_key_Some_in sel_key_Some_key)
    ultimately show ?thesis
      using same_money_inv [OF fresh(14)] same_money_book [OF fresh(14)] b4 b ob by auto
  qed
  then show "ledger_inv E d'" by simp
  from goal show "\<exists>b. select_bet i d' = Some b \<and> bt_discord_id b = u \<and> bt_bet_amount b = n \<and> bt_status b = Bet_open
      \<and> open_bet_ok (user_ids d) (period_ids d) b \<and> bt_idempotency_key b = key
      \<and> book_of d' = foldl post (book_of d) (bet_postings b)" by blast
qed

section \<open>The end of a bet\<close>

text \<open>An open bet ends: the held stake leaves the lock of the user.\<close>

lemma bet_end_inv:
  assumes inv: "ledger_inv E d" and sel: "select_bet i d = Some b" and op: "bt_status b = Bet_open"
    and acc: "accounts_ok d1" and d1: "d1 = d\<lparr>balances := bs, raffle_periods := ps\<rparr>"
    and ps: "map rp_id ps = map rp_id (raffle_periods d)"
    and f: "\<And>b. bt_id (f b) = bt_id b" "\<And>b. bet_key (f b) = bet_key b" "\<And>b. bt_status (f b) \<noteq> Bet_open"
    and book: "book_of d1 = foldl post (book_of d) es" and es: "list_all (posting_in (user_ids d)) es"
    and held: "\<And>v. held_of v d1 = held_of v d - (if v = bt_discord_id b then bt_effective_stake b else 0)"
    and same: "same_money (update_bet i f d1) d'"
  shows "ledger_inv E d'" and "book_of d' = foldl post (book_of d) es"
proof -
  let ?d2 = "update_bet i f d1"
  have bok: "bets_ok (user_ids d) (period_ids d) (bets d)" using inv by (simp add: ledger_parts)
  have row: "sel_key bt_id i (bets d) = Some b" using sel by (simp add: select_bet_def)
  have dist: "distinct (map bt_id (bets d))" using bok by (simp add: bets_ok_def)
  have b2: "book_of ?d2 = foldl post (book_of d) es"
  proof -
    have "book_of ?d2 = book_of d1"
      by (rule book_of_cong) (simp_all add: update_bet_def deposited_def delivered_def swept_def)
    then show ?thesis using book by simp
  qed
  have "\<forall>x \<in> set (upd_key bt_id i f (bets d)). bt_status x = Bet_open \<longrightarrow> open_bet_ok (user_ids d) (period_ids d) x"
    using bok f(3) by (intro ball_upd_key) (auto simp: bets_ok_def)
  moreover have "map bt_id (upd_key bt_id i f (bets d)) = map bt_id (bets d)"
    and "map bet_key (upd_key bt_id i f (bets d)) = map bet_key (bets d)"
    using f by simp_all
  ultimately have "bets_ok (user_ids d) (period_ids d) (bets ?d2)"
    using bok unfolding bets_ok_def update_bet_def d1 by simp
  moreover have "accounts_ok ?d2" using acc by (simp add: update_bet_def)
  ultimately have tab: "tables_ok E ?d2"
    using inv ps by - (rule tables_ok_bets [of E d], auto simp: ledger_inv_def update_bet_def d1)
  have "locks_ok ?d2"
    unfolding locks_ok_def
  proof
    fix v
    have "bet_locks v ?d2 = bet_locks v d - (if v = bt_discord_id b then bt_effective_stake b else 0)"
      using sum_where_upd [OF dist row, of "\<lambda>b. bt_discord_id b = v \<and> bt_status b = Bet_open" bt_effective_stake f]
        op f(3) by (auto simp: bet_locks_def update_bet_def d1)
    moreover have "held_of v ?d2 = held_of v d1" by (simp add: held_of_def update_bet_def)
    moreover have "ticket_locks v ?d2 = ticket_locks v d" by (simp add: ticket_locks_def update_bet_def d1)
    ultimately show "held_of v ?d2 = ticket_locks v ?d2 + bet_locks v ?d2"
      using inv held [of v] by (simp add: ledger_inv_def locks_ok_def)
  qed
  then have "ledger_inv E ?d2"
    using tab b2 es by - (rule ledger_step [OF inv], auto simp: update_bet_def d1)
  then show "ledger_inv E d'" using same_money_inv [OF same] by simp
  show "book_of d' = foldl post (book_of d) es" using same_money_book [OF same] b2 by simp
qed

lemma open_bet:
  assumes "ledger_inv E d" and "select_bet i d = Some b" and "bt_status b = Bet_open"
  shows "open_bet_ok (user_ids d) (period_ids d) b" and "bt_discord_id b \<in> user_ids d" and "bt_id b = i"
proof -
  have "b \<in> set (bets d)" using assms(2) by (simp add: select_bet_def sel_key_Some_in)
  with assms show "open_bet_ok (user_ids d) (period_ids d) b" by (auto simp: ledger_parts bets_ok_def)
  then show "bt_discord_id b \<in> user_ids d" by (simp add: open_bet_ok_def)
  show "bt_id b = i" using assms(2) unfolding select_bet_def by (rule sel_key_Some_key)
qed

definition resolved_row :: "pg_env \<Rightarrow> bet_status \<Rightarrow> int \<Rightarrow> int \<Rightarrow> json option \<Rightarrow> bet_row \<Rightarrow> bet_row" where
  "resolved_row E st payout profit outcome b =
     b\<lparr>bt_status := st, bt_payout_amount := payout, bt_profit := Some profit, bt_outcome := outcome,
       bt_resolved_at := Some (now E)\<rparr>"

lemma bet_outcome_text: "bet_outcome_of_text s = Some st \<Longrightarrow>
    s = bet_status_text st \<and> st \<in> {Resolved_win, Resolved_loss, Resolved_tie}"
  by (auto simp: bet_outcome_of_text_def split: if_splits)

lemma resolve_bet_cases:
  assumes ret: "resolve_bet E i s payout outcome d = Inr (x, d')" and sel: "select_bet i d = Some b"
  obtains (again) st where "bet_outcome_of_text s = Some st" "bt_status b = st" "bt_payout_amount b = payout" "d' = d"
  | (first) st d1 d2 where "bet_outcome_of_text s = Some st" "bt_status b = Bet_open" "\<not> payout < 0"
      "update_balance (bt_discord_id b) (\<lambda>r. r\<lparr>
         b_balance := b_balance r + fst (settlement st (bt_effective_stake b) payout),
         b_locked := b_locked r - bt_effective_stake b,
         b_total_won := b_total_won r + fst (settlement st (bt_effective_stake b) payout),
         b_updated_at := now E, b_version := b_version r + 1\<rparr>) d = Inr d1"
      "(if snd (settlement st (bt_effective_stake b) payout) \<noteq> 0
        then credit_treasury E (snd (settlement st (bt_effective_stake b) payout)) d1 else Inr d1) = Inr d2"
      "same_money (update_bet i (resolved_row E st payout (payout - bt_bet_amount b) outcome) d2) d'"
proof -
  from ret obtain st where st: "bet_outcome_of_text s = Some st" "\<not> payout < 0"
    by (auto simp: resolve_bet_def raise_simps)
  show ?thesis
  proof (cases "bt_status b = st \<and> bt_payout_amount b = payout")
    case True
    with ret sel st show ?thesis by (intro again [OF st(1)]) (simp_all add: resolve_bet_def)
  next
    case False
    show ?thesis
      using ret sel st
      by (clarsimp simp: resolve_bet_def False raise_simps Let_def)
        (rule first [unfolded resolved_row_def [abs_def]], assumption+, erule audit_same_money, simp)
  qed
qed

lemma resolve_bet_refines:
  assumes inv: "ledger_inv E d" and ret: "resolve_bet E' i s payout outcome d = Inr (x, d')"
    and sel: "select_bet i d = Some b" and st: "bet_outcome_of_text s = Some st"
  shows "ledger_inv E d'" and "book_of d' =
    (if bt_status b = Bet_open then foldl post (book_of d) (settle_postings st payout b) else book_of d)"
proof -
  have "ledger_inv E d' \<and> book_of d' =
    (if bt_status b = Bet_open then foldl post (book_of d) (settle_postings st payout b) else book_of d)"
    using ret sel
  proof (cases rule: resolve_bet_cases)
    case (again st')
    with st inv show ?thesis by (auto dest!: bet_outcome_text)
  next
    case (first st' d1 d2)
    let ?u = "bt_discord_id b" and ?pay = "settlement st (bt_effective_stake b) payout"
    have [simp]: "st' = st" using first(1) st by simp
    have acc: "accounts_ok d" using inv by (simp add: ledger_parts)
    note ob = open_bet [OF inv sel first(2)]
    obtain r where r: "select_balance ?u d = Some r" using accounts_row_ex [OF acc ob(2)] by auto
    obtain bs1 where d1: "d1 = d\<lparr>balances := bs1\<rparr>" using update_balance_frame [OF first(4)] by auto
    have acc1: "accounts_ok d1" using accounts_ok_update [OF acc first(4)] by simp
    note t2 = credit_if [OF first(5) acc1, simplified]
    obtain bs2 where d2: "d2 = d\<lparr>balances := bs2, raffle_periods := raffle_periods d\<rparr>"
      using t2(2) d1 by auto
    have b1: "book_of d1 = (book_of d)(Avail ?u := book_of d (Avail ?u) + fst ?pay,
        Held ?u := book_of d (Held ?u) - bt_effective_stake b)"
      using book_update_balance [OF first(4) r] r by (auto simp: fun_eq_iff avail_of_def held_of_def)
    have b2: "book_of d2 = foldl post (book_of d) (settle_postings st payout b)"
    proof -
      have "book_of d2 = (book_of d1)(Avail 0 := book_of d1 (Avail 0) + snd ?pay)" using t2(3) by simp
      then show ?thesis using bet_outcome_text [OF st]
        by (auto simp: b1 settle_postings_def settlement_def post_def fun_eq_iff)
    qed
    have held: "held_of v d2 = held_of v d - (if v = ?u then bt_effective_stake b else 0)" for v
      unfolding held_of_book b2 using bet_outcome_text [OF st] by (auto simp: settle_postings_def post_def)
    have es: "list_all (posting_in (user_ids d)) (settle_postings st payout b)"
      using ob(2) treasury_in [OF inv] by (simp add: settle_postings_def posting_in_def split: bet_status.splits)
    note fin = bet_end_inv [OF inv sel first(2) t2(1) d2 refl _ _ _ b2 es held first(6)]
    show ?thesis using fin first(2) bet_outcome_text [OF st] by (auto simp: resolved_row_def bet_key_def)
  qed
  then show "ledger_inv E d'" and "book_of d' =
    (if bt_status b = Bet_open then foldl post (book_of d) (settle_postings st payout b) else book_of d)" by auto
qed

lemma cashout_mines_Inr:
  assumes "cashout_mines E i m d = Inr (x, d')"
  obtains b outcome where "select_bet i d = Some b" "bt_status b = Bet_open" "bt_game_name b = ''mines''"
    "numeric_positive m"
    "resolve_bet E i ''resolved_win'' (numeric_floor_mult (bt_effective_stake b) m) outcome d = Inr (x, d')"
  using assms by (auto simp: cashout_mines_def raise_simps)

definition refunded_row :: "pg_env \<Rightarrow> string option \<Rightarrow> bet_row \<Rightarrow> bet_row" where
  "refunded_row E reason b =
     b\<lparr>bt_status := Refunded, bt_payout_amount := 0, bt_profit := Some 0,
       bt_outcome := Some (JObj [(''reason'', jopt JStr reason)]), bt_resolved_at := Some (now E)\<rparr>"

lemma refund_bet_cases:
  assumes ret: "refund_bet E i reason d = Inr (x, d')" and sel: "select_bet i d = Some b"
  obtains (again) "bt_status b = Refunded" "d' = d"
  | (first) d1 d2 d3 where "bt_status b = Bet_open"
      "update_balance (bt_discord_id b) (\<lambda>r. r\<lparr>b_balance := b_balance r + bt_bet_amount b,
         b_locked := b_locked r - bt_effective_stake b,
         b_total_wagered := b_total_wagered r - bt_bet_amount b,
         b_updated_at := now E, b_version := b_version r + 1\<rparr>) d = Inr d1"
      "(if 0 < bt_commission b then credit_treasury E (- bt_commission b) d1 else Inr d1) = Inr d2"
      "(if 0 < bt_rake b then credit_rake E (bt_rake_period_id b) (- bt_rake b) d2 else Inr d2) = Inr d3"
      "same_money (update_bet i (refunded_row E reason) d3) d'"
proof (cases "bt_status b = Refunded")
  case True
  with ret sel show ?thesis by (intro again) (simp_all add: refund_bet_def)
next
  case False
  show ?thesis
    using ret sel
    by (clarsimp simp: refund_bet_def False raise_simps Let_def)
      (rule first [unfolded refunded_row_def [abs_def]], assumption+, erule audit_same_money, simp)
qed

lemma refund_bet_refines:
  assumes inv: "ledger_inv E d" and ret: "refund_bet E' i reason d = Inr (x, d')"
    and sel: "select_bet i d = Some b"
  shows "ledger_inv E d'" and "book_of d' =
    (if bt_status b = Bet_open then foldl post (book_of d) (refund_postings b) else book_of d)"
proof -
  have "ledger_inv E d' \<and> book_of d' =
    (if bt_status b = Bet_open then foldl post (book_of d) (refund_postings b) else book_of d)"
    using ret sel
  proof (cases rule: refund_bet_cases)
    case again
    with inv show ?thesis by simp
  next
    case (first d1 d2 d3)
    let ?u = "bt_discord_id b"
    have acc: "accounts_ok d" and per: "periods_ok d" using inv by (simp_all add: ledger_parts)
    note ob = open_bet [OF inv sel first(1)]
    have sh: "0 \<le> bt_commission b" "0 \<le> bt_rake b"
        "bt_bet_amount b = bt_effective_stake b + bt_commission b + bt_rake b"
      and pd: "case bt_rake_period_id b of None \<Rightarrow> True | Some p \<Rightarrow> p \<in> period_ids d"
      using ob(1) by (simp_all add: open_bet_ok_def)
    obtain r where r: "select_balance ?u d = Some r" using accounts_row_ex [OF acc ob(2)] by auto
    obtain bs1 where d1: "d1 = d\<lparr>balances := bs1\<rparr>" using update_balance_frame [OF first(2)] by auto
    have acc1: "accounts_ok d1" using accounts_ok_update [OF acc first(2)] by simp
    note t2 = credit_if [OF first(3) acc1]
    have acc2: "accounts_ok d2" and b2: "book_of d2 = (book_of d1)(Avail 0 := book_of d1 (Avail 0) + - bt_commission b)"
      using t2 sh by auto
    obtain bs2 where d2: "d2 = d\<lparr>balances := bs2\<rparr>" using t2(2) sh d1 by auto
    have pd2: "case bt_rake_period_id b of None \<Rightarrow> True | Some p \<Rightarrow> p \<in> period_ids d2"
      and per2: "periods_ok d2"
      using pd per by (simp_all add: d2 period_ids_def periods_ok_def split: option.splits)
    note t3 = credit_rake_if [OF first(4) acc2 _ pd2 per2]
    obtain bs3 ps where d3: "d3 = d\<lparr>balances := bs3, raffle_periods := ps\<rparr>"
      and ps: "map rp_id ps = map rp_id (raffle_periods d)" using t3(2) sh d2 by auto
    have acc3: "accounts_ok d3" using t3(1) sh by auto
    have b1: "book_of d1 = (book_of d)(Avail ?u := book_of d (Avail ?u) + bt_bet_amount b,
        Held ?u := book_of d (Held ?u) - bt_effective_stake b)"
      using book_update_balance [OF first(2) r] r by (auto simp: fun_eq_iff avail_of_def held_of_def)
    have b3: "book_of d3 = foldl post (book_of d) (refund_postings b)"
    proof -
      have "book_of d3 = (book_of d2)(rake_account (bt_rake_period_id b) :=
          book_of d2 (rake_account (bt_rake_period_id b)) + - bt_rake b)" using t3(3) sh by auto
      then show ?thesis using sh(3)
        by (cases "bt_rake_period_id b"; cases "?u = 0")
          (auto simp: b2 b1 refund_postings_def post_def rake_account_def fun_eq_iff)
    qed
    have held: "held_of v d3 = held_of v d - (if v = ?u then bt_effective_stake b else 0)" for v
      unfolding held_of_book b3 by (simp add: refund_postings_def post_def rake_account_def split: option.splits)
    have es: "list_all (posting_in (user_ids d)) (refund_postings b)"
      using ob(2) treasury_in [OF inv]
      by (simp add: refund_postings_def posting_in_def rake_account_def split: option.splits)
    note fin = bet_end_inv [OF inv sel first(1) acc3 d3 ps _ _ _ b3 es held first(5)]
    show ?thesis using fin first(1) by (auto simp: refunded_row_def bet_key_def)
  qed
  then show "ledger_inv E d'" and "book_of d' =
    (if bt_status b = Bet_open then foldl post (book_of d) (refund_postings b) else book_of d)" by auto
qed

end
