(* ===== verification/Statements.thy ===== *)
theory Statements
  imports Ledger_Bets
begin

text \<open>
  Every stored function is a sequence of table statements. \<open>stmt\<close> lists the statements by what
  they can do to the audit log, the tickets and the bets; each function is shown to be a path of
  statements, and what all statements respect (the log only grows and stays linked, the row of a
  ticket in a terminal status stays as it is, and so does the row of a settled bet) follows for all
  functions by rule induction.
\<close>

section \<open>Definitions\<close>

text \<open>The log, the seeds and their history unchanged.\<close>

definition log_same :: "db \<Rightarrow> db \<Rightarrow> bool" where
  "log_same d d' \<longleftrightarrow> audit_log d' = audit_log d \<and> last_row_hash d' = last_row_hash d
     \<and> audit_log_id_seq d' = audit_log_id_seq d
     \<and> user_seeds d' = user_seeds d \<and> seed_history d' = seed_history d"

text \<open>A seed row is archived with what it revealed.\<close>

definition archives :: "seed_row \<Rightarrow> history_row \<Rightarrow> bool" where
  "archives s h \<longleftrightarrow> h_discord_id h = f_discord_id s \<and> h_revealed_server_seed h = f_server_seed s
     \<and> h_server_seed_hash h = f_server_seed_hash s \<and> h_client_seed h = f_client_seed s
     \<and> h_last_nonce h = f_nonce s"

definition keeps_final :: "('a ticket_scheme \<Rightarrow> 'a ticket_scheme) \<Rightarrow> 'a ticket_scheme list \<Rightarrow> bool" where
  "keeps_final g ts \<longleftrightarrow> (\<forall>t \<in> set ts. t_ticket_uid (g t) = t_ticket_uid t
     \<and> (is_terminal (t_status t) \<longrightarrow> g t = t))"

inductive stmt :: "pg_env \<Rightarrow> db \<Rightarrow> db \<Rightarrow> bool" for E where
  audit: "audit_log_insert_with_chain E a d = Inr (i, d') \<Longrightarrow> stmt E d d'"
| other: "log_same d d' \<Longrightarrow> deposit_tickets d' = deposit_tickets d \<Longrightarrow>
    withdraw_tickets d' = withdraw_tickets d \<Longrightarrow> bets d' = bets d \<Longrightarrow> stmt E d d'"
| insert_deposit: "stmt E d (d\<lparr>deposit_tickets := deposit_tickets d @ [t]\<rparr>)"
| insert_withdraw: "stmt E d (d\<lparr>withdraw_tickets := withdraw_tickets d @ [w]\<rparr>)"
| insert_bet: "stmt E d (d\<lparr>bets := bets d @ [b]\<rparr>)"
| update_deposit: "keeps_final g (deposit_tickets d) \<Longrightarrow>
    stmt E d (d\<lparr>deposit_tickets := map g (deposit_tickets d)\<rparr>)"
| update_withdraw: "keeps_final h (withdraw_tickets d) \<Longrightarrow>
    stmt E d (d\<lparr>withdraw_tickets := map h (withdraw_tickets d)\<rparr>)"
| update_bet: "(\<And>b. b \<in> set (bets d) \<Longrightarrow> bt_id (f b) = bt_id b \<and> (bt_status b \<noteq> Bet_open \<longrightarrow> f b = b)) \<Longrightarrow>
    stmt E d (d\<lparr>bets := map f (bets d)\<rparr>)"
| take_nonce: "stmt E d (d\<lparr>user_seeds := upd_key f_discord_id u (\<lambda>s. s\<lparr>f_nonce := f_nonce s + 1\<rparr>) (user_seeds d)\<rparr>)"
| client_seed: "stmt E d (update_client_seed u c d)"
| new_seed: "sel_key f_discord_id (f_discord_id s) (user_seeds d) = None \<Longrightarrow>
    f_server_seed_hash s = digest_sha256 E (f_server_seed s) \<Longrightarrow> f_nonce s = 0 \<Longrightarrow>
    stmt E d (d\<lparr>user_seeds := user_seeds d @ [s]\<rparr>)"
| rotate: "sel_key f_discord_id u (user_seeds d) = Some s \<Longrightarrow> archives s h \<Longrightarrow>
    stmt E d (d\<lparr>history_id_seq := n, seed_history := seed_history d @ [h],
      user_seeds := upd_key f_discord_id u
        (\<lambda>s. s\<lparr>f_server_seed := seed, f_server_seed_hash := digest_sha256 E seed, f_nonce := 0,
              f_rotated_at := at_time\<rparr>) (user_seeds d)\<rparr>)"

inductive_cases stmt_auditE: "stmt E d d'"

definition stmts :: "pg_env \<Rightarrow> db \<Rightarrow> db \<Rightarrow> bool" where
  "stmts E = (stmt E)\<^sup>*\<^sup>*"

text \<open>What a terminal ticket or a settled bet keeps.\<close>

definition rows_kept :: "('r \<Rightarrow> 'r \<Rightarrow> bool) \<Rightarrow> ('k \<Rightarrow> 'r option) \<Rightarrow> ('k \<Rightarrow> 'r option) \<Rightarrow> bool" where
  "rows_kept R s s' \<longleftrightarrow> (\<forall>k r. s k = Some r \<longrightarrow> (\<exists>r'. s' k = Some r' \<and> R r r'))"

definition final_ticket :: "'a ticket_scheme \<Rightarrow> 'a ticket_scheme \<Rightarrow> bool" where
  "final_ticket t t' \<longleftrightarrow> (is_terminal (t_status t) \<longrightarrow> t' = t)"

definition final_bet :: "bet_row \<Rightarrow> bet_row \<Rightarrow> bool" where
  "final_bet b b' \<longleftrightarrow> (bt_status b \<noteq> Bet_open \<longrightarrow> b' = b)"

definition finals_kept :: "db \<Rightarrow> db \<Rightarrow> bool" where
  "finals_kept d d' \<longleftrightarrow>
     rows_kept final_ticket (\<lambda>uid. select_deposit uid d) (\<lambda>uid. select_deposit uid d')
     \<and> rows_kept final_ticket (\<lambda>uid. select_withdraw uid d) (\<lambda>uid. select_withdraw uid d')
     \<and> rows_kept final_bet (\<lambda>i. select_bet i d) (\<lambda>i. select_bet i d')"

section \<open>What statements respect\<close>

lemma stmts_refl [simp]: "stmts E d d"
  by (simp add: stmts_def)

lemma stmts_trans: "stmts E d d1 \<Longrightarrow> stmts E d1 d2 \<Longrightarrow> stmts E d d2"
  unfolding stmts_def by (rule rtranclp_trans)

lemma stmts_stmt: "stmt E d d' \<Longrightarrow> stmts E d d'"
  by (simp add: stmts_def r_into_rtranclp)

lemma stmt_log_prefix: "stmt E d d' \<Longrightarrow> \<exists>rs. audit_log d' = audit_log d @ rs"
  by (induction rule: stmt.induct) (auto simp: log_same_def update_client_seed_def dest!: chain.append_row)

lemma stmts_log_prefix: "stmts E d d' \<Longrightarrow> \<exists>rs. audit_log d' = audit_log d @ rs"
  unfolding stmts_def
proof (induction rule: rtranclp_induct)
  case base
  then show ?case by simp
next
  case (step d1 d2)
  with stmt_log_prefix [OF step(2)] show ?case by auto
qed

lemma stmt_audit_inv:
  assumes "stmt (E\<lparr>now := t\<rparr>) d d'" and "audit_inv E k d" and key: "chain_key e E = Inr k"
  shows "audit_inv E k d'"
  using assms(1,2)
proof (induction rule: stmt.induct)
  case (audit a d i d')
  then show ?case using audit_inv_append [OF _ key] by blast
next
  case (other d d')
  then show ?case using audit_inv_frame [of d' d E k] by (simp add: log_same_def)
qed (simp_all add: audit_inv_def update_client_seed_def)

lemma stmts_audit_inv:
  assumes "stmts (E\<lparr>now := t\<rparr>) d d'" and "audit_inv E k d" and key: "chain_key e E = Inr k"
  shows "audit_inv E k d'"
  using assms(1,2) unfolding stmts_def
  by (induction rule: rtranclp_induct) (auto intro: stmt_audit_inv [OF _ _ key])

lemma rows_kept_refl: "(\<And>r. R r r) \<Longrightarrow> rows_kept R s s"
  by (simp add: rows_kept_def)

lemma rows_kept_trans:
  assumes "\<And>x y z. R x y \<Longrightarrow> R y z \<Longrightarrow> R x z" and "rows_kept R s s1" and "rows_kept R s1 s2"
  shows "rows_kept R s s2"
  unfolding rows_kept_def
proof (intro allI impI)
  fix k r
  assume "s k = Some r"
  then obtain r1 where "s1 k = Some r1" "R r r1" using assms(2) by (auto simp: rows_kept_def)
  moreover from this obtain r2 where "s2 k = Some r2" "R r1 r2" using assms(3) by (auto simp: rows_kept_def)
  ultimately show "\<exists>r'. s2 k = Some r' \<and> R r r'" using assms(1) by blast
qed

lemma finals_kept_refl: "finals_kept d d"
  by (simp add: finals_kept_def rows_kept_refl final_ticket_def final_bet_def)

lemma finals_kept_trans: "finals_kept d d1 \<Longrightarrow> finals_kept d1 d2 \<Longrightarrow> finals_kept d d2"
  unfolding finals_kept_def
  by (intro conjI; elim conjE; rule rows_kept_trans, auto simp: final_ticket_def final_bet_def)

lemma sel_key_map:
  assumes "\<And>r. r \<in> set rs \<Longrightarrow> key (g r) = key r"
  shows "sel_key key k (map g rs) = map_option g (sel_key key k rs)"
  using assms by (induction rs) auto

lemma rows_kept_map:
  assumes "\<And>r. r \<in> set rs \<Longrightarrow> key (g r) = key r" and "\<And>r. r \<in> set rs \<Longrightarrow> R r (g r)"
  shows "rows_kept R (\<lambda>k. sel_key key k rs) (\<lambda>k. sel_key key k (map g rs))"
  using assms by (auto simp: rows_kept_def sel_key_map dest: sel_key_Some_in)

lemma rows_kept_append:
  "(\<And>r. R r r) \<Longrightarrow> rows_kept R (\<lambda>k. sel_key key k rs) (\<lambda>k. sel_key key k (rs @ rs'))"
  by (simp add: rows_kept_def)

lemma finals_cong:
  assumes "deposit_tickets d' = deposit_tickets d" and "withdraw_tickets d' = withdraw_tickets d"
    and "bets d' = bets d"
  shows "finals_kept d d'"
  using assms finals_kept_refl [of d]
  by (simp add: finals_kept_def select_deposit_def select_withdraw_def select_bet_def)

lemmas finals_defs = finals_kept_def select_deposit_def select_withdraw_def select_bet_def
  final_ticket_def final_bet_def

lemma finals_kept_stmt: "stmt E d d' \<Longrightarrow> finals_kept d d'"
proof (induction rule: stmt.induct)
  case (audit a d i d')
  then show ?case by (intro finals_cong) (auto dest!: chain.append_row)
next
  case (other d d')
  then show ?case by (intro finals_cong)
next
  case (update_deposit g d)
  then have "rows_kept final_ticket (\<lambda>k. sel_key t_ticket_uid k (deposit_tickets d))
      (\<lambda>k. sel_key t_ticket_uid k (map g (deposit_tickets d)))"
    by (intro rows_kept_map) (auto simp: keeps_final_def final_ticket_def)
  then show ?case by (simp add: finals_defs rows_kept_refl)
next
  case (update_withdraw g d)
  then have "rows_kept final_ticket (\<lambda>k. sel_key t_ticket_uid k (withdraw_tickets d))
      (\<lambda>k. sel_key t_ticket_uid k (map g (withdraw_tickets d)))"
    by (intro rows_kept_map) (auto simp: keeps_final_def final_ticket_def)
  then show ?case by (simp add: finals_defs rows_kept_refl)
next
  case (update_bet d f)
  then have "rows_kept final_bet (\<lambda>k. sel_key bt_id k (bets d)) (\<lambda>k. sel_key bt_id k (map f (bets d)))"
    by (intro rows_kept_map) (auto simp: final_bet_def)
  then show ?case by (simp add: finals_defs rows_kept_refl)
qed (simp_all add: finals_defs rows_kept_refl rows_kept_append update_client_seed_def del: sel_key_append)

lemma finals_kept_stmts: "stmts E d d' \<Longrightarrow> finals_kept d d'"
  unfolding stmts_def
  by (induction rule: rtranclp_induct) (auto intro: finals_kept_refl finals_kept_trans finals_kept_stmt)

section \<open>Functions as paths\<close>

text \<open>The keys by which the functions update rows are unique, and stay so.\<close>

definition keys_unique :: "db \<Rightarrow> bool" where
  "keys_unique d \<longleftrightarrow>
     distinct (map t_id (deposit_tickets d)) \<and> distinct (map t_ticket_uid (deposit_tickets d))
     \<and> distinct (map t_id (withdraw_tickets d)) \<and> distinct (map t_ticket_uid (withdraw_tickets d))
     \<and> distinct (map bt_id (bets d))"

definition path :: "pg_env \<Rightarrow> db \<Rightarrow> db \<Rightarrow> bool" where
  "path E d d' \<longleftrightarrow> (keys_unique d \<longrightarrow> stmts E d d' \<and> keys_unique d')"

definition rest_only :: "db \<Rightarrow> db \<Rightarrow> bool" where
  "rest_only d d' \<longleftrightarrow> log_same d d' \<and> deposit_tickets d' = deposit_tickets d
     \<and> withdraw_tickets d' = withdraw_tickets d \<and> bets d' = bets d"

lemma path_refl [simp]: "path E d d"
  by (simp add: path_def)

lemma path_trans: "path E d d1 \<Longrightarrow> path E d1 d2 \<Longrightarrow> path E d d2"
  by (auto simp: path_def intro: stmts_trans)

lemma path_rest: "rest_only d d' \<Longrightarrow> path E d d'"
  by (auto simp: path_def rest_only_def keys_unique_def intro!: stmts_stmt stmt.other)

lemma rest_only_trans: "rest_only d d1 \<Longrightarrow> rest_only d1 d2 \<Longrightarrow> rest_only d d2"
  by (simp add: rest_only_def log_same_def)

lemma path_audit: "audit_log_insert_with_chain E a d = Inr (i, d') \<Longrightarrow> path E d d'"
  unfolding path_def keys_unique_def
  by (auto dest: chain.append_row intro: stmts_stmt stmt.audit)

lemma path_update_balance: "update_balance u f d = Inr d' \<Longrightarrow> path E d d'"
  by (auto dest!: update_balance_frame intro!: path_rest simp: rest_only_def log_same_def)

lemma path_ensure: "insert_balance E' u (insert_user E' u d) = Inr d' \<Longrightarrow> path E d d'"
  by (rule path_rest)
    (auto simp: insert_balance_def insert_user_def rest_only_def log_same_def split: if_splits)

lemma path_stats: "upsert_stats c inc d = Inr d' \<Longrightarrow> path E d d'"
  by (rule path_rest) (auto simp: upsert_stats_def raise_simps Let_def rest_only_def log_same_def)

lemma path_insert_deposit: "insert_deposit_ticket t d = Inr d' \<Longrightarrow> path E d d'"
  by (auto simp: insert_deposit_ticket_def check_ticket_row_def raise_simps path_def keys_unique_def
      has_key_def split: if_splits intro: stmts_stmt stmt.insert_deposit)

lemma path_insert_withdraw: "insert_withdraw_ticket t d = Inr d' \<Longrightarrow> path E d d'"
  by (auto simp: insert_withdraw_ticket_def check_ticket_row_def raise_simps path_def keys_unique_def
      has_key_def split: if_splits intro: stmts_stmt stmt.insert_withdraw)

lemma path_insert_bet: "insert_bet b d = Inr d' \<Longrightarrow> path E d d'"
  by (auto simp: insert_bet_def raise_simps path_def keys_unique_def has_key_def
      intro: stmts_stmt stmt.insert_bet)

lemma keeps_final_upd:
  assumes "distinct (map key ts)" and "sel_key key k ts = Some t"
    and "\<And>t. t_ticket_uid (f t) = t_ticket_uid t" and "is_terminal (t_status t) \<longrightarrow> f t = t"
  shows "keeps_final (\<lambda>r. if key r = k then f r else r) ts"
  using assms sel_key_in [OF assms(1)] by (fastforce simp: keeps_final_def)

lemma path_update_deposit:
  assumes upd: "update_deposit_ticket key k f d = Inr d'"
    and key: "keys_unique d \<Longrightarrow> distinct (map key (deposit_tickets d))"
    and f: "\<And>t. t_ticket_uid (f t) = t_ticket_uid t" "\<And>t. t_id (f t) = t_id t"
    and moves: "\<And>t. keys_unique d \<Longrightarrow> sel_key key k (deposit_tickets d) = Some t \<Longrightarrow>
      is_terminal (t_status t) \<Longrightarrow> t_status (f t) \<noteq> t_status t"
  shows "path E d d'"
proof (cases "sel_key key k (deposit_tickets d)")
  case None
  with upd show ?thesis by (simp add: update_deposit_ticket_def)
next
  case (Some t)
  note r = update_deposit_Inr [OF upd Some]
  show ?thesis
    unfolding path_def
  proof
    assume u: "keys_unique d"
    have "keeps_final (\<lambda>r. if key r = k then f r else r) (deposit_tickets d)"
      using r moves [OF u Some] by (intro keeps_final_upd [OF key [OF u] Some f(1)]) auto
    from stmt.update_deposit [OF this, of E] have "stmts E d d'"
      using r by (simp add: upd_key_def stmts_stmt)
    moreover have "keys_unique d'" using u r f by (simp add: keys_unique_def)
    ultimately show "stmts E d d' \<and> keys_unique d'" by simp
  qed
qed

lemma path_update_withdraw:
  assumes upd: "update_withdraw_ticket key k f d = Inr d'"
    and key: "keys_unique d \<Longrightarrow> distinct (map key (withdraw_tickets d))"
    and f: "\<And>t. t_ticket_uid (f t) = t_ticket_uid t" "\<And>t. t_id (f t) = t_id t"
    and moves: "\<And>t. keys_unique d \<Longrightarrow> sel_key key k (withdraw_tickets d) = Some t \<Longrightarrow>
      is_terminal (t_status t) \<Longrightarrow> t_status (f t) \<noteq> t_status t"
  shows "path E d d'"
proof (cases "sel_key key k (withdraw_tickets d)")
  case None
  with upd show ?thesis by (simp add: update_withdraw_ticket_def)
next
  case (Some t)
  note r = update_withdraw_Inr [OF upd Some]
  show ?thesis
    unfolding path_def
  proof
    assume u: "keys_unique d"
    have "keeps_final (\<lambda>r. if key r = k then f r else r) (withdraw_tickets d)"
      using r moves [OF u Some] by (intro keeps_final_upd [OF key [OF u] Some f(1)]) auto
    from stmt.update_withdraw [OF this, of E] have "stmts E d d'"
      using r by (simp add: upd_key_def stmts_stmt)
    moreover have "keys_unique d'" using u r f by (simp add: keys_unique_def)
    ultimately show "stmts E d d' \<and> keys_unique d'" by simp
  qed
qed

lemma path_update_bet:
  assumes sel: "sel_key bt_id i (bets d) = Some b" and op: "bt_status b = Bet_open"
    and f: "\<And>b. bt_id (f b) = bt_id b"
  shows "path E d (update_bet i f d)"
  unfolding path_def
proof
  assume u: "keys_unique d"
  then have dist: "distinct (map bt_id (bets d))" by (simp add: keys_unique_def)
  have "stmt E d (d\<lparr>bets := map (\<lambda>x. if bt_id x = i then f x else x) (bets d)\<rparr>)"
    using sel_key_in [OF dist] sel op f by (intro stmt.update_bet) auto
  then have "stmts E d (update_bet i f d)"
    by (simp add: update_bet_def upd_key_def stmts_stmt)
  moreover have "keys_unique (update_bet i f d)"
    using u f by (simp add: keys_unique_def update_bet_def)
  ultimately show "stmts E d (update_bet i f d) \<and> keys_unique (update_bet i f d)" by simp
qed

end
