(* ===== verification/Seeds.thy ===== *)
theory Seeds
  imports Statements
begin

text \<open>
  What every statement keeps of the seeds of the players (\<^verbatim>\<open>fairness.user_seeds\<close> and
  \<^verbatim>\<open>fairness.history\<close>): each stored hash is the digest of the seed it commits to, also for
  the archived seeds; the history only grows; and the nonce of a seed only counts up until the
  seed is rotated.
\<close>

section \<open>Definitions\<close>

definition select_seed :: "int \<Rightarrow> db \<Rightarrow> seed_row option" where
  "select_seed uid d = sel_key f_discord_id uid (user_seeds d)"

definition seeds_committed :: "pg_env \<Rightarrow> db \<Rightarrow> bool" where
  "seeds_committed E d \<longleftrightarrow>
     (\<forall>s \<in> set (user_seeds d). f_server_seed_hash s = digest_sha256 E (f_server_seed s))
     \<and> (\<forall>h \<in> set (seed_history d). h_server_seed_hash h = digest_sha256 E (h_revealed_server_seed h))"

text \<open>How often the seed of a user was rotated.\<close>

definition rotations :: "int \<Rightarrow> db \<Rightarrow> nat" where
  "rotations u d = length (filter (\<lambda>h. h_discord_id h = u) (seed_history d))"

definition nonces_grow :: "db \<Rightarrow> db \<Rightarrow> bool" where
  "nonces_grow d d' \<longleftrightarrow> (\<exists>hs. seed_history d' = seed_history d @ hs)
     \<and> (\<forall>u s. select_seed u d = Some s \<longrightarrow>
          (\<exists>s'. select_seed u d' = Some s' \<and>
            (rotations u d < rotations u d'
              \<or> f_nonce s \<le> f_nonce s' \<and> f_server_seed s' = f_server_seed s)))"

section \<open>Statements\<close>

lemma seeds_frame: "audit_log_insert_with_chain E a d = Inr (i, d') \<Longrightarrow> user_seeds d' = user_seeds d \<and> seed_history d' = seed_history d"
  by (auto dest!: chain.append_row)

lemma stmt_committed:
  assumes "stmt (E\<lparr>now := t\<rparr>) d d'" and "seeds_committed E d"
  shows "seeds_committed E d'"
  using assms
proof (induction rule: stmt.induct)
  case (audit a d i d')
  then show ?case by (simp add: seeds_committed_def seeds_frame)
next
  case (other d d')
  then show ?case by (simp add: seeds_committed_def log_same_def)
next
  case (rotate u d s h n seed at_time)
  then show ?case
    using sel_key_Some_in [OF rotate(1)] by (auto simp: seeds_committed_def archives_def upd_key_def)
qed (auto simp: seeds_committed_def update_client_seed_def upd_key_def)

lemma stmts_committed:
  assumes "stmts (E\<lparr>now := t\<rparr>) d d'" and "seeds_committed E d"
  shows "seeds_committed E d'"
  using assms unfolding stmts_def
  by (induction rule: rtranclp_induct) (auto intro: stmt_committed)

lemma nonces_growD:
  assumes "nonces_grow d d'" and "select_seed u d = Some s"
  obtains s' where "select_seed u d' = Some s'"
    and "rotations u d < rotations u d' \<or> f_nonce s \<le> f_nonce s' \<and> f_server_seed s' = f_server_seed s"
  using assms unfolding nonces_grow_def by blast

lemma nonces_grow_refl: "nonces_grow d d"
  by (simp add: nonces_grow_def)

lemma rotations_prefix: "seed_history d' = seed_history d @ hs \<Longrightarrow> rotations u d \<le> rotations u d'"
  by (simp add: rotations_def)

lemma nonces_grow_trans:
  assumes "nonces_grow d d1" and "nonces_grow d1 d2"
  shows "nonces_grow d d2"
proof -
  obtain hs hs' where h: "seed_history d1 = seed_history d @ hs" "seed_history d2 = seed_history d1 @ hs'"
    using assms by (auto simp: nonces_grow_def)
  have "\<exists>s'. select_seed u d2 = Some s' \<and> (rotations u d < rotations u d2
      \<or> f_nonce s \<le> f_nonce s' \<and> f_server_seed s' = f_server_seed s)" if s: "select_seed u d = Some s" for u s
  proof -
    obtain s1 where s1: "select_seed u d1 = Some s1"
      "rotations u d < rotations u d1 \<or> f_nonce s \<le> f_nonce s1 \<and> f_server_seed s1 = f_server_seed s"
      using assms(1) s by (auto simp: nonces_grow_def)
    obtain s2 where "select_seed u d2 = Some s2"
      "rotations u d1 < rotations u d2 \<or> f_nonce s1 \<le> f_nonce s2 \<and> f_server_seed s2 = f_server_seed s1"
      using assms(2) s1(1) by (auto simp: nonces_grow_def)
    with s1 rotations_prefix [OF h(1), of u] rotations_prefix [OF h(2), of u] show ?thesis by auto
  qed
  with h show ?thesis by (auto simp: nonces_grow_def)
qed

lemma stmt_nonces: "stmt E d d' \<Longrightarrow> nonces_grow d d'"
proof (induction rule: stmt.induct)
  case (audit a d i d')
  then show ?case by (simp add: nonces_grow_def seeds_frame select_seed_def)
next
  case (other d d')
  then show ?case by (simp add: nonces_grow_def log_same_def select_seed_def)
next
  case (rotate u d s h n seed at_time)
  then show ?case
    using sel_key_Some_key [OF rotate(1)]
    by (auto simp: nonces_grow_def archives_def select_seed_def sel_key_upd rotations_def)
qed (auto simp: nonces_grow_def select_seed_def update_client_seed_def sel_key_upd)

lemma stmts_nonces: "stmts E d d' \<Longrightarrow> nonces_grow d d'"
  unfolding stmts_def
  by (induction rule: rtranclp_induct) (auto intro: nonces_grow_refl nonces_grow_trans stmt_nonces)

end
