(* ===== verification/Paths.thy ===== *)
theory Paths
  imports Seeds
begin

text \<open>Each stored function is a path of statements.\<close>

section \<open>Tickets\<close>

lemma rest_only_updates [simp]:
  "rest_only d (d\<lparr>deposit_tickets_id_seq := n\<rparr>)"
  "rest_only d (d\<lparr>withdraw_tickets_id_seq := n\<rparr>)"
  "rest_only d (d\<lparr>bets_id_seq := n\<rparr>)"
  "rest_only d (d\<lparr>users := us\<rparr>)"
  "rest_only d (d\<lparr>disputes := ds\<rparr>)"
  "rest_only d (d\<lparr>cashier_characters := cc\<rparr>)"
  "rest_only d (d\<lparr>cashier_status := cs\<rparr>)"
  by (simp_all add: rest_only_def log_same_def)

lemma create_deposit_path:
  assumes "create_deposit_ticket E u chr realm region faction n th pc d = Inr (uid, d')"
  shows "path E d d'"
  using assms
  by (clarsimp simp: create_deposit_ticket_def raise_simps Let_def)
    (drule path_insert_deposit [of _ _ _ E], drule path_audit,
     metis path_trans path_rest rest_only_updates(1))

text \<open>The functions that end a ticket find it by its key and have checked that it is not final.\<close>

lemma path_end_deposit:
  assumes upd: "update_deposit_ticket t_id (t_id t) f d1 = Inr d2" and sel: "select_deposit uid d = Some t"
    and live: "\<not> is_terminal (t_status t)" and same: "deposit_tickets d1 = deposit_tickets d"
    and f: "\<And>t. t_ticket_uid (f t) = t_ticket_uid t" "\<And>t. t_id (f t) = t_id t"
  shows "path E d1 d2"
proof (rule path_update_deposit [OF upd _ f])
  show "distinct (map t_id (deposit_tickets d1))" if "keys_unique d1" using that by (simp add: keys_unique_def)
  fix t'
  assume "keys_unique d1" and "sel_key t_id (t_id t) (deposit_tickets d1) = Some t'" and "is_terminal (t_status t')"
  moreover have "t \<in> set (deposit_tickets d1)" using sel same by (simp add: select_deposit_def sel_key_Some_in)
  ultimately show "t_status (f t') \<noteq> t_status t'"
    using live sel_key_in [of t_id "deposit_tickets d1" t] by (simp add: keys_unique_def)
qed

lemma path_end_withdraw:
  assumes upd: "update_withdraw_ticket t_id (t_id t) f d1 = Inr d2" and sel: "select_withdraw uid d = Some t"
    and live: "\<not> is_terminal (t_status t)" and same: "withdraw_tickets d1 = withdraw_tickets d"
    and f: "\<And>t. t_ticket_uid (f t) = t_ticket_uid t" "\<And>t. t_id (f t) = t_id t"
  shows "path E d1 d2"
proof (rule path_update_withdraw [OF upd _ f])
  show "distinct (map t_id (withdraw_tickets d1))" if "keys_unique d1" using that by (simp add: keys_unique_def)
  fix t'
  assume "keys_unique d1" and "sel_key t_id (t_id t) (withdraw_tickets d1) = Some t'" and "is_terminal (t_status t')"
  moreover have "t \<in> set (withdraw_tickets d1)" using sel same by (simp add: select_withdraw_def sel_key_Some_in)
  ultimately show "t_status (f t') \<noteq> t_status t'"
    using live sel_key_in [of t_id "withdraw_tickets d1" t] by (simp add: keys_unique_def)
qed

lemma tickets_frame:
  "update_balance u f d = Inr d' \<Longrightarrow> deposit_tickets d' = deposit_tickets d"
  "update_balance u f d = Inr d' \<Longrightarrow> withdraw_tickets d' = withdraw_tickets d"
  "insert_balance E u (insert_user E u d) = Inr d' \<Longrightarrow> deposit_tickets d' = deposit_tickets d"
  by (auto simp: insert_balance_def insert_user_def split: if_splits dest!: update_balance_frame)

lemma claimed_live: "t_status t = Claimed \<Longrightarrow> \<not> is_terminal (t_status t)"
  by (simp add: is_terminal_def)

lemma confirm_deposit_path:
  assumes ret: "confirm_deposit E uid c d = Inr (res, d')"
  shows "path E d d'"
proof -
  from ret obtain t where t: "select_deposit uid d = Some t"
    by (auto simp: confirm_deposit_def raise_simps)
  show ?thesis
  proof (cases "t_status t = Confirmed \<and> eq3 (t_claimed_by t) c")
    case True
    with ret t show ?thesis by (simp add: confirm_deposit_def)
  next
    case False
    from ret t obtain f d1 d2 d3 d4 a i inc where ens: "insert_balance E (t_discord_id t) (insert_user E (t_discord_id t) d) = Inr d1"
      and bal: "update_balance (t_discord_id t) f d1 = Inr d2" and claimed: "t_status t = Claimed"
      and tick: "update_deposit_ticket t_id (t_id t) (\<lambda>t. t\<lparr>t_status := Confirmed, t_confirmed_at := Some (now E),
          t_last_activity_at := now E\<rparr>) d2 = Inr d3"
      and aud: "audit_log_insert_with_chain E a d3 = Inr (i, d4)" and fin: "upsert_stats c inc d4 = Inr d'"
      by (clarsimp simp: confirm_deposit_def False raise_simps Let_def)
    have "path E d2 d3"
      by (rule path_end_deposit [OF tick t claimed_live [OF claimed]])
        (simp_all add: tickets_frame(1) [OF bal] tickets_frame(3) [OF ens])
    then show ?thesis
      using path_ensure [OF ens, of E] path_update_balance [OF bal, of E] path_audit [OF aud] path_stats [OF fin, of E]
      by (meson path_trans)
  qed
qed

lemma cancel_deposit_path:
  assumes ret: "cancel_deposit E uid actor reason d = Inr (res, d')"
  shows "path E d d'"
proof -
  from ret obtain t d1 a i where t: "select_deposit uid d = Some t" "\<not> is_terminal (t_status t)"
    and tick: "update_deposit_ticket t_id (t_id t) (\<lambda>t. t\<lparr>t_status := Cancelled, t_cancelled_at := Some (now E),
        t_cancel_reason := reason, t_last_activity_at := now E\<rparr>) d = Inr d1"
    and aud: "audit_log_insert_with_chain E a d1 = Inr (i, d')"
    by (clarsimp simp: cancel_deposit_def raise_simps Let_def)
  have "path E d d1" by (rule path_end_deposit [OF tick t]) simp_all
  then show ?thesis using path_audit [OF aud] by (rule path_trans)
qed

lemma create_withdraw_path:
  assumes "create_withdraw_ticket E u chr realm region faction n th pc d = Inr (uid, d')"
  shows "path E d d'"
  using assms
  by (clarsimp simp: create_withdraw_ticket_def raise_simps Let_def)
    (drule path_update_balance [of _ _ _ _ E], drule path_insert_withdraw [of _ _ _ E], drule path_audit,
     metis path_trans path_rest rest_only_updates(2))

lemma confirm_withdraw_path:
  assumes ret: "confirm_withdraw E uid c d = Inr (res, d')"
  shows "path E d d'"
proof -
  from ret obtain t where t: "select_withdraw uid d = Some t"
    by (auto simp: confirm_withdraw_def raise_simps)
  show ?thesis
  proof (cases "t_status t = Confirmed \<and> eq3 (t_claimed_by t) c")
    case True
    with ret t show ?thesis by (simp add: confirm_withdraw_def)
  next
    case False
    from ret t obtain f g d1 d2 d3 d4 d5 a i b j inc where bal: "update_balance (t_discord_id t) f d = Inr d1"
      and fee: "update_balance 0 g d1 = Inr d2" and claimed: "t_status t = Claimed"
      and tick: "update_withdraw_ticket t_id (t_id t) (\<lambda>t'. t'\<lparr>t_status := Confirmed, t_confirmed_at := Some (now E),
          w_amount_delivered := Some (t_amount t - w_fee t), t_last_activity_at := now E\<rparr>) d2 = Inr d3"
      and aud: "audit_log_insert_with_chain E a d3 = Inr (i, d4)" "audit_log_insert_with_chain E b d4 = Inr (j, d5)"
      and fin: "upsert_stats c inc d5 = Inr d'"
      by (clarsimp simp: confirm_withdraw_def False raise_simps Let_def)
    have "path E d2 d3"
      by (rule path_end_withdraw [OF tick t claimed_live [OF claimed]])
        (simp_all add: tickets_frame(2) [OF bal] tickets_frame(2) [OF fee])
    then show ?thesis
      using path_update_balance [OF bal, of E] path_update_balance [OF fee, of E] path_audit [OF aud(1)]
        path_audit [OF aud(2)] path_stats [OF fin, of E]
      by (meson path_trans)
  qed
qed

lemma cancel_withdraw_path:
  assumes ret: "cancel_withdraw E uid actor reason d = Inr (res, d')"
  shows "path E d d'"
proof -
  from ret obtain t u f d1 d2 d3 a i cnd c inc where t: "select_withdraw uid d = Some t" "\<not> is_terminal (t_status t)"
    and upd: "update_balance u f d = Inr d1"
    and tick: "update_withdraw_ticket t_id (t_id t) (\<lambda>t. t\<lparr>t_status := Cancelled, t_cancelled_at := Some (now E),
        t_cancel_reason := reason, t_last_activity_at := now E\<rparr>) d1 = Inr d2"
    and aud: "audit_log_insert_with_chain E a d2 = Inr (i, d3)"
    and fin: "(if cnd then upsert_stats c inc d3 else Inr d3) = Inr d'"
    by (clarsimp simp: cancel_withdraw_def raise_simps Let_def)
  have "path E d1 d2" by (rule path_end_withdraw [OF tick t]) (simp_all add: tickets_frame(2) [OF upd])
  moreover have "path E d3 d'" using fin path_stats by (auto split: if_splits)
  ultimately show ?thesis
    using path_update_balance [OF upd, of E] path_audit [OF aud] by (meson path_trans)
qed

lemma path_update_ticket:
  assumes "update_ticket ty uid f g d = Inr d'"
    and "\<And>t. t_ticket_uid (f t) = t_ticket_uid t" "\<And>t. t_id (f t) = t_id t"
    and "\<And>t. t_ticket_uid (g t) = t_ticket_uid t" "\<And>t. t_id (g t) = t_id t"
    and "\<And>t. \<not> is_terminal (t_status (f t))" "\<And>t. \<not> is_terminal (t_status (g t))"
  shows "path E d d'"
proof (cases ty)
  case Deposit
  with assms(1) have "update_deposit_ticket t_ticket_uid uid f d = Inr d'" by (simp add: update_ticket_def)
  then show ?thesis
    by (rule path_update_deposit) (simp_all add: keys_unique_def assms(2,3), metis assms(6))
next
  case Withdraw
  with assms(1) have "update_withdraw_ticket t_ticket_uid uid g d = Inr d'" by (simp add: update_ticket_def)
  then show ?thesis
    by (rule path_update_withdraw) (simp_all add: keys_unique_def assms(4,5), metis assms(7))
qed

lemma claim_ticket_path:
  assumes "claim_ticket E tt uid c d = Inr (x, d')"
  shows "path E d d'"
proof -
  from assms obtain ty d1 a i where "update_ticket ty uid (claim_row E c) (claim_row E c) d = Inr d1"
    and "audit_log_insert_with_chain E a d1 = Inr (i, d')"
    by (auto simp: claim_ticket_def raise_simps Let_def update_ticket_def claim_row_def [abs_def])
  then show ?thesis
    by - (erule path_trans [OF path_update_ticket path_audit], simp_all add: claim_row_def is_terminal_def)
qed

lemma release_ticket_path:
  assumes "release_ticket E tt uid c d = Inr (x, d')"
  shows "path E d d'"
proof -
  from assms obtain ty d1 a i where "update_ticket ty uid (release_row E) (release_row E) d = Inr d1"
    and "audit_log_insert_with_chain E a d1 = Inr (i, d')"
    by (auto simp: release_ticket_def raise_simps Let_def update_ticket_def release_row_def [abs_def])
  then show ?thesis
    by - (erule path_trans [OF path_update_ticket path_audit], simp_all add: release_row_def is_terminal_def)
qed

section \<open>Treasury, blacklist, disputes\<close>

lemma treasury_sweep_path: "treasury_sweep E n admin reason d = Inr (x, d') \<Longrightarrow> path E d d'"
  by (clarsimp simp: treasury_sweep_def raise_simps Let_def)
    (drule path_update_balance [of _ _ _ _ E], drule path_audit, meson path_trans)

lemma treasury_withdraw_path:
  "treasury_withdraw_to_user E n u admin reason d = Inr (x, d') \<Longrightarrow> path E d d'"
  by (clarsimp simp: treasury_withdraw_to_user_def raise_simps Let_def)
    (drule path_ensure [of _ _ _ _ E], drule path_update_balance [of _ _ _ _ E],
     drule path_update_balance [of _ _ _ _ E], drule path_audit, drule path_audit, meson path_trans)

lemma ban_user_path: "ban_user E u reason admin d = Inr (x, d') \<Longrightarrow> path E d d'"
  by (clarsimp simp: ban_user_def raise_simps Let_def)
    (drule path_ensure [of _ _ _ _ E], drule path_audit, erule path_trans, erule path_trans [rotated], simp add: path_rest)

lemma unban_user_path: "unban_user E u admin d = Inr (x, d') \<Longrightarrow> path E d d'"
  by (clarsimp simp: unban_user_def raise_simps Let_def)
    (drule path_audit, erule path_trans [rotated], simp add: path_rest)

lemma open_dispute_path: "open_dispute E tt uid op role reason d = Inr (x, d') \<Longrightarrow> path E d d'"
  by (clarsimp simp: open_dispute_def insert_dispute_def raise_simps Let_def)
    (drule path_audit, erule path_trans [rotated], rule path_rest, simp add: rest_only_def log_same_def)

lemma reject_dispute_path: "reject_dispute E i reason admin d = Inr (x, d') \<Longrightarrow> path E d d'"
  by (clarsimp simp: reject_dispute_def raise_simps Let_def)
    (drule path_audit, erule path_trans [rotated], simp add: path_rest)

lemma dispute_payout_path: "dispute_payout E v action amt u rb d = Inr d' \<Longrightarrow> path E d d'"
  by (auto simp: dispute_payout_def raise_simps dest: treasury_withdraw_path split: if_splits)

lemma resolve_dispute_path: "resolve_dispute E i action amt rb d = Inr (x, d') \<Longrightarrow> path E d d'"
  by (clarsimp simp: resolve_dispute_def raise_simps Let_def)
    (drule dispute_payout_path, drule path_audit, erule path_trans, erule path_trans [rotated], simp add: path_rest)

section \<open>Cashiers\<close>

lemma add_cashier_character_path:
  "add_cashier_character E u chr realm region faction d = Inr (x, d') \<Longrightarrow> path E d d'"
  by (clarsimp simp: add_cashier_character_def upsert_character_def raise_simps Let_def split: option.splits;
      drule path_audit, erule path_trans [rotated], rule path_rest, simp add: rest_only_def log_same_def)

lemma remove_cashier_character_path:
  "remove_cashier_character E u chr realm region d = Inr (x, d') \<Longrightarrow> path E d d'"
  by (clarsimp simp: remove_cashier_character_def raise_simps Let_def)
    (drule path_audit, erule path_trans [rotated], simp add: path_rest)

lemma rest_only_status:
  "rest_only d0 d \<Longrightarrow> rest_only d0 (upsert_status E u st d)"
  "rest_only d0 d \<Longrightarrow> rest_only d0 (open_session E u d)"
  "rest_only d0 d \<Longrightarrow> rest_only d0 (close_sessions E u why d)"
  by (simp_all add: upsert_status_def open_session_def close_sessions_def rest_only_def log_same_def)

lemma rest_only_refl [simp]: "rest_only d d"
  by (simp add: rest_only_def log_same_def)

lemma set_cashier_status_path: "set_cashier_status E u st d = Inr (x, d') \<Longrightarrow> path E d d'"
  by (clarsimp simp: set_cashier_status_def raise_simps Let_def)
    (drule path_audit, erule path_trans [rotated], rule path_rest, simp add: rest_only_status)

lemma expire_cashier_path: "expire_cashier E u d = Inr (x, d') \<Longrightarrow> path E d d'"
  by (clarsimp simp: expire_cashier_def raise_simps Let_def)
    (drule path_audit, erule path_trans [rotated], rule path_rest, simp add: rest_only_status)

section \<open>Bets and helpers\<close>

lemma path_credit_treasury: "credit_treasury E' n d = Inr d' \<Longrightarrow> path E d d'"
  unfolding credit_treasury_def by (rule path_update_balance)

lemma path_credit_rake: "credit_rake E' p n d = Inr d' \<Longrightarrow> path E d d'"
  by (auto simp: credit_rake_def update_pool_def raise_simps rest_only_def log_same_def
      split: option.splits intro: path_rest path_credit_treasury)

lemma insert_raffle_period_path: "insert_raffle_period E' i label s e st d = Inr d' \<Longrightarrow> path E d d'"
  by (auto simp: insert_raffle_period_def raise_simps rest_only_def log_same_def intro!: path_rest)

lemma path_if: "(if c then m else Inr d) = Inr d' \<Longrightarrow> (m = Inr d' \<Longrightarrow> path E d d') \<Longrightarrow> path E d d'"
  by (auto split: if_splits)

lemma apply_bet_path:
  assumes ret: "apply_bet E u game ch n sel sh cs nonce key uid d = Inr (x, d')"
  shows "path E d d'"
proof (cases "sel_key bet_key (u, key) (bets d)")
  case (Some b)
  with ret show ?thesis by (simp add: apply_bet_def)
next
  case None
  with ret obtain f c r p d1 d2 d3 b s d4 a i where "update_balance u f d = Inr d1"
    and "(if 0 < c then credit_treasury E c d1 else Inr d1) = Inr d2"
    and "(if 0 < r then credit_rake E p r d2 else Inr d2) = Inr d3"
    and "insert_bet b (d3\<lparr>bets_id_seq := s\<rparr>) = Inr d4"
    and "audit_log_insert_with_chain E a d4 = Inr (i, d')"
    by (clarsimp simp: apply_bet_def raise_simps Let_def)
  then have "path E d d1" "path E d1 d2" "path E d2 d3" "path E (d3\<lparr>bets_id_seq := s\<rparr>) d4" "path E d4 d'"
    by (auto intro: path_update_balance path_audit path_insert_bet
        elim!: path_if dest: path_credit_treasury path_credit_rake)
  moreover have "path E d3 (d3\<lparr>bets_id_seq := s\<rparr>)" by (simp add: path_rest)
  ultimately show ?thesis by (meson path_trans)
qed

lemma resolve_bet_path:
  assumes ret: "resolve_bet E i s payout outcome d = Inr (x, d')"
  shows "path E d d'"
proof -
  from ret obtain b st where sel: "select_bet i d = Some b" and st: "bet_outcome_of_text s = Some st"
    by (auto simp: resolve_bet_def raise_simps)
  show ?thesis
  proof (cases "bt_status b = st \<and> bt_payout_amount b = payout")
    case True
    with ret sel st show ?thesis by (simp add: resolve_bet_def raise_simps)
  next
    case False
    from ret sel st obtain f n d1 d2 pr a j where "update_balance (bt_discord_id b) f d = Inr d1"
      and "(if n \<noteq> 0 then credit_treasury E n d1 else Inr d1) = Inr d2" and op: "bt_status b = Bet_open"
      and aud: "audit_log_insert_with_chain E a (update_bet i (resolved_row E st payout pr outcome) d2) = Inr (j, d')"
      unfolding resolved_row_def [abs_def]
      by (clarsimp simp: resolve_bet_def False raise_simps Let_def)
    then have p: "path E d d1" "path E d1 d2"
      by (auto intro: path_update_balance elim!: path_if dest: path_credit_treasury)
    have "bets d2 = bets d"
      using \<open>update_balance (bt_discord_id b) f d = Inr d1\<close>
        \<open>(if n \<noteq> 0 then credit_treasury E n d1 else Inr d1) = Inr d2\<close>
      by (auto simp: credit_treasury_def dest!: update_balance_frame split: if_splits)
    then have "path E d2 (update_bet i (resolved_row E st payout pr outcome) d2)"
      using sel op by (intro path_update_bet) (auto simp: select_bet_def resolved_row_def)
    with p path_audit [OF aud] show ?thesis by (meson path_trans)
  qed
qed

lemma cashout_mines_path: "cashout_mines E i m d = Inr (x, d') \<Longrightarrow> path E d d'"
  by (erule cashout_mines_Inr) (erule resolve_bet_path)

lemma refund_bet_path:
  assumes ret: "refund_bet E i reason d = Inr (x, d')"
  shows "path E d d'"
proof -
  from ret obtain b where sel: "select_bet i d = Some b" by (auto simp: refund_bet_def raise_simps)
  show ?thesis
  proof (cases "bt_status b = Refunded")
    case True
    with ret sel show ?thesis by (simp add: refund_bet_def raise_simps)
  next
    case False
    from ret sel obtain f n m p d1 d2 d3 a j where u: "update_balance (bt_discord_id b) f d = Inr d1"
      and c: "(if 0 < bt_commission b then credit_treasury E n d1 else Inr d1) = Inr d2"
      and r: "(if 0 < bt_rake b then credit_rake E p m d2 else Inr d2) = Inr d3"
      and op: "bt_status b = Bet_open"
      and aud: "audit_log_insert_with_chain E a (update_bet i (refunded_row E reason) d3) = Inr (j, d')"
      unfolding refunded_row_def [abs_def]
      by (clarsimp simp: refund_bet_def False raise_simps Let_def)
    then have p: "path E d d1" "path E d1 d2" "path E d2 d3"
      by (auto intro: path_update_balance elim!: path_if dest: path_credit_treasury path_credit_rake)
    have "bets d3 = bets d"
      using u c r
      by (auto simp: credit_treasury_def credit_rake_def update_pool_def raise_simps
          dest!: update_balance_frame split: if_splits option.splits)
    then have "path E d3 (update_bet i (refunded_row E reason) d3)"
      using sel op by (intro path_update_bet) (auto simp: select_bet_def refunded_row_def)
    with p path_audit [OF aud] show ?thesis by (meson path_trans)
  qed
qed

lemma consume_rate_token_path: "consume_rate_token E u sc w m d = Inr (x, d') \<Longrightarrow> path E d d'"
  by (rule path_rest)
    (auto simp: consume_rate_token_def raise_simps Let_def rest_only_def log_same_def split: option.splits)

lemma next_nonce_path: "next_nonce u d = Inr (x, d') \<Longrightarrow> path E d d'"
  by (auto simp: next_nonce_def raise_simps path_def keys_unique_def intro!: stmts_stmt stmt.take_nonce)

lemma update_client_seed_path: "path E d (update_client_seed u c d)"
  by (simp add: path_def stmts_stmt stmt.client_seed) (simp add: keys_unique_def update_client_seed_def)

lemma grant_raffle_tickets_path: "grant_raffle_tickets E u p n b d = Inr (x, d') \<Longrightarrow> path E d d'"
  by (rule path_rest) (auto simp: grant_raffle_tickets_def raise_simps rest_only_def log_same_def split: if_splits)

lemma rotate_user_seed_path: "rotate_user_seed E s c u b d = Inr (x, d') \<Longrightarrow> path E d d'"
proof (cases "sel_key f_discord_id u (user_seeds d)")
  case None
  assume ret: "rotate_user_seed E s c u b d = Inr (x, d')"
  with None show ?thesis
    by (auto simp: rotate_user_seed_def raise_simps Let_def path_def keys_unique_def
        intro!: stmts_stmt stmt.new_seed)
next
  case (Some v)
  assume ret: "rotate_user_seed E s c u b d = Inr (x, d')"
  with Some sel_key_Some_key [OF Some] show ?thesis
    by (auto simp: rotate_user_seed_def raise_simps Let_def path_def keys_unique_def archives_def
        intro!: stmts_stmt stmt.rotate)
qed

lemma upsert_config_path: "path E d (upsert_config E' k v actor d)"
  by (rule path_rest) (simp add: upsert_config_def rest_only_def log_same_def)

lemma set_dispute_message_path: "path E d (set_dispute_message i m d)"
  by (rule path_rest) (simp add: set_dispute_message_def)

lemma recompute_stats_path: "recompute_stats E' c d = Inr d' \<Longrightarrow> path E d d'"
  by (rule path_rest) (auto simp: recompute_stats_def raise_simps rest_only_def log_same_def split: if_splits)

end
