(* ===== verification/Api.thy ===== *)
theory Api
  imports Paths
begin

text \<open>
  The stored functions, and the statements of the bots and the operator outside of them, as one
  interface: a call with its arguments, its execution in a
  transaction (an error leaves the database as it was), and the databases reachable by calls at
  any times from a given one. The locale \<open>stable\<close> is the contract of an invariant: every
  successful call keeps it; its lemmas carry it to all reachable databases.
\<close>

section \<open>Definitions\<close>

datatype (plugins only: code size) call =
    Create_deposit int string string string string int int int
  | Confirm_deposit string int
  | Cancel_deposit string int "string option"
  | Create_withdraw int string string string string int int int
  | Confirm_withdraw string int
  | Cancel_withdraw string int "string option"
  | Claim string string int
  | Release string string int
  | Add_character int string string string string
  | Remove_character int string string string
  | Set_status int string
  | Expire_cashier int
  | Open_dispute string string int string "string option"
  | Resolve_dispute int string "int option" int
  | Reject_dispute int "string option" int
  | Sweep "int option" int "string option"
  | Withdraw_to_user "int option" "int option" int "string option"
  | Ban int "string option" int
  | Unban int int
  | Set_config string int int
  | Set_dispute_message int int
  | Recompute_stats int
  | Apply_bet int string int int json bytea string int string string
  | Resolve_bet int string int "json option"
  | Refund_bet int "string option"
  | Cashout_mines int numeric
  | Consume_rate_token int string int int
  | Next_nonce int
  | Grant_raffle_tickets int int int "int option"
  | Rotate_seed bytea bytea int string
  | Set_client_seed int string
  | Insert_raffle_period int string int int period_status

definition state_of :: "pg_error + 'a \<times> db \<Rightarrow> pg_error + db" where
  "state_of m = bindE m (\<lambda>(_, d). Inr d)"

fun exec :: "pg_env \<Rightarrow> call \<Rightarrow> db \<Rightarrow> pg_error + db" where
  "exec E (Create_deposit u c r g f n th pc) d = state_of (create_deposit_ticket E u c r g f n th pc d)"
| "exec E (Confirm_deposit uid c) d = state_of (confirm_deposit E uid c d)"
| "exec E (Cancel_deposit uid a r) d = state_of (cancel_deposit E uid a r d)"
| "exec E (Create_withdraw u c r g f n th pc) d = state_of (create_withdraw_ticket E u c r g f n th pc d)"
| "exec E (Confirm_withdraw uid c) d = state_of (confirm_withdraw E uid c d)"
| "exec E (Cancel_withdraw uid a r) d = state_of (cancel_withdraw E uid a r d)"
| "exec E (Claim ty uid c) d = state_of (claim_ticket E ty uid c d)"
| "exec E (Release ty uid c) d = state_of (release_ticket E ty uid c d)"
| "exec E (Add_character u c r g f) d = state_of (add_cashier_character E u c r g f d)"
| "exec E (Remove_character u c r g) d = state_of (remove_cashier_character E u c r g d)"
| "exec E (Set_status u s) d = state_of (set_cashier_status E u s d)"
| "exec E (Expire_cashier u) d = state_of (expire_cashier E u d)"
| "exec E (Open_dispute ty uid o' ro re) d = state_of (open_dispute E ty uid o' ro re d)"
| "exec E (Resolve_dispute i a n b) d = state_of (resolve_dispute E i a n b d)"
| "exec E (Reject_dispute i r a) d = state_of (reject_dispute E i r a d)"
| "exec E (Sweep n a r) d = state_of (treasury_sweep E n a r d)"
| "exec E (Withdraw_to_user n u a r) d = state_of (treasury_withdraw_to_user E n u a r d)"
| "exec E (Ban u r a) d = state_of (ban_user E u r a d)"
| "exec E (Unban u a) d = state_of (unban_user E u a d)"
| "exec E (Set_config k v a) d = Inr (upsert_config E k v a d)"
| "exec E (Set_dispute_message i m) d = Inr (set_dispute_message i m d)"
| "exec E (Recompute_stats c) d = recompute_stats E c d"
| "exec E (Apply_bet u g c n s h cs no k uid) d = state_of (apply_bet E u g c n s h cs no k uid d)"
| "exec E (Resolve_bet i s p out) d = state_of (resolve_bet E i s p out d)"
| "exec E (Refund_bet i r) d = state_of (refund_bet E i r d)"
| "exec E (Cashout_mines i m) d = state_of (cashout_mines E i m d)"
| "exec E (Consume_rate_token u s w m) d = state_of (consume_rate_token E u s w m d)"
| "exec E (Next_nonce u) d = state_of (next_nonce u d)"
| "exec E (Grant_raffle_tickets u p n b) d = state_of (grant_raffle_tickets E u p n b d)"
| "exec E (Rotate_seed s c u b) d = state_of (rotate_user_seed E s c u b d)"
| "exec E (Set_client_seed u c) d = Inr (update_client_seed u c d)"
| "exec E (Insert_raffle_period i l s e st) d = insert_raffle_period E i l s e st d"

text \<open>A call as a transaction: the database after it, whatever the outcome.\<close>

definition transact :: "pg_env \<Rightarrow> call \<Rightarrow> db \<Rightarrow> db" where
  "transact E c d = (case exec E c d of Inl _ \<Rightarrow> d | Inr d' \<Rightarrow> d')"

text \<open>A run: calls at their times.\<close>

fun run :: "pg_env \<Rightarrow> (int \<times> call) list \<Rightarrow> db \<Rightarrow> db" where
  "run E [] d = d"
| "run E ((t, c) # cs) d = run E cs (transact (E\<lparr>now := t\<rparr>) c d)"

inductive reach :: "pg_env \<Rightarrow> db \<Rightarrow> db \<Rightarrow> bool" for E d0 where
  init: "reach E d0 d0"
| step: "reach E d0 d \<Longrightarrow> exec (E\<lparr>now := t\<rparr>) c d = Inr d' \<Longrightarrow> reach E d0 d'"

section \<open>Stable predicates\<close>

locale stable =
  fixes E :: pg_env and I :: "db \<Rightarrow> bool"
  assumes step: "I d \<Longrightarrow> exec (E\<lparr>now := t\<rparr>) c d = Inr d' \<Longrightarrow> I d'"
begin

lemma stable_transact: "I d \<Longrightarrow> I (transact (E\<lparr>now := t\<rparr>) c d)"
  by (auto simp: transact_def split: sum.splits intro: step)

lemma stable_run: "I d \<Longrightarrow> I (run E cs d)"
proof (induction cs arbitrary: d)
  case (Cons tc cs)
  then show ?case by (cases tc) (simp add: stable_transact)
qed simp

lemma stable_reach: "reach E d0 d \<Longrightarrow> I d0 \<Longrightarrow> I d"
  by (induction rule: reach.induct) (auto intro: step)

end

lemma reach_run: "reach E d0 (run E cs d0)"
proof -
  have "reach E d0 d \<Longrightarrow> reach E d0 (run E cs d)" for d
  proof (induction cs arbitrary: d)
    case (Cons tc cs)
    then show ?case
      by (cases tc) (auto simp: transact_def split: sum.splits intro: reach.step)
  qed simp
  then show ?thesis using reach.init by blast
qed

lemma run_append: "run E (cs @ cs') d = run E cs' (run E cs d)"
proof (induction cs arbitrary: d)
  case (Cons tc cs)
  then show ?case by (cases tc) simp
qed simp

section \<open>Every call keeps the economy\<close>

lemma state_of_Inr [raise_simps]: "state_of m = Inr d' \<longleftrightarrow> (\<exists>x. m = Inr (x, d'))"
  by (auto simp: state_of_def raise_simps)

text \<open>One lemma per function, for any execution time.\<close>

lemma same_money_ledger: "same_money d d' \<Longrightarrow> ledger_inv E d \<Longrightarrow> ledger_inv E d'"
  by (simp add: same_money_inv)

lemma confirm_deposit_ledger: "confirm_deposit E' uid c d = Inr (x, d') \<Longrightarrow> ledger_inv E d \<Longrightarrow> ledger_inv E d'"
  using confirm_deposit_refines(1) by (fastforce simp: confirm_deposit_def raise_simps)

lemma confirm_withdraw_ledger: "confirm_withdraw E' uid c d = Inr (x, d') \<Longrightarrow> ledger_inv E d \<Longrightarrow> ledger_inv E d'"
  by (cases "select_withdraw uid d") (simp add: confirm_withdraw_def, blast intro: confirm_withdraw_refines(1))

lemma cancel_withdraw_ledger: "cancel_withdraw E' uid a r d = Inr (x, d') \<Longrightarrow> ledger_inv E d \<Longrightarrow> ledger_inv E d'"
  by (cases "select_withdraw uid d") (simp add: cancel_withdraw_def, blast intro: cancel_withdraw_refines(1))

lemma treasury_sweep_ledger: "treasury_sweep E' n a r d = Inr (x, d') \<Longrightarrow> ledger_inv E d \<Longrightarrow> ledger_inv E d'"
  using treasury_sweep_args treasury_sweep_refines(1) by blast

lemma treasury_withdraw_ledger:
  "treasury_withdraw_to_user E' n u a r d = Inr (x, d') \<Longrightarrow> ledger_inv E d \<Longrightarrow> ledger_inv E d'"
  using treasury_withdraw_args treasury_withdraw_refines(1) by blast

lemma apply_bet_ledger:
  assumes ret: "apply_bet (E\<lparr>now := t\<rparr>) u g c n s h cs no k uid d = Inr (x, d')" and inv: "ledger_inv E d"
  shows "ledger_inv E d'"
proof -
  obtain i idem where x: "x = (i, idem)" by (cases x)
  show ?thesis
  proof (cases idem)
    case True
    with ret x have "d' = d" by (auto elim!: apply_bet_cases)
    with inv show ?thesis by simp
  next
    case False
    with ret x show ?thesis by (auto intro: apply_bet_refines(1) [OF inv])
  qed
qed

lemma resolve_bet_ledger:
  assumes "resolve_bet E' i s p out d = Inr (x, d')" and inv: "ledger_inv E d"
  shows "ledger_inv E d'"
proof -
  from assms(1) obtain b st where "select_bet i d = Some b" "bet_outcome_of_text s = Some st"
    by (auto simp: resolve_bet_def raise_simps)
  then show ?thesis using resolve_bet_refines(1) [OF inv assms(1)] by blast
qed

lemma refund_bet_ledger: "refund_bet E' i r d = Inr (x, d') \<Longrightarrow> ledger_inv E d \<Longrightarrow> ledger_inv E d'"
  by (cases "select_bet i d") (simp add: refund_bet_def, blast intro: refund_bet_refines(1))

lemmas ledger_calls =
  create_deposit_inv(1) cancel_deposit_inv(1) create_withdraw_refines(1)
  confirm_deposit_ledger confirm_withdraw_ledger cancel_withdraw_ledger
  conjunct1 [OF claim_ticket_inv] conjunct1 [OF release_ticket_inv]
  conjunct1 [OF ban_user_inv] conjunct1 [OF resolve_dispute_inv]
  treasury_sweep_ledger treasury_withdraw_ledger apply_bet_ledger resolve_bet_ledger refund_bet_ledger

lemmas same_money_calls =
  add_cashier_character_same remove_cashier_character_same set_cashier_status_same expire_cashier_same
  open_dispute_same reject_dispute_same unban_user_same consume_rate_token_same
  next_nonce_same grant_raffle_tickets_same rotate_user_seed_same recompute_stats_same

lemma exec_ledger:
  assumes inv: "ledger_inv E d" and ret: "exec (E\<lparr>now := t\<rparr>) c d = Inr d'"
  shows "ledger_inv E d'"
  using ret
proof (cases c)
  case (Cashout_mines i m)
  with ret obtain x where "cashout_mines (E\<lparr>now := t\<rparr>) i m d = Inr (x, d')" by (auto simp: raise_simps)
  then show ?thesis by (rule cashout_mines_Inr) (erule resolve_bet_ledger [OF _ inv])
qed (auto simp: raise_simps dest!: same_money_calls intro: ledger_calls inv same_money_ledger
      intro: insert_raffle_period_Inr(1) intro!: same_money_ledger [OF upsert_config_same] same_money_ledger [OF update_client_seed_same]
      same_money_ledger [OF set_dispute_message_same])

interpretation economy: stable E "ledger_inv E" for E
  by unfold_locales (rule exec_ledger)

section \<open>Every call is a path of statements\<close>

lemmas path_calls =
  create_deposit_path confirm_deposit_path cancel_deposit_path create_withdraw_path
  confirm_withdraw_path cancel_withdraw_path claim_ticket_path release_ticket_path
  add_cashier_character_path remove_cashier_character_path set_cashier_status_path
  expire_cashier_path open_dispute_path resolve_dispute_path reject_dispute_path
  treasury_sweep_path treasury_withdraw_path ban_user_path unban_user_path apply_bet_path
  resolve_bet_path refund_bet_path cashout_mines_path consume_rate_token_path next_nonce_path
  grant_raffle_tickets_path rotate_user_seed_path recompute_stats_path

lemma exec_path: "exec E c d = Inr d' \<Longrightarrow> path E d d'"
  by (cases c) (auto simp: raise_simps upsert_config_path update_client_seed_path set_dispute_message_path
      dest: path_calls insert_raffle_period_path)

interpretation log: stable E "\<lambda>d. keys_unique d \<and> audit_inv E k d \<and> chain_key e E = Inr k" for E k e
proof unfold_locales
  fix d t c d'
  assume inv: "keys_unique d \<and> audit_inv E k d \<and> chain_key e E = Inr k" and ret: "exec (E\<lparr>now := t\<rparr>) c d = Inr d'"
  then have "stmts (E\<lparr>now := t\<rparr>) d d'" and "keys_unique d'"
    using exec_path [OF ret] by (simp_all add: path_def)
  with inv show "keys_unique d' \<and> audit_inv E k d' \<and> chain_key e E = Inr k"
    using stmts_audit_inv by blast
qed

text \<open>A run only appends to the log and keeps what is final.\<close>

interpretation growth: stable E "\<lambda>d. keys_unique d \<and> finals_kept d0 d \<and> (\<exists>rs. audit_log d = audit_log d0 @ rs)" for E d0
proof unfold_locales
  fix d t c d'
  assume inv: "keys_unique d \<and> finals_kept d0 d \<and> (\<exists>rs. audit_log d = audit_log d0 @ rs)"
    and ret: "exec (E\<lparr>now := t\<rparr>) c d = Inr d'"
  then have "stmts (E\<lparr>now := t\<rparr>) d d'" and "keys_unique d'"
    using exec_path [OF ret] by (simp_all add: path_def)
  with inv show "keys_unique d' \<and> finals_kept d0 d' \<and> (\<exists>rs. audit_log d' = audit_log d0 @ rs)"
    using finals_kept_stmts finals_kept_trans stmts_log_prefix by fastforce
qed

interpretation seeds: stable E "\<lambda>d. keys_unique d \<and> seeds_committed E d \<and> nonces_grow d0 d" for E d0
proof unfold_locales
  fix d t c d'
  assume inv: "keys_unique d \<and> seeds_committed E d \<and> nonces_grow d0 d"
    and ret: "exec (E\<lparr>now := t\<rparr>) c d = Inr d'"
  then have "stmts (E\<lparr>now := t\<rparr>) d d'" and "keys_unique d'"
    using exec_path [OF ret] by (simp_all add: path_def)
  with inv show "keys_unique d' \<and> seeds_committed E d' \<and> nonces_grow d0 d'"
    using stmts_committed stmts_nonces nonces_grow_trans by blast
qed

end
