(* ===== verification/Economy.thy ===== *)
theory Economy
  imports Api
begin

text \<open>
  The properties of the economy over all reachable databases: gold is conserved, locks are
  exact, final statuses are final, the audit log grows and verifies; and what the single money
  functions do, as postings.
\<close>

section \<open>The initial database\<close>

lemma config_ok_initial: "config_ok E (initial_db t)"
  by (auto simp: config_ok_def initial_db_def game_seeds_def game_seed_def commission_bps_def
      json_field_def json_int4_def rake_bps_def config_int_def luck_config_seeds_def config_seed_def
      raise_simps)

lemma ledger_initial: "ledger_inv E (initial_db t)"
proof -
  have "avail_of u (initial_db t) = 0" and "held_of u (initial_db t) = 0" for u
    by (simp_all add: avail_of_def held_of_def select_balance_def initial_db_def)
  then have "books_ok (initial_db t)" and "locks_ok (initial_db t)"
    by (simp_all add: books_ok_def total_def locks_ok_def pools_of_def delivered_def swept_def
        deposited_def ticket_locks_def bet_locks_def) (simp_all add: initial_db_def)
  moreover have "tables_ok E (initial_db t)"
    using config_ok_initial
    by (simp add: tables_ok_def) (simp add: initial_db_def accounts_ok_def user_ids_def deposits_ok_def withdraws_ok_def
        bets_ok_def periods_ok_def balance_ok_iff in_int8_def)
  ultimately show ?thesis by (simp add: ledger_inv_def)
qed

lemma log_initial: "keys_unique (initial_db t) \<and> audit_inv E k (initial_db t)"
  by (simp add: keys_unique_def audit_inv_def initial_db_def)

lemma reach_ledger: "reach E (initial_db t) d \<Longrightarrow> ledger_inv E d"
  using economy.stable_reach ledger_initial by blast

lemma reach_log: "reach E (initial_db t) d \<Longrightarrow> chain_key e E = Inr k \<Longrightarrow> audit_inv E k d"
  using log.stable_reach [of E "initial_db t" d k e] log_initial by blast

lemma reach_unique: "reach E (initial_db t) d \<Longrightarrow> keys_unique d"
  using growth.stable_reach [of E "initial_db t" d "initial_db t"] log_initial finals_kept_refl by auto

section \<open>Totals over the rows\<close>

lemma sum_list_rows:
  assumes "accounts_ok d"
  shows "(\<Sum>u\<in>user_ids d. avail_of u d + held_of u d) = sum_list (map (\<lambda>r. b_balance r + b_locked r) (balances d))"
proof -
  have dist: "distinct (map b_discord_id (balances d))" and ids: "user_ids d = b_discord_id ` set (balances d)"
    using assms by (auto simp: accounts_ok_def)
  have val: "avail_of (b_discord_id r) d + held_of (b_discord_id r) d = b_balance r + b_locked r"
    if "r \<in> set (balances d)" for r
    using sel_key_in [OF dist that] by (simp add: avail_of_def held_of_def select_balance_def)
  have "(\<Sum>u\<in>user_ids d. avail_of u d + held_of u d)
      = (\<Sum>r\<in>set (balances d). avail_of (b_discord_id r) d + held_of (b_discord_id r) d)"
    using dist unfolding ids by (subst sum.reindex) (auto simp: distinct_map)
  also have "\<dots> = (\<Sum>r\<in>set (balances d). b_balance r + b_locked r)"
    by (intro sum.cong) (auto simp: val)
  also have "\<dots> = sum_list (map (\<lambda>r. b_balance r + b_locked r) (balances d))"
    using dist by (simp add: distinct_map sum.distinct_set_conv_list)
  finally show ?thesis .
qed

section \<open>A concrete environment and run\<close>

text \<open>An environment with simple server functions, for the concrete instances of the theorems.\<close>

definition demo_json_text :: "json \<Rightarrow> string" where
  "demo_json_text j = (case json_field j ''ts'' of Some (JStr s) \<Rightarrow> s | _ \<Rightarrow> [])"

definition demo_hash :: "bytea \<Rightarrow> bytea" where
  "demo_hash m = [foldl (+) 0 m]"

definition demo_env :: pg_env where
  "demo_env = \<lparr>now = 1000000, audit_chain_key = Some ''0a0b'', hmac_sha256 = (\<lambda>m k. demo_hash m),
     digest_sha256 = demo_hash, jsonb_text = demo_json_text, timestamptz_text = show_int,
     text_to_int4 = (\<lambda>_. None)\<rparr>"

definition demo_calls :: "(int \<times> call) list" where
  "demo_calls =
    [(1, Add_character 9 ''cash'' ''r'' ''EU'' ''Horde''),
     (2, Create_deposit 7 ''a'' ''r'' ''EU'' ''Horde'' 5000 11 12),
     (3, Claim ''deposit'' ''deposit-1'' 9),
     (4, Confirm_deposit ''deposit-1'' 9),
     (5, Create_withdraw 7 ''a'' ''r'' ''EU'' ''Horde'' 2000 13 12),
     (6, Claim ''withdraw'' ''withdraw-1'' 9),
     (7, Apply_bet 7 ''roulette'' 1 1000 JNull [] ''c'' 0 ''k1'' ''b1'')]"

definition demo_db :: db where
  "demo_db = run demo_env demo_calls (initial_db 0)"

text \<open>The tables after the run. As an equation for evaluation it saves every instance below a run.\<close>

lemma demo_db_value [code]:
  "demo_db = (initial_db 0)\<lparr>
      users := [\<lparr>u_discord_id = 0, u_created_at = 0, u_updated_at = 0, u_banned = False, u_banned_reason =
         None, u_banned_at = None\<rparr>,
        \<lparr>u_discord_id = 7, u_created_at = 4, u_updated_at = 4, u_banned = False, u_banned_reason = None,
           u_banned_at = None\<rparr>],
      balances := [\<lparr>b_discord_id = 0, b_balance = 33, b_locked = 0, b_total_wagered = 0, b_total_won = 0,
         b_updated_at = 7, b_version = 2\<rparr>,
        \<lparr>b_discord_id = 7, b_balance = 2000, b_locked = 2967, b_total_wagered = 1000, b_total_won = 0,
           b_updated_at = 7, b_version = 3\<rparr>],
      audit_log := [\<lparr>a_id = 1, a_ts = 1, a_actor_type = ''cashier'', a_actor_id = 9, a_target_id = 0,
         a_action = ''cashier_addchar'', a_amount = None, a_balance_before = 0, a_balance_after = 0, a_reason = Some
         ''Cashier registered char cash on r-EU (Horde)'', a_ref_type = ''cashier_character'', a_ref_id = Some
         ''1'', a_bot_name = ''dw'', a_metadata = JObj [(''char'', JStr ''cash''), (''realm'', JStr ''r''),
         (''region'', JStr ''EU''), (''faction'', JStr ''Horde'')], a_prev_hash = None, a_row_hash = [49]\<rparr>,
        \<lparr>a_id = 2, a_ts = 2, a_actor_type = ''user'', a_actor_id = 7, a_target_id = 0, a_action =
           ''deposit_ticket_opened'', a_amount = Some 5000, a_balance_before = 0, a_balance_after = 0, a_reason =
           Some ''Deposit ticket opened for a on r-EU'', a_ref_type = ''deposit_ticket'', a_ref_id = Some
           ''deposit-1'', a_bot_name = ''dw'', a_metadata = JObj [(''char'', JStr ''a''), (''realm'', JStr ''r''),
           (''region'', JStr ''EU''), (''faction'', JStr ''Horde'')], a_prev_hash = Some [49], a_row_hash =
           [99]\<rparr>,
        \<lparr>a_id = 3, a_ts = 3, a_actor_type = ''cashier'', a_actor_id = 9, a_target_id = 0, a_action =
           ''deposit_claimed'', a_amount = Some 5000, a_balance_before = 0, a_balance_after = 0, a_reason = Some
           ''Cashier 9 claimed deposit ticket'', a_ref_type = ''deposit_ticket'', a_ref_id = Some ''deposit-1'',
           a_bot_name = ''dw'', a_metadata = JObj [(''region'', JStr ''EU'')], a_prev_hash = Some [99], a_row_hash =
           [150]\<rparr>,
        \<lparr>a_id = 4, a_ts = 4, a_actor_type = ''cashier'', a_actor_id = 9, a_target_id = 7, a_action =
           ''deposit_confirmed'', a_amount = Some 5000, a_balance_before = 0, a_balance_after = 5000, a_reason =
           Some ''Deposit confirmed by cashier 9 for char a on r-EU'', a_ref_type = ''deposit_ticket'', a_ref_id =
           Some ''deposit-1'', a_bot_name = ''dw'', a_metadata = JObj [(''char'', JStr ''a''), (''realm'', JStr
           ''r''), (''region'', JStr ''EU''), (''faction'', JStr ''Horde'')], a_prev_hash = Some [150], a_row_hash =
           [202]\<rparr>,
        \<lparr>a_id = 5, a_ts = 5, a_actor_type = ''user'', a_actor_id = 7, a_target_id = 7, a_action =
           ''withdraw_locked'', a_amount = Some 2000, a_balance_before = 5000, a_balance_after = 3000, a_reason =
           Some ''Withdraw locked 2000 G (fee 40 G); deliver 1960 G ingame to a on r-EU'', a_ref_type =
           ''withdraw_ticket'', a_ref_id = Some ''withdraw-1'', a_bot_name = ''dw'', a_metadata = JObj [(''char'',
           JStr ''a''), (''realm'', JStr ''r''), (''region'', JStr ''EU''), (''faction'', JStr ''Horde''),
           (''fee_bps'', JInt 200), (''fee'', JInt 40)], a_prev_hash = Some [202], a_row_hash = [255]\<rparr>,
        \<lparr>a_id = 6, a_ts = 6, a_actor_type = ''cashier'', a_actor_id = 9, a_target_id = 7, a_action =
           ''withdraw_claimed'', a_amount = Some 2000, a_balance_before = 3000, a_balance_after = 3000, a_reason =
           Some ''Cashier 9 claimed withdraw ticket'', a_ref_type = ''withdraw_ticket'', a_ref_id = Some
           ''withdraw-1'', a_bot_name = ''dw'', a_metadata = JObj [(''region'', JStr ''EU'')], a_prev_hash = Some
           [255], a_row_hash = [309]\<rparr>,
        \<lparr>a_id = 7, a_ts = 7, a_actor_type = ''user'', a_actor_id = 7, a_target_id = 7, a_action =
           ''bet_placed'', a_amount = Some 1000, a_balance_before = 3000, a_balance_after = 2000, a_reason = Some
           ''Bet placed: b1 1000 G on roulette'', a_ref_type = ''luck_bet'', a_ref_id = Some ''1'', a_bot_name =
           ''luck'', a_metadata = JObj [(''game_name'', JStr ''roulette''), (''bet_uid'', JStr ''b1''),
           (''channel_id'', JInt 1), (''commission'', JInt 23), (''rake'', JInt 10), (''effective_stake'', JInt
           967), (''nonce'', JInt 0)], a_prev_hash = Some [309], a_row_hash = [108]\<rparr>],
      deposit_tickets := [\<lparr>t_id = 2, t_ticket_uid = ''deposit-1'', t_discord_id = 7, t_char_name = ''a'',
         t_realm = ''r'', t_region = ''EU'', t_faction = ''Horde'', t_amount = 5000, t_status = Confirmed,
         t_claimed_by = Some 9, t_claimed_at = Some 3, t_confirmed_at = Some 4, t_cancelled_at = None,
         t_cancel_reason = None, t_thread_id = 11, t_parent_channel_id = 12, t_expires_at = 86400000002,
         t_last_activity_at = 4, t_created_at = 2\<rparr>],
      withdraw_tickets := [\<lparr>t_id = 2, t_ticket_uid = ''withdraw-1'', t_discord_id = 7, t_char_name = ''a'',
         t_realm = ''r'', t_region = ''EU'', t_faction = ''Horde'', t_amount = 2000, t_status = Claimed,
         t_claimed_by = Some 9, t_claimed_at = Some 6, t_confirmed_at = None, t_cancelled_at = None, t_cancel_reason
         = None, t_thread_id = 13, t_parent_channel_id = 12, t_expires_at = 86400000005, t_last_activity_at = 6,
         t_created_at = 5, w_fee = 40, w_amount_delivered = None\<rparr>],
      cashier_characters := [\<lparr>cc_id = 1, cc_discord_id = 9, cc_char_name = ''cash'', cc_realm = ''r'',
         cc_region = ''EU'', cc_faction = ''Horde'', cc_is_active = True, cc_added_at = 1, cc_removed_at =
         None\<rparr>],
      cashier_stats := [\<lparr>st_discord_id = 9, st_deposits_completed = 1, st_deposits_cancelled = 0,
         st_withdraws_completed = 0, st_withdraws_cancelled = 0, st_total_volume_g = 5000, st_total_online_seconds =
         0, st_avg_claim_to_confirm_s = None, st_last_active_at = Some 4, st_updated_at = 4\<rparr>],
      bets := [\<lparr>bt_id = 1, bt_bet_uid = ''b1'', bt_discord_id = 7, bt_game_name = ''roulette'', bt_channel_id
         = 1, bt_bet_amount = 1000, bt_selection = JNull, bt_status = Bet_open, bt_payout_amount = 0, bt_profit =
         None, bt_server_seed_hash = [], bt_client_seed = ''c'', bt_nonce = 0, bt_outcome = None, bt_idempotency_key
         = ''k1'', bt_placed_at = 7, bt_resolved_at = None, bt_effective_stake = 967, bt_commission = 23, bt_rake =
         10, bt_rake_period_id = None\<rparr>],
      last_row_hash := Some [108], audit_log_id_seq := 7, deposit_tickets_id_seq := 2, withdraw_tickets_id_seq := 2,
      cashier_characters_id_seq := 1, bets_id_seq := 1\<rparr>"
  by code_simp

lemma demo_reach: "reach demo_env (initial_db 0) demo_db"
  unfolding demo_db_def by (rule reach_run)

lemma demo_key: "chain_key Audit_chain_key_not_configured demo_env = Inr [10, 11]"
  by code_simp

section \<open>Conservation\<close>

text \<open>All the gold in the database: balances, locks and raffle pools.\<close>

definition total_gold :: "db \<Rightarrow> int" where
  "total_gold d = sum_list (map (\<lambda>r. b_balance r + b_locked r) (balances d))
     + sum_list (map rp_pool_amount (raffle_periods d))"

lemma ledger_conserves:
  assumes inv: "ledger_inv E d"
  shows "total_gold d = deposited d - delivered d - swept d"
proof -
  from inv have "accounts_ok d" and "total (user_ids d) (book_of d) = 0"
    by (simp_all add: ledger_parts books_ok_def)
  then show ?thesis
    by (simp add: total_def total_gold_def sum_list_rows pools_of_def sum_where_True)
qed

lemma ledger_locks: "ledger_inv E d \<Longrightarrow> held_of u d = ticket_locks u d + bet_locks u d"
  by (simp add: ledger_inv_def locks_ok_def)

lemma ledger_nonneg: "ledger_inv E d \<Longrightarrow> 0 \<le> avail_of u d \<and> 0 \<le> held_of u d"
  by (cases "select_balance u d")
    (auto simp: ledger_parts accounts_ok_def avail_of_def held_of_def balance_ok_iff select_balance_def
      dest!: sel_key_Some_in)

text \<open>C1: Gold is conserved. After any sequence of calls at any times, the balances, locks and
  raffle pools together hold exactly the gold of the confirmed deposits, less the gold delivered
  by confirmed withdraws (amount less fee) and the gold swept from the treasury.\<close>

theorem conservation:
  assumes "reach E (initial_db t) d"
  shows "total_gold d = deposited d - delivered d - swept d"
  using reach_ledger [OF assms] by (rule ledger_conserves)

theorem conservation_witness:
  "total_gold demo_db = 5000 \<and> total_gold demo_db = deposited demo_db - delivered demo_db - swept demo_db"
proof -
  have "total_gold demo_db = 5000" by code_simp
  then show ?thesis using conservation [OF demo_reach] by simp
qed

text \<open>C2: Locks are exact. In every reachable database the locked gold of every user is the sum
  of the amounts of that user's unfinished withdraw tickets and of the effective stakes of that
  user's open bets; no lock is lost or counted twice.\<close>

theorem locks_exact:
  assumes "reach E (initial_db t) d"
  shows "held_of u d = ticket_locks u d + bet_locks u d"
  using reach_ledger [OF assms] by (rule ledger_locks)

theorem locks_exact_witness:
  "held_of 7 demo_db = 2967 \<and> ticket_locks 7 demo_db + bet_locks 7 demo_db = 2967"
proof -
  have "held_of 7 demo_db = 2967" by code_simp
  then show ?thesis using locks_exact [OF demo_reach, of 7] by simp
qed

text \<open>No account is ever negative and none overflows: available and locked gold of every
  balance row stay between zero and the largest 64-bit integer, and every user has exactly one
  balance row.\<close>

lemma accounts_sound:
  assumes "reach E (initial_db t) d"
  shows "distinct (map b_discord_id (balances d))
    \<and> set (map b_discord_id (balances d)) = set (map u_discord_id (users d))
    \<and> (\<forall>r \<in> set (balances d). b_balance r \<in> {0..<2 ^ 63} \<and> b_locked r \<in> {0..<2 ^ 63})"
  using reach_ledger [OF assms] by (simp add: ledger_parts accounts_ok_def user_ids_def balance_ok_iff in_int8_def)

section \<open>Finality and the log\<close>

text \<open>C4: Final is final. Whatever calls follow, the row of a deposit or withdraw ticket that is
  confirmed, cancelled or expired never changes again, in no column, and neither does the row of a
  bet that is no longer open; no ticket and no bet disappears.\<close>

theorem final_states_final:
  assumes "reach E (initial_db t) d" and "reach E d d'"
  shows "finals_kept d d'"
proof -
  have "keys_unique d \<and> finals_kept d d \<and> (\<exists>rs. audit_log d = audit_log d @ rs)"
    using reach_unique [OF assms(1)] finals_kept_refl by auto
  from growth.stable_reach [OF assms(2) this] show ?thesis by simp
qed

definition demo_settled :: db where
  "demo_settled = run demo_env [(8, Confirm_withdraw ''withdraw-1'' 9), (9, Resolve_bet 1 ''resolved_loss'' 0 None)] demo_db"

definition demo_after :: db where
  "demo_after = run demo_env [(10, Cancel_withdraw ''withdraw-1'' 7 None), (11, Refund_bet 1 None),
     (12, Cancel_deposit ''deposit-1'' 7 None), (13, Sweep (Some 500) 1 None)] demo_settled"

lemma demo_settled_reach: "reach demo_env (initial_db 0) demo_settled"
  unfolding demo_settled_def demo_db_def run_append [symmetric] by (rule reach_run)

theorem final_states_final_witness:
  "map_option t_status (select_withdraw ''withdraw-1'' demo_settled) = Some Confirmed
    \<and> select_withdraw ''withdraw-1'' demo_after = select_withdraw ''withdraw-1'' demo_settled"
proof -
  have conf: "map_option t_status (select_withdraw ''withdraw-1'' demo_settled) = Some Confirmed" by code_simp
  have "finals_kept demo_settled demo_after"
    unfolding demo_after_def by (rule final_states_final [OF demo_settled_reach reach_run])
  then have kept: "rows_kept final_ticket (\<lambda>uid. select_withdraw uid demo_settled) (\<lambda>uid. select_withdraw uid demo_after)"
    by (simp add: finals_kept_def)
  from conf obtain w where w: "select_withdraw ''withdraw-1'' demo_settled = Some w" "t_status w = Confirmed" by auto
  with kept obtain w' where "select_withdraw ''withdraw-1'' demo_after = Some w'" "final_ticket w w'"
    by (auto simp: rows_kept_def)
  with w conf show ?thesis by (simp add: final_ticket_def is_terminal_def)
qed

text \<open>The audit log is append-only under every call: what is in the log at some time is a
  prefix of the log at any later time.\<close>

theorem log_append_only:
  assumes "reach E (initial_db t) d" and "reach E d d'"
  shows "\<exists>rs. audit_log d' = audit_log d @ rs"
proof -
  have "keys_unique d \<and> finals_kept d d \<and> (\<exists>rs. audit_log d = audit_log d @ rs)"
    using reach_unique [OF assms(1)] finals_kept_refl by auto
  from growth.stable_reach [OF assms(2) this] show ?thesis by simp
qed

text \<open>C5: The chain of a reachable database verifies. Starting from any row id, the verifier
  finds every row intact, whatever functions wrote them: it checks the rows from that id on, up
  to its limit, reports the last of them and no broken row.\<close>

theorem chain_verifies:
  assumes "reach E (initial_db t) d" and "chain_key Audit_chain_key_not_configured E = Inr k"
    and "0 \<le> p_from" and "0 \<le> n"
  shows "verify_audit_chain E (Some p_from) n d =
    (let rs = take (nat n) (filter (\<lambda>r. p_from \<le> a_id r) (audit_log d))
     in Inr (int (length rs), (if rs = [] then p_from else a_id (last rs)), None))"
  using verify_from_linked [OF reach_log [OF assms(1,2)] assms(2-4)] .

theorem chain_verifies_witness:
  "verify_audit_chain demo_env (Some 3) 4 demo_db = Inr (4, 6, None)"
proof -
  let ?rs = "take (nat 4) (filter (\<lambda>r. 3 \<le> a_id r) (audit_log demo_db))"
  have "(int (length ?rs), (if ?rs = [] then 3 else a_id (last ?rs))) = (4, 6)" by code_simp
  then show ?thesis
    using chain_verifies [OF demo_reach demo_key, of 3 4] unfolding Let_def by simp
qed

end
