(* ===== verification/Contracts.thy ===== *)
theory Contracts
  imports Economy
begin

text \<open>
  What the single functions promise, on every reachable database: the postings each money
  function refines, that retries and reversals do not move gold twice, and who may do what.
\<close>

section \<open>Deposits\<close>

text \<open>C10: A confirmed deposit credits the player of the ticket, once. Confirming a claimed
  ticket posts its amount from the outside to the available gold of its player and touches no
  other account; confirming it again posts nothing.\<close>

theorem confirm_deposit_posts:
  assumes "reach E (initial_db t0) d" and "confirm_deposit E' uid c d = Inr (res, d')"
    and "select_deposit uid d = Some t"
  shows "book_of d' = (if t_status t = Confirmed then book_of d
      else post (book_of d) (Outside, Avail (t_discord_id t), t_amount t))"
  using confirm_deposit_refines(3) [OF reach_ledger [OF assms(1)] assms(2,3)] .

definition demo_claimed :: db where
  "demo_claimed = run demo_env (take 3 demo_calls) (initial_db 0)"

lemma demo_claimed_reach: "reach demo_env (initial_db 0) demo_claimed"
  unfolding demo_claimed_def by (rule reach_run)

lemma demo_claimed_ticket:
  "map_option (\<lambda>t. (t_status t, t_discord_id t, t_amount t)) (select_deposit ''deposit-1'' demo_claimed)
    = Some (Claimed, 7, 5000)"
  by code_simp

lemma demo_confirms: "map_sum (\<lambda>_. ()) fst (confirm_deposit demo_env ''deposit-1'' 9 demo_claimed) = Inr (Some 5000)"
  by code_simp

theorem confirm_deposit_posts_witness:
  "\<exists>d'. confirm_deposit demo_env ''deposit-1'' 9 demo_claimed = Inr (Some 5000, d')
    \<and> book_of d' = post (book_of demo_claimed) (Outside, Avail 7, 5000)"
proof -
  obtain d' where ret: "confirm_deposit demo_env ''deposit-1'' 9 demo_claimed = Inr (Some 5000, d')"
    using demo_confirms by (cases "confirm_deposit demo_env ''deposit-1'' 9 demo_claimed") auto
  obtain t where "select_deposit ''deposit-1'' demo_claimed = Some t"
    and "t_status t = Claimed" "t_discord_id t = 7" "t_amount t = 5000"
    using demo_claimed_ticket by auto
  with confirm_deposit_posts [OF demo_claimed_reach ret] ret show ?thesis by auto
qed

lemma confirm_deposit_confirmed:
  assumes inv: "ledger_inv E d" and ret: "confirm_deposit E' uid c d = Inr (res, d')"
  shows "\<exists>t. select_deposit uid d' = Some t \<and> t_status t = Confirmed \<and> t_claimed_by t = Some c
    \<and> res = map_option b_balance (select_balance (t_discord_id t) d')"
  using ret
proof (cases rule: confirm_deposit_cases)
  case (again t)
  then show ?thesis by auto
next
  case (first t d1 d2 d3 d4 a i)
  note row = deposit_row [OF _ first(2)]
  have dep: "deposits_ok (deposit_tickets d)" and acc: "accounts_ok d"
    using inv by (simp_all add: ledger_parts)
  have claimed: "t_claimed_by t = Some c"
    using dep row(1) [OF dep] first(3,4) by (cases "t_claimed_by t") (auto simp: deposits_ok_def)
  have key: "t_ticket_uid t = uid" using row(4) [OF dep] .
  have sel: "sel_key t_ticket_uid uid (deposit_tickets d') =
      map_option (\<lambda>r. if t_id r = t_id t then r\<lparr>t_status := Confirmed, t_confirmed_at := Some (now E'),
         t_last_activity_at := now E'\<rparr> else r) (sel_key t_ticket_uid uid (deposit_tickets d))"
    using confirm_deposit_refines(4) [OF inv ret first(2)] first(3)
    by (auto simp: upd_key_def intro!: sel_key_map)
  obtain r where r: "select_balance (t_discord_id t) d1 = Some r"
    using ensure_account [OF acc first(5)] accounts_row_ex [of d1 "t_discord_id t"] by auto
  have "select_balance (t_discord_id t) d2 = Some (r\<lparr>b_balance := coalesce res 0, b_updated_at := now E',
         b_version := b_version r + 1\<rparr>)"
    using select_balance_update [OF first(7) r] by simp
  moreover have "balances d' = balances d2"
    using first(8,10) audit_same_money [OF first(1)] first(9)
    by (auto simp: update_deposit_ticket_def raise_simps same_money_def split: option.splits)
  ultimately have "res = map_option b_balance (select_balance (t_discord_id t) d')"
    using first(6) r by (simp add: select_balance_def)
  with first(2) sel claimed show ?thesis by (auto simp: select_deposit_def)
qed

text \<open>A retried confirmation is harmless. After a cashier's confirmation went through, the
  same cashier confirming the same ticket again, at any time, returns the same balance and
  leaves the database as it is.\<close>

theorem confirm_deposit_retry:
  assumes "reach E (initial_db t0) d" and "confirm_deposit E' uid c d = Inr (res, d')"
  shows "confirm_deposit E'' uid c d' = Inr (res, d')"
  using confirm_deposit_confirmed [OF reach_ledger [OF assms(1)] assms(2)]
  by (auto simp: confirm_deposit_def)

section \<open>Withdraws\<close>

lemma create_withdraw_ticket_row:
  assumes ret: "create_withdraw_ticket E u chr realm region faction n th pc d = Inr (uid, d')"
  shows "\<exists>t bps. select_withdraw uid d' = Some t \<and> t_discord_id t = u \<and> t_amount t = n \<and> t_status t = Open
    \<and> config_int ''withdraw_fee_bps'' (dw_config d) = Some bps \<and> w_fee t = (n * bps) sdiv 10000"
proof -
  from ret obtain t d3 a i d4 bps where
    "insert_withdraw_ticket t d3 = Inr d4" "audit_log_insert_with_chain E a d4 = Inr (i, d')"
    and t: "t_ticket_uid t = uid" "t_discord_id t = u" "t_amount t = n" "t_status t = Open"
    "config_int ''withdraw_fee_bps'' (dw_config d) = Some bps" "bps_of n bps = Inr (w_fee t)"
    by (clarsimp simp: create_withdraw_ticket_def raise_simps Let_def)
      (rule that, assumption+, simp_all add: new_ticket_def ticket.extend_def withdraw_ticket.fields_def)
  then have "withdraw_tickets d' = withdraw_tickets d3 @ [t]" and "\<not> has_key t_ticket_uid uid (withdraw_tickets d3)"
    by (auto simp: insert_withdraw_ticket_def check_ticket_row_def raise_simps split: if_splits dest!: chain.append_row)
  then have "select_withdraw uid d' = Some t" using t(1) by (simp add: select_withdraw_def has_key_sel)
  moreover have "w_fee t = (n * bps) sdiv 10000" using t(6) by (auto simp: bps_of_def raise_simps)
  ultimately show ?thesis using t by auto
qed

text \<open>C14: Opening and cancelling a withdraw is a round trip. Opening moves the amount from the
  available to the locked gold of the player; a cancellation, by whomever and whenever, leaves
  every account as it was before the ticket.\<close>

theorem withdraw_round_trip:
  assumes "reach E (initial_db t0) d"
    and "create_withdraw_ticket (E\<lparr>now := t1\<rparr>) u chr realm region faction n th pc d = Inr (uid, d1)"
    and "cancel_withdraw (E\<lparr>now := t2\<rparr>) uid actor reason d1 = Inr (res, d2)"
  shows "book_of d1 = post (book_of d) (Avail u, Held u, n) \<and> book_of d2 = book_of d"
proof -
  have inv: "ledger_inv E d" using assms(1) by (rule reach_ledger)
  note cr = create_withdraw_refines [OF inv assms(2)]
  obtain t where t: "select_withdraw uid d1 = Some t" "t_discord_id t = u" "t_amount t = n"
    using create_withdraw_ticket_row [OF assms(2)] by auto
  have "book_of d2 = post (book_of d1) (Held u, Avail u, n)"
    using cancel_withdraw_refines(2) [OF cr(1) assms(3) t(1)] t by simp
  also have "\<dots> = book_of d" by (rule ext) (simp add: cr(2) post_def Let_def)
  finally show ?thesis using cr(2) by simp
qed

definition demo_funded :: db where
  "demo_funded = run demo_env (take 4 demo_calls) (initial_db 0)"

lemma demo_funded_reach: "reach demo_env (initial_db 0) demo_funded"
  unfolding demo_funded_def by (rule reach_run)

lemma demo_open_withdraw:
  "map_sum (\<lambda>_. ()) fst (create_withdraw_ticket (demo_env\<lparr>now := 5\<rparr>) 7 ''a'' ''r'' ''EU'' ''Horde'' 2000 13 12 demo_funded)
    = Inr ''withdraw-1''"
  by code_simp

lemma demo_cancel_withdraw:
  "map_sum (\<lambda>_. ()) fst
    (bindE (create_withdraw_ticket (demo_env\<lparr>now := 5\<rparr>) 7 ''a'' ''r'' ''EU'' ''Horde'' 2000 13 12 demo_funded)
      (\<lambda>(uid, d1). cancel_withdraw (demo_env\<lparr>now := 6\<rparr>) uid 7 None d1)) = Inr (Some 5000)"
  by code_simp

lemma map_sum_Inr: "map_sum f g x = Inr y \<Longrightarrow> \<exists>z. x = Inr z \<and> g z = y"
  by (cases x) auto

theorem withdraw_round_trip_witness:
  "\<exists>d1 d2. create_withdraw_ticket (demo_env\<lparr>now := 5\<rparr>) 7 ''a'' ''r'' ''EU'' ''Horde'' 2000 13 12 demo_funded
      = Inr (''withdraw-1'', d1)
    \<and> cancel_withdraw (demo_env\<lparr>now := 6\<rparr>) ''withdraw-1'' 7 None d1 = Inr (Some 5000, d2)
    \<and> book_of d2 = book_of demo_funded"
proof -
  obtain d1 where cr: "create_withdraw_ticket (demo_env\<lparr>now := 5\<rparr>) 7 ''a'' ''r'' ''EU'' ''Horde'' 2000 13 12 demo_funded
      = Inr (''withdraw-1'', d1)"
    using map_sum_Inr [OF demo_open_withdraw] by auto
  obtain d2 where ca: "cancel_withdraw (demo_env\<lparr>now := 6\<rparr>) ''withdraw-1'' 7 None d1 = Inr (Some 5000, d2)"
    using map_sum_Inr [OF demo_cancel_withdraw] by (auto simp: cr)
  from withdraw_round_trip [OF demo_funded_reach cr ca] cr ca show ?thesis by blast
qed

text \<open>C18: A confirmed withdraw pays out and collects the fee, once. Confirming a claimed ticket
  takes its amount from the locked gold of its player: the amount less the fee leaves the books,
  the fee goes to the treasury; confirming it again posts nothing.\<close>

theorem confirm_withdraw_posts:
  assumes "reach E (initial_db t0) d" and "confirm_withdraw E' uid c d = Inr (res, d')"
    and "select_withdraw uid d = Some t"
  shows "book_of d' = (if t_status t = Confirmed then book_of d else
      foldl post (book_of d) [(Held (t_discord_id t), Outside, t_amount t - w_fee t),
                              (Held (t_discord_id t), Avail 0, w_fee t)])"
  using confirm_withdraw_refines(2) [OF reach_ledger [OF assms(1)] assms(2,3)]
  by (simp add: confirm_withdraw_postings_def)

lemma demo_confirm_withdraw:
  "map_sum (\<lambda>_. ()) fst (confirm_withdraw demo_env ''withdraw-1'' 9 demo_db) = Inr (Some 2000)"
  "map_option (\<lambda>t. (t_status t, t_discord_id t, t_amount t, w_fee t)) (select_withdraw ''withdraw-1'' demo_db)
    = Some (Claimed, 7, 2000, 40)"
  by code_simp+

theorem confirm_withdraw_posts_witness:
  "\<exists>d'. confirm_withdraw demo_env ''withdraw-1'' 9 demo_db = Inr (Some 2000, d')
    \<and> book_of d' = foldl post (book_of demo_db) [(Held 7, Outside, 1960), (Held 7, Avail 0, 40)]"
proof -
  obtain d' where ret: "confirm_withdraw demo_env ''withdraw-1'' 9 demo_db = Inr (Some 2000, d')"
    using map_sum_Inr [OF demo_confirm_withdraw(1)] by auto
  obtain t where "select_withdraw ''withdraw-1'' demo_db = Some t"
    and "t_status t = Claimed" "t_discord_id t = 7" "t_amount t = 2000" "w_fee t = 40"
    using demo_confirm_withdraw(2) by auto
  with confirm_withdraw_posts [OF demo_reach ret] ret show ?thesis by auto
qed

text \<open>The locks of a ticket are there: the guard on the locked gold never fires.\<close>

lemma ticket_lock_covered:
  assumes inv: "ledger_inv E d" and sel: "select_withdraw uid d = Some t" and "\<not> is_terminal (t_status t)"
  shows "t_amount t \<le> held_of (t_discord_id t) d"
proof -
  have wd: "withdraws_ok (user_ids d) (withdraw_tickets d)" using inv by (simp add: ledger_parts)
  have mem: "t \<in> set (withdraw_tickets d)" using withdraw_row(1) [OF wd sel] .
  have "t_amount t \<le> ticket_locks (t_discord_id t) d"
    unfolding ticket_locks_def
    by (rule sum_where_member_le) (use wd mem assms(3) in \<open>auto simp: withdraws_ok_def\<close>)
  moreover have "0 \<le> bet_locks (t_discord_id t) d"
    unfolding bet_locks_def
    by (rule sum_where_nonneg) (use inv in \<open>auto simp: ledger_parts bets_ok_def open_bet_ok_def\<close>)
  ultimately show ?thesis using inv by (simp add: ledger_inv_def locks_ok_def)
qed

lemma audit_total:
  assumes "chain_key e E = Inr k" and "aa_balance_before a = Some b1" and "aa_balance_after a = Some b2"
    and "aa_actor_type a \<in> set actor_types" and "has_key u_discord_id (aa_target_id a) (users d)"
  shows "\<exists>i d'. audit_log_insert_with_chain E a d = Inr (i, d')"
  using assms chain_key_any [OF assms(1)] unfolding audit_insert_Inr by blast

lemma audit_then:
  assumes "\<exists>i d'. audit_log_insert_with_chain E a d = Inr (i, d')"
  shows "\<exists>d'. bindE (audit_log_insert_with_chain E a d) (\<lambda>(_, d'). Inr (x, d')) = Inr (x, d')"
  using assms by auto

lemma cancel_withdraw_pays_back:
  assumes inv: "ledger_inv E d" and "chain_key e E = Inr k"
    and "select_withdraw uid d = Some t" and "\<not> is_terminal (t_status t)"
    and "select_balance (t_discord_id t) d = Some r"
    and "in_int8 (b_balance r + t_amount t)" and "in_int8 (b_version r + 1)"
  shows "\<exists>d'. cancel_withdraw (E\<lparr>now := t1\<rparr>) uid (t_discord_id t) reason d
    = Inr (Some (b_balance r + t_amount t), d')"
proof -
  let ?E = "E\<lparr>now := t1\<rparr>"
  have wd: "withdraws_ok (user_ids d) (withdraw_tickets d)" and acc: "accounts_ok d"
    using inv by (simp_all add: ledger_parts)
  note row = withdraw_row [OF wd assms(3)]
  have lock: "t_amount t \<le> b_locked r"
    using ticket_lock_covered [OF inv assms(3,4)] assms(5) by (simp add: held_of_def)
  have ok: "balance_ok r"
    using acc assms(5) by (auto simp: accounts_ok_def select_balance_def dest: sel_key_Some_in)
  let ?f = "\<lambda>r'. r'\<lparr>b_balance := b_balance r + t_amount t, b_locked := b_locked r' - t_amount t,
      b_updated_at := t1, b_version := b_version r' + 1\<rparr>"
  have "balance_ok (?f r)"
    using ok lock row(3) assms(6,7) by (auto simp: balance_ok_iff in_int8_def)
  then obtain x where chk: "check_balance_row (?f r) = Inr x" unfolding balance_ok_def by blast
  define d1 where "d1 = d\<lparr>balances := upd_key b_discord_id (t_discord_id t) ?f (balances d)\<rparr>"
  have upd: "update_balance (t_discord_id t) ?f d = Inr d1"
    using chk assms(5) by (simp add: update_balance_def d1_def)
  let ?g = "\<lambda>t. t\<lparr>t_status := Cancelled, t_cancelled_at := Some t1, t_cancel_reason := reason, t_last_activity_at := t1\<rparr>"
  obtain d2 where d2: "update_withdraw_ticket t_id (t_id t) ?g d1 = Inr d2" and "users d2 = users d"
    using row(2) assms(4) by (simp add: update_withdraw_ticket_def ticket_terminal_status_immutable_def d1_def)
  then have user: "has_key u_discord_id (t_discord_id t) (users d2)" using row(5) by (simp add: user_ids_def has_key_def)
  have key: "chain_key e ?E = Inr k" using assms(2) by simp
  have eq: "cancel_withdraw ?E uid (t_discord_id t) reason d = bindE (audit_log_insert_with_chain ?E
         \<lparr>aa_actor_type = ''user'', aa_actor_id = t_discord_id t, aa_target_id = t_discord_id t,
          aa_action = ''withdraw_cancelled_refund'', aa_amount = Some (t_amount t),
          aa_balance_before = Some (b_balance r), aa_balance_after = Some (b_balance r + t_amount t),
          aa_reason = Some (coalesce reason ''cancelled''), aa_ref_type = ''withdraw_ticket'',
          aa_ref_id = Some uid, aa_bot_name = ''dw'',
          aa_metadata = JObj [(''refunded'', JInt (t_amount t))]\<rparr> d2)
        (\<lambda>(_, d'). Inr (Some (b_balance r + t_amount t), d'))"
    using assms(3,4,5) lock upd d2 by (simp add: cancel_withdraw_def Let_def)
  have aud: "\<exists>i d'. audit_log_insert_with_chain ?E a d2 = Inr (i, d')"
    if "aa_actor_type a = ''user''" "aa_target_id a = t_discord_id t" "aa_balance_before a = Some b1"
      "aa_balance_after a = Some b2" for a b1 b2
    using audit_total [OF key that(3,4)] that(1,2) user by (simp add: actor_types_def)
  show ?thesis unfolding eq by (rule audit_then, rule aud) simp_all
qed

text \<open>C17: A player can always get locked gold back. In every reachable database with a configured
  chain key, a player's own cancellation of an unfinished withdraw ticket succeeds and returns
  the full amount to the available gold, as long as the 64-bit columns of the balance row have
  room for it; in particular the guard on too little locked gold never fires.\<close>

theorem cancel_withdraw_succeeds:
  assumes "reach E (initial_db t0) d" and "chain_key e E = Inr k"
    and "select_withdraw uid d = Some t" and "\<not> is_terminal (t_status t)"
    and "select_balance (t_discord_id t) d = Some r"
    and "in_int8 (b_balance r + t_amount t)" and "in_int8 (b_version r + 1)"
  shows "\<exists>d'. cancel_withdraw (E\<lparr>now := t1\<rparr>) uid (t_discord_id t) reason d
    = Inr (Some (b_balance r + t_amount t), d')"
  using reach_ledger [OF assms(1)] assms(2-7) by (rule cancel_withdraw_pays_back)

lemma demo_locked_row:
  "map_option (\<lambda>t. (t_status t, t_discord_id t, t_amount t)) (select_withdraw ''withdraw-1'' demo_db) = Some (Claimed, 7, 2000)"
  "map_option (\<lambda>r. (b_balance r, b_version r)) (select_balance 7 demo_db) = Some (2000, 3)"
  by code_simp+

theorem cancel_withdraw_succeeds_witness:
  "\<exists>d'. cancel_withdraw (demo_env\<lparr>now := 9\<rparr>) ''withdraw-1'' 7 None demo_db = Inr (Some 4000, d')"
proof -
  obtain t where t: "select_withdraw ''withdraw-1'' demo_db = Some t" "t_status t = Claimed" "t_discord_id t = 7" "t_amount t = 2000"
    using demo_locked_row(1) by auto
  obtain r where r: "select_balance 7 demo_db = Some r" "b_balance r = 2000" "b_version r = 3"
    using demo_locked_row(2) by auto
  from cancel_withdraw_succeeds [OF demo_reach demo_key t(1), of r 9 None] t r show ?thesis
    by (simp add: is_terminal_def in_int8_def)
qed

end
