(* ===== verification/Orchestration.thy ===== *)
theory Orchestration
  imports Manager Contracts
begin

text \<open>
  The typed outcomes of the ticket commands (\<^verbatim>\<open>deathroll_deposit_withdraw/tickets/orchestration.py\<close>):
  every exception class a command expects has an outcome of its own, any other typed exception
  becomes the outcome \<^verbatim>\<open>Unexpected\<close>, and an engine error passes through. The exception classes
  are siblings under \<^verbatim>\<open>BalanceError\<close>, so the order of the \<^verbatim>\<open>except\<close> clauses only matters for the
  last one.
\<close>

section \<open>Outcomes\<close>

datatype (plugins only: code size) deposit_outcome =
    Deposit_Success string
  | Deposit_UserBanned string
  | Deposit_AmountOutOfRange string
  | Deposit_InvalidInput string
  | Deposit_ConfigError string
  | Deposit_Unexpected string

datatype (plugins only: code size) withdraw_outcome =
    Withdraw_Success string
  | Withdraw_UserBanned string
  | Withdraw_UserNotRegistered string
  | Withdraw_InsufficientBalance string
  | Withdraw_AmountOutOfRange string
  | Withdraw_InvalidInput string
  | Withdraw_ConfigError string
  | Withdraw_Unexpected string

datatype (plugins only: code size) lifecycle_outcome =
    Lifecycle_Success
  | Lifecycle_TicketNotFound string
  | Lifecycle_AlreadyClaimed string
  | Lifecycle_NotClaimed string
  | Lifecycle_WrongCashier string
  | Lifecycle_RegionMismatch string
  | Lifecycle_AlreadyTerminal string
  | Lifecycle_Unexpected string

datatype (plugins only: code size) confirm_outcome =
    Confirm_Success "int option"
  | Confirm_TicketNotFound string
  | Confirm_NotClaimed string
  | Confirm_WrongCashier string
  | Confirm_InvariantViolation string
  | Confirm_Unexpected string

text \<open>\<^verbatim>\<open>try: x = await f(); return ok(x) except ...\<close>: the handler sees the class and the message.\<close>

definition try_outcome :: "'a py \<Rightarrow> ('a \<Rightarrow> 'o) \<Rightarrow> (balance_error \<Rightarrow> string \<Rightarrow> 'o) \<Rightarrow> 'o py" where
  "try_outcome m ok handler =
     (case m of
        (Inr x, d) \<Rightarrow> (Inr (ok x), d)
      | (Inl (Typed cls msg), d) \<Rightarrow> (Inr (handler cls msg), d)
      | (Inl (Engine e), d) \<Rightarrow> (Inl (Engine e), d))"

text \<open>The validated form input.\<close>

record modal_input =
  mi_char_name :: string
  mi_realm :: string
  mi_region :: string
  mi_faction :: string
  mi_amount :: int

section \<open>The commands\<close>

definition open_deposit_ticket :: "pg_env \<Rightarrow> modal_input \<Rightarrow> int \<Rightarrow> int \<Rightarrow> int \<Rightarrow> db \<Rightarrow> deposit_outcome py" where
  "open_deposit_ticket E payload discord_id thread_id parent_channel_id d =
     try_outcome
       (apply_deposit_ticket E discord_id (mi_char_name payload) (mi_realm payload) (mi_region payload) (mi_faction payload)
         (mi_amount payload) thread_id parent_channel_id d)
       Deposit_Success
       (\<lambda>cls msg. case cls of
          UserBanned \<Rightarrow> Deposit_UserBanned msg
        | AmountOutOfRange \<Rightarrow> Deposit_AmountOutOfRange msg
        | InvalidRegion \<Rightarrow> Deposit_InvalidInput msg
        | InvalidFaction \<Rightarrow> Deposit_InvalidInput msg
        | GlobalConfigMissing \<Rightarrow> Deposit_ConfigError msg
        | _ \<Rightarrow> Deposit_Unexpected msg)"

definition open_withdraw_ticket :: "pg_env \<Rightarrow> modal_input \<Rightarrow> int \<Rightarrow> int \<Rightarrow> int \<Rightarrow> db \<Rightarrow> withdraw_outcome py" where
  "open_withdraw_ticket E payload discord_id thread_id parent_channel_id d =
     try_outcome
       (apply_withdraw_ticket E discord_id (mi_char_name payload) (mi_realm payload) (mi_region payload) (mi_faction payload)
         (mi_amount payload) thread_id parent_channel_id d)
       Withdraw_Success
       (\<lambda>cls msg. case cls of
          UserNotRegistered \<Rightarrow> Withdraw_UserNotRegistered msg
        | UserBanned \<Rightarrow> Withdraw_UserBanned msg
        | InsufficientBalance \<Rightarrow> Withdraw_InsufficientBalance msg
        | AmountOutOfRange \<Rightarrow> Withdraw_AmountOutOfRange msg
        | InvalidRegion \<Rightarrow> Withdraw_InvalidInput msg
        | InvalidFaction \<Rightarrow> Withdraw_InvalidInput msg
        | GlobalConfigMissing \<Rightarrow> Withdraw_ConfigError msg
        | _ \<Rightarrow> Withdraw_Unexpected msg)"

definition claim_ticket_for_cashier :: "pg_env \<Rightarrow> string \<Rightarrow> string \<Rightarrow> int \<Rightarrow> db \<Rightarrow> lifecycle_outcome py" where
  "claim_ticket_for_cashier E ticket_type ticket_uid cashier_id d =
     try_outcome (claim_ticket_py E ticket_type ticket_uid cashier_id d)
       (\<lambda>_. Lifecycle_Success)
       (\<lambda>cls msg. case cls of
          TicketNotFound \<Rightarrow> Lifecycle_TicketNotFound msg
        | TicketAlreadyClaimed \<Rightarrow> Lifecycle_AlreadyClaimed msg
        | RegionMismatch \<Rightarrow> Lifecycle_RegionMismatch msg
        | _ \<Rightarrow> Lifecycle_Unexpected msg)"

definition release_ticket_by_cashier :: "pg_env \<Rightarrow> string \<Rightarrow> string \<Rightarrow> int \<Rightarrow> db \<Rightarrow> lifecycle_outcome py" where
  "release_ticket_by_cashier E ticket_type ticket_uid cashier_id d =
     try_outcome (release_ticket_py E ticket_type ticket_uid cashier_id d)
       (\<lambda>_. Lifecycle_Success)
       (\<lambda>cls msg. case cls of
          TicketNotFound \<Rightarrow> Lifecycle_TicketNotFound msg
        | TicketNotClaimed \<Rightarrow> Lifecycle_NotClaimed msg
        | WrongCashier \<Rightarrow> Lifecycle_WrongCashier msg
        | _ \<Rightarrow> Lifecycle_Unexpected msg)"

definition cancel_ticket_dispatch :: "pg_env \<Rightarrow> string \<Rightarrow> string \<Rightarrow> int \<Rightarrow> string \<Rightarrow> db \<Rightarrow> lifecycle_outcome py" where
  "cancel_ticket_dispatch E ticket_type ticket_uid actor_id reason d =
     try_outcome
       (if ticket_type = ''deposit'' then cancel_deposit_py E ticket_uid actor_id reason d
        else (case cancel_withdraw_py E ticket_uid actor_id reason d of (res, d') \<Rightarrow> (map_sum id (\<lambda>_. ()) res, d')))
       (\<lambda>_. Lifecycle_Success)
       (\<lambda>cls msg. case cls of
          TicketNotFound \<Rightarrow> Lifecycle_TicketNotFound msg
        | TicketAlreadyTerminal \<Rightarrow> Lifecycle_AlreadyTerminal msg
        | _ \<Rightarrow> Lifecycle_Unexpected msg)"

definition confirm_ticket_dispatch :: "pg_env \<Rightarrow> string \<Rightarrow> string \<Rightarrow> int \<Rightarrow> db \<Rightarrow> confirm_outcome py" where
  "confirm_ticket_dispatch E ticket_type ticket_uid cashier_id d =
     try_outcome
       (if ticket_type = ''deposit'' then confirm_deposit_py E ticket_uid cashier_id d
        else confirm_withdraw_py E ticket_uid cashier_id d)
       Confirm_Success
       (\<lambda>cls msg. case cls of
          TicketNotFound \<Rightarrow> Confirm_TicketNotFound msg
        | TicketNotClaimed \<Rightarrow> Confirm_NotClaimed msg
        | WrongCashier \<Rightarrow> Confirm_WrongCashier msg
        | InvariantViolation \<Rightarrow> Confirm_InvariantViolation msg
        | _ \<Rightarrow> Confirm_Unexpected msg)"

section \<open>Which errors a function raises\<close>

named_theorems fail_simps \<open>inversion of failed statements\<close>

lemma bindE_Inl [fail_simps]: "bindE m f = Inl e \<longleftrightarrow> m = Inl e \<or> (\<exists>x. m = Inr x \<and> f x = Inl e)"
  by (cases m) auto

lemma raise_if_Inl [fail_simps]: "raise_if c e m = Inl e' \<longleftrightarrow> (if c then e = e' else m = Inl e')"
  by (simp add: raise_if_def)

lemma require_Inl [fail_simps]: "require e v = Inl e' \<longleftrightarrow> v = None \<and> e = e'"
  by (auto simp: require_def split: option.splits)

text \<open>The statements that touch only users, balances and statistics raise no exception of their
  own: what stops them is the engine.\<close>

lemma statement_not_raised [fail_simps]:
  "update_balance u f d \<noteq> Inl (Raised r)"
  "insert_balance E u d \<noteq> Inl (Raised r)"
  "upsert_stats c g d \<noteq> Inl (Raised r)"
  "insert_deposit_ticket t d \<noteq> Inl (Raised r)"
  "insert_withdraw_ticket w d \<noteq> Inl (Raised r)"
  "bps_of n b \<noteq> Inl (Raised r)"
  "chk8 n \<noteq> Inl (Raised r)"
  by (auto simp: update_balance_def check_balance_row_def insert_balance_def upsert_stats_def
      insert_deposit_ticket_def insert_withdraw_ticket_def check_ticket_row_def bps_of_def chk8_def raise_if_def
      bindE_def Let_def split: option.splits sum.splits if_splits)

lemma audit_not_raised:
  assumes "chain_key e E = Inr k"
  shows "audit_log_insert_with_chain E a d \<noteq> Inl (Raised r)"
  using chain_key_any [OF assms]
  by (auto simp: audit_log_insert_with_chain_def insert_audit_row_def not_null_def raise_if_def bindE_def Let_def
      split: option.splits sum.splits if_splits prod.splits)

lemma update_ticket_not_raised:
  "sel_key key k (deposit_tickets d) = Some t \<Longrightarrow> \<not> is_terminal (t_status t) \<Longrightarrow>
    update_deposit_ticket key k f d \<noteq> Inl (Raised r)"
  "sel_key key' k (withdraw_tickets d) = Some w \<Longrightarrow> \<not> is_terminal (t_status w) \<Longrightarrow>
    update_withdraw_ticket key' k g d \<noteq> Inl (Raised r)"
  by (auto simp: update_deposit_ticket_def update_withdraw_ticket_def ticket_terminal_status_immutable_def raise_if_def)

text \<open>What each function raises on a database of the economy, when the chain key is configured:
  the exception classes, with arguments the translation reads correctly.\<close>

definition raises_in :: "pg_error + 'a \<Rightarrow> balance_error set \<Rightarrow> bool" where
  "raises_in m S \<longleftrightarrow> (\<forall>r. m = Inl (Raised r) \<longrightarrow> plain_args r \<and> error_class r \<in> S)"

lemma ticket_region:
  assumes "ledger_inv E0 d" and "select_ticket ty uid d = Some v"
  shows "valid_region (t_region v)"
  using assms by (cases ty)
    (auto simp: ledger_parts deposits_ok_def withdraws_ok_def select_ticket_def select_deposit_def
      select_withdraw_def ticket.truncate_def dest!: sel_key_Some_in)

lemma select_ticket_row:
  assumes "select_ticket ty uid d = Some v" and "\<not> is_terminal (t_status v)"
  shows "ty = Deposit \<Longrightarrow> update_deposit_ticket t_ticket_uid uid f d \<noteq> Inl (Raised r)"
    and "ty = Withdraw \<Longrightarrow> update_withdraw_ticket t_ticket_uid uid g d \<noteq> Inl (Raised r)"
  using assms update_ticket_not_raised(1) [of t_ticket_uid uid d] update_ticket_not_raised(2) [of t_ticket_uid uid d]
  by (auto simp: select_ticket_def select_deposit_def select_withdraw_def ticket.truncate_def)

lemma claim_raises:
  assumes inv: "ledger_inv E0 d" and key: "chain_key e E = Inr k" and ty: "ticket_type_of_text ty = Some ty'"
  shows "raises_in (claim_ticket E ty uid c d) {TicketNotFound, TicketAlreadyClaimed, RegionMismatch}"
  using ty audit_not_raised [OF key] select_ticket_row [where ty = ty' and uid = uid and d = d] ticket_region [OF inv, of ty' uid]
  by (cases ty') (auto simp: raises_in_def claim_ticket_def fail_simps require_Inr Let_def is_terminal_def split: if_splits)

lemma release_raises:
  assumes key: "chain_key e E = Inr k" and ty: "ticket_type_of_text ty = Some ty'"
  shows "raises_in (release_ticket E ty uid c d) {TicketNotFound, TicketNotClaimed, WrongCashier}"
  using ty audit_not_raised [OF key] select_ticket_row [where ty = ty' and uid = uid and d = d]
  by (cases ty') (auto simp: raises_in_def release_ticket_def fail_simps require_Inr Let_def is_terminal_def split: if_splits)

lemma cancel_deposit_raises:
  assumes inv: "ledger_inv E0 d" and key: "chain_key e E = Inr k"
  shows "raises_in (cancel_deposit E uid a reason d) {TicketNotFound, TicketAlreadyTerminal}"
proof -
  have "update_deposit_ticket t_id (t_id t) f d \<noteq> Inl (Raised r)"
    if "select_deposit uid d = Some t" "\<not> is_terminal (t_status t)" for t f r
    using deposit_row(2) [of d uid t] inv that by (intro update_ticket_not_raised) (auto simp: ledger_parts)
  then show ?thesis using audit_not_raised [OF key]
    by (auto simp: raises_in_def cancel_deposit_def fail_simps require_Inr Let_def split: if_splits)
qed

lemma cancel_withdraw_raises:
  assumes inv: "ledger_inv E0 d" and key: "chain_key e E = Inr k"
  shows "raises_in (cancel_withdraw E uid a reason d) {TicketNotFound, TicketAlreadyTerminal}"
proof -
  have "update_withdraw_ticket t_id (t_id t) f d1 \<noteq> Inl (Raised r)"
    if "select_withdraw uid d = Some t" "\<not> is_terminal (t_status t)" "update_balance u g d = Inr d1" for t f r u g d1
    using withdraw_row(2) [of "user_ids d" d uid t] inv that update_balance_frame [OF that(3)]
    by (intro update_ticket_not_raised) (auto simp: ledger_parts)
  moreover have "\<not> lt3 (map_option b_locked (select_balance (t_discord_id t) d)) (Some (t_amount t))"
    if "select_withdraw uid d = Some t" "\<not> is_terminal (t_status t)" for t
    using ticket_lock_covered [OF inv that]
    by (auto simp: lt3_def held_of_def split: option.splits)
  ultimately show ?thesis using audit_not_raised [OF key]
    by (auto simp: raises_in_def cancel_withdraw_def fail_simps require_Inr Let_def split: if_splits)
qed

lemma confirm_deposit_raises:
  assumes inv: "ledger_inv E0 d" and key: "chain_key e E = Inr k"
  shows "raises_in (confirm_deposit E uid c d) {TicketNotFound, TicketNotClaimed, WrongCashier}"
proof -
  have "update_deposit_ticket t_id (t_id t) f d2 \<noteq> Inl (Raised r)"
    if "select_deposit uid d = Some t" "t_status t = Claimed"
      "insert_balance E' u (insert_user E' u' d) = Inr d1" "update_balance u'' g d1 = Inr d2" for t f r u u' u'' g d1 d2 E'
  proof -
    have "deposit_tickets d2 = deposit_tickets d"
      using that(3) update_balance_frame [OF that(4)] by (auto simp: insert_balance_def insert_user_def split: if_splits)
    then show ?thesis using deposit_row(2) [of d uid t] inv that
      by (intro update_ticket_not_raised(1)) (auto simp: ledger_parts is_terminal_def)
  qed
  then show ?thesis using audit_not_raised [OF key]
    by (auto simp: raises_in_def confirm_deposit_def fail_simps require_Inr Let_def split: if_splits)
qed

lemma confirm_withdraw_raises:
  assumes inv: "ledger_inv E0 d" and key: "chain_key e E = Inr k"
  shows "raises_in (confirm_withdraw E uid c d) {TicketNotFound, TicketNotClaimed, WrongCashier}"
proof -
  have "update_withdraw_ticket t_id (t_id t) f d2 \<noteq> Inl (Raised r)"
    if "select_withdraw uid d = Some t" "t_status t = Claimed" "update_balance u g d = Inr d1" "update_balance u' g' d1 = Inr d2"
    for t f r u u' g g' d1 d2
    using withdraw_row(2) [of "user_ids d" d uid t] inv that update_balance_frame [OF that(3)] update_balance_frame [OF that(4)]
    by (intro update_ticket_not_raised(2)) (auto simp: ledger_parts is_terminal_def)
  moreover have "\<not> lt3 (map_option b_locked (select_balance (t_discord_id t) d)) (Some (t_amount t))"
    if "select_withdraw uid d = Some t" "t_status t = Claimed" for t
    using ticket_lock_covered [OF inv that(1)] that(2)
    by (auto simp: lt3_def held_of_def is_terminal_def split: option.splits)
  ultimately show ?thesis using audit_not_raised [OF key]
    by (auto simp: raises_in_def confirm_withdraw_def fail_simps require_Inr Let_def split: if_splits)
qed

lemma create_deposit_raises:
  assumes "chain_key e E = Inr k" and "valid_region rg" and "valid_faction fc"
  shows "raises_in (create_deposit_ticket E u chr rl rg fc n th pc d) {UserBanned, GlobalConfigMissing, AmountOutOfRange}"
  using audit_not_raised [OF assms(1)] assms(2,3)
  by (auto simp: raises_in_def create_deposit_ticket_def fail_simps require_Inr Let_def split: if_splits)

lemma create_withdraw_raises:
  assumes "chain_key e E = Inr k" and "valid_region rg" and "valid_faction fc"
  shows "raises_in (create_withdraw_ticket E u chr rl rg fc n th pc d)
    {UserBanned, GlobalConfigMissing, AmountOutOfRange, UserNotRegistered, InsufficientBalance}"
  using audit_not_raised [OF assms(1)] assms(2,3)
  by (auto simp: raises_in_def create_withdraw_ticket_def fail_simps require_Inr Let_def split: if_splits)

section \<open>No unexpected outcome\<close>

lemma never_outcome:
  assumes "raises_in m S" and "\<And>x. ok x \<noteq> out" and "\<And>cls msg. cls \<in> S \<Longrightarrow> h cls msg \<noteq> out"
  shows "fst (try_outcome (facade d m) ok h) \<noteq> Inr out"
proof (cases rule: facade_cases [of m d])
  case (raised r)
  with assms(1) have "plain_args r" "error_class r \<in> S" by (auto simp: raises_in_def)
  with raised assms(3) show ?thesis by (auto simp: try_outcome_def facade_typed)
qed (use assms(2) in \<open>auto simp: try_outcome_def\<close>)

lemma facade_map: "(case facade d m of (res, d') \<Rightarrow> (map_sum id g res, d')) = facade d (map_sum id (map_prod g id) m)"
  by (cases m) (auto simp: facade_def split: pg_error.splits prod.splits)

lemma raises_in_map: "raises_in (map_sum id g m) S = raises_in m S"
  by (cases m) (auto simp: raises_in_def)

lemmas dispatch_defs = cancel_ticket_dispatch_def cancel_deposit_py_def cancel_withdraw_py_def facade_map
  confirm_ticket_dispatch_def confirm_deposit_py_def confirm_withdraw_py_def

lemma cancel_never_unexpected:
  assumes "ledger_inv E0 d" and "chain_key e E = Inr k"
  shows "fst (cancel_ticket_dispatch E ty uid a reason d) \<noteq> Inr (Lifecycle_Unexpected msg)"
proof (cases "ty = ''deposit''")
  case True
  then show ?thesis unfolding dispatch_defs if_P [OF True]
    by - (rule never_outcome [OF cancel_deposit_raises [OF assms]], auto)
next
  case False
  have cw: "raises_in (map_sum id (map_prod (\<lambda>_. ()) id) (cancel_withdraw E uid a (Some reason) d))
      {TicketNotFound, TicketAlreadyTerminal}"
    using cancel_withdraw_raises [OF assms] by (simp add: raises_in_map)
  show ?thesis unfolding dispatch_defs if_not_P [OF False] by (rule never_outcome [OF cw]) auto
qed

lemma confirm_never_unexpected:
  assumes "ledger_inv E0 d" and "chain_key e E = Inr k" and "out \<in> {Confirm_Unexpected msg, Confirm_InvariantViolation msg}"
  shows "fst (confirm_ticket_dispatch E ty uid c d) \<noteq> Inr out"
proof (cases "ty = ''deposit''")
  case True
  show ?thesis unfolding dispatch_defs if_P [OF True]
    by (rule never_outcome [OF confirm_deposit_raises [OF assms(1,2)]]) (use assms(3) in auto)
next
  case False
  show ?thesis unfolding dispatch_defs if_not_P [OF False]
    by (rule never_outcome [OF confirm_withdraw_raises [OF assms(1,2)]]) (use assms(3) in auto)
qed

text \<open>C30: Every failure a ticket command can meet has an outcome of its own. In every reachable
  database with a configured chain key, the commands to open, claim, release, cancel and confirm
  a ticket never end in the catch-all outcome \<^verbatim>\<open>Unexpected\<close>, and a confirmation never ends
  in \<^verbatim>\<open>InvariantViolation\<close>, the outcome the source calls impossible if the open flow is
  correct. The form input is validated, so its region and faction are legal, and the ticket type
  is one of the two literals.\<close>

theorem no_unexpected_outcome:
  assumes "reach E (initial_db t0) d" and "chain_key e E = Inr k"
    and "ty \<in> {''deposit'', ''withdraw''}" and "valid_region (mi_region p)" and "valid_faction (mi_faction p)"
  shows "fst (open_deposit_ticket (E\<lparr>now := t\<rparr>) p u th pc d) \<noteq> Inr (Deposit_Unexpected msg)
    \<and> fst (open_withdraw_ticket (E\<lparr>now := t\<rparr>) p u th pc d) \<noteq> Inr (Withdraw_Unexpected msg)
    \<and> fst (claim_ticket_for_cashier (E\<lparr>now := t\<rparr>) ty uid c d) \<noteq> Inr (Lifecycle_Unexpected msg)
    \<and> fst (release_ticket_by_cashier (E\<lparr>now := t\<rparr>) ty uid c d) \<noteq> Inr (Lifecycle_Unexpected msg)
    \<and> fst (cancel_ticket_dispatch (E\<lparr>now := t\<rparr>) ty uid a reason d) \<noteq> Inr (Lifecycle_Unexpected msg)
    \<and> fst (confirm_ticket_dispatch (E\<lparr>now := t\<rparr>) ty uid c d) \<noteq> Inr (Confirm_Unexpected msg)
    \<and> fst (confirm_ticket_dispatch (E\<lparr>now := t\<rparr>) ty uid c d) \<noteq> Inr (Confirm_InvariantViolation msg)"
proof (intro conjI)
  let ?E = "E\<lparr>now := t\<rparr>"
  have inv: "ledger_inv E d" using assms(1) by (rule reach_ledger)
  have key: "chain_key e ?E = Inr k" using assms(2) by simp
  obtain ty' where ty: "ticket_type_of_text ty = Some ty'" using assms(3) by (auto simp: ticket_type_of_text_def)
  show "fst (open_deposit_ticket ?E p u th pc d) \<noteq> Inr (Deposit_Unexpected msg)"
    unfolding open_deposit_ticket_def apply_deposit_ticket_def
    by (rule never_outcome [OF create_deposit_raises [OF key assms(4,5)]]) auto
  show "fst (open_withdraw_ticket ?E p u th pc d) \<noteq> Inr (Withdraw_Unexpected msg)"
    unfolding open_withdraw_ticket_def apply_withdraw_ticket_def
    by (rule never_outcome [OF create_withdraw_raises [OF key assms(4,5)]]) auto
  show "fst (claim_ticket_for_cashier ?E ty uid c d) \<noteq> Inr (Lifecycle_Unexpected msg)"
    unfolding claim_ticket_for_cashier_def claim_ticket_py_def
    by (rule never_outcome [OF claim_raises [OF inv key ty]]) auto
  show "fst (release_ticket_by_cashier ?E ty uid c d) \<noteq> Inr (Lifecycle_Unexpected msg)"
    unfolding release_ticket_by_cashier_def release_ticket_py_def
    by (rule never_outcome [OF release_raises [OF key ty]]) auto
  show "fst (cancel_ticket_dispatch ?E ty uid a reason d) \<noteq> Inr (Lifecycle_Unexpected msg)"
    by (rule cancel_never_unexpected [OF inv key])
  show "fst (confirm_ticket_dispatch ?E ty uid c d) \<noteq> Inr (Confirm_Unexpected msg)"
    by (rule confirm_never_unexpected [OF inv key]) simp
  show "fst (confirm_ticket_dispatch ?E ty uid c d) \<noteq> Inr (Confirm_InvariantViolation msg)"
    by (rule confirm_never_unexpected [OF inv key]) simp
qed

text \<open>The database of the example run, and a form for 2000 gold.\<close>

definition demo_form :: modal_input where
  "demo_form = \<lparr>mi_char_name = ''a'', mi_realm = ''r'', mi_region = ''EU'', mi_faction = ''Horde'', mi_amount = 2000\<rparr>"

theorem no_unexpected_outcome_witness:
  "fst (open_withdraw_ticket (demo_env\<lparr>now := 9\<rparr>) demo_form 7 99 12 demo_db) \<noteq> Inr (Withdraw_Unexpected [])
    \<and> fst (confirm_ticket_dispatch (demo_env\<lparr>now := 9\<rparr>) ''withdraw'' ''withdraw-1'' 9 demo_db)
        \<noteq> Inr (Confirm_InvariantViolation [])"
  using no_unexpected_outcome [OF demo_reach demo_key, of "''withdraw''" demo_form 9]
  by (simp add: demo_form_def valid_region_def valid_faction_def)

end
