(* ===== verification/Text.thy ===== *)
theory Text
  imports Prelude
begin

text \<open>
  Text as Python sees it. A \<^verbatim>\<open>str\<close> that the source inspects is the list of its code points;
  a text that is only stored or shown is the \<open>string\<close> of its UTF-8 bytes. The theory has the
  operations of the standard library the bots use on text (white space, decimal digits,
  \<^verbatim>\<open>int()\<close>, thousands separators, dates) and the round trip the confirmation forms rest on:
  a number written with separators reads back as itself.
\<close>

section \<open>Code points\<close>

type_synonym pystr = "nat list"

definition of_ascii :: "string \<Rightarrow> pystr" where
  "of_ascii s = map of_char s"

text \<open>UTF-8, with one to four bytes per code point.\<close>

definition utf8_char :: "nat \<Rightarrow> string" where
  "utf8_char n =
     (if n < 128 then [char_of n]
      else if n < 2048 then [char_of (192 + n div 64), char_of (128 + n mod 64)]
      else if n < 65536 then [char_of (224 + n div 4096), char_of (128 + n div 64 mod 64), char_of (128 + n mod 64)]
      else [char_of (240 + n div 262144), char_of (128 + n div 4096 mod 64), char_of (128 + n div 64 mod 64),
            char_of (128 + n mod 64)])"

definition utf8 :: "pystr \<Rightarrow> string" where
  "utf8 s = concat (map utf8_char s)"

text \<open>\<^verbatim>\<open>str.isspace\<close> on one character, and \<^verbatim>\<open>str.strip()\<close>.\<close>

definition py_space :: "nat \<Rightarrow> bool" where
  "py_space c \<longleftrightarrow> 9 \<le> c \<and> c \<le> 13 \<or> 28 \<le> c \<and> c \<le> 32 \<or> 8192 \<le> c \<and> c \<le> 8202
     \<or> c \<in> {133, 160, 5760, 8232, 8233, 8239, 8287, 12288}"

definition py_strip :: "pystr \<Rightarrow> pystr" where
  "py_strip s = rev (dropWhile py_space (rev (dropWhile py_space s)))"

text \<open>ASCII case mapping. No other character maps to one of the letters the source compares with
  (\<^verbatim>\<open>EU\<close>, \<^verbatim>\<open>NA\<close>, \<^verbatim>\<open>alliance\<close>, \<^verbatim>\<open>horde\<close>) and nothing else.\<close>

definition ascii_upper :: "pystr \<Rightarrow> pystr" where
  "ascii_upper s = map (\<lambda>c. if 97 \<le> c \<and> c \<le> 122 then c - 32 else c) s"

definition ascii_lower :: "pystr \<Rightarrow> pystr" where
  "ascii_lower s = map (\<lambda>c. if 65 \<le> c \<and> c \<le> 90 then c + 32 else c) s"

section \<open>Decimal digits\<close>

text \<open>The decimal digits of Unicode 15 come in runs of ten; these are the zeros.\<close>

definition digit_zeros :: "nat list" where
  "digit_zeros =
    [48, 1632, 1776, 1984, 2406, 2534, 2662, 2790, 2918, 3046, 3174, 3302, 3430, 3558, 3664, 3792, 3872, 4160,
     4240, 6112, 6160, 6470, 6608, 6784, 6800, 6992, 7088, 7232, 7248, 42528, 43216, 43264, 43472, 43504, 43600,
     44016, 65296, 66720, 68912, 69734, 69872, 69942, 70096, 70384, 70736, 70864, 71248, 71360, 71472, 71904,
     72016, 72784, 73040, 73120, 73552, 92768, 92864, 93008, 120782, 120792, 120802, 120812, 120822, 123200,
     123632, 124144, 125264, 130032]"

definition py_digit :: "nat \<Rightarrow> nat option" where
  "py_digit c = map_option (\<lambda>z. c - z) (find (\<lambda>z. z \<le> c \<and> c < z + 10) digit_zeros)"

fun digits_nat :: "nat \<Rightarrow> pystr \<Rightarrow> nat option" where
  "digits_nat a [] = Some a"
| "digits_nat a (c # cs) = (case py_digit c of None \<Rightarrow> None | Some n \<Rightarrow> digits_nat (10 * a + n) cs)"

text \<open>\<^verbatim>\<open>int(text)\<close>, \<open>None\<close> for a \<^verbatim>\<open>ValueError\<close>: white space around, a sign, digits with
  single underscores between them.\<close>

fun no_underscores :: "pystr \<Rightarrow> pystr option" where
  "no_underscores [] = Some []"
| "no_underscores [c] = (if c = 95 then None else Some [c])"
| "no_underscores (c # c' # cs) =
     (if c = 95 then None
      else if c' = 95 then (if cs = [] \<or> hd cs = 95 then None else map_option ((#) c) (no_underscores cs))
      else map_option ((#) c) (no_underscores (c' # cs)))"

definition py_nat :: "pystr \<Rightarrow> nat option" where
  "py_nat s =
     (if s = [] then None else case no_underscores s of None \<Rightarrow> None | Some ds \<Rightarrow> digits_nat 0 ds)"

definition py_int :: "pystr \<Rightarrow> int option" where
  "py_int s =
     (case py_strip s of
        [] \<Rightarrow> None
      | c # cs \<Rightarrow>
          if c = 45 then map_option (\<lambda>n. - int n) (py_nat cs)
          else if c = 43 then map_option int (py_nat cs)
          else map_option int (py_nat (c # cs)))"

text \<open>A character that is not ASCII, in the texts the bots show.\<close>

abbreviation uc :: "nat \<Rightarrow> string" where
  "uc \<equiv> utf8_char"

section \<open>Formatting\<close>

text \<open>\<^verbatim>\<open>f"{n:,}"\<close>: a comma before every third digit from the right.\<close>

fun commas :: "string \<Rightarrow> string" where
  "commas (a # b # c # d # ds) = a # b # c # CHR '','' # commas (d # ds)"
| "commas ds = ds"

definition fmt_thousands :: "int \<Rightarrow> string" where
  "fmt_thousands n = (if n < 0 then ''-'' else []) @ rev (commas (rev (show_int \<bar>n\<bar>)))"

text \<open>\<^verbatim>\<open>f"{n:02d}"\<close>.\<close>

definition two_digits :: "int \<Rightarrow> string" where
  "two_digits n = (if n < 10 then ''0'' else []) @ show_int n"

text \<open>The date of a day number counted from 1970-01-01, in the proleptic Gregorian calendar: eras
  of 400 years, years that start in March.\<close>

definition civil_date :: "int \<Rightarrow> int \<times> int \<times> int" where
  "civil_date days =
     (let z = days + 719468;
          era = z div 146097;
          doe = z mod 146097;
          yoe = (doe - doe div 1460 + doe div 36524 - doe div 146096) div 365;
          doy = doe - (365 * yoe + yoe div 4 - yoe div 100);
          mp = (5 * doy + 2) div 153;
          day = doy - (153 * mp + 2) div 5 + 1;
          month = (if mp < 10 then mp + 3 else mp - 9)
      in (yoe + era * 400 + (if month \<le> 2 then 1 else 0), month, day))"

text \<open>\<^verbatim>\<open>t.strftime("%Y-%m-%d %H:%M UTC")\<close> of a time in microseconds.\<close>

definition strftime_utc :: "int \<Rightarrow> string" where
  "strftime_utc t =
     (case civil_date (t div 86400000000) of (y, m, d) \<Rightarrow>
        show_int y @ ''-'' @ two_digits m @ ''-'' @ two_digits d @ '' '' @
        two_digits (t div 3600000000 mod 24) @ '':'' @ two_digits (t div 60000000 mod 60) @ '' UTC'')"

text \<open>The nearest integer to a quotient of integers, ties to even.\<close>

definition round_quot :: "int \<Rightarrow> int \<Rightarrow> int" where
  "round_quot a b =
     (let q = a div b; r = a mod b
      in if 2 * r < b then q else if b < 2 * r then q + 1 else if even q then q else q + 1)"

text \<open>\<^verbatim>\<open>f"{a / b:.1f}"\<close> for \<open>0 \<le> a\<close> and \<open>0 < b\<close>: the quotient as the nearest number with a
  53-bit significand, then the nearest number of tenths. The exponent is the one that brings the
  significand into its range.\<close>

fun scale_up :: "nat \<Rightarrow> int \<Rightarrow> int \<Rightarrow> nat" where
  "scale_up 0 a b = 0"
| "scale_up (Suc fuel) a b = (if 2 ^ 52 * b \<le> a then 0 else Suc (scale_up fuel (2 * a) b))"

definition fmt_quotient1 :: "int \<Rightarrow> int \<Rightarrow> string" where
  "fmt_quotient1 a b =
     (let e = scale_up 128 a b;
          m = round_quot (a * 2 ^ e) b;
          tenths = round_quot (m * 10) (2 ^ e)
      in show_int (tenths div 10) @ ''.'' @ show_int (tenths mod 10))"

section \<open>Reading numbers back\<close>

lemma py_digit_ascii: "k < 10 \<Longrightarrow> py_digit (48 + k) = Some k"
  by (simp add: py_digit_def digit_zeros_def)

lemma ascii_digit:
  assumes "c \<in> set (show_nat n)"
  shows "48 \<le> (of_char c :: nat)" and "(of_char c :: nat) \<le> 57"
  using set_show_nat [OF assms] by simp_all

lemma digits_nat_append:
  "digits_nat a (s @ t) = (case digits_nat a s of None \<Rightarrow> None | Some b \<Rightarrow> digits_nat b t)"
  by (induction s arbitrary: a) (auto split: option.splits)

lemma digits_nat_show: "digits_nat 0 (of_ascii (show_nat n)) = Some n"
proof (induction n rule: show_nat.induct)
  case (1 n)
  show ?case
  proof (cases "n < 10")
    case True
    then show ?thesis by (simp add: show_nat.simps [of n] of_ascii_def py_digit_ascii)
  next
    case False
    with 1 have "digits_nat 0 (of_ascii (show_nat (n div 10))) = Some (n div 10)" by simp
    with False show ?thesis
      by (simp add: show_nat.simps [of n] of_ascii_def digits_nat_append py_digit_ascii)
  qed
qed

lemma no_underscores_id: "95 \<notin> set s \<Longrightarrow> no_underscores s = Some s"
  by (induction s rule: no_underscores.induct) auto

lemma of_ascii_show_range: "c \<in> set (of_ascii (show_nat n)) \<Longrightarrow> 48 \<le> c \<and> c \<le> 57"
  using set_show_nat by (auto simp: of_ascii_def)

lemma py_nat_show: "py_nat (of_ascii (show_nat n)) = Some n"
proof -
  have "95 \<notin> set (of_ascii (show_nat n))" using of_ascii_show_range [of 95 n] by auto
  then show ?thesis
    using show_nat_nonempty [of n] by (simp add: py_nat_def no_underscores_id digits_nat_show) (simp add: of_ascii_def)
qed

lemma dropWhile_none: "(\<And>c. c \<in> set s \<Longrightarrow> \<not> P c) \<Longrightarrow> dropWhile P s = s"
  by (cases s) auto

lemma py_strip_id: "(\<And>c. c \<in> set s \<Longrightarrow> \<not> py_space c) \<Longrightarrow> py_strip s = s"
  using dropWhile_none [of s py_space] dropWhile_none [of "rev s" py_space] by (simp add: py_strip_def)

lemma of_ascii_show_int:
  "of_ascii (show_int n) = (if n < 0 then 45 # of_ascii (show_nat (nat (- n))) else of_ascii (show_nat (nat n)))"
  by (simp add: show_int_def of_ascii_def)

lemma py_int_show: "py_int (of_ascii (show_int n)) = Some n"
proof -
  have space: "\<not> py_space c" if "c \<in> set (of_ascii (show_int n))" for c
    using that of_ascii_show_range by (fastforce simp: of_ascii_show_int py_space_def split: if_splits)
  obtain c cs where cons: "of_ascii (show_nat (nat n)) = c # cs"
    using show_nat_nonempty [of "nat n"] by (cases "of_ascii (show_nat (nat n))") (auto simp: of_ascii_def)
  have "48 \<le> c" using of_ascii_show_range [of c "nat n"] cons by simp
  then show ?thesis using cons py_nat_show [of "nat n"] py_nat_show [of "nat (- n)"]
    by (simp add: py_int_def py_strip_id [OF space] of_ascii_show_int)
qed

lemma commas_only_add: "CHR '','' \<notin> set ds \<Longrightarrow> filter (\<lambda>c. c \<noteq> CHR '','') (commas ds) = ds"
  by (induction ds rule: commas.induct) auto

lemma comma_not_in_show: "CHR '','' \<notin> set (show_nat n)"
  using set_show_nat [of "CHR '',''" n] by auto

lemma fmt_thousands_digits: "filter (\<lambda>c. c \<noteq> CHR '','') (fmt_thousands n) = show_int n"
  by (simp add: fmt_thousands_def show_int_def comma_not_in_show rev_filter [symmetric] commas_only_add)

end
