(* ===== verification/Forms.thy ===== *)
theory Forms
  imports Orchestration Text
begin

text \<open>
  What players and staff type into Discord forms: the models behind the deposit and withdraw form
  and the guide editor (\<^verbatim>\<open>deathroll_core/models/dw_pydantic.py\<close>) and the confirmation words of the
  forms that gate every movement of gold (\<^verbatim>\<open>deathroll_deposit_withdraw/views/modals.py\<close>). Discord
  hands over every field as text. The trimming of \<^verbatim>\<open>str_strip_whitespace\<close> is pydantic's and a
  parameter; no theorem asks anything of it.
\<close>

section \<open>Amounts\<close>

text \<open>\<^verbatim>\<open>_STRICT_INT_RE\<close>: a single zero, or a digit from 1 to 9 and decimal digits. The later
  digits may be of any script.\<close>

definition strict_int_match :: "pystr \<Rightarrow> bool" where
  "strict_int_match s =
     (case s of
        [] \<Rightarrow> False
      | c # cs \<Rightarrow> s = [48] \<or> 49 \<le> c \<and> c \<le> 57 \<and> list_all (\<lambda>c. py_digit c \<noteq> None) cs)"

datatype form_error =
    Value_error string
  | Literal_error
  | Length_error

definition parse_strict_int :: "pystr \<Rightarrow> string \<Rightarrow> form_error + int" where
  "parse_strict_int v field_name =
     (let stripped = py_strip v
      in if \<not> strict_int_match stripped
         then Inl (Value_error (field_name @ '' must be a non-negative integer with no separators '' @
           ''or suffixes (examples: 100, 25000, 500000)''))
         else case py_int stripped of
             None \<Rightarrow> Inl (Value_error (''invalid literal for int() with base 10''))
           | Some n \<Rightarrow> Inr n)"

definition parse_form_amount :: "pystr \<Rightarrow> form_error + int" where
  "parse_form_amount v =
     bindE (parse_strict_int v ''amount'') (\<lambda>parsed.
     raise_if (parsed \<le> 0) (Value_error ''amount must be strictly positive'')
     (raise_if (parsed > 10 ^ 18) (Value_error ''amount too large'')
     (Inr parsed)))"

section \<open>The ticket form\<close>

text \<open>\<^verbatim>\<open>_CHAR_NAME_RE\<close>: the ASCII letters and everything from \<^verbatim>\<open>U+00C0\<close> to \<^verbatim>\<open>U+00FF\<close>.\<close>

definition name_char :: "nat \<Rightarrow> bool" where
  "name_char c \<longleftrightarrow> 65 \<le> c \<and> c \<le> 90 \<or> 97 \<le> c \<and> c \<le> 122 \<or> 192 \<le> c \<and> c \<le> 255"

definition validate_char_name :: "pystr \<Rightarrow> form_error + pystr" where
  "validate_char_name v =
     (if \<not> (2 \<le> length v \<and> length v \<le> 12) then Inl (Value_error ''character name must be 2-12 characters'')
      else if \<not> list_all name_char v
      then Inl (Value_error ''character name must contain only letters (no digits, no spaces, no punctuation)'')
      else Inr v)"

definition validate_realm :: "pystr \<Rightarrow> form_error + pystr" where
  "validate_realm v =
     (if \<not> (3 \<le> length v \<and> length v \<le> 30) then Inl (Value_error ''realm must be 3-30 characters'') else Inr v)"

text \<open>Normalised first, then checked against the literals of the field type.\<close>

definition literal :: "pystr list \<Rightarrow> pystr \<Rightarrow> form_error + pystr" where
  "literal allowed v = (if v \<in> set allowed then Inr v else Inl Literal_error)"

definition normalize_region :: "pystr \<Rightarrow> pystr" where
  "normalize_region v = ascii_upper (py_strip v)"

definition normalize_faction :: "pystr \<Rightarrow> pystr" where
  "normalize_faction v =
     (let stripped = ascii_lower (py_strip v)
      in if stripped = of_ascii ''alliance'' then of_ascii ''Alliance''
         else if stripped = of_ascii ''horde'' then of_ascii ''Horde''
         else v)"

text \<open>The text as the player typed it.\<close>

record raw_form =
  rf_char_name :: pystr
  rf_realm :: pystr
  rf_region :: pystr
  rf_faction :: pystr
  rf_amount :: pystr

definition field_errors :: "string \<Rightarrow> form_error + 'a \<Rightarrow> (string \<times> form_error) list" where
  "field_errors loc m = (case m of Inl e \<Rightarrow> [(loc, e)] | Inr _ \<Rightarrow> [])"

text \<open>The model collects the errors of all fields, or holds the validated values.\<close>

definition modal_base :: "(pystr \<Rightarrow> pystr) \<Rightarrow> raw_form \<Rightarrow> (string \<times> form_error) list + modal_input" where
  "modal_base trim f =
     (let char_name = validate_char_name (trim (rf_char_name f));
          realm = validate_realm (trim (rf_realm f));
          region = literal [of_ascii ''EU'', of_ascii ''NA''] (normalize_region (rf_region f));
          faction = literal [of_ascii ''Alliance'', of_ascii ''Horde''] (normalize_faction (rf_faction f));
          amount = parse_form_amount (rf_amount f)
      in case (char_name, realm, region, faction, amount) of
           (Inr c, Inr r, Inr g, Inr fa, Inr n) \<Rightarrow>
             Inr \<lparr>mi_char_name = utf8 c, mi_realm = utf8 r, mi_region = utf8 g, mi_faction = utf8 fa, mi_amount = n\<rparr>
         | _ \<Rightarrow> Inl (field_errors ''char_name'' char_name @ field_errors ''realm'' realm @
                 field_errors ''region'' region @ field_errors ''faction'' faction @ field_errors ''amount'' amount))"

section \<open>The guide form\<close>

definition edit_dynamic_embed_input ::
    "(pystr \<Rightarrow> pystr) \<Rightarrow> pystr \<Rightarrow> pystr \<Rightarrow> (string \<times> form_error) list + (pystr \<times> pystr)" where
  "edit_dynamic_embed_input trim title description =
     (let t = trim title; d = trim description;
          t_ok = (1 \<le> length t \<and> length t \<le> 256); d_ok = (1 \<le> length d \<and> length d \<le> 4000)
      in if t_ok \<and> d_ok then Inr (t, d)
         else Inl ((if t_ok then [] else [(''title'', Length_error)]) @
                   (if d_ok then [] else [(''description'', Length_error)])))"

section \<open>Confirmation words\<close>

definition is_magic_word_match :: "pystr \<Rightarrow> string \<Rightarrow> bool" where
  "is_magic_word_match supplied expected \<longleftrightarrow> py_strip supplied = of_ascii expected"

definition retyped_amount :: "pystr \<Rightarrow> int option" where
  "retyped_amount amount_str = py_int (filter (\<lambda>c. c \<noteq> 95) (filter (\<lambda>c. c \<noteq> 44) (py_strip amount_str)))"

definition cancelled_text :: string where
  "cancelled_text = utf8_char 0x274C @ '' Cancelled '' @ utf8_char 0x2014 @ '' ''"

definition amount_check :: "pystr \<Rightarrow> int \<Rightarrow> string option" where
  "amount_check amount_str expected_amount =
     (case retyped_amount amount_str of
        None \<Rightarrow> Some (cancelled_text @ ''amount `'' @ utf8 amount_str @ ''` is not an integer.'')
      | Some re_typed \<Rightarrow>
          if re_typed \<noteq> expected_amount
          then Some (cancelled_text @ ''amount mismatch (typed '' @ fmt_thousands re_typed @ '', expected '' @
                 fmt_thousands expected_amount @ '').'')
          else None)"

definition validate_treasury_sweep_confirm :: "pystr \<Rightarrow> pystr \<Rightarrow> int \<Rightarrow> string option" where
  "validate_treasury_sweep_confirm magic_word amount_str expected_amount =
     (if \<not> is_magic_word_match magic_word ''SWEEP''
      then Some (cancelled_text @ ''expected to read `SWEEP` exactly.'')
      else amount_check amount_str expected_amount)"

definition validate_treasury_withdraw_confirm :: "pystr \<Rightarrow> pystr \<Rightarrow> int \<Rightarrow> pystr \<Rightarrow> int \<Rightarrow> string option" where
  "validate_treasury_withdraw_confirm magic_word amount_str expected_amount user_id_str expected_user_id =
     (if \<not> is_magic_word_match magic_word ''TREASURY-WITHDRAW''
      then Some (cancelled_text @ ''expected to read `TREASURY-WITHDRAW` exactly.'')
      else case amount_check amount_str expected_amount of
        Some err \<Rightarrow> Some err
      | None \<Rightarrow>
          (case py_int (py_strip user_id_str) of
             None \<Rightarrow> Some (cancelled_text @ ''user id `'' @ utf8 user_id_str @ ''` is not numeric.'')
           | Some re_typed_user \<Rightarrow>
               if re_typed_user \<noteq> expected_user_id
               then Some (cancelled_text @ ''user id mismatch (typed `'' @ show_int re_typed_user @
                      ''`, expected `'' @ show_int expected_user_id @ ''`).'')
               else None))"

section \<open>Validated forms\<close>

lemma literal_Inr: "literal allowed v = Inr w \<longleftrightarrow> w = v \<and> v \<in> set allowed"
  by (auto simp: literal_def)

lemma field_errors_Nil: "field_errors loc m = [] \<longleftrightarrow> (\<exists>x. m = Inr x)"
  by (cases m) (simp_all add: field_errors_def)

lemma modal_base_Inr:
  assumes "modal_base trim f = Inr p"
  obtains "validate_char_name (trim (rf_char_name f)) = Inr (trim (rf_char_name f))"
    "validate_realm (trim (rf_realm f)) = Inr (trim (rf_realm f))"
    "normalize_region (rf_region f) \<in> {of_ascii ''EU'', of_ascii ''NA''}"
    "normalize_faction (rf_faction f) \<in> {of_ascii ''Alliance'', of_ascii ''Horde''}"
    "parse_form_amount (rf_amount f) = Inr (mi_amount p)"
    "mi_char_name p = utf8 (trim (rf_char_name f))" "mi_realm p = utf8 (trim (rf_realm f))"
    "mi_region p = utf8 (normalize_region (rf_region f))" "mi_faction p = utf8 (normalize_faction (rf_faction f))"
  using assms
  by (auto simp: modal_base_def Let_def literal_def validate_char_name_def validate_realm_def split: sum.splits if_splits)

lemma utf8_ascii: "(\<And>c. c \<in> set s \<Longrightarrow> (of_char c :: nat) < 128) \<Longrightarrow> utf8 (of_ascii s) = s"
  by (induction s) (simp_all add: utf8_def of_ascii_def utf8_char_def)

lemma utf8_literals [simp]:
  "utf8 (of_ascii ''EU'') = ''EU''" "utf8 (of_ascii ''NA'') = ''NA''"
  "utf8 (of_ascii ''Alliance'') = ''Alliance''" "utf8 (of_ascii ''Horde'') = ''Horde''"
  by (rule utf8_ascii; auto)+

lemma modal_base_region: "modal_base trim f = Inr p \<Longrightarrow> valid_region (mi_region p)"
  by (erule modal_base_Inr) (auto simp: valid_region_def)

lemma modal_base_faction: "modal_base trim f = Inr p \<Longrightarrow> valid_faction (mi_faction p)"
  by (erule modal_base_Inr) (auto simp: valid_faction_def)

lemma modal_base_amount: "modal_base trim f = Inr p \<Longrightarrow> 0 < mi_amount p \<and> mi_amount p \<le> 10 ^ 18"
  by (erule modal_base_Inr) (auto simp: parse_form_amount_def raise_simps)

lemma utf8_length: "length (utf8 s) \<le> 4 * length s"
  by (induction s) (auto simp: utf8_def utf8_char_def)

text \<open>A name of letters takes at most two bytes per character.\<close>

lemma utf8_name: "list_all name_char s \<Longrightarrow> length (utf8 s) \<le> 2 * length s"
  by (induction s) (auto simp: utf8_def utf8_char_def name_char_def)

lemma utf8_nonempty: "length s \<le> length (utf8 s)"
  by (induction s) (auto simp: utf8_def utf8_char_def)

text \<open>C15: A form that passes validation carries typed data: a region and a faction of the game, a
  name of two to twelve name characters, a realm of three to thirty characters and an amount from 1
  to \<open>10 ^ 18\<close>. Opening a ticket with such data, in any database with a configured chain key, never
  ends in the outcome \<^verbatim>\<open>InvalidInput\<close>: the checks of the stored functions on region and faction are
  unreachable from the form.\<close>

theorem form_payload_typed:
  assumes "modal_base trim f = Inr p"
  shows "valid_region (mi_region p) \<and> valid_faction (mi_faction p) \<and> 0 < mi_amount p \<and> mi_amount p \<le> 10 ^ 18
    \<and> (\<exists>c. mi_char_name p = utf8 c \<and> 2 \<le> length c \<and> length c \<le> 12 \<and> list_all name_char c)
    \<and> (\<exists>r. mi_realm p = utf8 r \<and> 3 \<le> length r \<and> length r \<le> 30)
    \<and> (chain_key e E = Inr k \<longrightarrow>
        fst (open_deposit_ticket E p u th pc d) \<noteq> Inr (Deposit_InvalidInput msg)
        \<and> fst (open_withdraw_ticket E p u th pc d) \<noteq> Inr (Withdraw_InvalidInput msg))"
proof (intro conjI impI)
  show reg: "valid_region (mi_region p)" and fac: "valid_faction (mi_faction p)"
    using assms by (rule modal_base_region, rule modal_base_faction)
  show "0 < mi_amount p" and "mi_amount p \<le> 10 ^ 18" using modal_base_amount [OF assms] by simp_all
  show "\<exists>c. mi_char_name p = utf8 c \<and> 2 \<le> length c \<and> length c \<le> 12 \<and> list_all name_char c"
    and "\<exists>r. mi_realm p = utf8 r \<and> 3 \<le> length r \<and> length r \<le> 30"
    using assms by (auto elim!: modal_base_Inr simp: validate_char_name_def validate_realm_def split: if_splits)
  assume key: "chain_key e E = Inr k"
  show "fst (open_deposit_ticket E p u th pc d) \<noteq> Inr (Deposit_InvalidInput msg)"
    unfolding open_deposit_ticket_def apply_deposit_ticket_def
    by (rule never_outcome [OF create_deposit_raises [OF key reg fac]]) auto
  show "fst (open_withdraw_ticket E p u th pc d) \<noteq> Inr (Withdraw_InvalidInput msg)"
    unfolding open_withdraw_ticket_def apply_withdraw_ticket_def
    by (rule never_outcome [OF create_withdraw_raises [OF key reg fac]]) auto
qed

definition demo_raw :: raw_form where
  "demo_raw = \<lparr>rf_char_name = of_ascii ''Malesyrup'', rf_realm = of_ascii ''Stormrage'', rf_region = of_ascii '' eu'',
     rf_faction = of_ascii ''HORDE '', rf_amount = of_ascii ''2000''\<rparr>"

lemma demo_raw_form:
  "modal_base py_strip demo_raw = Inr \<lparr>mi_char_name = ''Malesyrup'', mi_realm = ''Stormrage'', mi_region = ''EU'',
     mi_faction = ''Horde'', mi_amount = 2000\<rparr>"
  by (simp add: modal_base_def demo_raw_def validate_char_name_def validate_realm_def literal_def normalize_region_def
      normalize_faction_def parse_form_amount_def parse_strict_int_def strict_int_match_def of_ascii_def py_strip_def
      py_space_def name_char_def ascii_upper_def ascii_lower_def py_int_def py_nat_def py_digit_def digit_zeros_def
      utf8_def utf8_char_def char_of_def bit_Suc_0_iff Let_def)

theorem form_payload_typed_witness:
  "\<exists>p. modal_base py_strip demo_raw = Inr p \<and> mi_amount p = 2000 \<and> valid_faction (mi_faction p)
    \<and> fst (open_deposit_ticket demo_env p 7 99 12 demo_db) \<noteq> Inr (Deposit_InvalidInput [])"
proof -
  let ?p = "\<lparr>mi_char_name = ''Malesyrup'', mi_realm = ''Stormrage'', mi_region = ''EU'', mi_faction = ''Horde'', mi_amount = 2000\<rparr>"
  have "valid_faction (mi_faction ?p) \<and> fst (open_deposit_ticket demo_env ?p 7 99 12 demo_db) \<noteq> Inr (Deposit_InvalidInput [])"
    using form_payload_typed [OF demo_raw_form, of Audit_chain_key_not_configured demo_env "[10, 11]" 7 99 12 demo_db "[]"] demo_key
    by blast
  then show ?thesis by (intro exI [of _ ?p] conjI demo_raw_form) (simp_all only: modal_input.select_convs simp_thms)
qed

section \<open>Confirmation forms\<close>

lemma of_ascii_filter: "filter (\<lambda>c. c \<noteq> of_char x) (of_ascii s) = of_ascii (filter (\<lambda>c. c \<noteq> x) s)"
  by (induction s) (auto simp: of_ascii_def)

lemma fmt_thousands_chars:
  "c \<in> set (of_ascii (fmt_thousands n)) \<Longrightarrow> c = 44 \<or> c = 45 \<or> 48 \<le> c \<and> c \<le> 57"
proof -
  assume "c \<in> set (of_ascii (fmt_thousands n))"
  then have "c = 44 \<or> c \<in> set (filter (\<lambda>c. c \<noteq> of_char (CHR '','')) (of_ascii (fmt_thousands n)))" by auto
  then have "c = 44 \<or> c \<in> set (of_ascii (show_int n))"
    by (simp only: of_ascii_filter fmt_thousands_digits)
  then show ?thesis using of_ascii_show_range by (auto simp: of_ascii_show_int split: if_splits)
qed

lemma retyped_thousands: "retyped_amount (of_ascii (fmt_thousands n)) = Some n"
proof -
  have no95: "c \<noteq> 95" if "c \<in> set (of_ascii (show_int n))" for c
    using that of_ascii_show_range by (fastforce simp: of_ascii_show_int split: if_splits)
  have "py_strip (of_ascii (fmt_thousands n)) = of_ascii (fmt_thousands n)"
    using fmt_thousands_chars by (intro py_strip_id) (fastforce simp: py_space_def)
  moreover have "filter (\<lambda>c. c \<noteq> 44) (of_ascii (fmt_thousands n)) = of_ascii (show_int n)"
    using of_ascii_filter [of "CHR '',''" "fmt_thousands n"] by (simp add: fmt_thousands_digits)
  ultimately show ?thesis using no95 by (simp add: retyped_amount_def filter_True py_int_show)
qed

lemma retyped_number: "py_int (py_strip (of_ascii (show_int n))) = Some n"
proof -
  have "\<not> py_space c" if "c \<in> set (of_ascii (show_int n))" for c
    using that of_ascii_show_range by (fastforce simp: of_ascii_show_int py_space_def split: if_splits)
  then show ?thesis by (simp add: py_strip_id py_int_show)
qed

lemma sweep_confirm_None:
  "validate_treasury_sweep_confirm w a n = None \<longleftrightarrow> py_strip w = of_ascii ''SWEEP'' \<and> retyped_amount a = Some n"
  by (auto simp: validate_treasury_sweep_confirm_def is_magic_word_match_def amount_check_def split: option.splits)

lemma withdraw_confirm_None:
  "validate_treasury_withdraw_confirm w a n i u = None \<longleftrightarrow>
     py_strip w = of_ascii ''TREASURY-WITHDRAW'' \<and> retyped_amount a = Some n \<and> py_int (py_strip i) = Some u"
  by (auto simp: validate_treasury_withdraw_confirm_def is_magic_word_match_def amount_check_def split: option.splits)

end
