(* ===== verification/Limiter.thy ===== *)
theory Limiter
  imports Prelude
begin

text \<open>
  The in-memory rate limiter of the slash commands (\<^verbatim>\<open>deathroll_core/ratelimit/__init__.py\<close>): per
  key the times of the recent grants, pruned on every call. Despite its name the class slides its
  window; the specification is the full record of grants, of which a call counts those inside the
  window that ends now. Times are readings of a monotonic clock, here integers.
\<close>

section \<open>The limiter\<close>

record limiter =
  lm_capacity :: int
  lm_window :: int
  lm_buckets :: "int \<rightharpoonup> int list"

datatype limiter_error = Capacity_must_be_positive | Window_must_be_positive

definition new_limiter :: "int \<Rightarrow> int \<Rightarrow> limiter_error + limiter" where
  "new_limiter capacity window_seconds =
     (if capacity \<le> 0 then Inl Capacity_must_be_positive
      else if window_seconds \<le> 0 then Inl Window_must_be_positive
      else Inr \<lparr>lm_capacity = capacity, lm_window = window_seconds, lm_buckets = Map.empty\<rparr>)"

definition bucket_of :: "limiter \<Rightarrow> int \<Rightarrow> int list" where
  "bucket_of l key = (case lm_buckets l key of None \<Rightarrow> [] | Some b \<Rightarrow> b)"

definition acquire :: "int \<Rightarrow> int \<Rightarrow> limiter \<Rightarrow> bool \<times> limiter" where
  "acquire key t l =
     (let cutoff = t - lm_window l;
          bucket = dropWhile (\<lambda>s. s \<le> cutoff) (bucket_of l key)
      in if int (length bucket) \<ge> lm_capacity l then (False, l\<lparr>lm_buckets := (lm_buckets l)(key \<mapsto> bucket)\<rparr>)
         else (True, l\<lparr>lm_buckets := (lm_buckets l)(key \<mapsto> bucket @ [t])\<rparr>))"

fun acquire_all :: "(int \<times> int) list \<Rightarrow> limiter \<Rightarrow> bool list" where
  "acquire_all [] l = []"
| "acquire_all ((key, t) # cs) l = (case acquire key t l of (ok, l') \<Rightarrow> ok # acquire_all cs l')"

section \<open>The specification\<close>

text \<open>The grants so far, as keys with times.\<close>

definition recent :: "int \<Rightarrow> int \<Rightarrow> int \<Rightarrow> (int \<times> int) list \<Rightarrow> int list" where
  "recent w key t gs = map snd (filter (\<lambda>(k, s). k = key \<and> t - w < s) gs)"

fun grant_all :: "int \<Rightarrow> int \<Rightarrow> (int \<times> int) list \<Rightarrow> (int \<times> int) list \<Rightarrow> bool list" where
  "grant_all c w [] gs = []"
| "grant_all c w ((key, t) # cs) gs =
     (let ok = int (length (recent w key t gs)) < c
      in ok # grant_all c w cs (if ok then gs @ [(key, t)] else gs))"

text \<open>The calls that were granted, with their times.\<close>

definition granted :: "(int \<times> int) list \<Rightarrow> bool list \<Rightarrow> (int \<times> int) list" where
  "granted cs oks = map fst (filter snd (zip cs oks))"

section \<open>Refinement\<close>

text \<open>Until time \<open>T\<close>: pruning a bucket at any later time leaves what the record has in the window.\<close>

definition tracks :: "int \<Rightarrow> limiter \<Rightarrow> (int \<times> int) list \<Rightarrow> bool" where
  "tracks T l gs \<longleftrightarrow>
     (\<forall>key t. T \<le> t \<longrightarrow> dropWhile (\<lambda>s. s \<le> t - lm_window l) (bucket_of l key) = recent (lm_window l) key t gs)
     \<and> (\<forall>key. \<forall>s \<in> set (bucket_of l key). s \<le> T) \<and> (\<forall>g \<in> set gs. snd g \<le> T)"

lemma tracksD:
  assumes "tracks T l gs"
  shows "T \<le> t \<Longrightarrow> dropWhile (\<lambda>s. s \<le> t - lm_window l) (bucket_of l key) = recent (lm_window l) key t gs"
    and "s \<in> set (bucket_of l key) \<Longrightarrow> s \<le> T" and "g \<in> set gs \<Longrightarrow> snd g \<le> T"
  using assms by (auto simp: tracks_def)

lemma dropWhile_twice: "(\<And>x. P x \<Longrightarrow> Q x) \<Longrightarrow> dropWhile Q (dropWhile P xs) = dropWhile Q xs"
  by (induction xs) auto

lemma dropWhile_snoc_new: "\<not> P t \<Longrightarrow> dropWhile P (xs @ [t]) = dropWhile P xs @ [t]"
  by (induction xs) auto

lemma dropWhile_all: "(\<And>x. x \<in> set xs \<Longrightarrow> P x) \<Longrightarrow> dropWhile P xs = []"
  by (induction xs) auto

lemma recent_snoc: "recent w key t (gs @ [(k, s)]) = recent w key t gs @ (if k = key \<and> t - w < s then [s] else [])"
  by (simp add: recent_def)

lemma recent_empty: "(\<And>g. g \<in> set gs \<Longrightarrow> snd g \<le> t - w) \<Longrightarrow> recent w key t gs = []"
  by (fastforce simp: recent_def filter_empty_conv)

lemma pruned_bucket:
  assumes tr: "tracks T l gs" and T: "T \<le> t" "t \<le> t'"
  shows "dropWhile (\<lambda>s. s \<le> t' - lm_window l)
      (dropWhile (\<lambda>s. s \<le> t - lm_window l) (bucket_of l key) @ (if ok then [t] else [])) =
    recent (lm_window l) key t' (if ok then gs @ [(key, t)] else gs)"
proof -
  let ?b = "dropWhile (\<lambda>s. s \<le> t - lm_window l) (bucket_of l key)"
  have twice: "dropWhile (\<lambda>s. s \<le> t' - lm_window l) ?b = recent (lm_window l) key t' gs"
    using tracksD(1) [OF tr, of t' key] T by (subst dropWhile_twice) auto
  have old: "s \<le> t" if "s \<in> set ?b" for s
    using tracksD(2) [OF tr, of s key] set_dropWhileD [OF that] T by simp
  show ?thesis
  proof (cases "t \<le> t' - lm_window l")
    case True
    then have "dropWhile (\<lambda>s. s \<le> t' - lm_window l) (?b @ (if ok then [t] else [])) = []"
      using old by (intro dropWhile_all) (fastforce split: if_splits)
    moreover have "recent (lm_window l) key t' gs = []"
      using True old by (simp flip: twice) (fastforce intro: dropWhile_all)
    ultimately show ?thesis using True by (simp add: recent_snoc)
  next
    case False
    then show ?thesis using twice by (simp add: dropWhile_snoc_new recent_snoc)
  qed
qed

lemma acquire_tracks:
  assumes tr: "tracks T l gs" and T: "T \<le> t" and ac: "acquire key t l = (ok, l')"
  shows "ok \<longleftrightarrow> int (length (recent (lm_window l) key t gs)) < lm_capacity l"
    and "tracks t l' (if ok then gs @ [(key, t)] else gs)"
    and "lm_window l' = lm_window l" and "lm_capacity l' = lm_capacity l"
proof -
  let ?b = "dropWhile (\<lambda>s. s \<le> t - lm_window l) (bucket_of l key)"
  have b: "?b = recent (lm_window l) key t gs" using tracksD(1) [OF tr T] .
  show "ok \<longleftrightarrow> int (length (recent (lm_window l) key t gs)) < lm_capacity l"
    and win: "lm_window l' = lm_window l" and "lm_capacity l' = lm_capacity l"
    using ac b by (auto simp: acquire_def Let_def split: if_splits)
  have bkt: "bucket_of l' k = (if k = key then ?b @ (if ok then [t] else []) else bucket_of l k)" for k
    using ac by (auto simp: acquire_def Let_def bucket_of_def split: if_splits)
  have old: "s \<le> t" if "s \<in> set (bucket_of l' k)" for s k
    using that tracksD(2) [OF tr, of s] T by (fastforce simp: bkt split: if_splits dest: set_dropWhileD)
  have "dropWhile (\<lambda>s. s \<le> t' - lm_window l) (bucket_of l' k) =
      recent (lm_window l) k t' (if ok then gs @ [(key, t)] else gs)" if "t \<le> t'" for k t'
  proof (cases "k = key")
    case True
    then show ?thesis using pruned_bucket [OF tr T that, of key ok] by (simp only: bkt simp_thms if_True)
  next
    case False
    then show ?thesis using tracksD(1) [OF tr, of t' k] T that by (simp add: bkt recent_snoc)
  qed
  moreover have "snd g \<le> t" if "g \<in> set (if ok then gs @ [(key, t)] else gs)" for g
    using that tracksD(3) [OF tr, of g] T by (fastforce split: if_splits)
  ultimately show "tracks t l' (if ok then gs @ [(key, t)] else gs)"
    using old by (simp add: tracks_def win del: set_append)
qed

lemma acquire_all_refines:
  assumes "tracks T l gs" and "sorted (T # map snd cs)"
  shows "acquire_all cs l = grant_all (lm_capacity l) (lm_window l) cs gs"
  using assms
proof (induction cs arbitrary: T l gs)
  case (Cons kt cs)
  obtain key t where kt: "kt = (key, t)" by (cases kt)
  obtain ok l' where ac: "acquire key t l = (ok, l')" by (cases "acquire key t l")
  have T: "T \<le> t" "sorted (t # map snd cs)" using Cons.prems(2) kt by auto
  note step = acquire_tracks [OF Cons.prems(1) T(1) ac]
  from Cons.IH [OF step(2) T(2)] step show ?case by (simp add: kt ac Let_def)
qed simp

lemma new_tracks: "new_limiter c w = Inr l \<Longrightarrow> tracks T l [] \<and> lm_capacity l = c \<and> lm_window l = w \<and> 0 < c \<and> 0 < w"
  by (auto simp: new_limiter_def tracks_def bucket_of_def recent_def split: if_splits)

section \<open>The quota\<close>

text \<open>In the record no window holds more grants of a key than the capacity.\<close>

definition within_quota :: "int \<Rightarrow> int \<Rightarrow> (int \<times> int) list \<Rightarrow> bool" where
  "within_quota c w gs \<longleftrightarrow>
     (\<forall>key a. int (length (filter (\<lambda>(k, s). k = key \<and> a < s \<and> s \<le> a + w) gs)) \<le> c)"

lemma granted_Cons [simp]: "granted (x # cs) (ok # oks) = (if ok then x # granted cs oks else granted cs oks)"
  by (simp add: granted_def)

lemma within_quota_snoc:
  assumes q: "within_quota c w gs" and lim: "int (length (recent w key t gs)) < c" and T: "\<And>g. g \<in> set gs \<Longrightarrow> snd g \<le> t"
  shows "within_quota c w (gs @ [(key, t)])"
  unfolding within_quota_def
proof (intro allI)
  fix k a :: int
  let ?P = "\<lambda>(k', s). k' = k \<and> a < s \<and> s \<le> a + w"
  show "int (length (filter ?P (gs @ [(key, t)]))) \<le> c"
  proof (cases "k = key \<and> a < t \<and> t \<le> a + w")
    case True
    then have eq: "filter ?P gs = filter ?P (filter (\<lambda>(k', s). k' = key \<and> t - w < s) gs)"
      by (auto intro!: filter_cong)
    have "length (filter ?P gs) \<le> length (recent w key t gs)"
      unfolding recent_def length_map by (subst eq) (rule length_filter_le)
    with True lim show ?thesis by simp
  next
    case False
    then show ?thesis using q by (auto simp: within_quota_def)
  qed
qed

lemma grant_all_quota:
  assumes "within_quota c w gs" and "\<And>g. g \<in> set gs \<Longrightarrow> snd g \<le> T" and "sorted (T # map snd cs)"
  shows "within_quota c w (gs @ granted cs (grant_all c w cs gs))"
  using assms
proof (induction cs arbitrary: T gs)
  case (Cons kt cs)
  obtain key t where kt: "kt = (key, t)" by (cases kt)
  have T: "T \<le> t" "sorted (t # map snd cs)" using Cons.prems(3) kt by auto
  let ?ok = "int (length (recent w key t gs)) < c"
  let ?gs = "if ?ok then gs @ [(key, t)] else gs"
  have le: "snd g \<le> t" if "g \<in> set gs" for g using Cons.prems(2) [OF that] T(1) by simp
  have "within_quota c w ?gs" using within_quota_snoc [OF Cons.prems(1) _ le] Cons.prems(1) by simp
  from Cons.IH [OF this _ T(2)] le show ?case by (fastforce simp: kt Let_def split: if_splits)
qed (simp add: granted_def)

text \<open>C23: The limiter is a sliding window. A new limiter with capacity \<open>c\<close> and window \<open>w\<close>, asked at
  non-decreasing times, answers every call as the specification does that counts the grants of the
  last \<open>w\<close> time units; so in no stretch of length \<open>w\<close> does a key get more than \<open>c\<close> grants, and a
  denial does not count against the key.\<close>

theorem limiter_sliding_window:
  assumes "new_limiter c w = Inr l" and "sorted (map snd cs)"
  shows "acquire_all cs l = grant_all c w cs []
    \<and> int (length (filter (\<lambda>(k, s). k = key \<and> a < s \<and> s \<le> a + w) (granted cs (acquire_all cs l)))) \<le> c"
proof -
  let ?T = "case cs of [] \<Rightarrow> 0 | x # _ \<Rightarrow> snd x"
  have T: "sorted (?T # map snd cs)" using assms(2) by (cases cs) auto
  note new = new_tracks [OF assms(1), of ?T]
  have eq: "acquire_all cs l = grant_all c w cs []"
    using acquire_all_refines [of ?T l "[]", OF _ T] new by auto
  have "within_quota c w ([] @ granted cs (grant_all c w cs []))"
    using new T by (intro grant_all_quota [of c w "[]" ?T]) (auto simp: within_quota_def)
  then show ?thesis using eq by (simp add: within_quota_def)
qed

theorem limiter_sliding_window_witness:
  "\<exists>l. new_limiter 1 60 = Inr l
    \<and> acquire_all [(7, 0), (7, 59), (8, 59), (7, 60)] l = [True, False, True, True]
    \<and> int (length (filter (\<lambda>(k, s). k = 7 \<and> 0 < s \<and> s \<le> 0 + 60)
        (granted [(7, 0), (7, 59), (8, 59), (7, 60)] (acquire_all [(7, 0), (7, 59), (8, 59), (7, 60)] l)))) \<le> 1"
proof -
  obtain l where l: "new_limiter 1 60 = Inr l" by (simp add: new_limiter_def)
  have "sorted (map snd [(7::int, 0::int), (7, 59), (8, 59), (7, 60)])" by simp
  from limiter_sliding_window [OF l this, of 7 0] show ?thesis
    by (intro exI [of _ l]) (simp add: l, simp add: recent_def granted_def)
qed

end
