(* ===== verification/Settings.thy ===== *)
theory Settings
  imports Orchestration
begin

text \<open>
  The table \<^verbatim>\<open>dw.global_config\<close> in the hands of the bots. The stored functions read it and never
  write it; a bot writes a limit or the fee only after checking its value. What the bots may do is
  the predicate \<open>bot_call\<close>, the databases they reach are \<open>bot_reach\<close>, and the locale \<open>kept_by_bots\<close> is
  the contract of a property they all keep.
\<close>

section \<open>The calls of the bots\<close>

definition limit_keys :: "string list" where
  "limit_keys = [''min_deposit_g'', ''max_deposit_g'', ''min_withdraw_g'', ''max_withdraw_g'']"

definition setting_ok :: "string \<Rightarrow> int \<Rightarrow> bool" where
  "setting_ok k v \<longleftrightarrow> (k \<in> set limit_keys \<longrightarrow> 0 < v) \<and> (k = ''withdraw_fee_bps'' \<longrightarrow> 0 \<le> v \<and> v \<le> 10000)"

fun bot_call :: "call \<Rightarrow> bool" where
  "bot_call (Set_config k v a) = setting_ok k v"
| "bot_call _ = True"

inductive bot_reach :: "pg_env \<Rightarrow> db \<Rightarrow> db \<Rightarrow> bool" for E d0 where
  init: "bot_reach E d0 d0"
| step: "bot_reach E d0 d \<Longrightarrow> bot_call c \<Longrightarrow> exec (E\<lparr>now := t\<rparr>) c d = Inr d' \<Longrightarrow> bot_reach E d0 d'"

lemma bot_reach_reach: "bot_reach E d0 d \<Longrightarrow> reach E d0 d"
  by (induction rule: bot_reach.induct) (auto intro: reach.intros)

lemma bot_reach_run: "list_all (\<lambda>(t, c). bot_call c) cs \<Longrightarrow> bot_reach E d0 d \<Longrightarrow> bot_reach E d0 (run E cs d)"
proof (induction cs arbitrary: d)
  case (Cons tc cs)
  then show ?case by (cases tc) (auto simp: transact_def split: sum.splits intro: bot_reach.step)
qed simp

lemma demo_bot_reach: "bot_reach demo_env (initial_db 0) demo_db"
  unfolding demo_db_def by (rule bot_reach_run [OF _ bot_reach.init]) (simp add: demo_calls_def)

locale kept_by_bots =
  fixes E :: pg_env and I :: "db \<Rightarrow> bool"
  assumes step: "I d \<Longrightarrow> bot_call c \<Longrightarrow> exec (E\<lparr>now := t\<rparr>) c d = Inr d' \<Longrightarrow> I d'"
begin

lemma kept: "bot_reach E d0 d \<Longrightarrow> I d0 \<Longrightarrow> I d"
  by (induction rule: bot_reach.induct) (auto intro: step)

end

section \<open>Stored functions leave the settings alone\<close>

text \<open>The tables that most functions have nothing to do with.\<close>

definition aside :: "db \<Rightarrow> db \<Rightarrow> bool" where
  "aside d d' \<longleftrightarrow> dw_config d' = dw_config d \<and> cashier_characters d' = cashier_characters d \<and> cashier_status d' = cashier_status d"

named_theorems settings_frame \<open>statements that keep the settings\<close>

lemma audit_settings [settings_frame]: "audit_log_insert_with_chain E a d = Inr (i, d') \<Longrightarrow> aside d d'"
  by (auto simp: aside_def audit_log_insert_with_chain_def insert_audit_row_def not_null_def raise_if_def bindE_def Let_def
      split: option.splits sum.splits if_splits prod.splits)

lemma statement_settings [settings_frame]:
  "update_balance u f d = Inr d' \<Longrightarrow> aside d d'"
  "insert_balance E u d = Inr d' \<Longrightarrow> aside d d'"
  "upsert_stats c g d = Inr d' \<Longrightarrow> aside d d'"
  "insert_deposit_ticket t d = Inr d' \<Longrightarrow> aside d d'"
  "insert_withdraw_ticket wt d = Inr d' \<Longrightarrow> aside d d'"
  "update_deposit_ticket ky k tf d = Inr d' \<Longrightarrow> aside d d'"
  "update_withdraw_ticket ky' k wg d = Inr d' \<Longrightarrow> aside d d'"
  "insert_bet b d = Inr d' \<Longrightarrow> aside d d'"
  "update_pool q n d = Inr d' \<Longrightarrow> aside d d'"
  by (auto simp: aside_def update_balance_def insert_balance_def upsert_stats_def update_deposit_ticket_def update_withdraw_ticket_def
      insert_deposit_ticket_def insert_withdraw_ticket_def insert_bet_def update_pool_def raise_if_def bindE_def Let_def
      split: option.splits sum.splits if_splits)

lemma plain_settings [simp]:
  "dw_config (insert_user E u d) = dw_config d" "cashier_characters (insert_user E u d) = cashier_characters d"
  "cashier_status (insert_user E u d) = cashier_status d"
  "dw_config (update_bet i f d) = dw_config d" "cashier_characters (update_bet i f d) = cashier_characters d"
  "cashier_status (update_bet i f d) = cashier_status d"
  "aside d (update_client_seed u cs d)" "aside d (set_dispute_message i m d)"
  by (simp_all add: aside_def insert_user_def update_bet_def update_client_seed_def set_dispute_message_def)

lemma credit_settings [settings_frame]:
  "credit_treasury E n d = Inr d' \<Longrightarrow> aside d d'"
  "credit_rake E q n d = Inr d' \<Longrightarrow> aside d d'"
  by (auto simp: aside_def credit_treasury_def credit_rake_def raise_simps Let_def split: if_splits option.splits dest!: settings_frame)

lemma deposit_settings:
  "create_deposit_ticket E u chr rl rg fc n th pc d = Inr (x, d') \<Longrightarrow> aside d d'"
  "confirm_deposit E uid c d = Inr (y, d') \<Longrightarrow> aside d d'"
  "cancel_deposit E uid a r d = Inr (z, d') \<Longrightarrow> aside d d'"
  by (auto simp: aside_def create_deposit_ticket_def confirm_deposit_def cancel_deposit_def raise_simps Let_def
      split: if_splits dest!: settings_frame)

lemma withdraw_settings:
  "create_withdraw_ticket E u chr rl rg fc n th pc d = Inr (x, d') \<Longrightarrow> aside d d'"
  "confirm_withdraw E uid c d = Inr (y, d') \<Longrightarrow> aside d d'"
  "cancel_withdraw E uid a r d = Inr (z, d') \<Longrightarrow> aside d d'"
  by (auto simp: aside_def create_withdraw_ticket_def confirm_withdraw_def cancel_withdraw_def raise_simps Let_def
      split: if_splits dest!: settings_frame)

lemma update_settings [settings_frame]:
  "(case ty of Deposit \<Rightarrow> update_deposit_ticket ky k tf d | Withdraw \<Rightarrow> update_withdraw_ticket ky' k wg d) = Inr d' \<Longrightarrow>
    aside d d'"
  by (cases ty) (auto dest: settings_frame)

lemma lifecycle_settings:
  "claim_ticket E ty uid c d = Inr (y, d') \<Longrightarrow> aside d d'"
  "release_ticket E ty uid c d = Inr (z, d') \<Longrightarrow> aside d d'"
  by (auto simp: aside_def claim_ticket_def release_ticket_def raise_simps Let_def split: if_splits option.splits
      dest!: settings_frame)

lemma cashier_settings:
  "add_cashier_character E u chr rl rg fc d = Inr (x, d') \<Longrightarrow> dw_config d' = dw_config d"
  "remove_cashier_character E u chr rl rg d = Inr (y, d') \<Longrightarrow> dw_config d' = dw_config d"
  "set_cashier_status E u s d = Inr (y, d') \<Longrightarrow> dw_config d' = dw_config d"
  "expire_cashier E u d = Inr (y, d') \<Longrightarrow> dw_config d' = dw_config d"
  "recompute_stats E u d = Inr d' \<Longrightarrow> aside d d'"
  by (auto simp: aside_def add_cashier_character_def remove_cashier_character_def set_cashier_status_def upsert_character_def
      upsert_status_def open_session_def close_sessions_def expire_cashier_def recompute_stats_def raise_simps Let_def
      split: if_splits option.splits prod.splits dest!: settings_frame)

lemma treasury_settings [settings_frame]:
  "treasury_sweep E n1 a1 r1 d = Inr (x, d') \<Longrightarrow> aside d d'"
  "treasury_withdraw_to_user E n1 u1 a1 r1 d = Inr (y, d') \<Longrightarrow> aside d d'"
  "ban_user E u r2 a d = Inr (y, d') \<Longrightarrow> aside d d'"
  "unban_user E u a d = Inr (y, d') \<Longrightarrow> aside d d'"
  by (auto simp: aside_def treasury_sweep_def treasury_withdraw_to_user_def ban_user_def unban_user_def raise_simps Let_def
      split: if_splits option.splits prod.splits dest!: settings_frame)

lemma dispute_settings:
  "open_dispute E ty uid o1 ro re d = Inr (x, d') \<Longrightarrow> aside d d'"
  "resolve_dispute E i act am b d = Inr (y, d') \<Longrightarrow> aside d d'"
  "reject_dispute E i re1 a d = Inr (y, d') \<Longrightarrow> aside d d'"
  by (auto simp: aside_def open_dispute_def resolve_dispute_def reject_dispute_def insert_dispute_def dispute_payout_def raise_simps Let_def
      split: if_splits option.splits prod.splits dest!: settings_frame)

lemma bet_settings:
  "apply_bet E u g c n s h cs no k uid d = Inr (x1, d') \<Longrightarrow> aside d d'"
  "resolve_bet E i st p out d = Inr (x2, d') \<Longrightarrow> aside d d'"
  "refund_bet E i r d = Inr (x3, d') \<Longrightarrow> aside d d'"
  by (auto simp: aside_def apply_bet_def resolve_bet_def refund_bet_def raise_simps Let_def
      split: if_splits option.splits prod.splits dest!: settings_frame)

lemma luck_settings:
  "consume_rate_token E u sc w m d = Inr (x1, d') \<Longrightarrow> aside d d'"
  "next_nonce u d = Inr (x2, d') \<Longrightarrow> aside d d'"
  "grant_raffle_tickets E u p n b d = Inr (x3, d') \<Longrightarrow> aside d d'"
  "rotate_user_seed E s1 c1 u b1 d = Inr (x4, d') \<Longrightarrow> aside d d'"
  by (auto simp: aside_def consume_rate_token_def next_nonce_def grant_raffle_tickets_def rotate_user_seed_def raise_simps Let_def
      split: if_splits option.splits prod.splits dest!: settings_frame)

lemma period_settings: "insert_raffle_period E i lb s e st d = Inr d' \<Longrightarrow> aside d d'"
  by (auto simp: aside_def insert_raffle_period_def raise_simps)

lemma cashout_settings: "cashout_mines E i mu d = Inr (x5, d') \<Longrightarrow> aside d d'"
  by (elim cashout_mines_Inr) (rule bet_settings(2))

lemmas call_settings = deposit_settings withdraw_settings lifecycle_settings cashier_settings treasury_settings
  dispute_settings bet_settings luck_settings cashout_settings period_settings

lemma exec_settings:
  assumes "exec E c d = Inr d'" and "\<And>k v a. c \<noteq> Set_config k v a"
  shows "dw_config d' = dw_config d"
  using assms by (cases c) (auto simp: raise_simps aside_def set_dispute_message_def update_client_seed_def dest: call_settings)

fun cashier_call :: "call \<Rightarrow> bool" where
  "cashier_call (Add_character u chr rl rg fc) = True"
| "cashier_call (Remove_character u chr rl rg) = True"
| "cashier_call (Set_status u st) = True"
| "cashier_call (Expire_cashier u) = True"
| "cashier_call (Set_config k v a) = True"
| "cashier_call _ = False"

lemma exec_aside:
  assumes "exec E c d = Inr d'" and "\<not> cashier_call c"
  shows "aside d d'"
  using assms by (cases c) (auto simp: raise_simps dest: call_settings)

section \<open>Sane settings\<close>

text \<open>The limits are there and positive, the fee is a share of the amount, and tickets have an expiry.\<close>

definition settings_ok :: "db \<Rightarrow> bool" where
  "settings_ok d \<longleftrightarrow>
     list_all (\<lambda>k. \<exists>v. config_int k (dw_config d) = Some v \<and> setting_ok k v)
       (''withdraw_fee_bps'' # ''ticket_expiry_open_s'' # limit_keys)"

lemma config_int_upsert:
  "config_int k' (dw_config (upsert_config E k v a d)) = (if k' = k then Some v else config_int k' (dw_config d))"
proof (cases "has_key g_key k (dw_config d)")
  case True
  then obtain r where "sel_key g_key k (dw_config d) = Some r" by (auto simp: has_key_sel)
  with True show ?thesis by (simp add: upsert_config_def config_int_def sel_key_upd)
next
  case False
  then show ?thesis by (auto simp: upsert_config_def config_int_def has_key_sel split: option.split)
qed

lemma settings_ok_write: "settings_ok d \<Longrightarrow> setting_ok k v \<Longrightarrow> settings_ok (upsert_config E k v a d)"
  by (auto simp: settings_ok_def config_int_upsert list_all_iff)

interpretation settings: kept_by_bots E settings_ok for E
proof unfold_locales
  fix d c t d'
  assume ok: "settings_ok d" and bot: "bot_call c" and ret: "exec (E\<lparr>now := t\<rparr>) c d = Inr d'"
  show "settings_ok d'"
  proof (cases "\<exists>k v a. c = Set_config k v a")
    case True
    with ok bot ret show ?thesis by (auto intro: settings_ok_write)
  next
    case False
    with ret have "dw_config d' = dw_config d" by (intro exec_settings) auto
    with ok show ?thesis by (simp add: settings_ok_def)
  qed
qed

lemma settings_ok_initial: "settings_ok (initial_db t)"
  by (simp add: settings_ok_def limit_keys_def setting_ok_def config_int_def initial_db_def dw_config_seeds_def config_seed_def)

text \<open>Under such settings the fee of a new withdraw is between nothing and the whole amount.\<close>

lemma fee_within:
  assumes "settings_ok d" and "create_withdraw_ticket E u chr rl rg fc n th pc d = Inr (uid, d')"
  shows "\<exists>t. select_withdraw uid d' = Some t \<and> t_amount t = n \<and> 0 \<le> w_fee t \<and> w_fee t \<le> n"
proof -
  obtain t bps where t: "select_withdraw uid d' = Some t" "t_amount t = n"
    and bps: "config_int ''withdraw_fee_bps'' (dw_config d) = Some bps" "w_fee t = (n * bps) sdiv 10000"
    using create_withdraw_ticket_row [OF assms(2)] by blast
  obtain mn where mn: "config_int ''min_withdraw_g'' (dw_config d) = Some mn" "0 < mn"
    using assms(1) by (auto simp: settings_ok_def limit_keys_def setting_ok_def)
  have "mn \<le> n" using assms(2) mn(1) by (auto simp: create_withdraw_ticket_def raise_simps)
  moreover have "0 \<le> bps" "bps \<le> 10000" using assms(1) bps(1) by (auto simp: settings_ok_def setting_ok_def)
  ultimately have "w_fee t = n * bps div 10000" and "0 \<le> n * bps" and "n * bps \<le> n * 10000"
    using mn(2) bps(2) by (simp_all add: sdiv_nonneg mult_left_mono)
  then show ?thesis using t by auto
qed

lemma audit_raises: "audit_log_insert_with_chain E a d = Inl (Raised r) \<Longrightarrow> chain_key Audit_chain_key_not_configured E = Inl (Raised r)"
  by (auto simp: audit_log_insert_with_chain_def insert_audit_row_def not_null_def raise_if_def bindE_def Let_def
      split: option.splits sum.splits if_splits prod.splits)

lemma audit_not_config:
  "audit_log_insert_with_chain E a d \<noteq> Inl (Raised Config_missing_deposit)"
  "audit_log_insert_with_chain E a d \<noteq> Inl (Raised Config_missing_withdraw)"
  by (auto dest!: audit_raises simp: chain_key_def raise_if_def split: option.splits if_splits)

lemma config_present:
  assumes "settings_ok d"
  shows "create_deposit_ticket E u chr rl rg fc n th pc d \<noteq> Inl (Raised Config_missing_deposit)"
    and "create_withdraw_ticket E u chr rl rg fc n th pc d \<noteq> Inl (Raised Config_missing_withdraw)"
  using assms
  by (auto simp: settings_ok_def limit_keys_def create_deposit_ticket_def create_withdraw_ticket_def fail_simps audit_not_config
      Let_def split: if_splits)

end
