(* ===== verification/Discord.thy ===== *)
theory Discord
  imports Forms Limiter Settings
begin

text \<open>
  What a slash command works with: the database, the table of editable embeds, the limiters of the
  bot and the requests it sends to Discord. A command is a function on the world that answers with
  a value or an exception; statements are committed one by one, so an exception keeps what was done
  before it. Whether Discord accepts a request, and the identifiers it gives out, are parameters:
  every theorem holds for any behaviour of Discord.

  The contract \<open>lawful\<close> says of a command that the database stays reachable by the calls a bot may
  make and how often it acknowledges its interaction; the rules below carry it through the
  constructs of the commands.
\<close>

section \<open>Embeds and requests\<close>

record embed =
  em_title :: "string option"
  em_description :: "string option"
  em_color :: int
  em_timestamp :: "int option"
  em_fields :: "(string \<times> string \<times> bool) list"
  em_image :: "string option"
  em_footer :: "string option"

definition new_embed :: "string \<Rightarrow> string option \<Rightarrow> int \<Rightarrow> int option \<Rightarrow> embed" where
  "new_embed title description color timestamp =
     \<lparr>em_title = Some title, em_description = description, em_color = color, em_timestamp = timestamp,
      em_fields = [], em_image = None, em_footer = None\<rparr>"

definition add_field :: "string \<Rightarrow> string \<Rightarrow> bool \<Rightarrow> embed \<Rightarrow> embed" where
  "add_field name val inline e = e\<lparr>em_fields := em_fields e @ [(name, val, inline)]\<rparr>"

datatype (plugins only: code size) content =
    Plain string
  | Card embed
  | Plain_card string embed

text \<open>Permission overwrites: who they are for, and the flags they set.\<close>

datatype principal = Role int | Bot_member

type_synonym overwrite = "(string \<times> bool) list"

text \<open>A form as it is sent, with what it shows or expects back.\<close>

datatype (plugins only: code size) modal =
    Deposit_modal
  | Withdraw_modal
  | Confirm_modal string
  | Guide_modal string string string
  | Sweep_modal int
  | Treasury_withdraw_modal int int

text \<open>The first three acknowledge an interaction, which Discord allows once.\<close>

datatype (plugins only: code size) request =
    Respond content bool
  | Defer
  | Send_modal modal
  | Followup content
  | Edit_response string
  | Channel_send int content
  | Fetch_message int int
  | Edit_message int int content
  | Create_thread int string
  | Thread_add_user int int
  | Thread_rename int string
  | Thread_archive int
  | Thread_delete int
  | Create_category string "(principal \<times> overwrite) list"
  | Create_channel string "int option" "(principal \<times> overwrite) list"

definition is_ack :: "request \<Rightarrow> bool" where
  "is_ack r = (case r of Respond _ _ \<Rightarrow> True | Defer \<Rightarrow> True | Send_modal _ \<Rightarrow> True | _ \<Rightarrow> False)"

definition acks :: "request list \<Rightarrow> nat" where
  "acks rs = length (filter is_ack rs)"

datatype answer = Accepted | Not_found | Refused

section \<open>The world\<close>

text \<open>A row of \<^verbatim>\<open>dw.dynamic_embeds\<close>. The \<^verbatim>\<open>fields\<close> column is the text the driver returns for a
  \<^verbatim>\<open>jsonb\<close> value.\<close>

record embed_row =
  er_embed_key :: string
  er_channel_id :: int
  er_message_id :: "int option"
  er_title :: string
  er_description :: string
  er_color_hex :: pystr
  er_fields :: string
  er_image_url :: "string option"
  er_footer_text :: "string option"
  er_updated_at :: int
  er_updated_by :: int

record channel_row =
  ch_id :: int
  ch_name :: string
  ch_category :: "string option"

record world =
  wd_db :: db
  wd_embeds :: "embed_row list"
  wd_deposit_limiter :: limiter
  wd_withdraw_limiter :: limiter
  wd_categories :: "(int \<times> string) list"
  wd_channels :: "channel_row list"
  wd_sent :: "request list"
  wd_step :: nat

text \<open>What \<^verbatim>\<open>json.loads\<close> can return, numbers apart from integers left out.\<close>

datatype (plugins only: code size) json_value =
    J_null | J_bool bool | J_int int | J_string string | J_list "json_value list" | J_object "(string \<times> json_value) list"

text \<open>The exceptions a command can end with.\<close>

datatype (plugins only: code size) cmd_error =
    Database py_error
  | Http answer
  | Key_error string
  | Python_value_error string
  | Python_type_error string
  | Assertion_failed

text \<open>The surroundings: the database environment, the clocks and the answers of Discord at each step,
  the channels and roles the client knows, whether the connection pool is open, the texts pydantic gives its
  errors and Python its string literals, values and exceptions, the trimming of form fields and the sort key
  of the database collation.\<close>

record bot_env =
  be_pg :: pg_env
  be_clock :: "nat \<Rightarrow> int"
  be_monotonic :: "nat \<Rightarrow> int"
  be_api :: "nat \<Rightarrow> answer"
  be_new_id :: "nat \<Rightarrow> int"
  be_known_channel :: "int \<Rightarrow> bool"
  be_everyone_role :: int
  be_known_role :: "int \<Rightarrow> bool"
  be_pool_ready :: bool
  be_form_error_text :: "form_error \<Rightarrow> string"
  be_repr :: "pystr \<Rightarrow> string"
  be_exception_text :: "cmd_error \<Rightarrow> string"
  be_exception_name :: "cmd_error \<Rightarrow> string"
  be_trim :: "pystr \<Rightarrow> pystr"
  be_collation_key :: "string \<Rightarrow> string"
  be_str :: "json_value \<Rightarrow> string"

type_synonym 'a cmd = "world \<Rightarrow> (cmd_error + 'a) \<times> world"

section \<open>Commands\<close>

definition ret :: "'a \<Rightarrow> 'a cmd" where
  "ret x w = (Inr x, w)"

definition throw :: "cmd_error \<Rightarrow> 'a cmd" where
  "throw e w = (Inl e, w)"

definition bindC :: "'a cmd \<Rightarrow> ('a \<Rightarrow> 'b cmd) \<Rightarrow> 'b cmd" where
  "bindC m f w = (case m w of (Inl e, w') \<Rightarrow> (Inl e, w') | (Inr x, w') \<Rightarrow> f x w')"

definition seqC :: "'a cmd \<Rightarrow> 'b cmd \<Rightarrow> 'b cmd" where
  "seqC m m' = bindC m (\<lambda>_. m')"

text \<open>One statement, at the time of its step.\<close>

definition sql :: "bot_env \<Rightarrow> (pg_env \<Rightarrow> db \<Rightarrow> 'a py) \<Rightarrow> 'a cmd" where
  "sql B f w =
     (case f ((be_pg B)\<lparr>now := be_clock B (wd_step w)\<rparr>) (wd_db w) of
        (Inl e, d) \<Rightarrow> (Inl (Database e), w\<lparr>wd_db := d, wd_step := Suc (wd_step w)\<rparr>)
      | (Inr x, d) \<Rightarrow> (Inr x, w\<lparr>wd_db := d, wd_step := Suc (wd_step w)\<rparr>))"

text \<open>A statement that only reads.\<close>

definition query :: "(db \<Rightarrow> 'a) \<Rightarrow> 'a cmd" where
  "query f w = (Inr (f (wd_db w)), w\<lparr>wd_step := Suc (wd_step w)\<rparr>)"

text \<open>Statements on \<^verbatim>\<open>dw.dynamic_embeds\<close>; the primary key is the only constraint they can break.\<close>

definition select_embed :: "string \<Rightarrow> embed_row option cmd" where
  "select_embed key w = (Inr (sel_key er_embed_key key (wd_embeds w)), w\<lparr>wd_step := Suc (wd_step w)\<rparr>)"

definition update_embed :: "bot_env \<Rightarrow> string \<Rightarrow> (embed_row \<Rightarrow> embed_row) \<Rightarrow> unit cmd" where
  "update_embed B key f w =
     (Inr (), w\<lparr>wd_embeds := upd_key er_embed_key key (\<lambda>r. (f r)\<lparr>er_updated_at := be_clock B (wd_step w)\<rparr>) (wd_embeds w),
                wd_step := Suc (wd_step w)\<rparr>)"

definition insert_embed :: "bot_env \<Rightarrow> string \<Rightarrow> int \<Rightarrow> string \<Rightarrow> string \<Rightarrow> int \<Rightarrow> unit cmd" where
  "insert_embed B key channel_id title description actor_id w =
     (if has_key er_embed_key key (wd_embeds w)
      then (Inl (Database (Engine (Unique_violation ''dynamic_embeds_pkey''))), w\<lparr>wd_step := Suc (wd_step w)\<rparr>)
      else (Inr (), w\<lparr>wd_embeds := wd_embeds w @
             [\<lparr>er_embed_key = key, er_channel_id = channel_id, er_message_id = None, er_title = title,
               er_description = description, er_color_hex = of_ascii ''#F2B22A'', er_fields = ''[]'', er_image_url = None,
               er_footer_text = None, er_updated_at = be_clock B (wd_step w), er_updated_by = actor_id\<rparr>],
             wd_step := Suc (wd_step w)\<rparr>))"

text \<open>One request; the value is the identifier of what it created.\<close>

definition request :: "bot_env \<Rightarrow> request \<Rightarrow> int cmd" where
  "request B r w =
     (case be_api B (wd_step w) of
        Accepted \<Rightarrow> (Inr (be_new_id B (wd_step w)), w\<lparr>wd_sent := wd_sent w @ [r], wd_step := Suc (wd_step w)\<rparr>)
      | a \<Rightarrow> (Inl (Http a), w\<lparr>wd_step := Suc (wd_step w)\<rparr>))"

definition send :: "bot_env \<Rightarrow> request \<Rightarrow> unit cmd" where
  "send B r = bindC (request B r) (\<lambda>_. ret ())"

definition respond :: "bot_env \<Rightarrow> string \<Rightarrow> unit cmd" where
  "respond B txt = send B (Respond (Plain txt) True)"

text \<open>The time of a step without a statement or a request.\<close>

definition utcnow :: "bot_env \<Rightarrow> int cmd" where
  "utcnow B w = (Inr (be_clock B (wd_step w)), w\<lparr>wd_step := Suc (wd_step w)\<rparr>)"

text \<open>\<^verbatim>\<open>try: m except BalanceError\<close> with the class and message; other exceptions pass.\<close>

definition try_balance :: "'a cmd \<Rightarrow> (balance_error \<Rightarrow> string \<Rightarrow> 'b cmd) \<Rightarrow> ('a \<Rightarrow> 'b cmd) \<Rightarrow> 'b cmd" where
  "try_balance m handler k w =
     (case m w of
        (Inl (Database (Typed cls msg)), w') \<Rightarrow> handler cls msg w'
      | (Inl e, w') \<Rightarrow> (Inl e, w')
      | (Inr x, w') \<Rightarrow> k x w')"

text \<open>\<^verbatim>\<open>try: m except Exception\<close>: the value, or the handler.\<close>

definition try_any :: "'a cmd \<Rightarrow> (cmd_error \<Rightarrow> 'a cmd) \<Rightarrow> 'a cmd" where
  "try_any m handler w = (case m w of (Inl e, w') \<Rightarrow> handler e w' | (Inr x, w') \<Rightarrow> (Inr x, w'))"

definition attempt :: "unit cmd \<Rightarrow> unit cmd" where
  "attempt m = try_any m (\<lambda>_. ret ())"

text \<open>\<^verbatim>\<open>try: m except discord.NotFound\<close>.\<close>

definition try_found :: "'a cmd \<Rightarrow> 'a cmd \<Rightarrow> 'a cmd" where
  "try_found m handler = try_any m (\<lambda>e. if e = Http Not_found then handler else throw e)"

fun for_each :: "('x \<Rightarrow> 'a cmd) \<Rightarrow> 'x list \<Rightarrow> 'a list cmd" where
  "for_each f [] = ret []"
| "for_each f (x # xs) = bindC (f x) (\<lambda>y. bindC (for_each f xs) (\<lambda>ys. ret (y # ys)))"

definition starting_up :: string where
  "starting_up = ''Bot is still starting up '' @ utf8_char 0x2014 @ '' try again in a few seconds.''"

text \<open>\<^verbatim>\<open>if bot.pool is None: ... return\<close>.\<close>

definition with_pool :: "bot_env \<Rightarrow> unit cmd \<Rightarrow> unit cmd" where
  "with_pool B m = (if be_pool_ready B then m else respond B starting_up)"

section \<open>Interactions and bindings\<close>

datatype channel_kind = Text_channel | Thread_channel | Other_channel

record interaction =
  in_user :: int
  in_channel :: "channel_kind option"
  in_channel_id :: "int option"
  in_guild :: bool

definition mention :: "int \<Rightarrow> string" where
  "mention uid = ''<@'' @ show_int uid @ ''>''"

definition channel_mention :: "int \<Rightarrow> string" where
  "channel_mention cid = ''<#'' @ show_int cid @ ''>''"

definition config_value :: "string \<Rightarrow> db \<Rightarrow> int option" where
  "config_value key d = config_int key (dw_config d)"

definition canonical_keys :: "string list" where
  "canonical_keys = [''how_to_deposit'', ''how_to_withdraw'', ''deposit'', ''withdraw'', ''online_cashiers'',
     ''cashier_alerts'', ''cashier_onboarding'', ''disputes'', ''audit_log'']"

definition resolve_channel_id :: "string \<Rightarrow> int option cmd" where
  "resolve_channel_id key =
     (if key \<notin> set canonical_keys then throw (Python_value_error (''unknown canonical channel key '' @ key))
      else query (config_value (''channel_id_'' @ key)))"

definition canonical_role_keys :: "string list" where
  "canonical_role_keys = [''cashier'', ''admin'']"

definition resolve_role_id :: "string \<Rightarrow> int option cmd" where
  "resolve_role_id key =
     (if key \<notin> set canonical_role_keys then throw (Python_value_error (''unknown canonical role key '' @ key))
      else query (config_value (''role_id_'' @ key)))"

definition role_mention :: "string \<Rightarrow> string cmd" where
  "role_mention key =
     bindC (resolve_role_id key) (\<lambda>role_id.
     ret (case role_id of Some i \<Rightarrow> ''<@&'' @ show_int i @ ''>'' | None \<Rightarrow> ''@'' @ key))"

section \<open>The contract of a command\<close>

definition keeps_reach :: "bot_env \<Rightarrow> world \<Rightarrow> world \<Rightarrow> bool" where
  "keeps_reach B w w' \<longleftrightarrow> (\<forall>d0. bot_reach (be_pg B) d0 (wd_db w) \<longrightarrow> bot_reach (be_pg B) d0 (wd_db w'))"

definition lawful :: "bot_env \<Rightarrow> nat \<Rightarrow> 'a cmd \<Rightarrow> bool" where
  "lawful B k m \<longleftrightarrow>
     (\<forall>w r w'. m w = (r, w') \<longrightarrow> keeps_reach B w w' \<and>
        (\<exists>rs. wd_sent w' = wd_sent w @ rs \<and> (case r of Inr _ \<Rightarrow> acks rs = k | Inl _ \<Rightarrow> acks rs \<le> k)))"

named_theorems lawful_acks \<open>the contract of a sequence that starts with an acknowledgement\<close>
named_theorems lawful_intros \<open>rules of the contract of commands\<close>
named_theorems stmt_intros \<open>statements that are calls of the stored functions\<close>

lemma lawfulI:
  assumes "\<And>w r w'. m w = (r, w') \<Longrightarrow> keeps_reach B w w' \<and>
    (\<exists>rs. wd_sent w' = wd_sent w @ rs \<and> (case r of Inr _ \<Rightarrow> acks rs = k | Inl _ \<Rightarrow> acks rs \<le> k))"
  shows "lawful B k m"
  unfolding lawful_def using assms by blast

lemma lawfulE:
  assumes "lawful B k m" and "m w = (r, w')"
  obtains rs where "keeps_reach B w w'" "wd_sent w' = wd_sent w @ rs"
    "case r of Inr _ \<Rightarrow> acks rs = k | Inl _ \<Rightarrow> acks rs \<le> k"
  using assms unfolding lawful_def by blast

lemma keeps_reach_refl [simp]: "wd_db w' = wd_db w \<Longrightarrow> keeps_reach B w w'"
  by (simp add: keeps_reach_def)

lemma keeps_reach_trans: "keeps_reach B w w1 \<Longrightarrow> keeps_reach B w1 w2 \<Longrightarrow> keeps_reach B w w2"
  by (simp add: keeps_reach_def)

lemma acks_append [simp]: "acks (rs @ rs') = acks rs + acks rs'"
  by (simp add: acks_def)

lemma acks_Nil [simp]: "acks [] = 0"
  by (simp add: acks_def)

lemma lawful_quiet:
  assumes "\<And>w r w'. m w = (r, w') \<Longrightarrow> keeps_reach B w w' \<and> wd_sent w' = wd_sent w"
  shows "lawful B 0 m"
proof (rule lawfulI)
  fix w r w' assume "m w = (r, w')"
  then show "keeps_reach B w w' \<and>
      (\<exists>rs. wd_sent w' = wd_sent w @ rs \<and> (case r of Inr _ \<Rightarrow> acks rs = 0 | Inl _ \<Rightarrow> acks rs \<le> 0))"
    using assms by (intro conjI exI [of _ "[]"]) (auto split: sum.splits)
qed

lemma lawful_ret [lawful_intros]: "lawful B 0 (ret x)"
  by (rule lawful_quiet) (simp add: ret_def)

lemma lawful_throw [lawful_intros]: "lawful B k (throw e)"
  by (rule lawfulI) (auto simp: throw_def)

lemma lawful_query [lawful_intros]: "lawful B 0 (query f)"
  by (rule lawful_quiet) (auto simp: query_def)

lemma lawful_utcnow [lawful_intros]: "lawful B 0 (utcnow B')"
  by (rule lawful_quiet) (auto simp: utcnow_def)

lemma lawful_embeds [lawful_intros]:
  "lawful B 0 (select_embed key)" "lawful B 0 (update_embed B' key f)" "lawful B 0 (insert_embed B' key c t s a)"
  by (rule lawful_quiet; auto simp: select_embed_def update_embed_def insert_embed_def split: if_splits)+

lemma lawful_request: "lawful B (acks [r]) (request B r)"
  by (rule lawfulI) (auto simp: request_def split: answer.splits)

text \<open>Sequencing.\<close>

lemma lawful_then:
  assumes m: "lawful B i m" and f: "\<And>x. lawful B j (f x)"
  shows "lawful B (i + j) (bindC m f)"
proof (rule lawfulI)
  fix w r w' assume run: "bindC m f w = (r, w')"
  obtain r1 w1 where m1: "m w = (r1, w1)" by (cases "m w")
  from m m1 obtain rs1 where 1: "keeps_reach B w w1" "wd_sent w1 = wd_sent w @ rs1"
    "case r1 of Inr _ \<Rightarrow> acks rs1 = i | Inl _ \<Rightarrow> acks rs1 \<le> i" by (rule lawfulE)
  show "keeps_reach B w w' \<and> (\<exists>rs. wd_sent w' = wd_sent w @ rs \<and>
      (case r of Inr _ \<Rightarrow> acks rs = i + j | Inl _ \<Rightarrow> acks rs \<le> i + j))"
  proof (cases r1)
    case (Inl e)
    with run m1 1 show ?thesis by (auto simp: bindC_def)
  next
    case (Inr x)
    with run m1 have "f x w1 = (r, w')" by (simp add: bindC_def)
    with f obtain rs2 where 2: "keeps_reach B w1 w'" "wd_sent w' = wd_sent w1 @ rs2"
      "case r of Inr _ \<Rightarrow> acks rs2 = j | Inl _ \<Rightarrow> acks rs2 \<le> j" by (rule lawfulE)
    with 1 Inr show ?thesis by (auto intro: keeps_reach_trans exI [of _ "rs1 @ rs2"] split: sum.splits)
  qed
qed

lemma lawful_bind [lawful_intros]: "lawful B 0 m \<Longrightarrow> (\<And>x. lawful B k (f x)) \<Longrightarrow> lawful B k (bindC m f)"
  using lawful_then [of B 0 m k f] by simp

lemma lawful_seq [lawful_intros]: "lawful B 0 m \<Longrightarrow> lawful B k m' \<Longrightarrow> lawful B k (seqC m m')"
  unfolding seqC_def by (rule lawful_bind)

lemma lawful_send: "lawful B (acks [r]) (send B r)"
proof -
  have "lawful B (acks [r] + 0) (send B r)"
    unfolding send_def by (rule lawful_then [OF lawful_request]) (rule lawful_ret)
  then show ?thesis by simp
qed

lemma lawful_send_quiet [lawful_intros]: "\<not> is_ack r \<Longrightarrow> lawful B 0 (send B r)" "\<not> is_ack r \<Longrightarrow> lawful B 0 (request B r)"
  using lawful_send [of B r] lawful_request [of B r] by (simp_all add: acks_def)

lemma lawful_send_ack: "is_ack r \<Longrightarrow> lawful B 1 (send B r)"
  using lawful_send [of B r] by (simp add: acks_def)

lemma is_ack_simps [simp]:
  "is_ack (Respond c b)" "is_ack Defer" "is_ack (Send_modal m)" "\<not> is_ack (Followup c)" "\<not> is_ack (Edit_response s)"
  "\<not> is_ack (Channel_send i c)" "\<not> is_ack (Fetch_message i j)" "\<not> is_ack (Edit_message i j c)"
  "\<not> is_ack (Create_thread i s)" "\<not> is_ack (Thread_add_user i j)" "\<not> is_ack (Thread_rename i s)"
  "\<not> is_ack (Thread_archive i)" "\<not> is_ack (Thread_delete i)" "\<not> is_ack (Create_category s ow)" "\<not> is_ack (Create_channel s p ow)"
  by (simp_all add: is_ack_def)

lemma lawful_ack_seq:
  assumes "lawful B 1 m" and "lawful B 0 m'"
  shows "lawful B 1 (seqC m m')"
  unfolding seqC_def using lawful_then [OF assms(1), of 0 "\<lambda>_. m'"] assms(2) by simp

lemma lawful_respond [lawful_acks]: "lawful B 1 (respond B t)"
  unfolding respond_def by (rule lawful_send_ack) simp

lemma lawful_respond_seq [lawful_acks]: "lawful B 0 m' \<Longrightarrow> lawful B 1 (seqC (respond B t) m')"
  by (rule lawful_ack_seq [OF lawful_respond])

lemma lawful_send_acks [lawful_acks]:
  "lawful B 1 (send B (Respond c b))" "lawful B 1 (send B Defer)" "lawful B 1 (send B (Send_modal mo))"
  "lawful B 0 m' \<Longrightarrow> lawful B 1 (seqC (send B (Respond c b)) m')"
  "lawful B 0 m' \<Longrightarrow> lawful B 1 (seqC (send B Defer) m')"
  "lawful B 0 m' \<Longrightarrow> lawful B 1 (seqC (send B (Send_modal mo)) m')"
  by (rule lawful_send_ack lawful_ack_seq [OF lawful_send_ack]; simp)+

text \<open>Choices.\<close>

lemma lawful_if [lawful_intros]: "lawful B k m \<Longrightarrow> lawful B k m' \<Longrightarrow> lawful B k (if c then m else m')"
  by simp

lemma lawful_Let [lawful_intros]: "(\<And>x. lawful B k (f x)) \<Longrightarrow> lawful B k (Let a f)"
  by simp

lemma lawful_option [lawful_intros]:
  "lawful B k m \<Longrightarrow> (\<And>y. lawful B k (f y)) \<Longrightarrow> lawful B k (case x of None \<Rightarrow> m | Some y \<Rightarrow> f y)"
  by (simp split: option.split)

lemma lawful_sum [lawful_intros]:
  "(\<And>y. lawful B k (f y)) \<Longrightarrow> (\<And>y. lawful B k (g y)) \<Longrightarrow> lawful B k (case x of Inl y \<Rightarrow> f y | Inr y \<Rightarrow> g y)"
  by (simp split: sum.split)

lemma lawful_prod [lawful_intros]: "(\<And>a b. lawful B k (f a b)) \<Longrightarrow> lawful B k (case x of (a, b) \<Rightarrow> f a b)"
  by (simp split: prod.split)

lemma lawful_with_pool [lawful_intros]: "lawful B 1 m \<Longrightarrow> lawful B 1 (with_pool B m)"
  unfolding with_pool_def by (rule lawful_if [OF _ lawful_respond])

text \<open>Exceptions: a quiet command, then one that depends on how it ended.\<close>

lemma lawful_cont:
  assumes m: "lawful B 0 m" and g: "\<And>r. lawful B k (g r)"
  shows "lawful B k (\<lambda>w. case m w of (r, w') \<Rightarrow> g r w')"
proof (rule lawfulI)
  fix w r w' assume run: "(case m w of (r, w') \<Rightarrow> g r w') = (r, w')"
  obtain r1 w1 where m1: "m w = (r1, w1)" by (cases "m w")
  from m m1 obtain rs1 where 1: "keeps_reach B w w1" "wd_sent w1 = wd_sent w @ rs1"
    and zero: "case r1 of Inr _ \<Rightarrow> acks rs1 = 0 | Inl _ \<Rightarrow> acks rs1 \<le> 0" by (rule lawfulE)
  from run m1 have "g r1 w1 = (r, w')" by simp
  with g obtain rs2 where 2: "keeps_reach B w1 w'" "wd_sent w' = wd_sent w1 @ rs2"
    "case r of Inr _ \<Rightarrow> acks rs2 = k | Inl _ \<Rightarrow> acks rs2 \<le> k" by (rule lawfulE)
  have "acks rs1 = 0" using zero by (simp split: sum.splits)
  with 1 2 show "keeps_reach B w w' \<and>
      (\<exists>rs. wd_sent w' = wd_sent w @ rs \<and> (case r of Inr _ \<Rightarrow> acks rs = k | Inl _ \<Rightarrow> acks rs \<le> k))"
    by (intro conjI exI [of _ "rs1 @ rs2"] keeps_reach_trans [of B w w1 w']) (simp_all split: sum.splits)
qed

lemma lawful_try_balance [lawful_intros]:
  assumes "lawful B 0 m" and "\<And>cls msg. lawful B k (h cls msg)" and "\<And>x. lawful B k (f x)"
  shows "lawful B k (try_balance m h f)"
proof -
  let ?g = "\<lambda>r. case r of Inl (Database (Typed cls msg)) \<Rightarrow> h cls msg | Inl e \<Rightarrow> throw e | Inr x \<Rightarrow> f x"
  have eq: "try_balance m h f = (\<lambda>w. case m w of (r, w') \<Rightarrow> ?g r w')"
    by (rule ext) (simp add: try_balance_def throw_def split: prod.split sum.split cmd_error.split py_error.split)
  have "lawful B k (?g r)" for r
    using assms(2,3) by (simp add: lawful_throw split: sum.split cmd_error.split py_error.split)
  then show ?thesis unfolding eq by (rule lawful_cont [OF assms(1)])
qed

lemma lawful_try_any [lawful_intros]:
  assumes "lawful B 0 m" and "\<And>e. lawful B 0 (h e)"
  shows "lawful B 0 (try_any m h)"
proof -
  let ?g = "\<lambda>r. case r of Inl e \<Rightarrow> h e | Inr x \<Rightarrow> ret x"
  have eq: "try_any m h = (\<lambda>w. case m w of (r, w') \<Rightarrow> ?g r w')"
    by (rule ext) (simp add: try_any_def ret_def split: prod.split sum.split)
  have "lawful B 0 (?g r)" for r
    using assms(2) by (simp add: lawful_ret split: sum.split)
  then show ?thesis unfolding eq by (rule lawful_cont [OF assms(1)])
qed

lemma lawful_attempt [lawful_intros]: "lawful B 0 m \<Longrightarrow> lawful B 0 (attempt m)"
  unfolding attempt_def by (intro lawful_try_any lawful_ret)

lemma lawful_try_found [lawful_intros]: "lawful B 0 m \<Longrightarrow> lawful B 0 h \<Longrightarrow> lawful B 0 (try_found m h)"
  unfolding try_found_def by (intro lawful_try_any lawful_if lawful_throw)

lemma lawful_for_each [lawful_intros]: "(\<And>x. lawful B 0 (f x)) \<Longrightarrow> lawful B 0 (for_each f xs)"
  by (induction xs) (simp_all add: lawful_ret lawful_bind)

section \<open>Statements\<close>

definition stmt_ok :: "(pg_env \<Rightarrow> db \<Rightarrow> 'a py) \<Rightarrow> bool" where
  "stmt_ok f \<longleftrightarrow> (\<forall>E t d0 d. bot_reach E d0 d \<longrightarrow> bot_reach E d0 (snd (f (E\<lparr>now := t\<rparr>) d)))"

lemma lawful_sql [lawful_intros]: "stmt_ok f \<Longrightarrow> lawful B 0 (sql B f)"
proof (rule lawful_quiet)
  fix w r w' assume ok: "stmt_ok f" and run: "sql B f w = (r, w')"
  let ?E = "(be_pg B)\<lparr>now := be_clock B (wd_step w)\<rparr>"
  have "wd_db w' = snd (f ?E (wd_db w))" and "wd_sent w' = wd_sent w"
    using run by (auto simp: sql_def split: prod.splits sum.splits)
  with ok show "keeps_reach B w w' \<and> wd_sent w' = wd_sent w"
    by (simp add: stmt_ok_def keeps_reach_def)
qed

lemma facade_reach:
  assumes "bot_reach E d0 d" and "bot_call c" and "\<And>d'. state_of m = Inr d' \<Longrightarrow> exec (E\<lparr>now := t\<rparr>) c d = Inr d'"
  shows "bot_reach E d0 (snd (facade d m))"
proof (cases rule: facade_cases [of m d])
  case (ok x d')
  then have "exec (E\<lparr>now := t\<rparr>) c d = Inr d'" using assms(3) by (simp add: state_of_def)
  with ok assms(1,2) show ?thesis by (simp add: bot_reach.step)
qed (use assms(1) in simp_all)

lemma stmt_call: "(\<And>E d. \<exists>c. bot_call c \<and> exec E c d = state_of (m E d)) \<Longrightarrow> stmt_ok (\<lambda>E d. facade d (m E d))"
  unfolding stmt_ok_def by (metis facade_reach)

lemma stmt_done:
  assumes "\<And>E d. bot_call (c E)" and "\<And>E d. exec E (c E) d = Inr (f E d)"
  shows "stmt_ok (\<lambda>E d. (Inr (), f E d))"
  unfolding stmt_ok_def using assms by (auto intro: bot_reach.step)

lemma snd_try_outcome [simp]: "snd (try_outcome m ok h) = snd m"
  by (simp add: try_outcome_def split: prod.splits sum.splits py_error.splits)

lemma stmt_outcome [stmt_intros]: "stmt_ok f \<Longrightarrow> stmt_ok (\<lambda>E d. try_outcome (f E d) ok h)"
  by (simp add: stmt_ok_def)

lemma stmt_if [stmt_intros]: "stmt_ok f \<Longrightarrow> stmt_ok g \<Longrightarrow> stmt_ok (\<lambda>E d. if c then f E d else g E d)"
  by (simp add: stmt_ok_def)

lemma stmt_py [stmt_intros]:
  "stmt_ok (\<lambda>E. apply_deposit_ticket E u chr rl rg fc n th pc)"
  "stmt_ok (\<lambda>E. confirm_deposit_py E uid c)" "stmt_ok (\<lambda>E. cancel_deposit_py E uid a r)"
  "stmt_ok (\<lambda>E. claim_ticket_py E ty uid c)" "stmt_ok (\<lambda>E. release_ticket_py E ty uid c)"
  "stmt_ok (\<lambda>E. add_cashier_character_py E u chr rl rg fc)" "stmt_ok (\<lambda>E. remove_cashier_character_py E u chr rl rg)"
  "stmt_ok (\<lambda>E. set_cashier_status_py E u s)" "stmt_ok (\<lambda>E. expire_cashier_py E u)"
  "stmt_ok (\<lambda>E. apply_withdraw_ticket E u chr rl rg fc n th pc)"
  "stmt_ok (\<lambda>E. confirm_withdraw_py E uid c)" "stmt_ok (\<lambda>E. cancel_withdraw_py E uid a r)"
  "stmt_ok (\<lambda>E. treasury_sweep_py E n a r)" "stmt_ok (\<lambda>E. treasury_withdraw_to_user_py E n u a r)"
  "stmt_ok (\<lambda>E. open_dispute_py E ty uid op ro r)" "stmt_ok (\<lambda>E. resolve_dispute_py E i ac m b)"
  "stmt_ok (\<lambda>E. reject_dispute_py E i r a)" "stmt_ok (\<lambda>E. ban_user_py E u r a)" "stmt_ok (\<lambda>E. unban_user_py E u a)"
  unfolding apply_deposit_ticket_def confirm_deposit_py_def cancel_deposit_py_def claim_ticket_py_def release_ticket_py_def
    add_cashier_character_py_def remove_cashier_character_py_def set_cashier_status_py_def expire_cashier_py_def
    apply_withdraw_ticket_def confirm_withdraw_py_def cancel_withdraw_py_def treasury_sweep_py_def
    treasury_withdraw_to_user_py_def open_dispute_py_def resolve_dispute_py_def reject_dispute_py_def ban_user_py_def
    unban_user_py_def
  by (rule stmt_call, metis exec.simps bot_call.simps)+

end
