(* ===== verification/Form_Layout.thy ===== *)
theory Form_Layout
  imports Discord
begin

text \<open>
  The forms as Discord shows them (\<^verbatim>\<open>deathroll_deposit_withdraw/views/modals.py\<close>): their titles and text
  inputs with labels, placeholders and lengths. Discord refuses a form that breaks its documented
  limits; \<open>discord_accepts\<close> states those on texts, pre-filled texts and numbers of inputs. All forms
  whose texts the bot writes keep them for every argument, except the form that sends gold of the
  treasury to a player: its last label shows the id of the player and is too long for an id of 18
  digits, as most accounts have. The form of a guide shows the stored texts of the guide and is accepted
  exactly when these fit, which they do after every edit with the form.
\<close>

section \<open>Layouts\<close>

record text_input =
  ti_label :: pystr
  ti_placeholder :: pystr
  ti_required :: bool
  ti_min_length :: nat
  ti_max_length :: nat
  ti_paragraph :: bool
  ti_default :: "string option"

record form =
  fm_title :: pystr
  fm_inputs :: "text_input list"

definition required_input :: "pystr \<Rightarrow> pystr \<Rightarrow> nat \<Rightarrow> nat \<Rightarrow> text_input" where
  "required_input label placeholder min_length max_length =
     \<lparr>ti_label = label, ti_placeholder = placeholder, ti_required = True, ti_min_length = min_length,
      ti_max_length = max_length, ti_paragraph = False, ti_default = None\<rparr>"

definition ticket_input_form :: "pystr \<Rightarrow> form" where
  "ticket_input_form title =
     \<lparr>fm_title = title, fm_inputs =
       [required_input (of_ascii ''Character name'') (of_ascii ''e.g., Malesyrup'') 2 12,
        required_input (of_ascii ''Realm'') (of_ascii ''e.g., Stormrage'') 3 30,
        required_input (of_ascii ''Region'') (of_ascii ''EU or NA'') 2 2,
        required_input (of_ascii ''Faction'') (of_ascii ''Alliance or Horde'') 5 8,
        required_input (of_ascii ''Amount (gold)'') (of_ascii ''e.g., 50000  (no commas, no k/m suffix)'') 1 20]\<rparr>"

text \<open>An input without \<^verbatim>\<open>min_length\<close> has the minimum zero.\<close>

definition confirm_form :: "pystr \<Rightarrow> form" where
  "confirm_form magic_word =
     \<lparr>fm_title = of_ascii ''Confirm action'', fm_inputs =
       [required_input (of_ascii ''Type '' @ magic_word) (of_ascii ''Type '' @ magic_word @ of_ascii '' to confirm'') 0 64]\<rparr>"

definition guide_form :: "pystr \<Rightarrow> string \<Rightarrow> string \<Rightarrow> form" where
  "guide_form embed_key current_title current_description =
     (let modal_title = (if length embed_key \<le> 30 then of_ascii ''Edit '' @ map (\<lambda>c. if c = 95 then 32 else c) embed_key
                         else of_ascii ''Edit guide'')
      in \<lparr>fm_title = take 45 modal_title, fm_inputs =
           [(required_input (of_ascii ''Embed title'') (of_ascii ''Short heading shown above the description'') 1 256)
              \<lparr>ti_default := Some current_title\<rparr>,
            (required_input (of_ascii ''Embed description'') (of_ascii ''Body copy '' @ [0x2014] @ of_ascii '' supports Markdown'') 1 4000)
              \<lparr>ti_paragraph := True, ti_default := Some current_description\<rparr>]\<rparr>)"

definition amount_input :: "int \<Rightarrow> text_input" where
  "amount_input expected_amount =
     required_input (of_ascii (''Re-type amount ('' @ fmt_thousands expected_amount @ '')'')) (of_ascii (show_int expected_amount)) 1 20"

definition sweep_form :: "int \<Rightarrow> form" where
  "sweep_form expected_amount =
     \<lparr>fm_title = of_ascii ''Treasury sweep '' @ [0x2014] @ of_ascii '' confirm'', fm_inputs =
       [required_input (of_ascii ''Type SWEEP to confirm'') (of_ascii ''SWEEP'') 5 8, amount_input expected_amount]\<rparr>"

definition user_id_input :: "int \<Rightarrow> text_input" where
  "user_id_input expected_user_id =
     required_input (of_ascii (''Re-type recipient user id ('' @ show_int expected_user_id @ '')'')) (of_ascii (show_int expected_user_id)) 10 24"

definition treasury_withdraw_form :: "int \<Rightarrow> int \<Rightarrow> form" where
  "treasury_withdraw_form expected_amount expected_user_id =
     \<lparr>fm_title = of_ascii ''Treasury withdraw-to-user '' @ [0x2014] @ of_ascii '' confirm'', fm_inputs =
       [required_input (of_ascii ''Type TREASURY-WITHDRAW'') (of_ascii ''TREASURY-WITHDRAW'') 17 20,
        amount_input expected_amount, user_id_input expected_user_id]\<rparr>"

fun layout :: "modal \<Rightarrow> form" where
  "layout Deposit_modal = ticket_input_form (of_ascii ''Open deposit ticket'')"
| "layout Withdraw_modal = ticket_input_form (of_ascii ''Open withdraw ticket'')"
| "layout (Confirm_modal magic_word) = confirm_form (of_ascii magic_word)"
| "layout (Guide_modal embed_key title description) = guide_form (of_ascii embed_key) title description"
| "layout (Sweep_modal amount) = sweep_form amount"
| "layout (Treasury_withdraw_modal amount user) = treasury_withdraw_form amount user"

section \<open>Limits of Discord\<close>

text \<open>The characters of a text of the database, whose columns hold UTF-8: the bytes that do not continue
  a character.\<close>

definition code_points :: "string \<Rightarrow> nat" where
  "code_points s = length (filter (\<lambda>c. (of_char c :: nat) div 64 \<noteq> 2) s)"

text \<open>A pre-filled text has at most 4000 characters and fits the input.\<close>

definition prefill_accepted :: "text_input \<Rightarrow> bool" where
  "prefill_accepted i \<longleftrightarrow>
     (case ti_default i of None \<Rightarrow> True | Some v \<Rightarrow> code_points v \<le> 4000 \<and> code_points v \<le> ti_max_length i)"

definition input_accepted :: "text_input \<Rightarrow> bool" where
  "input_accepted i \<longleftrightarrow> 1 \<le> length (ti_label i) \<and> length (ti_label i) \<le> 45 \<and> length (ti_placeholder i) \<le> 100
     \<and> ti_min_length i \<le> ti_max_length i \<and> 1 \<le> ti_max_length i \<and> ti_max_length i \<le> 4000
     \<and> prefill_accepted i"

definition discord_accepts :: "form \<Rightarrow> bool" where
  "discord_accepts f \<longleftrightarrow> 1 \<le> length (fm_title f) \<and> length (fm_title f) \<le> 45
     \<and> 1 \<le> length (fm_inputs f) \<and> length (fm_inputs f) \<le> 5 \<and> list_all input_accepted (fm_inputs f)"

section \<open>Lengths of numbers\<close>

lemma show_nat_length: "0 < k \<Longrightarrow> length (show_nat n) \<le> k \<longleftrightarrow> n < 10 ^ k"
proof (induction n arbitrary: k rule: show_nat.induct)
  case (1 n)
  show ?case
  proof (cases "n < 10")
    case True
    moreover have "(10 :: nat) \<le> 10 ^ k" using 1(2) by (cases k) simp_all
    ultimately show ?thesis using 1(2) by (simp add: show_nat.simps [of n])
  next
    case False
    show ?thesis
    proof (cases "k = 1")
      case True
      have "0 < length (show_nat (n div 10))" using show_nat_nonempty by simp
      with False True show ?thesis by (simp add: show_nat.simps [of n])
    next
      case k: False
      then obtain m where m: "k = Suc m" "0 < m" using 1(2) by (cases k) auto
      have "length (show_nat (n div 10)) \<le> m \<longleftrightarrow> n div 10 < 10 ^ m" using 1(1) False m(2) by blast
      also have "\<dots> \<longleftrightarrow> n < 10 ^ k" using m by (simp add: div_less_iff_less_mult mult.commute)
      finally show ?thesis using False m by (simp add: show_nat.simps [of n])
    qed
  qed
qed

lemma show_int_length: "0 \<le> n \<Longrightarrow> 0 < k \<Longrightarrow> length (show_int n) \<le> k \<longleftrightarrow> n < 10 ^ k"
  using show_nat_length [of k "nat n"] by (simp add: show_int_def nat_less_iff)

lemma commas_length: "3 * length (commas ds) \<le> 4 * length ds"
  by (induction ds rule: commas.induct) auto

lemma fmt_thousands_length:
  assumes "0 \<le> n" and "n < 2 ^ 63"
  shows "length (fmt_thousands n) \<le> 25"
proof -
  have "n < 10 ^ 19" using assms(2) by simp
  then have "length (show_int n) \<le> 19" using show_int_length [OF assms(1), of 19] by simp
  then show ?thesis using commas_length [of "rev (show_int n)"] assms(1) by (simp add: fmt_thousands_def)
qed

lemma of_ascii_simps [simp]: "length (of_ascii s) = length s" "of_ascii (s @ t) = of_ascii s @ of_ascii t"
  by (simp_all add: of_ascii_def)

lemma amount_input_accepted: "0 < n \<Longrightarrow> n < 2 ^ 63 \<Longrightarrow> input_accepted (amount_input n)"
  using fmt_thousands_length [of n] show_int_length [of n 19]
  by (simp add: input_accepted_def prefill_accepted_def amount_input_def required_input_def)

lemma user_id_input_accepted:
  assumes "0 < u"
  shows "input_accepted (user_id_input u) \<longleftrightarrow> u < 10 ^ 17"
proof -
  have "length (show_int u) \<le> 17 \<longleftrightarrow> u < 10 ^ 17" using show_int_length [of u 17] assms by simp
  then show ?thesis by (auto simp: input_accepted_def prefill_accepted_def user_id_input_def required_input_def)
qed

lemma retyped_plain: "retyped_amount (of_ascii (show_int n)) = Some n"
proof -
  have range: "c \<noteq> 44 \<and> c \<noteq> 95 \<and> \<not> py_space c" if "c \<in> set (of_ascii (show_int n))" for c
    using that of_ascii_show_range by (fastforce simp: of_ascii_show_int py_space_def split: if_splits)
  then have "py_strip (of_ascii (show_int n)) = of_ascii (show_int n)" by (intro py_strip_id) blast
  moreover have "filter (\<lambda>c. c \<noteq> 95) (filter (\<lambda>c. c \<noteq> 44) (of_ascii (show_int n))) = of_ascii (show_int n)"
    using range by (simp add: filter_True)
  ultimately show ?thesis by (simp add: retyped_amount_def py_int_show)
qed

lemma placeholders [simp]:
  "ti_placeholder (amount_input n) = of_ascii (show_int n)" "ti_placeholder (user_id_input u) = of_ascii (show_int u)"
  by (simp_all add: amount_input_def user_id_input_def required_input_def)

lemma word_strip: "py_strip (of_ascii ''TREASURY-WITHDRAW'') = of_ascii ''TREASURY-WITHDRAW''"
  by (simp add: py_strip_def of_ascii_def py_space_def)

text \<open>A guide edited with the form can be opened in the form again: the texts the validator lets through
  have the lengths of the inputs, in characters.\<close>

lemma lead_byte: "192 \<le> x \<Longrightarrow> x < 256 \<Longrightarrow> (of_char (char_of (x :: nat) :: char) :: nat) div 64 \<noteq> 2"
  by (simp add: div_nat_eqI [of 3])

lemma ascii_byte: "x < 128 \<Longrightarrow> (of_char (char_of (x :: nat) :: char) :: nat) div 64 \<noteq> 2"
  using div_less_iff_less_mult [of 64 x 2] by simp

lemma cont_byte: "(of_char (char_of (128 + m mod 64 :: nat) :: char) :: nat) div 64 = 2"
  using mod_less_divisor [of 64 m] by (simp add: div_nat_eqI [of 2])

lemma utf8_char_leads:
  assumes "c < 1114112"
  shows "length (filter (\<lambda>b. (of_char b :: nat) div 64 \<noteq> 2) (utf8_char c)) = 1"
proof -
  note one = filter.simps if_True if_False cont_byte simp_thms list.size One_nat_def add_0
  consider "c < 128" | "\<not> c < 128" "c < 2048" | "\<not> c < 128" "\<not> c < 2048" "c < 65536"
    | "\<not> c < 128" "\<not> c < 2048" "\<not> c < 65536" by blast
  then show ?thesis
  proof cases
    case 1
    then show ?thesis by (simp only: utf8_char_def one ascii_byte)
  next
    case 2
    then have "c div 64 < 32" by (simp add: div_less_iff_less_mult)
    with 2 lead_byte [of "192 + c div 64"] show ?thesis by (simp only: utf8_char_def one)
  next
    case 3
    then have "c div 4096 < 16" by (simp add: div_less_iff_less_mult)
    with 3 lead_byte [of "224 + c div 4096"] show ?thesis by (simp only: utf8_char_def one)
  next
    case 4
    have "c div 262144 < 5" using assms by (simp add: div_less_iff_less_mult)
    with 4 lead_byte [of "240 + c div 262144"] show ?thesis by (simp only: utf8_char_def one)
  qed
qed

lemma code_points_utf8: "list_all (\<lambda>c. c < 1114112) s \<Longrightarrow> code_points (utf8 s) = length s"
proof (induction s)
  case Nil
  show ?case by (simp add: code_points_def utf8_def)
next
  case (Cons c s)
  have "length (filter (\<lambda>b. (of_char b :: nat) div 64 \<noteq> 2) (utf8_char c)) = 1"
    using utf8_char_leads [of c] Cons.prems by simp
  with Cons show ?case by (simp add: code_points_def utf8_def)
qed

lemma guide_form_accepted:
  "discord_accepts (guide_form key title description) \<longleftrightarrow> code_points title \<le> 256 \<and> code_points description \<le> 4000"
  by (auto simp: guide_form_def discord_accepts_def input_accepted_def prefill_accepted_def required_input_def Let_def)

lemma edited_guide_reopens:
  assumes "edit_dynamic_embed_input trim title description = Inr (t, s)"
    and "list_all (\<lambda>c. c < 1114112) t" and "list_all (\<lambda>c. c < 1114112) s"
  shows "discord_accepts (layout (Guide_modal key (utf8 t) (utf8 s)))"
  using assms by (auto simp: guide_form_accepted code_points_utf8 edit_dynamic_embed_input_def Let_def split: if_splits)

text \<open>C16: The forms keep the limits of Discord. The ticket, confirmation and sweep forms are accepted for
  every amount. The form of a guide is accepted exactly when the stored title has at most 256 and the
  stored description at most 4000 characters, since Discord refuses a longer pre-filled text. The form
  that sends gold of the treasury to a player is accepted exactly when the id of the player has at most
  17 digits, so for the 18 and 19 digits of today's ids it never opens. What the placeholders of the
  treasury forms show passes the second factor and fits the inputs.\<close>

theorem forms_fit_discord:
  assumes "0 < amount" and "amount < 2 ^ 63" and "0 < user"
  shows "discord_accepts (layout Deposit_modal) \<and> discord_accepts (layout Withdraw_modal)
    \<and> discord_accepts (layout (Confirm_modal ''CONFIRM'')) \<and> discord_accepts (layout (Sweep_modal amount))
    \<and> (discord_accepts (layout (Guide_modal key title description))
        \<longleftrightarrow> code_points title \<le> 256 \<and> code_points description \<le> 4000)
    \<and> (discord_accepts (layout (Treasury_withdraw_modal amount user)) \<longleftrightarrow> user < 10 ^ 17)
    \<and> (case map ti_placeholder (fm_inputs (layout (Treasury_withdraw_modal amount user))) of
         [w, a, i] \<Rightarrow> validate_treasury_withdraw_confirm w a amount i user = None \<and> length w \<le> 20 \<and> length a \<le> 20
       | _ \<Rightarrow> False)"
proof -
  note defs = discord_accepts_def input_accepted_def prefill_accepted_def required_input_def
  have n: "amount < 10 ^ 20" using assms(2) by simp
  show ?thesis
    using amount_input_accepted [OF assms(1,2)] user_id_input_accepted [OF assms(3)] show_int_length [of amount 20] n assms(1)
      guide_form_accepted [of "of_ascii key" title description]
    by (simp add: ticket_input_form_def confirm_form_def sweep_form_def treasury_withdraw_form_def Let_def
        defs withdraw_confirm_None retyped_plain retyped_number word_strip)
qed

theorem forms_fit_discord_witness:
  "\<not> discord_accepts (layout (Treasury_withdraw_modal 5000 123456789012345678))
    \<and> discord_accepts (layout (Sweep_modal 5000))
    \<and> discord_accepts (layout (Guide_modal ''how_to_deposit'' ''How to deposit'' (replicate 4000 CHR ''x'')))
    \<and> \<not> discord_accepts (layout (Guide_modal ''how_to_deposit'' ''How to deposit'' (replicate 4001 CHR ''x'')))"
proof -
  have title: "code_points ''How to deposit'' = 14" by code_simp
  have body: "code_points (replicate n CHR ''x'') = n" for n by (simp add: code_points_def)
  have guide: "discord_accepts (layout (Guide_modal key title description))
      \<longleftrightarrow> code_points title \<le> 256 \<and> code_points description \<le> 4000" for key title description
    using forms_fit_discord [of 5000 123456789012345678 key title description] by simp
  have "\<not> discord_accepts (layout (Treasury_withdraw_modal 5000 123456789012345678))"
    and "discord_accepts (layout (Sweep_modal 5000))"
    using forms_fit_discord [of 5000 123456789012345678 "[]" "[]" "[]"] by simp_all
  then show ?thesis unfolding guide title body by simp
qed

end
