(* ===== verification/Roster.thy ===== *)
theory Roster
  imports Orchestration Text "HOL-Library.List_Lexorder" "HOL-Library.Char_ord"
begin

text \<open>
  The cashier roster (\<^verbatim>\<open>deathroll_core/balance/cashier_roster.py\<close>) and the matcher that names the
  cashiers in the alert of a new ticket (\<^verbatim>\<open>deathroll_core/balance/cashier_matcher.py\<close>), with the
  account summary of a player (\<^verbatim>\<open>account_stats.py\<close>).
\<close>

section \<open>The roster\<close>

record roster_entry =
  re_discord_id :: int
  re_status :: cashier_state
  re_regions :: "string list"
  re_factions :: "string list"
  re_last_active_at :: int

record roster_snapshot =
  rs_online_by_region :: "(string \<times> roster_entry list) list"
  rs_on_break :: "roster_entry list"
  rs_offline_count :: nat

definition active_chars :: "int \<Rightarrow> db \<Rightarrow> character_row list" where
  "active_chars c d = filter (\<lambda>r. cc_discord_id r = c \<and> cc_is_active r) (cashier_characters d)"

text \<open>The query: one row per cashier with the distinct regions and factions of the active characters,
  in the order the aggregate sorts them.\<close>

definition roster_rows :: "db \<Rightarrow> roster_entry list" where
  "roster_rows d =
     map (\<lambda>cs. \<lparr>re_discord_id = cs_discord_id cs, re_status = cs_status cs,
                re_regions = sort (remdups (map cc_region (active_chars (cs_discord_id cs) d))),
                re_factions = sort (remdups (map cc_faction (active_chars (cs_discord_id cs) d))),
                re_last_active_at = cs_last_active_at cs\<rparr>)
       (cashier_status d)"

text \<open>\<^verbatim>\<open>online_by_region.setdefault(region, []).append(entry)\<close>.\<close>

fun bucket_add :: "roster_entry \<Rightarrow> (string \<times> roster_entry list) list \<Rightarrow> string \<Rightarrow> (string \<times> roster_entry list) list" where
  "bucket_add e [] region = [(region, [e])]"
| "bucket_add e ((k, es) # bs) region = (if k = region then (k, es @ [e]) # bs else (k, es) # bucket_add e bs region)"

definition roster_step :: "roster_entry \<Rightarrow> roster_snapshot \<Rightarrow> roster_snapshot" where
  "roster_step e s =
     (if re_status e = Online then s\<lparr>rs_online_by_region := foldl (bucket_add e) (rs_online_by_region s) (re_regions e)\<rparr>
      else if re_status e = Break then s\<lparr>rs_on_break := rs_on_break s @ [e]\<rparr>
      else s\<lparr>rs_offline_count := rs_offline_count s + 1\<rparr>)"

definition fetch_online_roster :: "db \<Rightarrow> roster_snapshot" where
  "fetch_online_roster d =
     fold roster_step (roster_rows d) \<lparr>rs_online_by_region = [], rs_on_break = [], rs_offline_count = 0\<rparr>"

section \<open>The matcher\<close>

datatype matcher_error = Invalid_region_value string | Invalid_faction_value string

definition find_compatible_cashiers :: "roster_snapshot \<Rightarrow> string \<Rightarrow> string \<Rightarrow> matcher_error + roster_entry list" where
  "find_compatible_cashiers s region faction =
     (if region \<notin> {''EU'', ''NA''} then Inl (Invalid_region_value region)
      else if faction \<notin> {''Alliance'', ''Horde''} then Inl (Invalid_faction_value faction)
      else Inr (filter (\<lambda>e. faction \<in> set (re_factions e))
             (case map_of (rs_online_by_region s) region of None \<Rightarrow> [] | Some es \<Rightarrow> es)))"

section \<open>Account summary\<close>

record account_stats =
  as_balance :: int
  as_total_deposited :: int
  as_total_withdrawn :: int
  as_lifetime_fee_paid :: int

definition fetch_account_stats :: "int \<Rightarrow> db \<Rightarrow> account_stats option" where
  "fetch_account_stats u d =
     (if \<not> has_key u_discord_id u (users d) then None
      else Some
        \<lparr>as_balance = coalesce (map_option b_balance (select_balance u d)) 0,
         as_total_deposited = sum_where (\<lambda>t. t_discord_id t = u \<and> t_status t = Confirmed) t_amount (deposit_tickets d),
         as_total_withdrawn = sum_where (\<lambda>t. t_discord_id t = u \<and> t_status t = Confirmed) t_amount (withdraw_tickets d),
         as_lifetime_fee_paid = sum_where (\<lambda>t. t_discord_id t = u \<and> t_status t = Confirmed) w_fee (withdraw_tickets d)\<rparr>)"

section \<open>The buckets are a filter\<close>

definition bucket :: "(string \<times> roster_entry list) list \<Rightarrow> string \<Rightarrow> roster_entry list" where
  "bucket bs r = (case map_of bs r of None \<Rightarrow> [] | Some es \<Rightarrow> es)"

lemma bucket_bucket_add: "bucket (bucket_add e bs r') r = bucket bs r @ (if r' = r then [e] else [])"
  by (induction e bs r' rule: bucket_add.induct) (auto simp: bucket_def)

lemma bucket_adds: "distinct rs \<Longrightarrow> bucket (foldl (bucket_add e) bs rs) r = bucket bs r @ (if r \<in> set rs then [e] else [])"
  by (induction rs arbitrary: bs) (auto simp: bucket_bucket_add)

lemma roster_fold_bucket:
  assumes "\<And>e. e \<in> set es \<Longrightarrow> distinct (re_regions e)"
  shows "bucket (rs_online_by_region (fold roster_step es s)) r =
    bucket (rs_online_by_region s) r @ filter (\<lambda>e. re_status e = Online \<and> r \<in> set (re_regions e)) es"
  using assms by (induction es arbitrary: s) (auto simp: roster_step_def bucket_adds)

lemma roster_bucket:
  "bucket (rs_online_by_region (fetch_online_roster d)) r =
     filter (\<lambda>e. re_status e = Online \<and> r \<in> set (re_regions e)) (roster_rows d)"
  unfolding fetch_online_roster_def
  by (subst roster_fold_bucket) (auto simp: roster_rows_def bucket_def)

lemma find_compatible_filter:
  assumes "valid_region r" and "valid_faction f"
  shows "find_compatible_cashiers (fetch_online_roster d) r f =
    Inr (filter (\<lambda>e. re_status e = Online \<and> r \<in> set (re_regions e) \<and> f \<in> set (re_factions e)) (roster_rows d))"
proof -
  have "find_compatible_cashiers (fetch_online_roster d) r f =
      Inr (filter (\<lambda>e. f \<in> set (re_factions e)) (bucket (rs_online_by_region (fetch_online_roster d)) r))"
    using assms by (simp add: find_compatible_cashiers_def bucket_def valid_region_def valid_faction_def)
  then show ?thesis by (simp add: roster_bucket conj_ac)
qed

lemma active_char_region: "has_active_char c r d \<longleftrightarrow> r \<in> set (map cc_region (active_chars c d))"
  by (auto simp: has_active_char_def active_chars_def list_ex_iff)

lemma audit_no_region_error: "audit_log_insert_with_chain E a d \<noteq> Inl (Raised (Region_mismatch c r))"
  by (auto simp: audit_log_insert_with_chain_def insert_audit_row_def not_null_def chain_key_def raise_if_def bindE_def
      Let_def split: option.splits sum.splits if_splits prod.splits)

lemma update_no_region_error:
  "update_deposit_ticket key k f d \<noteq> Inl (Raised (Region_mismatch c r))"
  "update_withdraw_ticket key' k' g d \<noteq> Inl (Raised (Region_mismatch c r))"
  by (auto simp: update_deposit_ticket_def update_withdraw_ticket_def ticket_terminal_status_immutable_def raise_if_def
      split: option.splits)

lemma claim_region_error:
  "claim_ticket E tt uid c d = Inl (Raised (Region_mismatch c r)) \<Longrightarrow> \<not> has_active_char c r d"
  by (auto simp: claim_ticket_def fail_simps Let_def audit_no_region_error update_no_region_error
      split: if_splits ticket_type.splits)

lemma count_filtered:
  "count_list (map re_discord_id (filter P (map f cs))) c \<le> count_list (map cs_discord_id cs) c"
  if "\<And>x. re_discord_id (f x) = cs_discord_id x"
  using that by (induction cs) auto

text \<open>C35: The alert names exactly the cashiers who are online, have an active character in the region
  of the ticket and an active character of its faction, each such cashier once per status row; so
  every cashier named passes the region check of a claim. The two characters need not be the same:
  region and faction are looked up separately.\<close>

theorem matcher_exact:
  assumes "valid_region r" and "valid_faction f"
  shows "\<exists>es. find_compatible_cashiers (fetch_online_roster d) r f = Inr es
    \<and> (c \<in> set (map re_discord_id es) \<longleftrightarrow>
        (c, Online) \<in> set (map (\<lambda>cs. (cs_discord_id cs, cs_status cs)) (cashier_status d))
        \<and> has_active_char c r d \<and> f \<in> set (map cc_faction (active_chars c d)))
    \<and> count_list (map re_discord_id es) c \<le> count_list (map cs_discord_id (cashier_status d)) c
    \<and> (c \<in> set (map re_discord_id es) \<longrightarrow> claim_ticket E tt uid c d \<noteq> Inl (Raised (Region_mismatch c r)))"
proof -
  let ?es = "filter (\<lambda>e. re_status e = Online \<and> r \<in> set (re_regions e) \<and> f \<in> set (re_factions e)) (roster_rows d)"
  have mem: "c \<in> set (map re_discord_id ?es) \<longleftrightarrow>
      (c, Online) \<in> set (map (\<lambda>cs. (cs_discord_id cs, cs_status cs)) (cashier_status d))
      \<and> has_active_char c r d \<and> f \<in> set (map cc_faction (active_chars c d))"
    by (force simp: roster_rows_def active_char_region)
  have cnt: "count_list (map re_discord_id ?es) c \<le> count_list (map cs_discord_id (cashier_status d)) c"
    unfolding roster_rows_def by (rule count_filtered) simp
  have "claim_ticket E tt uid c d \<noteq> Inl (Raised (Region_mismatch c r))" if "has_active_char c r d"
    using that claim_region_error by blast
  with mem cnt show ?thesis
    by (intro exI [of _ ?es]) (simp add: find_compatible_filter [OF assms])
qed

text \<open>A cashier with an Alliance character in Europe and a Horde character in America is named for a
  Horde ticket in Europe.\<close>

definition roster_demo :: db where
  "roster_demo = (initial_db 0)\<lparr>
     cashier_status := [\<lparr>cs_discord_id = 9, cs_status = Online, cs_set_at = 1, cs_auto_offline_at = None, cs_last_active_at = 1\<rparr>],
     cashier_characters :=
       [\<lparr>cc_id = 1, cc_discord_id = 9, cc_char_name = ''a'', cc_realm = ''r'', cc_region = ''EU'', cc_faction = ''Alliance'',
         cc_is_active = True, cc_added_at = 1, cc_removed_at = None\<rparr>,
        \<lparr>cc_id = 2, cc_discord_id = 9, cc_char_name = ''b'', cc_realm = ''r'', cc_region = ''NA'', cc_faction = ''Horde'',
         cc_is_active = True, cc_added_at = 1, cc_removed_at = None\<rparr>]\<rparr>"

theorem matcher_exact_witness:
  "\<exists>es. find_compatible_cashiers (fetch_online_roster roster_demo) ''EU'' ''Horde'' = Inr es
    \<and> 9 \<in> set (map re_discord_id es) \<and> claim_ticket demo_env ''deposit'' ''deposit-1'' 9 roster_demo \<noteq>
        Inl (Raised (Region_mismatch 9 ''EU''))"
proof -
  have "has_active_char 9 ''EU'' roster_demo" and "''Horde'' \<in> set (map cc_faction (active_chars 9 roster_demo))"
    and "(9, Online) \<in> set (map (\<lambda>cs. (cs_discord_id cs, cs_status cs)) (cashier_status roster_demo))"
    by (simp_all add: roster_demo_def has_active_char_def active_chars_def)
  with matcher_exact [of "''EU''" "''Horde''" roster_demo 9 demo_env "''deposit''" "''deposit-1''"] show ?thesis
    by (auto simp: valid_region_def valid_faction_def)
qed

end
