(* ===== verification/Embeds.thy ===== *)
theory Embeds
  imports Discord Roster
begin

text \<open>
  The embed builders (\<^verbatim>\<open>deathroll_core/embeds/dw_tickets.py\<close>, \<^verbatim>\<open>deathroll_core/embeds/account.py\<close>):
  pure functions from the data of a message to the embed that is shown, with the wording of the
  source. Times are in microseconds.
\<close>

section \<open>Colours and formats\<close>

definition COLOR_GOLD :: int where "COLOR_GOLD = 0xF2B22A"
definition COLOR_WIN :: int where "COLOR_WIN = 0x5DBE5A"
definition COLOR_BUST :: int where "COLOR_BUST = 0xD8231A"
definition COLOR_EMBER :: int where "COLOR_EMBER = 0xC8511C"
definition COLOR_HOUSE :: int where "COLOR_HOUSE = 0x5B7CC9"

definition newline :: string where
  "newline = [CHR 0x0A]"

definition anti_phishing :: string where
  "anti_phishing = uc 0x26A0 @ uc 0xFE0F @ '' The cashier will NEVER send a trade request first '' @ uc 0x2014 @ '' you approach them.''"

definition format_g :: "int \<Rightarrow> string" where
  "format_g amount = fmt_thousands amount @ ''g''"

definition region_label :: "string \<Rightarrow> string" where
  "region_label region = (if region = ''NA'' then ''US'' else region)"

definition row_break :: "string \<times> string \<times> bool" where
  "row_break = (uc 0x200B, uc 0x200B, True)"

text \<open>\<^verbatim>\<open>separator.join(lines)\<close>.\<close>

fun join :: "string \<Rightarrow> string list \<Rightarrow> string" where
  "join separator [] = []"
| "join separator [x] = x"
| "join separator (x # y # xs) = x @ separator @ join separator (y # xs)"

definition with_fields :: "(string \<times> string \<times> bool) list \<Rightarrow> embed \<Rightarrow> embed" where
  "with_fields fs e = fold (\<lambda>(name, val, inline). add_field name val inline) fs e"

section \<open>Deposit tickets\<close>

definition deposit_ticket_open_embed :: "string \<Rightarrow> string \<Rightarrow> string \<Rightarrow> string \<Rightarrow> int \<Rightarrow> int \<Rightarrow> embed" where
  "deposit_ticket_open_embed ticket_uid char_name region faction amount created_at =
     with_fields [(''Deposit ID'', ticket_uid, True), (''Status'', uc 0x1F535 @ '' Submitted'', True), row_break,
             (''Character'', char_name, True), (''Region'', region, True), (''Faction'', faction, True),
             (''Amount'', format_g amount, False)]
       (new_embed (''Deposit '' @ uc 0x2014 @ '' '' @ uc 0x1F535 @ '' Submitted'') None COLOR_HOUSE (Some created_at))"

definition awaiting_cashier_embed :: "string \<Rightarrow> string \<Rightarrow> string \<Rightarrow> embed" where
  "awaiting_cashier_embed region faction ticket_type =
     new_embed (uc 0x1F534 @ '' No '' @ region @ '' '' @ faction @ '' cashiers online'')
       (Some (''Your '' @ ticket_type @ '' ticket is open. '' @
              ''A cashier will claim it when one comes online for your region/faction.'' @ newline @
              newline @ ''**Please stay in this channel.**''))
       COLOR_BUST None"

definition wait_instructions_embed :: "string \<Rightarrow> embed" where
  "wait_instructions_embed ticket_type =
     new_embed (uc 0x23F3 @ '' Please wait for a cashier to claim your ticket.'')
       (Some ''Do not trade gold until a cashier gives you instructions here.'') COLOR_EMBER None"

definition claimed_description :: "string \<Rightarrow> string \<Rightarrow> string \<Rightarrow> string \<Rightarrow> string" where
  "claimed_description what cashier_mention cashier_realm cashier_region =
     cashier_mention @ '' has claimed your '' @ what @ '' (active in **'' @ cashier_realm @ ''** ('' @
     region_label cashier_region @ '')).'' @ newline @ ''**Please follow the Cashier's instructions!**'' @
     newline @ newline @ anti_phishing"

definition deposit_ticket_claimed_embed ::
    "string \<Rightarrow> int \<Rightarrow> string \<Rightarrow> string \<Rightarrow> string \<Rightarrow> string \<Rightarrow> string \<Rightarrow> string \<Rightarrow> embed" where
  "deposit_ticket_claimed_embed ticket_uid amount user_char_name cashier_mention cashier_char cashier_realm
      cashier_region location =
     with_fields [(''ID'', ticket_uid, True), (''Amount'', format_g amount, True), (''Character'', cashier_char, True),
             (''Location'', location, False)]
       (new_embed (uc 0x1F7E1 @ '' Ticket Claimed'')
          (Some (claimed_description ''ticket'' cashier_mention cashier_realm cashier_region)) COLOR_GOLD None)"

definition deposit_ticket_confirmed_embed :: "string \<Rightarrow> int \<Rightarrow> int \<Rightarrow> int \<Rightarrow> embed" where
  "deposit_ticket_confirmed_embed ticket_uid amount new_balance confirmed_at =
     with_fields [(''ID'', ticket_uid, True), (''Amount Credited'', format_g amount, True),
             (''New Balance'', format_g new_balance, True)]
       (new_embed (uc 0x1F7E2 @ '' Deposit Confirmed!'')
          (Some (''Your deposit of **'' @ format_g amount @ ''** has been credited.'')) COLOR_WIN (Some confirmed_at))"

definition deposit_ticket_cancelled_embed :: "string \<Rightarrow> string \<Rightarrow> int \<Rightarrow> embed" where
  "deposit_ticket_cancelled_embed ticket_uid reason cancelled_at =
     with_fields [(''ID'', ticket_uid, True)]
       (new_embed (uc 0x274C @ '' Deposit Cancelled'') (Some (''Reason: '' @ reason)) COLOR_BUST (Some cancelled_at))"

section \<open>Withdraw tickets\<close>

definition withdraw_ticket_open_embed ::
    "string \<Rightarrow> string \<Rightarrow> string \<Rightarrow> string \<Rightarrow> int \<Rightarrow> int \<Rightarrow> int \<Rightarrow> int \<Rightarrow> embed" where
  "withdraw_ticket_open_embed ticket_uid char_name region faction amount fee amount_delivered created_at =
     with_fields [(''Withdraw ID'', ticket_uid, True), (''Status'', uc 0x1F535 @ '' Submitted'', True), row_break,
             (''Character'', char_name, True), (''Region'', region, True), (''Faction'', faction, True),
             (''Amount'', format_g amount, True), (''Fee'', format_g fee, True),
             (''Delivered'', format_g amount_delivered, True)]
       (new_embed (''Withdraw '' @ uc 0x2014 @ '' '' @ uc 0x1F535 @ '' Submitted'') None COLOR_HOUSE (Some created_at))"

definition withdraw_ticket_claimed_embed ::
    "string \<Rightarrow> int \<Rightarrow> int \<Rightarrow> string \<Rightarrow> string \<Rightarrow> string \<Rightarrow> string \<Rightarrow> string \<Rightarrow> string \<Rightarrow> embed" where
  "withdraw_ticket_claimed_embed ticket_uid amount amount_delivered user_char_name cashier_mention cashier_char
      cashier_realm cashier_region location =
     with_fields [(''ID'', ticket_uid, True), (''Amount'', format_g amount, True),
             (''Delivered'', format_g amount_delivered, True), (''Cashier Character'', cashier_char, True),
             (''Location'', location, False)]
       (new_embed (uc 0x1F7E1 @ '' Withdraw Claimed'')
          (Some (claimed_description ''withdraw'' cashier_mention cashier_realm cashier_region)) COLOR_GOLD None)"

definition withdraw_ticket_confirmed_embed :: "string \<Rightarrow> int \<Rightarrow> int \<Rightarrow> int \<Rightarrow> int \<Rightarrow> int \<Rightarrow> embed" where
  "withdraw_ticket_confirmed_embed ticket_uid amount fee amount_delivered new_balance confirmed_at =
     with_fields [(''ID'', ticket_uid, True), (''Amount'', format_g amount, True), (''Fee'', format_g fee, True),
             (''Delivered'', format_g amount_delivered, True), (''New Balance'', format_g new_balance, True)]
       (new_embed (uc 0x1F7E2 @ '' Withdraw Confirmed!'')
          (Some (''You have received **'' @ format_g amount_delivered @ ''** ingame.'')) COLOR_WIN (Some confirmed_at))"

definition withdraw_ticket_cancelled_embed :: "string \<Rightarrow> int \<Rightarrow> string \<Rightarrow> int \<Rightarrow> embed" where
  "withdraw_ticket_cancelled_embed ticket_uid refunded_amount reason cancelled_at =
     with_fields [(''ID'', ticket_uid, True), (''Refunded'', format_g refunded_amount, True)]
       (new_embed (uc 0x274C @ '' Withdraw Cancelled '' @ uc 0x2014 @ '' REFUNDED'')
          (Some (''Your withdraw was cancelled and **'' @ format_g refunded_amount @ ''** has been REFUNDED to your balance.'' @
                 newline @ newline @ ''Reason: '' @ reason))
          COLOR_BUST (Some cancelled_at))"

section \<open>Cashiers\<close>

definition cashier_alert_embed :: "string \<Rightarrow> string \<Rightarrow> string \<Rightarrow> string \<Rightarrow> int \<Rightarrow> string \<Rightarrow> string list \<Rightarrow> embed" where
  "cashier_alert_embed ticket_uid ticket_type region faction amount channel_ref compatible_cashiers =
     with_fields [(''ID'', ticket_uid, True), (''Type'', ticket_type, True), (''Amount'', format_g amount, True),
             (''Region'', region, True), (''Faction'', faction, True), (''Open in'', channel_ref, True),
             (''Compatible cashiers'',
              if compatible_cashiers \<noteq> [] then join '', '' compatible_cashiers
              else ''_none online for this region/faction_'', False)]
       (new_embed (uc 0x1F514 @ '' New '' @ ticket_type @ '' ticket'')
          (Some (ticket_uid @ '' '' @ uc 0x2014 @ '' '' @ region @ '' '' @ faction @ '' '' @ uc 0x2014 @ '' '' @ format_g amount @
                 newline @ ''Channel: '' @ channel_ref))
          COLOR_GOLD None)"

definition or_dash :: "string \<Rightarrow> string" where
  "or_dash s = (if s = [] then uc 0x2014 else s)"

definition online_cashiers_live_embed :: "roster_snapshot \<Rightarrow> int \<Rightarrow> embed" where
  "online_cashiers_live_embed snapshot last_updated =
     (let online = rs_online_by_region snapshot; on_break = rs_on_break snapshot
      in if online = [] \<and> on_break = [] \<and> rs_offline_count snapshot = 0
         then new_embed ''Online cashiers'' (Some ''No cashiers are currently online.'') COLOR_EMBER (Some last_updated)
         else
         let e = new_embed ''Online cashiers'' None (if online \<noteq> [] then COLOR_WIN else COLOR_EMBER) (Some last_updated);
             e1 = with_fields (map (\<lambda>region.
                 (region,
                  or_dash (join newline (map (\<lambda>r. mention (re_discord_id r) @ '' '' @ uc 0xB7 @ '' '' @
                      or_dash (join '' / '' (re_factions r))) (bucket online region))),
                  False)) (sort (map fst online))) e;
             e2 = (if on_break \<noteq> []
                   then add_field ''On break'' (join newline (map (\<lambda>r. mention (re_discord_id r)) on_break)) False e1
                   else e1)
         in e2\<lparr>em_footer := Some (''Offline cashiers: '' @ show_int (int (rs_offline_count snapshot)))\<rparr>)"

definition cashier_stats_embed ::
    "string \<Rightarrow> int \<Rightarrow> int \<Rightarrow> int \<Rightarrow> int \<Rightarrow> int \<Rightarrow> int \<Rightarrow> int option \<Rightarrow> int option \<Rightarrow> embed" where
  "cashier_stats_embed cashier_mention deposits_completed deposits_cancelled withdraws_completed withdraws_cancelled
      total_volume_g total_online_seconds avg_claim_to_confirm_s last_active_at =
     with_fields [(''Deposits done'', show_int deposits_completed, True),
             (''Deposits cancelled'', show_int deposits_cancelled, True),
             (''Withdraws done'', show_int withdraws_completed, True),
             (''Withdraws cancelled'', show_int withdraws_cancelled, True),
             (''Volume'', format_g total_volume_g, True),
             (''Online'', fmt_quotient1 total_online_seconds 3600 @ '' h'', True),
             (''Avg claim'' @ uc 0x2192 @ ''confirm'',
              case avg_claim_to_confirm_s of Some s \<Rightarrow> show_int s @ '' s'' | None \<Rightarrow> uc 0x2014, True),
             (''Last active'', case last_active_at of Some t \<Rightarrow> strftime_utc t | None \<Rightarrow> ''never'', True)]
       (new_embed ''Cashier stats'' (Some (''Stats for '' @ cashier_mention)) COLOR_HOUSE last_active_at)"

section \<open>Disputes and the audit log\<close>

definition dispute_open_embed :: "int \<Rightarrow> string \<Rightarrow> string \<Rightarrow> string \<Rightarrow> string \<Rightarrow> string \<Rightarrow> int \<Rightarrow> embed" where
  "dispute_open_embed dispute_id ticket_uid ticket_type opener_mention opener_role reason opened_at =
     with_fields [(''Dispute ID'', show_int dispute_id, True), (''Ticket'', ticket_uid, True), (''Type'', ticket_type, True),
             (''Opened by'', opener_mention @ '' ('' @ opener_role @ '')'', False), (''Reason'', reason, False)]
       (new_embed (uc 0x1F6A8 @ '' Dispute #'' @ show_int dispute_id @ '' opened'')
          (Some (''On ticket `'' @ ticket_uid @ ''` ('' @ ticket_type @ '')'')) COLOR_BUST (Some opened_at))"

definition dispute_resolved_embed :: "int \<Rightarrow> string \<Rightarrow> string \<Rightarrow> string \<Rightarrow> int \<Rightarrow> string \<Rightarrow> embed" where
  "dispute_resolved_embed dispute_id ticket_uid resolution resolved_by_mention resolved_at status =
     (let color = (if status = ''resolved'' then COLOR_WIN else COLOR_BUST);
          icon = (if status = ''resolved'' then uc 0x2705 else uc 0x274C)
      in with_fields [(''Ticket'', ticket_uid, True), (''Resolved by'', resolved_by_mention, True)]
           (new_embed (icon @ '' Dispute #'' @ show_int dispute_id @ '' '' @ status) (Some resolution) color
              (Some resolved_at)))"

definition audit_line :: "audit_row \<Rightarrow> string" where
  "audit_line r =
     uc 0x2022 @ '' `#'' @ show_int (a_id r) @ ''` `'' @ strftime_utc (a_ts r) @ ''` **'' @ a_action r @ ''** by '' @
     a_actor_type r @ '' `'' @ show_int (a_actor_id r) @ ''` '' @ uc 0x2192 @ '' `'' @ show_int (a_target_id r) @ ''`'' @
     (case a_amount r of Some n \<Rightarrow> '' '' @ uc 0xB7 @ '' **'' @ fmt_thousands n @ ''g**'' | None \<Rightarrow> [])"

text \<open>A filter on target 0 is truthy in the title and falsy in the empty text.\<close>

definition audit_log_list_embed :: "audit_row list \<Rightarrow> int option \<Rightarrow> embed" where
  "audit_log_list_embed rows target_filter =
     (let title = uc 0x1F4DC @ '' Audit log '' @ uc 0x2014 @
            (case target_filter of Some t \<Rightarrow> '' target=`'' @ show_int t @ ''`'' | None \<Rightarrow> '' recent events'')
      in if rows = []
         then new_embed title
                (Some (''No audit events'' @
                       (case target_filter of
                          Some t \<Rightarrow> if t \<noteq> 0 then '' for `'' @ show_int t @ ''`'' else []
                        | None \<Rightarrow> []) @ '' yet.''))
                COLOR_HOUSE None
         else new_embed title
                (Some (join newline ((''**'' @ show_int (int (length rows)) @ '' event(s) shown.**'') # map audit_line rows)))
                COLOR_HOUSE None)"

definition dispute_line :: "dispute_row \<Rightarrow> string" where
  "dispute_line r =
     uc 0x2022 @ '' `#'' @ show_int (d_id r) @ ''` '' @ uc 0xB7 @ '' **'' @ dispute_status_text (d_status r) @ ''** '' @
     uc 0xB7 @ '' '' @ ticket_type_text (d_ticket_type r) @ '' `'' @ d_ticket_uid r @ ''` '' @ uc 0xB7 @ '' by '' @
     mention (d_opener_id r) @ '' '' @ uc 0xB7 @ '' '' @ strftime_utc (d_opened_at r)"

definition dispute_list_embed :: "dispute_row list \<Rightarrow> string option \<Rightarrow> embed" where
  "dispute_list_embed rows status_filter =
     (let title = uc 0x1F4CB @ '' Disputes '' @ uc 0x2014 @
            (case status_filter of Some s \<Rightarrow> '' status='' @ s | None \<Rightarrow> '' all statuses'')
      in if rows = []
         then new_embed title
                (Some (''No disputes found'' @
                       (case status_filter of Some s \<Rightarrow> if s \<noteq> [] then '' with status='' @ s else [] | None \<Rightarrow> []) @ ''.''))
                COLOR_HOUSE None
         else new_embed title
                (Some (join newline ((''**'' @ show_int (int (length rows)) @ '' dispute(s) shown.**'') # map dispute_line rows)))
                (if status_filter = Some ''open'' then COLOR_GOLD else COLOR_HOUSE) None)"

section \<open>Account\<close>

definition account_summary_embed :: "int \<Rightarrow> int \<Rightarrow> int \<Rightarrow> int \<Rightarrow> embed" where
  "account_summary_embed balance total_deposited total_withdrawn lifetime_fee_paid =
     with_fields [(''Balance'', format_g balance, False), (''Total deposited'', format_g total_deposited, True),
             (''Total withdrawn'', format_g total_withdrawn, True), (''Lifetime fees paid'', format_g lifetime_fee_paid, True)]
       (new_embed ''Your account'' None COLOR_GOLD None)"

definition no_balance_embed :: "string \<Rightarrow> embed" where
  "no_balance_embed deposit_channel_mention =
     new_embed ''No balance yet''
       (Some (''You don't have a DeathRoll balance yet.'' @ newline @ ''See '' @ deposit_channel_mention @
              '' for instructions on how to deposit gold and get started.'')) COLOR_HOUSE None"

definition help_topics :: "(string \<times> string \<times> string) list" where
  "help_topics =
    [(''deposit'', ''How to deposit'',
      ''Run ``/deposit`` in #deposit and follow the cashier's instructions in your private ticket channel. The cashier '' @
      ''will tell you where to meet in-game; you approach them, never the other way around.''),
     (''withdraw'', ''How to withdraw'',
      ''Run ``/withdraw`` in #withdraw. The bot locks the requested amount on your balance and a cashier claims your ticket. '' @
      ''After the in-game trade, ``/confirm`` finalises and the fee is taken from the gross amount.''),
     (''fairness'', ''Provably Fair'',
      ''All gambling outcomes are provably fair via HMAC-SHA512 with per-user seeds. See #fairness for the verifier and '' @
      ''your current seed pair.''),
     (''support'', ''Support'',
      ''For account or dispute issues, use ``/admin dispute open`` with your ticket UID and a clear description, or DM the '' @
      ''@admin role for emergencies.'')]"

definition help_embed :: "string option \<Rightarrow> embed" where
  "help_embed topic =
     (case Option.bind topic (map_of help_topics) of
        None \<Rightarrow> with_fields (map (\<lambda>(key, title, _). (key, title, False)) help_topics)
                 (new_embed ''Help'' (Some ''Pick a topic with ``/help <topic>``.'') COLOR_HOUSE None)
      | Some (title, body) \<Rightarrow> new_embed title (Some body) COLOR_GOLD None)"

definition treasury_balance_embed :: "int \<Rightarrow> int option \<Rightarrow> int option \<Rightarrow> embed" where
  "treasury_balance_embed balance last_sweep_at last_sweep_amount =
     with_fields [(''Balance'', format_g balance, False),
             (''Last sweep'',
              case (last_sweep_at, last_sweep_amount) of
                (Some t, Some n) \<Rightarrow> format_g n @ '' on '' @ strftime_utc t
              | _ \<Rightarrow> ''No sweeps recorded yet.'', False)]
       (new_embed ''Treasury balance'' None COLOR_GOLD None)"

end
