(* ===== verification/Posts.thy ===== *)
theory Posts
  imports Embeds
begin

text \<open>
  The best-effort posts that follow an action: the \<^verbatim>\<open>#audit-log\<close> channel
  (\<^verbatim>\<open>deathroll_deposit_withdraw/audit_log.py\<close>), the embed of a dispute (\<^verbatim>\<open>disputes.py\<close>) and the
  alert to cashiers (\<^verbatim>\<open>cashiers/alert.py\<close>). They read the bindings, swallow the failures of
  Discord and never undo what happened.
\<close>

section \<open>The audit-log channel\<close>

record audit_event =
  ae_action :: string
  ae_title :: string
  ae_description :: string
  ae_actor :: "string option"
  ae_target :: "string option"
  ae_ticket_uid :: "string option"
  ae_amount :: "int option"
  ae_extra :: "(string \<times> string) list"

definition action_color :: "(string \<times> int) list" where
  "action_color =
    [(''ticket_opened'', 0x5B7CC9), (''ticket_claimed'', 0xF2B22A), (''ticket_released'', 0xC8511C),
     (''ticket_confirmed'', 0x5DBE5A), (''ticket_cancelled'', 0xD8231A), (''force_cancel'', 0xD8231A),
     (''force_cashier_offline'', 0xC8511C), (''force_close_thread'', 0xC8511C), (''treasury'', 0xF2B22A),
     (''dispute_opened'', 0xD8231A), (''dispute_resolved'', 0x5DBE5A), (''dispute_rejected'', 0xC8511C),
     (''user_banned'', 0xD8231A), (''user_unbanned'', 0x5DBE5A), (''config_changed'', 0xF2B22A),
     (''treasury_sweep'', 0xF2B22A), (''treasury_withdraw_to_user'', 0xC8511C)]"

definition truthy :: "string option \<Rightarrow> bool" where
  "truthy s \<longleftrightarrow> s \<noteq> None \<and> s \<noteq> Some []"

definition audit_event_embed :: "audit_event \<Rightarrow> int \<Rightarrow> embed" where
  "audit_event_embed ev t =
     with_fields
       ((if truthy (ae_ticket_uid ev) then [(''Ticket'', ''`'' @ the (ae_ticket_uid ev) @ ''`'', True)] else []) @
        (case ae_amount ev of Some n \<Rightarrow> [(''Amount'', fmt_thousands n @ ''g'', True)] | None \<Rightarrow> []) @
        (if truthy (ae_actor ev) then [(''Actor'', the (ae_actor ev), True)] else []) @
        (if truthy (ae_target ev) \<and> ae_target ev \<noteq> ae_actor ev then [(''Target'', the (ae_target ev), True)] else []) @
        map (\<lambda>(k, v). (k, v, False)) (ae_extra ev))
       (new_embed (ae_title ev) (Some (ae_description ev))
          (case map_of action_color (ae_action ev) of Some c \<Rightarrow> c | None \<Rightarrow> 0x5B7CC9) (Some t))"

definition post_audit_event :: "bot_env \<Rightarrow> audit_event \<Rightarrow> unit cmd" where
  "post_audit_event B ev =
     bindC (resolve_channel_id ''audit_log'') (\<lambda>channel_id.
     case channel_id of
       None \<Rightarrow> ret ()
     | Some c \<Rightarrow>
         if \<not> be_known_channel B c then ret ()
         else bindC (utcnow B) (\<lambda>t. attempt (send B (Channel_send c (Card (audit_event_embed ev t))))))"

definition base_event :: "string \<Rightarrow> string \<Rightarrow> string \<Rightarrow> string \<Rightarrow> audit_event" where
  "base_event action title description actor =
     \<lparr>ae_action = action, ae_title = title, ae_description = description, ae_actor = Some actor, ae_target = None,
      ae_ticket_uid = None, ae_amount = None, ae_extra = []\<rparr>"

text \<open>\<^verbatim>\<open>str.capitalize()\<close> on the two ticket types.\<close>

definition capitalize :: "string \<Rightarrow> string" where
  "capitalize s =
     (case s of [] \<Rightarrow> []
      | c # cs \<Rightarrow> (let n = of_char c :: nat in if 97 \<le> n \<and> n \<le> 122 then char_of (n - 32) else c) # lower cs)"

definition reason_note :: "string \<Rightarrow> string" where
  "reason_note reason = '' Reason: *'' @ reason @ ''*''"

definition audit_ticket_opened :: "bot_env \<Rightarrow> string \<Rightarrow> string \<Rightarrow> string \<Rightarrow> int \<Rightarrow> unit cmd" where
  "audit_ticket_opened B ticket_type ticket_uid user_mention amount =
     post_audit_event B
       ((base_event ''ticket_opened'' (uc 0x1F4E5 @ '' '' @ capitalize ticket_type @ '' ticket opened'')
          (user_mention @ '' opened a '' @ ticket_type @ '' ticket.'') user_mention)
        \<lparr>ae_ticket_uid := Some ticket_uid, ae_amount := Some amount\<rparr>)"

definition audit_ticket_claimed :: "bot_env \<Rightarrow> string \<Rightarrow> string \<Rightarrow> string \<Rightarrow> unit cmd" where
  "audit_ticket_claimed B ticket_type ticket_uid cashier_mention =
     post_audit_event B
       ((base_event ''ticket_claimed'' (uc 0x1F7E1 @ '' '' @ capitalize ticket_type @ '' ticket claimed'')
          (cashier_mention @ '' claimed the ticket.'') cashier_mention)
        \<lparr>ae_ticket_uid := Some ticket_uid\<rparr>)"

definition audit_ticket_confirmed :: "bot_env \<Rightarrow> string \<Rightarrow> string \<Rightarrow> string \<Rightarrow> string \<Rightarrow> int \<Rightarrow> int \<Rightarrow> unit cmd" where
  "audit_ticket_confirmed B ticket_type ticket_uid cashier_mention user_mention amount new_balance =
     post_audit_event B
       ((base_event ''ticket_confirmed'' (uc 0x1F7E2 @ '' '' @ capitalize ticket_type @ '' confirmed'')
          (cashier_mention @ '' confirmed for '' @ user_mention @ ''. User balance is now **'' @
           fmt_thousands new_balance @ ''g**.'') cashier_mention)
        \<lparr>ae_target := Some user_mention, ae_ticket_uid := Some ticket_uid, ae_amount := Some amount\<rparr>)"

definition audit_ticket_cancelled :: "bot_env \<Rightarrow> string \<Rightarrow> string \<Rightarrow> string \<Rightarrow> string \<Rightarrow> unit cmd" where
  "audit_ticket_cancelled B ticket_type ticket_uid actor_mention reason =
     post_audit_event B
       ((base_event ''ticket_cancelled'' (uc 0x274C @ '' '' @ capitalize ticket_type @ '' cancelled'')
          (actor_mention @ '' cancelled the ticket.'' @ reason_note reason) actor_mention)
        \<lparr>ae_ticket_uid := Some ticket_uid\<rparr>)"

definition audit_force_cashier_offline :: "bot_env \<Rightarrow> string \<Rightarrow> string \<Rightarrow> string \<Rightarrow> unit cmd" where
  "audit_force_cashier_offline B admin_mention cashier_mention reason =
     post_audit_event B
       ((base_event ''force_cashier_offline'' (uc 0x1F6D1 @ '' Cashier forced offline'')
          (admin_mention @ '' forced '' @ cashier_mention @ '' offline.'' @ reason_note reason) admin_mention)
        \<lparr>ae_target := Some cashier_mention\<rparr>)"

definition audit_force_cancel_ticket :: "bot_env \<Rightarrow> string \<Rightarrow> string \<Rightarrow> string \<Rightarrow> unit cmd" where
  "audit_force_cancel_ticket B admin_mention ticket_uid reason =
     post_audit_event B
       ((base_event ''force_cancel'' (uc 0x1F6D1 @ '' Ticket force-cancelled by admin'')
          (admin_mention @ '' force-cancelled the ticket.'' @ reason_note reason) admin_mention)
        \<lparr>ae_ticket_uid := Some ticket_uid\<rparr>)"

definition audit_force_close_thread :: "bot_env \<Rightarrow> string \<Rightarrow> string \<Rightarrow> string \<Rightarrow> unit cmd" where
  "audit_force_close_thread B admin_mention thread_mention reason =
     post_audit_event B
       (base_event ''force_close_thread'' (uc 0x1F6D1 @ '' Thread force-archived by admin'')
          (admin_mention @ '' archived '' @ thread_mention @ ''.'' @ reason_note reason) admin_mention)"

definition audit_dispute_opened ::
    "bot_env \<Rightarrow> int \<Rightarrow> string \<Rightarrow> string \<Rightarrow> string \<Rightarrow> string \<Rightarrow> string \<Rightarrow> unit cmd" where
  "audit_dispute_opened B dispute_id ticket_type ticket_uid opener_mention opener_role reason =
     post_audit_event B
       ((base_event ''dispute_opened'' (uc 0x1F6A8 @ '' Dispute #'' @ show_int dispute_id @ '' opened'')
          (opener_mention @ '' ('' @ opener_role @ '') opened a dispute on the '' @ ticket_type @ '' ticket.'' @
           reason_note reason) opener_mention)
        \<lparr>ae_ticket_uid := Some ticket_uid,
         ae_extra := [(''Dispute ID'', show_int dispute_id), (''Type'', ticket_type)]\<rparr>)"

definition audit_dispute_resolved :: "bot_env \<Rightarrow> int \<Rightarrow> string \<Rightarrow> string \<Rightarrow> string \<Rightarrow> int option \<Rightarrow> unit cmd" where
  "audit_dispute_resolved B dispute_id ticket_uid admin_mention action amount =
     post_audit_event B
       ((base_event ''dispute_resolved'' (uc 0x2705 @ '' Dispute #'' @ show_int dispute_id @ '' resolved'')
          (admin_mention @ '' resolved dispute #'' @ show_int dispute_id @ '' as **'' @ action @ ''**.'') admin_mention)
        \<lparr>ae_ticket_uid := Some ticket_uid, ae_amount := amount,
         ae_extra := [(''Dispute ID'', show_int dispute_id), (''Action'', action)]\<rparr>)"

definition audit_dispute_rejected :: "bot_env \<Rightarrow> int \<Rightarrow> string \<Rightarrow> string \<Rightarrow> string \<Rightarrow> unit cmd" where
  "audit_dispute_rejected B dispute_id ticket_uid admin_mention reason =
     post_audit_event B
       ((base_event ''dispute_rejected'' (uc 0x274C @ '' Dispute #'' @ show_int dispute_id @ '' rejected'')
          (admin_mention @ '' rejected the dispute.'' @ reason_note reason) admin_mention)
        \<lparr>ae_ticket_uid := Some ticket_uid, ae_extra := [(''Dispute ID'', show_int dispute_id)]\<rparr>)"

definition audit_user_banned :: "bot_env \<Rightarrow> string \<Rightarrow> string \<Rightarrow> string \<Rightarrow> unit cmd" where
  "audit_user_banned B admin_mention target_mention reason =
     post_audit_event B
       ((base_event ''user_banned'' (uc 0x1F6AB @ '' User banned'')
          (admin_mention @ '' banned '' @ target_mention @ ''.'' @ reason_note reason) admin_mention)
        \<lparr>ae_target := Some target_mention\<rparr>)"

definition audit_user_unbanned :: "bot_env \<Rightarrow> string \<Rightarrow> string \<Rightarrow> unit cmd" where
  "audit_user_unbanned B admin_mention target_mention =
     post_audit_event B
       ((base_event ''user_unbanned'' (uc 0x2705 @ '' User unbanned'')
          (admin_mention @ '' unbanned '' @ target_mention @ ''.'') admin_mention)
        \<lparr>ae_target := Some target_mention\<rparr>)"

definition audit_treasury_sweep :: "bot_env \<Rightarrow> string \<Rightarrow> int \<Rightarrow> int \<Rightarrow> string \<Rightarrow> unit cmd" where
  "audit_treasury_sweep B admin_mention amount new_balance reason =
     post_audit_event B
       ((base_event ''treasury_sweep'' (uc 0x1F3E6 @ '' Treasury sweep'')
          (admin_mention @ '' swept **'' @ fmt_thousands amount @ ''g** from the treasury. New balance: **'' @
           fmt_thousands new_balance @ ''g**.'' @ reason_note reason) admin_mention)
        \<lparr>ae_amount := Some amount, ae_extra := [(''New treasury balance'', fmt_thousands new_balance @ ''g'')]\<rparr>)"

definition audit_treasury_withdraw_to_user :: "bot_env \<Rightarrow> string \<Rightarrow> string \<Rightarrow> int \<Rightarrow> string \<Rightarrow> unit cmd" where
  "audit_treasury_withdraw_to_user B admin_mention target_mention amount reason =
     post_audit_event B
       ((base_event ''treasury_withdraw_to_user'' (uc 0x1F3E6 @ '' Treasury withdraw to user'')
          (admin_mention @ '' sent **'' @ fmt_thousands amount @ ''g** from the treasury to '' @ target_mention @ ''.'' @
           reason_note reason) admin_mention)
        \<lparr>ae_target := Some target_mention, ae_amount := Some amount\<rparr>)"

definition audit_config_changed :: "bot_env \<Rightarrow> string \<Rightarrow> string \<Rightarrow> string \<Rightarrow> string option \<Rightarrow> unit cmd" where
  "audit_config_changed B admin_mention key new_value old_value =
     post_audit_event B
       ((base_event ''config_changed'' (uc 0x2699 @ uc 0xFE0F @ '' Config changed '' @ uc 0x2014 @ '' `'' @ key @ ''`'')
          (join '' '' ([admin_mention @ '' updated `'' @ key @ ''`.''] @
             (case old_value of Some v \<Rightarrow> [''Old: `'' @ v @ ''`''] | None \<Rightarrow> []) @ [''New: `'' @ new_value @ ''`'']))
          admin_mention)
        \<lparr>ae_extra := [(''Key'', key), (''New value'', new_value)]\<rparr>)"

section \<open>The disputes channel\<close>

definition post_dispute_open_embed ::
    "bot_env \<Rightarrow> int \<Rightarrow> string \<Rightarrow> string \<Rightarrow> string \<Rightarrow> string \<Rightarrow> string \<Rightarrow> int \<Rightarrow> unit cmd" where
  "post_dispute_open_embed B dispute_id ticket_type ticket_uid opener_mention opener_role reason opened_at =
     bindC (resolve_channel_id ''disputes'') (\<lambda>channel_id.
     case channel_id of
       None \<Rightarrow> ret ()
     | Some c \<Rightarrow>
         if \<not> be_known_channel B c then ret ()
         else bindC (try_any
                (bindC (request B (Channel_send c (Card
                   (dispute_open_embed dispute_id ticket_uid ticket_type opener_mention opener_role reason opened_at))))
                   (\<lambda>i. ret (Some i)))
                (\<lambda>_. ret None))
              (\<lambda>msg. case msg of
                 None \<Rightarrow> ret ()
               | Some i \<Rightarrow> attempt (sql B (\<lambda>E d. (Inr (), set_dispute_message dispute_id i d)))))"

definition update_dispute_status_embed :: "bot_env \<Rightarrow> int \<Rightarrow> embed \<Rightarrow> unit cmd" where
  "update_dispute_status_embed B dispute_id new_card =
     bindC (query (\<lambda>d. Option.bind (sel_key d_id dispute_id (disputes d)) d_discord_message_id)) (\<lambda>message_id.
     case message_id of
       None \<Rightarrow> ret ()
     | Some m \<Rightarrow>
         bindC (resolve_channel_id ''disputes'') (\<lambda>channel_id.
         case channel_id of
           None \<Rightarrow> ret ()
         | Some c \<Rightarrow>
             if \<not> be_known_channel B c then ret ()
             else attempt (seqC (send B (Fetch_message c m)) (send B (Edit_message c m (Card new_card))))))"

section \<open>The cashier alert\<close>

definition post_cashier_alert :: "bot_env \<Rightarrow> string \<Rightarrow> string \<Rightarrow> string \<Rightarrow> string \<Rightarrow> int \<Rightarrow> string \<Rightarrow> unit cmd" where
  "post_cashier_alert B ticket_uid ticket_type region faction amount ticket_channel_mention =
     bindC (resolve_channel_id ''cashier_alerts'') (\<lambda>channel_id.
     case channel_id of
       None \<Rightarrow> ret ()
     | Some c \<Rightarrow>
         if \<not> be_known_channel B c then ret ()
         else bindC (query fetch_online_roster) (\<lambda>snapshot.
              case find_compatible_cashiers snapshot region faction of
                Inl _ \<Rightarrow> throw (Python_value_error ''invalid region or faction'')
              | Inr compatible \<Rightarrow>
                  bindC (role_mention ''cashier'') (\<lambda>cashier_ping.
                  attempt (send B (Channel_send c (Plain_card cashier_ping
                    (cashier_alert_embed ticket_uid ticket_type region faction amount ticket_channel_mention
                       (map (\<lambda>e. mention (re_discord_id e)) compatible))))))))"

section \<open>Posts never fail\<close>

text \<open>A post answers without an exception and leaves the books and every table as they were, but for
  the message id of a dispute.\<close>

definition harmless :: "unit cmd \<Rightarrow> bool" where
  "harmless m \<longleftrightarrow> (\<forall>w. \<exists>w'. m w = (Inr (), w') \<and> wd_db w' = wd_db w \<and> wd_embeds w' = wd_embeds w)"

named_theorems harmless_intros \<open>commands that only send\<close>

definition still :: "'a cmd \<Rightarrow> bool" where
  "still m \<longleftrightarrow> (\<forall>w. wd_db (snd (m w)) = wd_db w \<and> wd_embeds (snd (m w)) = wd_embeds w)"

lemma still_request: "still (request B r)"
  by (simp add: still_def request_def split: answer.split)

lemma still_bind: "still m \<Longrightarrow> (\<And>x. still (f x)) \<Longrightarrow> still (bindC m f)"
  by (auto simp: still_def bindC_def split: prod.splits sum.splits) (metis snd_conv)+

lemma still_send: "still (send B r)"
  unfolding send_def by (rule still_bind [OF still_request]) (simp add: still_def ret_def)

lemma still_seq: "still m \<Longrightarrow> still m' \<Longrightarrow> still (seqC m m')"
  unfolding seqC_def by (rule still_bind)

lemma harmless_attempt: "still m \<Longrightarrow> harmless (attempt m)"
  unfolding harmless_def attempt_def try_any_def ret_def still_def
  by (simp split: prod.splits sum.splits) (metis prod.exhaust_sel old.unit.exhaust snd_conv)

lemma harmless_ret [harmless_intros]: "harmless (ret ())"
  by (simp add: harmless_def ret_def)

text \<open>A read that always answers, then a harmless continuation.\<close>

definition reads :: "'a cmd \<Rightarrow> bool" where
  "reads m \<longleftrightarrow> (\<forall>w. \<exists>x w'. m w = (Inr x, w') \<and> wd_db w' = wd_db w \<and> wd_embeds w' = wd_embeds w)"

lemma harmless_bind: "reads m \<Longrightarrow> (\<And>x. harmless (f x)) \<Longrightarrow> harmless (bindC m f)"
  unfolding harmless_def reads_def bindC_def by (metis (mono_tags, lifting) case_prod_conv sum.case(2))

lemma reads_bind: "reads m \<Longrightarrow> (\<And>x. reads (f x)) \<Longrightarrow> reads (bindC m f)"
  unfolding reads_def bindC_def by (metis (mono_tags, lifting) case_prod_conv sum.case(2))

lemma reads_query: "reads (query f)"
  by (simp add: reads_def query_def)

lemma reads_utcnow: "reads (utcnow B)"
  by (simp add: reads_def utcnow_def)

lemma reads_ret: "reads (ret x)"
  by (simp add: reads_def ret_def)

lemma reads_channel: "key \<in> set canonical_keys \<Longrightarrow> reads (resolve_channel_id key)"
  by (simp add: resolve_channel_id_def reads_query)

lemma reads_role: "key \<in> set canonical_role_keys \<Longrightarrow> reads (role_mention key)"
  by (simp add: role_mention_def resolve_role_id_def reads_bind reads_query reads_ret)

lemma harmless_post [harmless_intros]: "harmless (post_audit_event B ev)"
  unfolding post_audit_event_def
  by (intro harmless_bind reads_channel)
    (auto simp: canonical_keys_def harmless_ret split: option.split intro!: harmless_bind reads_utcnow harmless_attempt still_send)

lemmas audit_post_defs =
  audit_ticket_opened_def audit_ticket_claimed_def audit_ticket_confirmed_def audit_ticket_cancelled_def
  audit_force_cashier_offline_def audit_force_cancel_ticket_def audit_force_close_thread_def
  audit_dispute_opened_def audit_dispute_resolved_def audit_dispute_rejected_def audit_user_banned_def
  audit_user_unbanned_def audit_treasury_sweep_def audit_treasury_withdraw_to_user_def audit_config_changed_def

lemma harmless_update_dispute [harmless_intros]: "harmless (update_dispute_status_embed B i e)"
  unfolding update_dispute_status_embed_def
  by (intro harmless_bind reads_query)
    (auto simp: canonical_keys_def harmless_ret split: option.split
      intro!: harmless_bind reads_channel harmless_attempt still_seq still_send)

lemma harmless_alert [harmless_intros]:
  assumes "valid_region region" and "valid_faction faction"
  shows "harmless (post_cashier_alert B uid ty region faction n ch)"
proof -
  have "harmless (case find_compatible_cashiers s region faction of Inl _ \<Rightarrow> throw e | Inr c \<Rightarrow>
      bindC (role_mention ''cashier'') (\<lambda>ping. attempt (send B (Channel_send k (F ping c)))))" for s e k and F :: "string \<Rightarrow> roster_entry list \<Rightarrow> content"
    using assms by (auto simp: find_compatible_cashiers_def valid_region_def valid_faction_def canonical_role_keys_def
        intro!: harmless_bind reads_role harmless_attempt still_send)
  then show ?thesis unfolding post_cashier_alert_def
    by (intro harmless_bind reads_channel)
      (auto simp: canonical_keys_def harmless_ret split: option.split intro!: harmless_bind reads_query)
qed

section \<open>Commands that leave the database alone, and commands that fail\<close>

named_theorems still_intros \<open>commands that change neither the database nor the guides\<close>

lemmas [still_intros] = still_request still_send still_bind still_seq

lemma stillD: "still m \<Longrightarrow> m w = (r, w') \<Longrightarrow> wd_db w' = wd_db w"
  unfolding still_def by (metis snd_conv)

lemma still_basic [still_intros]:
  "still (ret x)" "still (throw e)" "still (query f)" "still (utcnow B)" "still (select_embed key)" "still (respond B t)"
  unfolding respond_def
  by (simp_all add: still_def ret_def throw_def query_def utcnow_def select_embed_def still_send [unfolded still_def])

lemma still_choice [still_intros]:
  "still m \<Longrightarrow> still m' \<Longrightarrow> still (if c then m else m')"
  "still m \<Longrightarrow> (\<And>y. still (f y)) \<Longrightarrow> still (case x of None \<Rightarrow> m | Some y \<Rightarrow> f y)"
  by (simp_all split: option.split)

lemma still_harmless: "harmless m \<Longrightarrow> still m"
  unfolding still_def harmless_def by (metis snd_conv)

lemma still_reads: "reads m \<Longrightarrow> still m"
  unfolding still_def reads_def by (metis snd_conv)

lemma still_any [still_intros]: "still m \<Longrightarrow> (\<And>e. still (h e)) \<Longrightarrow> still (try_any m h)"
  unfolding still_def try_any_def by (auto split: prod.splits sum.splits) (metis snd_conv)+

lemma still_attempt [still_intros]: "still m \<Longrightarrow> still (attempt m)"
  unfolding attempt_def by (intro still_intros)

lemma still_bindings [still_intros]: "still (resolve_channel_id key)" "still (role_mention key)"
  unfolding resolve_channel_id_def role_mention_def resolve_role_id_def by (intro still_intros)+

lemma still_sum [still_intros]:
  "(\<And>y. still (f y)) \<Longrightarrow> (\<And>y. still (g y)) \<Longrightarrow> still (case x of Inl y \<Rightarrow> f y | Inr y \<Rightarrow> g y)"
  by (simp split: sum.split)

lemma still_alert [still_intros]: "still (post_cashier_alert B uid ty region faction n ch)"
  unfolding post_cashier_alert_def by (intro still_intros)

lemma still_audit_posts [still_intros]:
  "still (audit_ticket_opened B ty uid um n)" "still (audit_ticket_claimed B ty uid cm)"
  "still (audit_ticket_confirmed B ty uid cm um n nb)" "still (audit_ticket_cancelled B ty uid am r)"
  "still (audit_treasury_sweep B am n nb r)" "still (audit_treasury_withdraw_to_user B am tm n r)"
  "still (audit_config_changed B am key nv ov)"
  unfolding audit_post_defs by (rule still_harmless [OF harmless_post])+

text \<open>A command that never ends normally.\<close>

definition fails :: "'a cmd \<Rightarrow> bool" where
  "fails m \<longleftrightarrow> (\<forall>w. \<exists>e. fst (m w) = Inl e)"

lemma fails_throw: "fails (throw e)"
  by (simp add: fails_def throw_def)

lemma fails_bind: "(\<And>x. fails (f x)) \<Longrightarrow> fails (bindC m f)"
  by (auto simp: fails_def bindC_def split: prod.split sum.split)

lemma fails_seq: "fails m' \<Longrightarrow> fails (seqC m m')"
  unfolding seqC_def by (rule fails_bind)

text \<open>A statement and what follows it: when the rest is still, the database is that of the statement.\<close>

lemma sql_then_still:
  assumes "bindC (sql B f) k w = (r, w')" and "\<And>x. still (k x)"
  shows "wd_db w' = snd (f ((be_pg B)\<lparr>now := be_clock B (wd_step w)\<rparr>) (wd_db w))"
  using assms(1)
  by (auto simp: bindC_def sql_def split: prod.splits sum.splits dest!: stillD [OF assms(2)])

lemma sql_try_still:
  assumes "try_balance (sql B f) h k w = (r, w')" and "\<And>cls msg. still (h cls msg)" and "\<And>x. still (k x)"
  shows "wd_db w' = snd (f ((be_pg B)\<lparr>now := be_clock B (wd_step w)\<rparr>) (wd_db w))"
  using assms(1)
  by (auto simp: try_balance_def sql_def split: prod.splits sum.splits py_error.splits
      dest!: stillD [OF assms(2)] stillD [OF assms(3)])

lemma snd_facade: "snd (facade d m) = d \<or> (\<exists>x. m = Inr (x, snd (facade d m)))"
  by (cases rule: facade_cases [of m d]) auto

section \<open>The contract of the posts\<close>

lemma lawful_bindings [lawful_intros]:
  "lawful B 0 (resolve_channel_id key)" "lawful B 0 (resolve_role_id key)" "lawful B 0 (role_mention key)"
  unfolding resolve_channel_id_def resolve_role_id_def role_mention_def
  by (intro lawful_intros)+

lemma stmt_set_dispute_message [stmt_intros]: "stmt_ok (\<lambda>E d. (Inr (), set_dispute_message i m d))"
  by (rule stmt_done [where c = "\<lambda>_. Set_dispute_message i m"]) simp_all

lemma lawful_posts [lawful_intros]:
  "lawful B 0 (post_audit_event B ev)"
  "lawful B 0 (post_dispute_open_embed B i ty uid om role r t)"
  "lawful B 0 (update_dispute_status_embed B i e)"
  "lawful B 0 (post_cashier_alert B uid ty region faction n ch)"
  unfolding post_audit_event_def post_dispute_open_embed_def update_dispute_status_embed_def post_cashier_alert_def
  by (rule lawful_intros stmt_intros | simp)+

lemma lawful_audit_posts [lawful_intros]:
  "lawful B 0 (audit_ticket_opened B ty uid um n)" "lawful B 0 (audit_ticket_claimed B ty uid cm)"
  "lawful B 0 (audit_ticket_confirmed B ty uid cm um n nb)" "lawful B 0 (audit_ticket_cancelled B ty uid am r)"
  "lawful B 0 (audit_force_cashier_offline B am cm r)" "lawful B 0 (audit_force_cancel_ticket B am uid r)"
  "lawful B 0 (audit_force_close_thread B am tm r)" "lawful B 0 (audit_dispute_opened B i ty uid om role r)"
  "lawful B 0 (audit_dispute_resolved B i uid am act n')" "lawful B 0 (audit_dispute_rejected B i uid am r)"
  "lawful B 0 (audit_user_banned B am tm r)" "lawful B 0 (audit_user_unbanned B am tm)"
  "lawful B 0 (audit_treasury_sweep B am n nb r)" "lawful B 0 (audit_treasury_withdraw_to_user B am tm n r)"
  "lawful B 0 (audit_config_changed B am key nv ov)"
  unfolding audit_post_defs by (rule lawful_posts)+

end
