(* ===== verification/Ticket_Cog.thy ===== *)
theory Ticket_Cog
  imports Posts
begin

text \<open>
  The commands around a ticket: opening one (\<^verbatim>\<open>cogs/deposit.py\<close>, \<^verbatim>\<open>cogs/withdraw.py\<close>, the thread of
  \<^verbatim>\<open>tickets/factory.py\<close>, the forms of \<^verbatim>\<open>views/modals.py\<close>) and the commands run inside its thread
  (\<^verbatim>\<open>cogs/ticket.py\<close>). A command that opens a form ends when the form is sent; what the form does on
  submission is a second command, which works on what the first one captured.
\<close>

section \<open>Opening a ticket\<close>

definition cross :: string where
  "cross = uc 0x274C @ '' ''"

definition format_validation_error :: "bot_env \<Rightarrow> (string \<times> form_error) list \<Rightarrow> string" where
  "format_validation_error B errs =
     ''Could not open ticket '' @ uc 0x2014 @ '' please fix:'' @ newline @
     join newline (map (\<lambda>(loc, e). uc 0x2022 @ '' **'' @ loc @ ''**: '' @ be_form_error_text B e) errs)"

text \<open>\<^verbatim>\<open>on_submit\<close> of the two ticket forms.\<close>

definition ticket_modal_on_submit :: "bot_env \<Rightarrow> raw_form \<Rightarrow> (modal_input \<Rightarrow> unit cmd) \<Rightarrow> unit cmd" where
  "ticket_modal_on_submit B raw on_validated =
     (case modal_base (be_trim B) raw of
        Inl errs \<Rightarrow> respond B (format_validation_error B errs)
      | Inr payload \<Rightarrow> on_validated payload)"

definition create_ticket_thread :: "bot_env \<Rightarrow> int \<Rightarrow> string \<Rightarrow> int \<Rightarrow> int cmd" where
  "create_ticket_thread B parent name user =
     (if name = [] \<or> 100 < length name then throw (Python_value_error ''thread name must be 1-100 chars'')
      else bindC (request B (Create_thread parent name)) (\<lambda>thread.
           seqC (send B (Thread_add_user thread user)) (ret thread)))"

definition safe_delete_thread :: "bot_env \<Rightarrow> int \<Rightarrow> unit cmd" where
  "safe_delete_thread B thread = attempt (send B (Thread_delete thread))"

text \<open>\<^verbatim>\<open>bot.rate_limiters["deposit_create"].acquire(user.id)\<close>, and the one for withdraws.\<close>

definition acquire_deposit :: "bot_env \<Rightarrow> int \<Rightarrow> bool cmd" where
  "acquire_deposit B user w =
     (case acquire user (be_monotonic B (wd_step w)) (wd_deposit_limiter w) of
        (ok, l) \<Rightarrow> (Inr ok, w\<lparr>wd_deposit_limiter := l, wd_step := Suc (wd_step w)\<rparr>))"

definition acquire_withdraw :: "bot_env \<Rightarrow> int \<Rightarrow> bool cmd" where
  "acquire_withdraw B user w =
     (case acquire user (be_monotonic B (wd_step w)) (wd_withdraw_limiter w) of
        (ok, l) \<Rightarrow> (Inr ok, w\<lparr>wd_withdraw_limiter := l, wd_step := Suc (wd_step w)\<rparr>))"

text \<open>The guard of a command that is bound to one channel.\<close>

definition in_bound_channel :: "bot_env \<Rightarrow> interaction \<Rightarrow> string \<Rightarrow> string \<Rightarrow> unit cmd \<Rightarrow> unit cmd" where
  "in_bound_channel B i key label m =
     with_pool B
     (bindC (resolve_channel_id key) (\<lambda>configured.
      case configured of
        None \<Rightarrow> respond B (label @ '' channel not configured yet '' @ uc 0x2014 @ '' ask an admin to run `/admin setup`.'')
      | Some c \<Rightarrow>
          if in_channel_id i \<noteq> Some c then respond B (''Use this command in '' @ channel_mention c @ ''.'') else m))"

definition too_recent :: string where
  "too_recent = ''You opened a ticket too recently. Wait a minute and try again.''"

definition deposit_cmd :: "bot_env \<Rightarrow> interaction \<Rightarrow> unit cmd" where
  "deposit_cmd B i =
     in_bound_channel B i ''deposit'' ''Deposit''
     (bindC (acquire_deposit B (in_user i)) (\<lambda>ok.
      if \<not> ok then respond B too_recent else send B (Send_modal Deposit_modal)))"

definition withdraw_cmd :: "bot_env \<Rightarrow> interaction \<Rightarrow> unit cmd" where
  "withdraw_cmd B i =
     in_bound_channel B i ''withdraw'' ''Withdraw''
     (bindC (acquire_withdraw B (in_user i)) (\<lambda>ok.
      if \<not> ok then respond B too_recent else send B (Send_modal Withdraw_modal)))"

definition config_incomplete :: string where
  "config_incomplete = cross @ ''The bot's config is incomplete '' @ uc 0x2014 @
     '' admins should review `dw.global_config`. Try again later.''"

definition format_deposit_failure :: "deposit_outcome \<Rightarrow> string" where
  "format_deposit_failure outcome =
     (case outcome of
        Deposit_UserBanned _ \<Rightarrow> cross @ ''You are blacklisted from creating deposit tickets. '' @
          ''Open a dispute via the support channel if you believe this is in error.''
      | Deposit_AmountOutOfRange msg \<Rightarrow> cross @ ''Amount out of range: '' @ msg
      | Deposit_InvalidInput msg \<Rightarrow> cross @ ''Invalid input: '' @ msg
      | Deposit_ConfigError _ \<Rightarrow> config_incomplete
      | _ \<Rightarrow> cross @ ''Could not open the deposit ticket. Try again later.'')"

definition format_withdraw_failure :: "withdraw_outcome \<Rightarrow> string" where
  "format_withdraw_failure outcome =
     (case outcome of
        Withdraw_UserBanned _ \<Rightarrow> cross @ ''You are blacklisted from withdrawing. Open a dispute '' @
          ''via the support channel if you believe this is in error.''
      | Withdraw_UserNotRegistered _ \<Rightarrow> cross @ ''You don't have a balance yet '' @ uc 0x2014 @
          '' make a deposit first via `/deposit`.''
      | Withdraw_InsufficientBalance msg \<Rightarrow> cross @ ''Insufficient balance: '' @ msg
      | Withdraw_AmountOutOfRange msg \<Rightarrow> cross @ ''Amount out of range: '' @ msg
      | Withdraw_InvalidInput msg \<Rightarrow> cross @ ''Invalid input: '' @ msg
      | Withdraw_ConfigError _ \<Rightarrow> config_incomplete
      | _ \<Rightarrow> cross @ ''Could not open the withdraw ticket. Try again later.'')"

definition in_text_channel :: "bot_env \<Rightarrow> interaction \<Rightarrow> (int \<Rightarrow> unit cmd) \<Rightarrow> unit cmd" where
  "in_text_channel B i m =
     (case (in_channel i, in_channel_id i) of
        (Some Text_channel, Some parent) \<Rightarrow> m parent
      | _ \<Rightarrow> respond B ''This command must be run in a server text channel.'')"

definition claim_ping :: "string \<Rightarrow> string \<Rightarrow> string" where
  "claim_ping ping ticket_type =
     ping @ '' '' @ uc 0x2014 @ '' new '' @ ticket_type @ '' ticket. Run `/claim` to take it.''"

definition deposit_on_modal_validated :: "bot_env \<Rightarrow> interaction \<Rightarrow> modal_input \<Rightarrow> unit cmd" where
  "deposit_on_modal_validated B i payload =
     (if \<not> be_pool_ready B then throw Assertion_failed else
      in_text_channel B i (\<lambda>parent.
      bindC (create_ticket_thread B parent (''deposit-pending-'' @ show_int (in_user i)) (in_user i)) (\<lambda>thread.
      bindC (sql B (\<lambda>E. open_deposit_ticket E payload (in_user i) thread parent)) (\<lambda>outcome.
      case outcome of
        Deposit_Success ticket_uid \<Rightarrow>
          seqC (send B (Thread_rename thread ticket_uid))
          (bindC (utcnow B) (\<lambda>created_at.
           seqC (send B (Channel_send thread (Card (deposit_ticket_open_embed ticket_uid (mi_char_name payload)
                   (mi_region payload) (mi_faction payload) (mi_amount payload) created_at))))
           (bindC (role_mention ''cashier'') (\<lambda>cashier_ping.
            seqC (send B (Channel_send thread (Plain (claim_ping cashier_ping ''deposit''))))
            (seqC (respond B (''Ticket opened: '' @ channel_mention thread))
            (seqC (post_cashier_alert B ticket_uid ''deposit'' (mi_region payload) (mi_faction payload) (mi_amount payload)
                     (channel_mention thread))
            (audit_ticket_opened B ''deposit'' ticket_uid (mention (in_user i)) (mi_amount payload))))))))
      | _ \<Rightarrow> seqC (safe_delete_thread B thread) (respond B (format_deposit_failure outcome))))))"

text \<open>The stored fee; without a row, two percent.\<close>

definition fetch_fee_and_delivered :: "string \<Rightarrow> int \<Rightarrow> (int \<times> int) cmd" where
  "fetch_fee_and_delivered ticket_uid amount =
     query (\<lambda>d. case select_withdraw ticket_uid d of
        Some t \<Rightarrow> (w_fee t, amount - w_fee t)
      | None \<Rightarrow> (let fallback_fee = amount * 200 div 10000 in (fallback_fee, amount - fallback_fee)))"

definition withdraw_on_modal_validated :: "bot_env \<Rightarrow> interaction \<Rightarrow> modal_input \<Rightarrow> unit cmd" where
  "withdraw_on_modal_validated B i payload =
     (if \<not> be_pool_ready B then throw Assertion_failed else
      in_text_channel B i (\<lambda>parent.
      bindC (create_ticket_thread B parent (''withdraw-pending-'' @ show_int (in_user i)) (in_user i)) (\<lambda>thread.
      bindC (sql B (\<lambda>E. open_withdraw_ticket E payload (in_user i) thread parent)) (\<lambda>outcome.
      case outcome of
        Withdraw_Success ticket_uid \<Rightarrow>
          seqC (send B (Thread_rename thread ticket_uid))
          (bindC (fetch_fee_and_delivered ticket_uid (mi_amount payload)) (\<lambda>(fee, delivered).
           bindC (utcnow B) (\<lambda>created_at.
           seqC (send B (Channel_send thread (Card (withdraw_ticket_open_embed ticket_uid (mi_char_name payload)
                   (mi_region payload) (mi_faction payload) (mi_amount payload) fee delivered created_at))))
           (bindC (role_mention ''cashier'') (\<lambda>cashier_ping.
            seqC (send B (Channel_send thread (Plain (claim_ping cashier_ping ''withdraw''))))
            (seqC (respond B (''Ticket opened: '' @ channel_mention thread))
            (seqC (post_cashier_alert B ticket_uid ''withdraw'' (mi_region payload) (mi_faction payload) (mi_amount payload)
                     (channel_mention thread))
            (audit_ticket_opened B ''withdraw'' ticket_uid (mention (in_user i)) (mi_amount payload)))))))))
      | _ \<Rightarrow> seqC (safe_delete_thread B thread) (respond B (format_withdraw_failure outcome))))))"

section \<open>The ticket of a thread\<close>

text \<open>The row the commands look up, and the dictionary made of it: these columns and no others.\<close>

record thread_row =
  tr_ticket_type :: string
  tr_ticket_uid :: string
  tr_discord_id :: int
  tr_status :: ticket_status
  tr_char_name :: string
  tr_realm :: string
  tr_region :: string
  tr_faction :: string
  tr_amount :: int

datatype (plugins only: code size) cell = Text_cell string | Int_cell int

definition row_dict :: "thread_row \<Rightarrow> (string \<times> cell) list" where
  "row_dict r =
    [(''ticket_type'', Text_cell (tr_ticket_type r)), (''ticket_uid'', Text_cell (tr_ticket_uid r)),
     (''discord_id'', Int_cell (tr_discord_id r)), (''status'', Text_cell (ticket_status_text (tr_status r))),
     (''char_name'', Text_cell (tr_char_name r)), (''realm'', Text_cell (tr_realm r)),
     (''region'', Text_cell (tr_region r)), (''faction'', Text_cell (tr_faction r)), (''amount'', Int_cell (tr_amount r))]"

text \<open>\<^verbatim>\<open>ticket_row[key]\<close>.\<close>

definition row_item :: "thread_row \<Rightarrow> string \<Rightarrow> cell cmd" where
  "row_item r key = (case map_of (row_dict r) key of None \<Rightarrow> throw (Key_error key) | Some c \<Rightarrow> ret c)"

definition thread_row_of :: "string \<Rightarrow> 'a ticket_scheme \<Rightarrow> thread_row" where
  "thread_row_of ticket_type t =
     \<lparr>tr_ticket_type = ticket_type, tr_ticket_uid = t_ticket_uid t, tr_discord_id = t_discord_id t,
      tr_status = t_status t, tr_char_name = t_char_name t, tr_realm = t_realm t, tr_region = t_region t,
      tr_faction = t_faction t, tr_amount = t_amount t\<rparr>"

definition thread_ticket :: "int \<Rightarrow> db \<Rightarrow> thread_row option" where
  "thread_ticket thread_id d =
     (case sel_key t_thread_id thread_id (deposit_tickets d) of
        Some t \<Rightarrow> Some (thread_row_of ''deposit'' t)
      | None \<Rightarrow> map_option (thread_row_of ''withdraw'') (sel_key t_thread_id thread_id (withdraw_tickets d)))"

text \<open>\<open>resolve_ticket_context B i m\<close> answers itself outside a ticket thread, and runs \<open>m\<close> on the row otherwise.\<close>

definition resolve_ticket_context :: "bot_env \<Rightarrow> interaction \<Rightarrow> (thread_row \<Rightarrow> unit cmd) \<Rightarrow> unit cmd" where
  "resolve_ticket_context B i m =
     (case (in_channel i, in_channel_id i) of
        (Some _, Some c) \<Rightarrow>
          bindC (query (thread_ticket c)) (\<lambda>row.
          case row of
            None \<Rightarrow> respond B ''This channel is not bound to any open ticket.''
          | Some r \<Rightarrow> m r)
      | _ \<Rightarrow> respond B ''Run this command inside a ticket thread.'')"

definition build_claimed_embed :: "thread_row \<Rightarrow> string \<Rightarrow> embed" where
  "build_claimed_embed r cashier_mention =
     (let cashier_char = ''(set via /cashier)''; cashier_realm = ''(see cashier)'';
          location = ''(cashier will share in this thread)''
      in if tr_ticket_type r = ''deposit''
         then deposit_ticket_claimed_embed (tr_ticket_uid r) (tr_amount r) (tr_char_name r) cashier_mention
                cashier_char cashier_realm (tr_region r) location
         else withdraw_ticket_claimed_embed (tr_ticket_uid r) (tr_amount r) (tr_amount r) (tr_char_name r) cashier_mention
                cashier_char cashier_realm (tr_region r) location)"

definition build_cancelled_embed :: "thread_row \<Rightarrow> string \<Rightarrow> int \<Rightarrow> embed" where
  "build_cancelled_embed r reason cancelled_at =
     (if tr_ticket_type r = ''deposit'' then deposit_ticket_cancelled_embed (tr_ticket_uid r) reason cancelled_at
      else withdraw_ticket_cancelled_embed (tr_ticket_uid r) (tr_amount r) reason cancelled_at)"

text \<open>\<^verbatim>\<open>ticket_row.get("fee", None)\<close>, with two percent when the key is absent.\<close>

definition row_fee :: "thread_row \<Rightarrow> int" where
  "row_fee r = (case map_of (row_dict r) ''fee'' of Some (Int_cell fee) \<Rightarrow> fee | _ \<Rightarrow> tr_amount r * 200 div 10000)"

definition build_confirmed_embed :: "thread_row \<Rightarrow> int \<Rightarrow> int \<Rightarrow> embed" where
  "build_confirmed_embed r new_balance confirmed_at =
     (if tr_ticket_type r = ''deposit''
      then deposit_ticket_confirmed_embed (tr_ticket_uid r) (tr_amount r) new_balance confirmed_at
      else withdraw_ticket_confirmed_embed (tr_ticket_uid r) (tr_amount r) (row_fee r) (tr_amount r - row_fee r)
             new_balance confirmed_at)"

definition format_confirm_failure :: "confirm_outcome \<Rightarrow> string" where
  "format_confirm_failure outcome = cross @
     (case outcome of
        Confirm_TicketNotFound _ \<Rightarrow> ''Ticket not found.''
      | Confirm_NotClaimed _ \<Rightarrow> ''Cannot confirm: this ticket is not currently claimed.''
      | Confirm_WrongCashier _ \<Rightarrow> ''Only the claiming cashier can confirm this ticket.''
      | Confirm_InvariantViolation _ \<Rightarrow> ''A balance invariant was violated '' @ uc 0x2014 @
          '' admin has been notified. Do not retry.''
      | _ \<Rightarrow> ''Could not confirm the ticket. Try again later.'')"

definition format_lifecycle_failure :: "lifecycle_outcome \<Rightarrow> string \<Rightarrow> string" where
  "format_lifecycle_failure outcome action = cross @
     (case outcome of
        Lifecycle_TicketNotFound _ \<Rightarrow> ''Cannot '' @ action @ '': ticket not found.''
      | Lifecycle_AlreadyClaimed _ \<Rightarrow> ''This ticket is already claimed by another cashier. '' @
          ''If they're inactive, ask an admin or wait for the auto-release.''
      | Lifecycle_RegionMismatch _ \<Rightarrow> ''You don't have an active char in this ticket's region. '' @
          ''Use `/cashier addchar` first.''
      | Lifecycle_NotClaimed _ \<Rightarrow> ''Cannot '' @ action @ '': ticket is not claimed.''
      | Lifecycle_WrongCashier _ \<Rightarrow> ''Only the claiming cashier can '' @ action @ '' this ticket.''
      | Lifecycle_AlreadyTerminal _ \<Rightarrow> ''Ticket is already in a terminal state '' @ uc 0x2014 @ '' can't '' @ action @ '' it.''
      | _ \<Rightarrow> ''Could not '' @ action @ '' the ticket. Try again later.'')"

text \<open>\<^verbatim>\<open>assert isinstance(interaction.channel, Thread | TextChannel)\<close>, then a message there.\<close>

definition channel_send :: "bot_env \<Rightarrow> interaction \<Rightarrow> embed \<Rightarrow> unit cmd" where
  "channel_send B i e =
     (case (in_channel i, in_channel_id i) of
        (Some Other_channel, _) \<Rightarrow> throw Assertion_failed
      | (Some _, Some c) \<Rightarrow> send B (Channel_send c (Card e))
      | _ \<Rightarrow> throw Assertion_failed)"

section \<open>Commands in the thread\<close>

definition claim_cmd :: "bot_env \<Rightarrow> interaction \<Rightarrow> unit cmd" where
  "claim_cmd B i =
     with_pool B
     (resolve_ticket_context B i (\<lambda>r.
      bindC (sql B (\<lambda>E. claim_ticket_for_cashier E (tr_ticket_type r) (tr_ticket_uid r) (in_user i))) (\<lambda>outcome.
      if outcome = Lifecycle_Success
      then seqC (channel_send B i (build_claimed_embed r (mention (in_user i))))
          (seqC (respond B ''Claimed. Coordinate the in-game trade with the user here.'')
          (audit_ticket_claimed B (tr_ticket_type r) (tr_ticket_uid r) (mention (in_user i))))
      else respond B (format_lifecycle_failure outcome ''claim''))))"

definition release_cmd :: "bot_env \<Rightarrow> interaction \<Rightarrow> unit cmd" where
  "release_cmd B i =
     with_pool B
     (resolve_ticket_context B i (\<lambda>r.
      bindC (sql B (\<lambda>E. release_ticket_by_cashier E (tr_ticket_type r) (tr_ticket_uid r) (in_user i))) (\<lambda>outcome.
      if outcome = Lifecycle_Success
      then send B (Respond (Plain ''Released. The ticket is open again for any cashier to claim.'') False)
      else respond B (format_lifecycle_failure outcome ''release''))))"

text \<open>Cancelling, then the embed, the answer and the post, shared by the two cancelling commands.\<close>

definition cancel_and_report ::
    "bot_env \<Rightarrow> interaction \<Rightarrow> thread_row \<Rightarrow> string \<Rightarrow> string \<Rightarrow> string \<Rightarrow> string \<Rightarrow> unit cmd" where
  "cancel_and_report B i r db_reason shown_reason answer action =
     bindC (sql B (\<lambda>E. cancel_ticket_dispatch E (tr_ticket_type r) (tr_ticket_uid r) (in_user i) db_reason)) (\<lambda>outcome.
     if outcome = Lifecycle_Success
     then bindC (utcnow B) (\<lambda>cancelled_at.
          seqC (channel_send B i (build_cancelled_embed r shown_reason cancelled_at))
         (seqC (respond B answer)
         (audit_ticket_cancelled B (tr_ticket_type r) (tr_ticket_uid r) (mention (in_user i)) shown_reason)))
     else respond B (format_lifecycle_failure outcome action))"

definition cancel_cmd :: "bot_env \<Rightarrow> interaction \<Rightarrow> string \<Rightarrow> unit cmd" where
  "cancel_cmd B i reason =
     with_pool B (resolve_ticket_context B i (\<lambda>r. cancel_and_report B i r reason reason ''Ticket cancelled.'' ''cancel''))"

definition cancel_mine_cmd :: "bot_env \<Rightarrow> interaction \<Rightarrow> unit cmd" where
  "cancel_mine_cmd B i =
     with_pool B
     (resolve_ticket_context B i (\<lambda>r.
      if tr_discord_id r \<noteq> in_user i then respond B ''Only the ticket owner can use `/cancel-mine`.''
      else if tr_status r \<noteq> Open
      then respond B (''Your ticket is no longer open '' @ uc 0x2014 @ '' ask the claiming cashier to `/cancel` instead.'')
      else cancel_and_report B i r ''cancel-mine (user)'' ''cancelled by ticket owner'' ''Your ticket has been cancelled.''
             ''cancel-mine''))"

definition confirm_cmd :: "bot_env \<Rightarrow> interaction \<Rightarrow> unit cmd" where
  "confirm_cmd B i =
     with_pool B (resolve_ticket_context B i (\<lambda>r. send B (Send_modal (Confirm_modal ''CONFIRM''))))"

text \<open>What follows a successful confirmation: the embed, the answer, the post, and the duration of the
  claim.\<close>

definition confirmed_steps :: "bot_env \<Rightarrow> thread_row \<Rightarrow> interaction \<Rightarrow> int \<Rightarrow> int \<Rightarrow> unit cmd" where
  "confirmed_steps B r i new_balance confirmed_at =
     seqC (channel_send B i (build_confirmed_embed r new_balance confirmed_at))
     (seqC (respond B ''Confirmed.'')
     (seqC (audit_ticket_confirmed B (tr_ticket_type r) (tr_ticket_uid r) (mention (in_user i))
              (mention (tr_discord_id r)) (tr_amount r) new_balance)
     (bindC (row_item r ''claimed_at'') (\<lambda>claimed_at. ret ()))))"

text \<open>\<^verbatim>\<open>_on_confirmed\<close>, on the row captured before the form; formatting a missing balance is a
  \<^verbatim>\<open>TypeError\<close>.\<close>

definition on_confirmed :: "bot_env \<Rightarrow> thread_row \<Rightarrow> interaction \<Rightarrow> unit cmd" where
  "on_confirmed B r i =
     (if \<not> be_pool_ready B then throw Assertion_failed else
      bindC (sql B (\<lambda>E. confirm_ticket_dispatch E (tr_ticket_type r) (tr_ticket_uid r) (in_user i))) (\<lambda>outcome.
      case outcome of
        Confirm_Success balance \<Rightarrow>
          bindC (utcnow B) (\<lambda>confirmed_at.
          case balance of
            None \<Rightarrow> throw (Python_type_error ''unsupported format string passed to NoneType.__format__'')
          | Some new_balance \<Rightarrow> confirmed_steps B r i new_balance confirmed_at)
      | _ \<Rightarrow> respond B (format_confirm_failure outcome)))"

definition confirm_modal_on_submit :: "bot_env \<Rightarrow> thread_row \<Rightarrow> interaction \<Rightarrow> pystr \<Rightarrow> unit cmd" where
  "confirm_modal_on_submit B r i confirmation =
     (if \<not> is_magic_word_match confirmation ''CONFIRM''
      then respond B (''Confirmation cancelled '' @ uc 0x2014 @ '' expected to read `CONFIRM`.'')
      else on_confirmed B r i)"

section \<open>The contract of the ticket commands\<close>

lemma lawful_acquire [lawful_intros]: "lawful B 0 (acquire_deposit B' u)" "lawful B 0 (acquire_withdraw B' u)"
  by (rule lawful_quiet; auto simp: acquire_deposit_def acquire_withdraw_def split: prod.splits)+

lemma lawful_kind [lawful_intros]:
  "lawful B k m1 \<Longrightarrow> lawful B k m2 \<Longrightarrow> lawful B k m3 \<Longrightarrow>
    lawful B k (case c of Text_channel \<Rightarrow> m1 | Thread_channel \<Rightarrow> m2 | Other_channel \<Rightarrow> m3)"
  by (simp split: channel_kind.split)

lemma lawful_thread [lawful_intros]:
  "lawful B 0 (create_ticket_thread B p n u)" "lawful B 0 (safe_delete_thread B t)"
  "lawful B 0 (fetch_fee_and_delivered uid a)" "lawful B 0 (row_item r key)" "lawful B 0 (channel_send B i e)"
  unfolding create_ticket_thread_def safe_delete_thread_def fetch_fee_and_delivered_def row_item_def channel_send_def
  by (rule lawful_intros | simp)+

lemma lawful_outcomes [lawful_intros]:
  "(\<And>u. lawful B k (f u)) \<Longrightarrow> lawful B k m \<Longrightarrow> lawful B k (case o1 of Deposit_Success u \<Rightarrow> f u | _ \<Rightarrow> m)"
  "(\<And>u. lawful B k (f u)) \<Longrightarrow> lawful B k m \<Longrightarrow> lawful B k (case o2 of Withdraw_Success u \<Rightarrow> f u | _ \<Rightarrow> m)"
  "(\<And>b. lawful B k (g b)) \<Longrightarrow> lawful B k m \<Longrightarrow> lawful B k (case o3 of Confirm_Success b \<Rightarrow> g b | _ \<Rightarrow> m)"
  by (simp_all split: deposit_outcome.split withdraw_outcome.split confirm_outcome.split)

lemma lawful_guards [lawful_intros]:
  "lawful B 1 m \<Longrightarrow> lawful B 1 (in_bound_channel B i key label m)"
  "(\<And>p. lawful B 1 (f p)) \<Longrightarrow> lawful B 1 (in_text_channel B i f)"
  "(\<And>r. lawful B 1 (h r)) \<Longrightarrow> lawful B 1 (resolve_ticket_context B i h)"
  "(\<And>p. lawful B 1 (g p)) \<Longrightarrow> lawful B 1 (ticket_modal_on_submit B raw g)"
  unfolding in_bound_channel_def in_text_channel_def resolve_ticket_context_def ticket_modal_on_submit_def
  by (assumption | rule lawful_acks | rule lawful_intros)+

lemma stmt_map [stmt_intros]: "stmt_ok f \<Longrightarrow> stmt_ok (\<lambda>E d. case f E d of (res, d') \<Rightarrow> (g res, d'))"
  by (simp add: stmt_ok_def split: prod.splits) (metis snd_conv)

lemma stmt_dispatch [stmt_intros]:
  "stmt_ok (\<lambda>E. open_deposit_ticket E p u th pc)" "stmt_ok (\<lambda>E. open_withdraw_ticket E p u th pc)"
  "stmt_ok (\<lambda>E. claim_ticket_for_cashier E ty uid c)" "stmt_ok (\<lambda>E. release_ticket_by_cashier E ty uid c)"
  "stmt_ok (\<lambda>E. cancel_ticket_dispatch E ty uid a r)" "stmt_ok (\<lambda>E. confirm_ticket_dispatch E ty uid c)"
  unfolding open_deposit_ticket_def [abs_def] open_withdraw_ticket_def [abs_def] claim_ticket_for_cashier_def [abs_def]
    release_ticket_by_cashier_def [abs_def] cancel_ticket_dispatch_def [abs_def] confirm_ticket_dispatch_def [abs_def]
  by (rule stmt_outcome stmt_if stmt_map stmt_py)+

lemma lawful_ticket_commands [lawful_intros]:
  "lawful B 1 (deposit_cmd B i)" "lawful B 1 (withdraw_cmd B i)"
  "lawful B 1 (deposit_on_modal_validated B i p)" "lawful B 1 (withdraw_on_modal_validated B i p)"
  "lawful B 1 (claim_cmd B i)" "lawful B 1 (release_cmd B i)" "lawful B 1 (cancel_cmd B i reason)"
  "lawful B 1 (cancel_mine_cmd B i)" "lawful B 1 (confirm_cmd B i)" "lawful B 1 (confirm_modal_on_submit B r i c)"
  unfolding deposit_cmd_def withdraw_cmd_def deposit_on_modal_validated_def withdraw_on_modal_validated_def
    claim_cmd_def release_cmd_def cancel_cmd_def cancel_mine_cmd_def cancel_and_report_def confirm_cmd_def
    confirm_modal_on_submit_def on_confirmed_def confirmed_steps_def
  by (rule lawful_acks | rule lawful_intros | rule stmt_intros | simp)+

section \<open>Opening is atomic\<close>

lemma still_thread [still_intros]: "still (create_ticket_thread B p n u)" "still (safe_delete_thread B t)"
  "still (fetch_fee_and_delivered uid a)" "still (row_item r key)" "still (channel_send B i e)"
  unfolding create_ticket_thread_def safe_delete_thread_def fetch_fee_and_delivered_def row_item_def channel_send_def
  by (auto intro!: still_intros split: option.split channel_kind.split)

text \<open>The database is the one before, or the one after the creation of exactly one ticket.\<close>

lemma open_ticket_db:
  assumes "m w = (Inr thread, w1)" and "\<And>x. still (k thread x)"
  shows "wd_db (snd (bindC m (\<lambda>thread. bindC (sql B (f thread)) (k thread)) w))
    = snd (f thread ((be_pg B)\<lparr>now := be_clock B (wd_step w1)\<rparr>) (wd_db w1))"
proof -
  obtain r w' where run: "bindC (sql B (f thread)) (k thread) w1 = (r, w')" by (cases "bindC (sql B (f thread)) (k thread) w1")
  have "bindC m (\<lambda>thread. bindC (sql B (f thread)) (k thread)) w = (r, w')" using assms(1) run by (simp add: bindC_def [of m])
  then show ?thesis using sql_then_still [OF run assms(2)] by simp
qed

lemma open_ticket_steps:
  assumes run: "bindC m (\<lambda>thread. bindC (sql B (f thread)) (k thread)) w = (r, w')"
    and still: "still m" "\<And>thread x. still (k thread x)"
  shows "wd_db w' = wd_db w \<or> (\<exists>thread t. wd_db w' = snd (f thread ((be_pg B)\<lparr>now := t\<rparr>) (wd_db w)))"
proof (cases "m w")
  case (Pair r1 w1)
  with still(1) have w1: "wd_db w1 = wd_db w" by (rule stillD)
  show ?thesis
  proof (cases r1)
    case (Inl e)
    with run Pair w1 show ?thesis by (simp add: bindC_def)
  next
    case (Inr thread)
    with open_ticket_db [of m w thread w1 k B f] Pair run w1 still(2) show ?thesis by auto
  qed
qed

lemma still_outcomes [still_intros]:
  "(\<And>u. still (f u)) \<Longrightarrow> still m \<Longrightarrow> still (case o1 of Deposit_Success u \<Rightarrow> f u | _ \<Rightarrow> m)"
  "(\<And>u. still (f u)) \<Longrightarrow> still m \<Longrightarrow> still (case o2 of Withdraw_Success u \<Rightarrow> f u | _ \<Rightarrow> m)"
  by (simp_all split: deposit_outcome.split withdraw_outcome.split)

lemma still_pair [still_intros]: "(\<And>a b. still (f a b)) \<Longrightarrow> still (case x of (a, b) \<Rightarrow> f a b)"
  by (simp split: prod.split)

lemma deposit_form_steps:
  assumes "deposit_on_modal_validated B i p w = (r, w')"
  shows "wd_db w' = wd_db w \<or> (\<exists>thread pc t uid. in_channel_id i = Some pc \<and>
    create_deposit_ticket ((be_pg B)\<lparr>now := t\<rparr>) (in_user i) (mi_char_name p) (mi_realm p) (mi_region p) (mi_faction p)
      (mi_amount p) thread pc (wd_db w) = Inr (uid, wd_db w'))"
proof (cases "be_pool_ready B \<and> in_channel i = Some Text_channel \<and> in_channel_id i \<noteq> None")
  case True
  then obtain pc where pc: "in_channel_id i = Some pc" by auto
  have "wd_db w' = wd_db w \<or> (\<exists>thread t. wd_db w' = snd (open_deposit_ticket ((be_pg B)\<lparr>now := t\<rparr>) p (in_user i) thread pc (wd_db w)))"
    using assms True pc unfolding deposit_on_modal_validated_def in_text_channel_def
    by (simp, elim open_ticket_steps) (intro still_intros)+
  then show ?thesis using pc snd_facade
    by (fastforce simp: open_deposit_ticket_def apply_deposit_ticket_def)
next
  case False
  then have "deposit_on_modal_validated B i p = throw Assertion_failed
      \<or> (\<exists>txt. deposit_on_modal_validated B i p = respond B txt)"
    by (auto simp: deposit_on_modal_validated_def in_text_channel_def split: option.split channel_kind.split)
  then show ?thesis using assms stillD still_basic by metis
qed


lemma withdraw_form_steps:
  assumes "withdraw_on_modal_validated B i p w = (r, w')"
  shows "wd_db w' = wd_db w \<or> (\<exists>thread pc t uid. in_channel_id i = Some pc \<and>
    create_withdraw_ticket ((be_pg B)\<lparr>now := t\<rparr>) (in_user i) (mi_char_name p) (mi_realm p) (mi_region p) (mi_faction p)
      (mi_amount p) thread pc (wd_db w) = Inr (uid, wd_db w'))"
proof (cases "be_pool_ready B \<and> in_channel i = Some Text_channel \<and> in_channel_id i \<noteq> None")
  case True
  then obtain pc where pc: "in_channel_id i = Some pc" by auto
  have "wd_db w' = wd_db w \<or> (\<exists>thread t. wd_db w' = snd (open_withdraw_ticket ((be_pg B)\<lparr>now := t\<rparr>) p (in_user i) thread pc (wd_db w)))"
    using assms True pc unfolding withdraw_on_modal_validated_def in_text_channel_def
    by (simp, elim open_ticket_steps) (intro still_intros)+
  then show ?thesis using pc snd_facade
    by (fastforce simp: open_withdraw_ticket_def apply_withdraw_ticket_def)
next
  case False
  then have "withdraw_on_modal_validated B i p = throw Assertion_failed
      \<or> (\<exists>txt. withdraw_on_modal_validated B i p = respond B txt)"
    by (auto simp: withdraw_on_modal_validated_def in_text_channel_def split: option.split channel_kind.split)
  then show ?thesis using assms stillD still_basic by metis
qed

text \<open>C9: Submitting a ticket form is atomic. Whatever Discord does with the requests in between, after the
  submission of a deposit or a withdraw form the database is the one before, or the one after the
  successful creation of exactly one ticket, for the player who submitted the form, with the
  validated data of the form, under the channel of the form. In particular a failure at any point
  after the creation undoes nothing, and a form that fails validation changes nothing.\<close>

theorem open_ticket_atomic:
  assumes "wd_db w' \<noteq> wd_db w"
  shows "(ticket_modal_on_submit B raw (deposit_on_modal_validated B i) w = (r, w') \<longrightarrow>
      (\<exists>p thread pc t uid. modal_base (be_trim B) raw = Inr p \<and> in_channel_id i = Some pc \<and>
        create_deposit_ticket ((be_pg B)\<lparr>now := t\<rparr>) (in_user i) (mi_char_name p) (mi_realm p) (mi_region p) (mi_faction p)
          (mi_amount p) thread pc (wd_db w) = Inr (uid, wd_db w')))
    \<and> (ticket_modal_on_submit B raw (withdraw_on_modal_validated B i) w = (r, w') \<longrightarrow>
      (\<exists>p thread pc t uid. modal_base (be_trim B) raw = Inr p \<and> in_channel_id i = Some pc \<and>
        create_withdraw_ticket ((be_pg B)\<lparr>now := t\<rparr>) (in_user i) (mi_char_name p) (mi_realm p) (mi_region p) (mi_faction p)
          (mi_amount p) thread pc (wd_db w) = Inr (uid, wd_db w')))"
  using assms deposit_form_steps [of B i _ w r w'] withdraw_form_steps [of B i _ w r w'] stillD [OF still_basic(6), of B _ w r w']
  by (auto simp: ticket_modal_on_submit_def split: sum.splits)

text \<open>A bot for which every request succeeds, a fresh world over a database, and a player in channel 12.\<close>

definition demo_bot :: bot_env where
  "demo_bot = \<lparr>be_pg = demo_env, be_clock = (\<lambda>_. 1000000), be_monotonic = int, be_api = (\<lambda>_. Accepted),
     be_new_id = (\<lambda>n. 100 + int n), be_known_channel = (\<lambda>_. True), be_everyone_role = 1, be_known_role = (\<lambda>_. True),
     be_pool_ready = True, be_form_error_text = (\<lambda>_. []), be_repr = utf8, be_exception_text = (\<lambda>_. []),
     be_exception_name = (\<lambda>_. []), be_trim = py_strip, be_collation_key = id, be_str = (\<lambda>_. [])\<rparr>"

definition demo_world :: "db \<Rightarrow> world" where
  "demo_world d = \<lparr>wd_db = d, wd_embeds = [],
     wd_deposit_limiter = \<lparr>lm_capacity = 1, lm_window = 60, lm_buckets = Map.empty\<rparr>,
     wd_withdraw_limiter = \<lparr>lm_capacity = 1, lm_window = 60, lm_buckets = Map.empty\<rparr>,
     wd_categories = [], wd_channels = [], wd_sent = [], wd_step = 0\<rparr>"

definition demo_user :: "int \<Rightarrow> channel_kind \<Rightarrow> int \<Rightarrow> interaction" where
  "demo_user u kind c = \<lparr>in_user = u, in_channel = Some kind, in_channel_id = Some c, in_guild = True\<rparr>"

lemma demo_bot_simps [simp]:
  "be_pg demo_bot = demo_env" "be_clock demo_bot n = 1000000" "be_api demo_bot n = Accepted" "be_new_id demo_bot n = 100 + int n"
  "be_pool_ready demo_bot" "be_trim demo_bot = py_strip" "be_known_channel demo_bot c"
  by (simp_all add: demo_bot_def)

lemma demo_world_simps [simp]: "wd_db (demo_world d) = d" "wd_step (demo_world d) = 0" "wd_sent (demo_world d) = []"
  by (simp_all add: demo_world_def)

lemma demo_user_simps [simp]:
  "in_user (demo_user u k c) = u" "in_channel (demo_user u k c) = Some k" "in_channel_id (demo_user u k c) = Some c"
  by (simp_all add: demo_user_def)

lemma demo_creates:
  "map_sum (\<lambda>_. ()) (\<lambda>(uid, d'). (uid, length (deposit_tickets d')))
    (create_deposit_ticket (demo_env\<lparr>now := 1000000\<rparr>) 7 ''Malesyrup'' ''Stormrage'' ''EU'' ''Horde'' 2000 100 12 demo_db)
    = Inr (''deposit-3'', 2)" "length (deposit_tickets demo_db) = 1"
  by code_simp+

text \<open>With every request accepted the database is that of the statement.\<close>

lemma demo_deposit_form:
  assumes "length (show_int u) \<le> 80"
  shows "wd_db (snd (deposit_on_modal_validated demo_bot (demo_user u Text_channel c) p (demo_world d)))
    = snd (open_deposit_ticket (demo_env\<lparr>now := 1000000\<rparr>) p u 100 c d)"
proof -
  have "create_ticket_thread demo_bot c (''deposit-pending-'' @ show_int u) u (demo_world d) =
      (Inr 100, (demo_world d)\<lparr>wd_sent := [Create_thread c (''deposit-pending-'' @ show_int u), Thread_add_user 100 u], wd_step := 2\<rparr>)"
    using assms by (simp add: create_ticket_thread_def bindC_def seqC_def send_def request_def ret_def numeral_2_eq_2)
  note db = open_ticket_db [where m = "create_ticket_thread demo_bot c (''deposit-pending-'' @ show_int u) u", OF this]
  show ?thesis unfolding deposit_on_modal_validated_def in_text_channel_def
    by (simp only: demo_bot_simps demo_user_simps prod.case option.case channel_kind.case not_True_eq_False if_False,
        subst db, (intro still_intros)+, simp)
qed

theorem open_ticket_atomic_witness:
  "\<exists>r w'. ticket_modal_on_submit demo_bot demo_raw (deposit_on_modal_validated demo_bot (demo_user 7 Text_channel 12))
      (demo_world demo_db) = (r, w') \<and> length (deposit_tickets (wd_db w')) = 2
    \<and> (\<exists>p thread pc t uid. modal_base py_strip demo_raw = Inr p \<and>
        create_deposit_ticket (demo_env\<lparr>now := t\<rparr>) 7 (mi_char_name p) (mi_realm p) (mi_region p) (mi_faction p)
          (mi_amount p) thread pc demo_db = Inr (uid, wd_db w'))"
proof -
  let ?m = "ticket_modal_on_submit demo_bot demo_raw (deposit_on_modal_validated demo_bot (demo_user 7 Text_channel 12))"
  obtain r w' where run: "?m (demo_world demo_db) = (r, w')" by (cases "?m (demo_world demo_db)")
  obtain uid d' where d': "length (deposit_tickets d') = 2" and
    "create_deposit_ticket (demo_env\<lparr>now := 1000000\<rparr>) 7 ''Malesyrup'' ''Stormrage'' ''EU'' ''Horde'' 2000 100 12 demo_db
      = Inr (uid, d')"
    using map_sum_Inr [OF demo_creates(1)] by auto
  then have "snd (open_deposit_ticket (demo_env\<lparr>now := 1000000\<rparr>) \<lparr>mi_char_name = ''Malesyrup'', mi_realm = ''Stormrage'',
      mi_region = ''EU'', mi_faction = ''Horde'', mi_amount = 2000\<rparr> 7 100 12 demo_db) = d'"
    by (simp add: open_deposit_ticket_def apply_deposit_ticket_def facade_def)
  moreover have "length (show_int 7) \<le> 80" by code_simp
  ultimately have "wd_db w' = d'"
    using run by (simp add: ticket_modal_on_submit_def demo_raw_form) (metis demo_deposit_form snd_conv)
  with d' have "length (deposit_tickets (wd_db w')) = 2" by simp
  moreover from this have "wd_db w' \<noteq> wd_db (demo_world demo_db)" using demo_creates(2) by auto
  ultimately show ?thesis using open_ticket_atomic [of w' "demo_world demo_db" demo_bot demo_raw "demo_user 7 Text_channel 12" r] run
    by (intro exI [of _ r] exI [of _ w'] conjI) (simp_all only: demo_bot_simps demo_user_simps demo_world_simps, blast)
qed

section \<open>What a confirmation answers\<close>

text \<open>Commands that always end normally, and commands that always end with one exception.\<close>

definition returns :: "'a cmd \<Rightarrow> bool" where
  "returns m \<longleftrightarrow> (\<forall>w. \<exists>x. fst (m w) = Inr x)"

definition ends :: "cmd_error \<Rightarrow> 'a cmd \<Rightarrow> bool" where
  "ends e m \<longleftrightarrow> (\<forall>w. fst (m w) = Inl e)"

lemma ends_seq: "returns m \<Longrightarrow> ends e m' \<Longrightarrow> ends e (seqC m m')"
  by (auto simp: returns_def ends_def seqC_def bindC_def split: prod.split sum.split) (metis Inl_Inr_False fst_conv)

lemma returns_send: "(\<And>n. be_api B n = Accepted) \<Longrightarrow> returns (send B r)"
  by (simp add: returns_def send_def bindC_def request_def ret_def)

lemma returns_harmless: "harmless m \<Longrightarrow> returns m"
  unfolding returns_def harmless_def by (metis fst_conv)

lemma no_claimed_at: "bindC (row_item r ''claimed_at'') k = throw (Key_error ''claimed_at'')"
  by (rule ext) (simp add: row_item_def row_dict_def bindC_def throw_def)

lemma still_confirmed: "still (confirmed_steps B r i n t)"
  unfolding confirmed_steps_def by (intro still_intros)

lemma fails_confirmed: "fails (confirmed_steps B r i n t)"
  unfolding confirmed_steps_def no_claimed_at by (intro fails_seq fails_throw)

lemma ends_confirmed:
  assumes "\<And>n. be_api B n = Accepted" and "in_channel i = Some Thread_channel" and "in_channel_id i = Some c"
  shows "ends (Key_error ''claimed_at'') (confirmed_steps B r i n t)"
  unfolding confirmed_steps_def no_claimed_at respond_def channel_send_def audit_ticket_confirmed_def
  by (intro ends_seq) (simp_all add: assms returns_send returns_harmless [OF harmless_post], simp add: ends_def throw_def)

lemma confirm_form_run:
  assumes "is_magic_word_match word ''CONFIRM''" and "be_pool_ready B"
    and "confirm_ticket_dispatch ((be_pg B)\<lparr>now := be_clock B (wd_step w)\<rparr>) (tr_ticket_type r) (tr_ticket_uid r) (in_user i)
      (wd_db w) = (Inr (Confirm_Success balance), d')"
  shows "\<exists>w1 t. wd_db w1 = d' \<and> confirm_modal_on_submit B r i word w =
    (case balance of None \<Rightarrow> (Inl (Python_type_error ''unsupported format string passed to NoneType.__format__''), w1)
     | Some n \<Rightarrow> confirmed_steps B r i n t w1)"
  using assms
  by (intro exI [of _ "w\<lparr>wd_db := d', wd_step := Suc (Suc (wd_step w))\<rparr>"] exI [of _ "be_clock B (Suc (wd_step w))"])
    (auto simp: confirm_modal_on_submit_def on_confirmed_def bindC_def sql_def utcnow_def throw_def split: option.split)

text \<open>C36: A confirmation that succeeds answers with an exception. When the stored function has confirmed the
  ticket, the handler of the confirmation form keeps the confirmed database but never ends
  normally: it looks up \<^verbatim>\<open>claimed_at\<close> in a row that was selected without that column. With every request
  accepted, in the thread of the ticket, the exception is \<^verbatim>\<open>KeyError('claimed_at')\<close>.\<close>

theorem confirm_ends_in_key_error:
  assumes "confirm_modal_on_submit B r i word w = (res, w')"
    and "is_magic_word_match word ''CONFIRM''" and "be_pool_ready B"
    and "confirm_ticket_dispatch ((be_pg B)\<lparr>now := be_clock B (wd_step w)\<rparr>) (tr_ticket_type r) (tr_ticket_uid r) (in_user i)
      (wd_db w) = (Inr (Confirm_Success balance), d')"
  shows "wd_db w' = d' \<and> res \<noteq> Inr ()
    \<and> ((\<forall>n. be_api B n = Accepted) \<and> in_channel i = Some Thread_channel \<and> in_channel_id i = Some c \<and> balance \<noteq> None
        \<longrightarrow> res = Inl (Key_error ''claimed_at''))"
proof -
  obtain w1 t where d': "wd_db w1 = d'" and run: "(res, w') =
    (case balance of None \<Rightarrow> (Inl (Python_type_error ''unsupported format string passed to NoneType.__format__''), w1)
     | Some n \<Rightarrow> confirmed_steps B r i n t w1)"
    using confirm_form_run [OF assms(2-4)] assms(1) by auto
  show ?thesis
  proof (cases balance)
    case None
    with run d' show ?thesis by simp
  next
    case (Some n)
    with run have step: "confirmed_steps B r i n t w1 = (res, w')" by simp
    then have res: "fst (confirmed_steps B r i n t w1) = res" by simp
    have "wd_db w' = d'" using stillD [OF still_confirmed step] d' by simp
    moreover have "res \<noteq> Inr ()" using fails_confirmed [of B r i n t] res unfolding fails_def by (metis Inl_Inr_False)
    ultimately show ?thesis using ends_confirmed [of B i c r n t] res unfolding ends_def by metis
  qed
qed

text \<open>The claimed deposit of the example run, in its thread 11, confirmed by its cashier.\<close>

definition demo_row :: thread_row where
  "demo_row = \<lparr>tr_ticket_type = ''deposit'', tr_ticket_uid = ''deposit-1'', tr_discord_id = 7, tr_status = Claimed,
     tr_char_name = ''a'', tr_realm = ''r'', tr_region = ''EU'', tr_faction = ''Horde'', tr_amount = 5000\<rparr>"

theorem confirm_ends_in_key_error_witness:
  "\<exists>w'. confirm_modal_on_submit demo_bot demo_row (demo_user 9 Thread_channel 11) (of_ascii ''CONFIRM'') (demo_world demo_claimed)
      = (Inl (Key_error ''claimed_at''), w')
    \<and> confirm_deposit demo_env ''deposit-1'' 9 demo_claimed = Inr (Some 5000, wd_db w')"
proof -
  let ?m = "confirm_modal_on_submit demo_bot demo_row (demo_user 9 Thread_channel 11) (of_ascii ''CONFIRM'')"
  obtain res w' where run: "?m (demo_world demo_claimed) = (res, w')" by (cases "?m (demo_world demo_claimed)")
  obtain d' where d': "confirm_deposit demo_env ''deposit-1'' 9 demo_claimed = Inr (Some 5000, d')"
    using map_sum_Inr [OF demo_confirms] by auto
  have env: "demo_env\<lparr>now := 1000000\<rparr> = demo_env" by (simp add: demo_env_def)
  have word: "is_magic_word_match (of_ascii ''CONFIRM'') ''CONFIRM''"
    by (simp add: is_magic_word_match_def of_ascii_def py_strip_def py_space_def)
  have ok: "confirm_ticket_dispatch ((be_pg demo_bot)\<lparr>now := be_clock demo_bot (wd_step (demo_world demo_claimed))\<rparr>)
      (tr_ticket_type demo_row) (tr_ticket_uid demo_row) (in_user (demo_user 9 Thread_channel 11)) (wd_db (demo_world demo_claimed))
      = (Inr (Confirm_Success (Some 5000)), d')"
    by (simp add: confirm_ticket_dispatch_def confirm_deposit_py_def demo_row_def env d' facade_def try_outcome_def)
  from confirm_ends_in_key_error [OF run word _ ok, of 11] d' run show ?thesis by simp
qed

end
