(* ===== verification/Staff_Cog.thy ===== *)
theory Staff_Cog
  imports Ticket_Cog
begin

text \<open>
  The self-service of cashiers (\<^verbatim>\<open>cogs/cashier.py\<close>) and of players (\<^verbatim>\<open>cogs/account.py\<close>). Regions,
  factions and states come from choice menus and are plain strings here.
\<close>

section \<open>Characters and status\<close>

definition check :: string where
  "check = uc 0x2705 @ '' ''"

text \<open>\<^verbatim>\<open>_verify_in_cashier_onboarding\<close> and the early return of its callers.\<close>

definition in_cashier_onboarding :: "bot_env \<Rightarrow> interaction \<Rightarrow> unit cmd \<Rightarrow> unit cmd" where
  "in_cashier_onboarding B i m = in_bound_channel B i ''cashier_onboarding'' ''Cashier-onboarding'' m"

definition addchar_cmd :: "bot_env \<Rightarrow> interaction \<Rightarrow> string \<Rightarrow> string \<Rightarrow> string \<Rightarrow> string \<Rightarrow> unit cmd" where
  "addchar_cmd B i chr realm region faction =
     in_cashier_onboarding B i
     (try_balance (sql B (\<lambda>E. add_cashier_character_py E (in_user i) chr realm region faction))
        (\<lambda>cls msg. respond B (cross @ ''Could not register character: '' @ msg))
        (\<lambda>row_id. respond B (check @ ''Registered **'' @ chr @ ''** ('' @ realm @ '', '' @ region @ '' '' @ faction @
           '') to your roster (id #'' @ show_int row_id @ '').'')))"

definition removechar_cmd :: "bot_env \<Rightarrow> interaction \<Rightarrow> string \<Rightarrow> string \<Rightarrow> string \<Rightarrow> unit cmd" where
  "removechar_cmd B i chr realm region =
     in_cashier_onboarding B i
     (try_balance (sql B (\<lambda>E. remove_cashier_character_py E (in_user i) chr realm region))
        (\<lambda>cls msg. if cls = CharacterNotFoundOrAlreadyRemoved
           then respond B (cross @ ''No active character matched **'' @ chr @ ''** on '' @ realm @ '' ('' @ region @ '').'')
           else respond B (cross @ ''Could not remove character: '' @ msg))
        (\<lambda>_. respond B (check @ ''Removed **'' @ chr @ ''** ('' @ realm @ '', '' @ region @ '') from your roster.'')))"

text \<open>\<^verbatim>\<open>ORDER BY region, faction, char_name\<close>, as stable sorts from the last key to the first.\<close>

definition listed_chars :: "bot_env \<Rightarrow> int \<Rightarrow> db \<Rightarrow> character_row list" where
  "listed_chars B u d =
     sort_key (\<lambda>r. be_collation_key B (cc_region r))
       (sort_key (\<lambda>r. be_collation_key B (cc_faction r))
         (sort_key (\<lambda>r. be_collation_key B (cc_char_name r)) (active_chars u d)))"

definition char_line :: "character_row \<Rightarrow> string" where
  "char_line r = uc 0x2022 @ '' **'' @ cc_char_name r @ ''** '' @ uc 0x2014 @ '' '' @ cc_realm r @ '' ('' @ cc_region r @ '' '' @
     cc_faction r @ '')''"

definition listchars_cmd :: "bot_env \<Rightarrow> interaction \<Rightarrow> unit cmd" where
  "listchars_cmd B i =
     in_cashier_onboarding B i
     (bindC (query (listed_chars B (in_user i))) (\<lambda>rows.
      if rows = [] then respond B ''You have no active cashier characters. Use `/cashier-addchar` to register one.''
      else send B (Respond (Card
        ((new_embed ''Your active characters'' (Some (join newline (map char_line rows))) 0x5DBE5A None)
         \<lparr>em_footer := Some (show_int (int (length rows)) @ '' active character(s)'')\<rparr>)) True)))"

definition set_status_cmd :: "bot_env \<Rightarrow> interaction \<Rightarrow> string \<Rightarrow> unit cmd" where
  "set_status_cmd B i status =
     with_pool B
     (try_balance (sql B (\<lambda>E. set_cashier_status_py E (in_user i) status))
        (\<lambda>cls msg. respond B (cross @ ''Could not set status: '' @ msg))
        (\<lambda>_. respond B (check @ ''Status set to **'' @ status @
           ''**. The online-cashiers embed updates within 30 seconds.'')))"

section \<open>Statistics and account\<close>

definition stats_embed :: "string \<Rightarrow> stats_row option \<Rightarrow> embed" where
  "stats_embed cashier_mention row =
     (case row of
        None \<Rightarrow> cashier_stats_embed cashier_mention 0 0 0 0 0 0 None None
      | Some r \<Rightarrow> cashier_stats_embed cashier_mention (st_deposits_completed r) (st_deposits_cancelled r)
          (st_withdraws_completed r) (st_withdraws_cancelled r) (st_total_volume_g r) (st_total_online_seconds r)
          (st_avg_claim_to_confirm_s r) (st_last_active_at r))"

definition mystats_cmd :: "bot_env \<Rightarrow> interaction \<Rightarrow> unit cmd" where
  "mystats_cmd B i =
     with_pool B
     (bindC (query (\<lambda>d. sel_key st_discord_id (in_user i) (cashier_stats d))) (\<lambda>row.
      send B (Respond (Card (stats_embed (mention (in_user i)) row)) True)))"

definition resolve_how_to_deposit_mention :: "string cmd" where
  "resolve_how_to_deposit_mention w =
     (Inr (case sel_key ch_name ''how-to-deposit'' (wd_channels w) of
             Some c \<Rightarrow> channel_mention (ch_id c)
           | None \<Rightarrow> ''#how-to-deposit''), w)"

definition balance_cmd :: "bot_env \<Rightarrow> interaction \<Rightarrow> unit cmd" where
  "balance_cmd B i =
     with_pool B
     (bindC (query (fetch_account_stats (in_user i))) (\<lambda>stats.
      bindC (case stats of
               None \<Rightarrow> bindC resolve_how_to_deposit_mention (\<lambda>m. ret (no_balance_embed m))
             | Some s \<Rightarrow> ret (account_summary_embed (as_balance s) (as_total_deposited s) (as_total_withdrawn s)
                               (as_lifetime_fee_paid s)))
        (\<lambda>e. send B (Respond (Card e) True))))"

definition help_cmd :: "bot_env \<Rightarrow> string option \<Rightarrow> unit cmd" where
  "help_cmd B topic = send B (Respond (Card (help_embed topic)) True)"

section \<open>The contract of the commands\<close>

lemma lawful_mention [lawful_intros]: "lawful B 0 resolve_how_to_deposit_mention"
  by (rule lawful_quiet) (auto simp: resolve_how_to_deposit_mention_def)

lemma lawful_staff_commands [lawful_intros]:
  "lawful B 1 (addchar_cmd B i chr realm region faction)" "lawful B 1 (removechar_cmd B i chr realm region)"
  "lawful B 1 (listchars_cmd B i)" "lawful B 1 (set_status_cmd B i status)" "lawful B 1 (mystats_cmd B i)"
  "lawful B 1 (balance_cmd B i)" "lawful B 1 (help_cmd B topic)"
  unfolding addchar_cmd_def removechar_cmd_def listchars_cmd_def set_status_cmd_def mystats_cmd_def balance_cmd_def
    help_cmd_def in_cashier_onboarding_def
  by (rule lawful_acks | rule lawful_intros | rule stmt_intros)+

end
