(* ===== verification/Welcome.thy ===== *)
theory Welcome
  imports Staff_Cog
begin

text \<open>
  The messages the bot keeps up to date: the guides of \<^verbatim>\<open>dw.dynamic_embeds\<close>
  (\<^verbatim>\<open>deathroll_deposit_withdraw/welcome.py\<close>, the builder \<^verbatim>\<open>how_to_deposit_dynamic_embed\<close> of
  \<^verbatim>\<open>embeds/dw_tickets.py\<close>), the live list of cashiers (\<^verbatim>\<open>cashiers/live_updater.py\<close>) and the tick of
  the statistics worker (\<^verbatim>\<open>workers/stats_aggregator.py\<close>). The text \<^verbatim>\<open>json.dumps(v)\<close> is represented by
  the value \<open>v\<close>, which \<^verbatim>\<open>json.loads\<close> gives back.
\<close>

section \<open>The builder\<close>

text \<open>\<^verbatim>\<open>int(text, 16)\<close>: white space, a sign, a prefix \<^verbatim>\<open>0x\<close> that may be followed by an underscore.\<close>

definition hex_digit :: "nat \<Rightarrow> nat option" where
  "hex_digit c =
     (case py_digit c of
        Some n \<Rightarrow> Some n
      | None \<Rightarrow> if 97 \<le> c \<and> c \<le> 102 then Some (c - 87) else if 65 \<le> c \<and> c \<le> 70 then Some (c - 55) else None)"

fun hex_nat :: "nat \<Rightarrow> pystr \<Rightarrow> nat option" where
  "hex_nat a [] = Some a"
| "hex_nat a (c # cs) = (case hex_digit c of None \<Rightarrow> None | Some n \<Rightarrow> hex_nat (16 * a + n) cs)"

definition drop_prefix :: "pystr \<Rightarrow> pystr" where
  "drop_prefix s =
     (case s of
        a # b # cs \<Rightarrow>
          if py_digit a = Some 0 \<and> (b = 120 \<or> b = 88) then (case cs of c # cs' \<Rightarrow> if c = 95 then cs' else cs | [] \<Rightarrow> cs) else s
      | _ \<Rightarrow> s)"

definition py_hex :: "pystr \<Rightarrow> nat option" where
  "py_hex s =
     (let t = drop_prefix s
      in if t = [] then None else case no_underscores t of None \<Rightarrow> None | Some ds \<Rightarrow> hex_nat 0 ds)"

definition py_int16 :: "pystr \<Rightarrow> int option" where
  "py_int16 s =
     (case py_strip s of
        [] \<Rightarrow> None
      | c # cs \<Rightarrow>
          if c = 45 then map_option (\<lambda>n. - int n) (py_hex cs)
          else if c = 43 then map_option int (py_hex cs)
          else map_option int (py_hex (c # cs)))"

definition parse_color_hex :: "pystr \<Rightarrow> int option" where
  "parse_color_hex s =
     (let cleaned = dropWhile (\<lambda>c. c = 35) (py_strip s)
      in if length cleaned \<noteq> 6 then None else py_int16 cleaned)"

definition truth :: "json_value \<Rightarrow> bool" where
  "truth v =
     (case v of
        J_null \<Rightarrow> False | J_bool b \<Rightarrow> b | J_int n \<Rightarrow> n \<noteq> 0 | J_string s \<Rightarrow> s \<noteq> [] | J_list xs \<Rightarrow> xs \<noteq> [] | J_object xs \<Rightarrow> xs \<noteq> [])"

definition parse_field :: "bot_env \<Rightarrow> json_value \<Rightarrow> (string \<times> string \<times> bool) list" where
  "parse_field B item =
     (case item of
        J_object kvs \<Rightarrow>
          (case (map_of kvs ''name'', map_of kvs ''value'') of
             (Some n, Some v) \<Rightarrow>
               [(be_str B n, be_str B v, case map_of kvs ''inline'' of Some i \<Rightarrow> truth i | None \<Rightarrow> False)]
           | _ \<Rightarrow> [])
      | _ \<Rightarrow> [])"

definition parse_fields_json :: "bot_env \<Rightarrow> json_value option \<Rightarrow> (string \<times> string \<times> bool) list" where
  "parse_fields_json B v = (case v of Some (J_list items) \<Rightarrow> concat (map (parse_field B) items) | _ \<Rightarrow> [])"

definition how_to_deposit_dynamic_embed ::
    "bot_env \<Rightarrow> string \<Rightarrow> string \<Rightarrow> pystr option \<Rightarrow> json_value option \<Rightarrow> string option \<Rightarrow> string option \<Rightarrow> embed" where
  "how_to_deposit_dynamic_embed B title description color_hex fields_json image_url footer_text =
     (let color = (case color_hex of
                     Some h \<Rightarrow> if h = [] then COLOR_HOUSE else (case parse_color_hex h of Some c \<Rightarrow> c | None \<Rightarrow> COLOR_HOUSE)
                   | None \<Rightarrow> COLOR_HOUSE);
          e = with_fields (parse_fields_json B fields_json) (new_embed title (Some description) color None);
          e1 = (if truthy image_url then e\<lparr>em_image := image_url\<rparr> else e)
      in if truthy footer_text then e1\<lparr>em_footer := footer_text\<rparr> else e1)"

definition build_embed_from_row :: "bot_env \<Rightarrow> embed_row \<Rightarrow> embed" where
  "build_embed_from_row B row =
     how_to_deposit_dynamic_embed B (er_title row) (er_description row) (Some (er_color_hex row))
       (if er_fields row \<noteq> [] then Some (J_string (er_fields row)) else None) (er_image_url row) (er_footer_text row)"

section \<open>Reconciling a guide\<close>

record reconcile_outcome =
  ro_embed_key :: string
  ro_action :: string
  ro_message_id :: "int option"
  ro_reason :: "string option"

definition skipped :: "string \<Rightarrow> string \<Rightarrow> reconcile_outcome" where
  "skipped embed_key reason =
     \<lparr>ro_embed_key = embed_key, ro_action = ''skipped'', ro_message_id = None, ro_reason = Some reason\<rparr>"

definition outcome_of :: "string \<Rightarrow> string \<times> int \<Rightarrow> reconcile_outcome" where
  "outcome_of embed_key am =
     \<lparr>ro_embed_key = embed_key, ro_action = fst am, ro_message_id = Some (snd am), ro_reason = None\<rparr>"

definition persist_message_id :: "bot_env \<Rightarrow> string \<Rightarrow> int \<Rightarrow> unit cmd" where
  "persist_message_id B embed_key message_id = update_embed B embed_key (\<lambda>r. r\<lparr>er_message_id := Some message_id\<rparr>)"

text \<open>Send a first message, or edit the known one; a deleted message is sent again.\<close>

definition post_or_edit :: "bot_env \<Rightarrow> int \<Rightarrow> string \<Rightarrow> embed \<Rightarrow> int option \<Rightarrow> (string \<times> int) cmd" where
  "post_or_edit B channel embed_key e message_id =
     (case message_id of
        None \<Rightarrow>
          bindC (request B (Channel_send channel (Card e))) (\<lambda>sent.
          seqC (persist_message_id B embed_key sent) (ret (''posted'', sent)))
      | Some m \<Rightarrow>
          try_found
            (seqC (send B (Fetch_message channel m))
            (seqC (send B (Edit_message channel m (Card e))) (ret (''edited'', m))))
            (bindC (request B (Channel_send channel (Card e))) (\<lambda>sent.
             seqC (persist_message_id B embed_key sent) (ret (''reposted'', sent)))))"

text \<open>The row, inserted with default content when there is none.\<close>

definition ensure_row :: "bot_env \<Rightarrow> string \<Rightarrow> int \<Rightarrow> string \<Rightarrow> string \<Rightarrow> int \<Rightarrow> embed_row option \<Rightarrow> embed_row cmd" where
  "ensure_row B embed_key channel_id title description actor_id row =
     (case row of
        Some r \<Rightarrow> ret r
      | None \<Rightarrow>
          seqC (insert_embed B embed_key channel_id title description actor_id)
          (bindC (select_embed embed_key) (\<lambda>row'.
           case row' of Some r \<Rightarrow> ret r | None \<Rightarrow> throw Assertion_failed)))"

definition reconcile_welcome_embed ::
    "bot_env \<Rightarrow> string \<Rightarrow> int option \<Rightarrow> string \<Rightarrow> string \<Rightarrow> int \<Rightarrow> reconcile_outcome cmd" where
  "reconcile_welcome_embed B embed_key fallback_channel_id default_title default_description actor_id =
     bindC (select_embed embed_key) (\<lambda>row.
     case (case fallback_channel_id of Some c \<Rightarrow> Some c | None \<Rightarrow> map_option er_channel_id row) of
       None \<Rightarrow> ret (skipped embed_key ''channel_id_unknown'')
     | Some target \<Rightarrow>
         bindC (if row \<noteq> None \<and> er_channel_id (the row) \<noteq> target
                then seqC (update_embed B embed_key (\<lambda>r. r\<lparr>er_channel_id := target, er_message_id := None\<rparr>))
                       (select_embed embed_key)
                else ret row) (\<lambda>row1.
         bindC (ensure_row B embed_key target default_title default_description actor_id row1) (\<lambda>r.
         if \<not> be_known_channel B target then ret (skipped embed_key ''channel_not_found'')
         else bindC (post_or_edit B target embed_key (build_embed_from_row B r) (er_message_id r)) (\<lambda>am.
              ret (outcome_of embed_key am)))))"

definition default_welcomes :: "(string \<times> string \<times> string) list" where
  "default_welcomes =
    [(''how_to_deposit'', ''How to deposit'',
      ''Run ``/deposit`` here, fill in your character, realm, region and faction, plus the gold amount you want to convert. '' @
      ''The bot opens a private ticket where a cashier will claim your request. **The cashier never sends a trade request '' @
      ''first '' @ uc 0x2014 @ '' you approach them in-game.**''),
     (''how_to_withdraw'', ''How to withdraw'',
      ''Run ``/withdraw`` here. The bot locks the requested amount on your balance and a cashier claims your ticket. After '' @
      ''the in-game trade, ``/confirm`` finalises and the fee is taken from the gross amount. The amount you actually '' @
      ''receive in-game is shown up front before you confirm.''),
     (''cashier_onboarding'', ''Welcome '' @ uc 0x2014 @ '' cashier onboarding'',
      ''**1. Register your characters.** Run ``/cashier-add-character`` for each WoW char + realm + region + faction you can '' @
      ''trade from. The bot uses this list to match you with tickets your characters can actually fulfil.'' @
      newline @ newline @
      ''**2. Set yourself online.** Run ``/cashier-online`` before claiming. The roster in ``#online-cashiers`` updates '' @
      ''within 30 s. Use ``/cashier-break`` for a short AFK and ``/cashier-offline`` when you're done '' @ uc 0x2014 @
      '' the bot auto-offlines anyone idle >1 h.'' @ newline @ newline @
      ''**3. Claim a ticket.** When ``#cashier-alerts`` pings, open the linked ticket channel and run ``/claim``. You have '' @
      ''30 min of typing/clicking activity before the bot auto-releases the ticket back to the queue, and a 2 h hard cap on '' @
      ''holding it.'' @ newline @ newline @
      ''**4. Trade in-game.** **You NEVER send the trade request first '' @ uc 0x2014 @ '' the user approaches you.** This is '' @
      ''the anti-phishing rule the user-facing copy holds them to; it works only if you honour it. Confirm the user's '' @
      ''character matches what they typed in the ticket before accepting any trade.'' @ newline @ newline @
      ''**5. Run /confirm.** After the in-game trade settles, ``/confirm`` in the ticket channel closes the ticket and '' @
      ''credits / deducts the user's bot balance. ``/release`` hands the ticket back to the queue if you cannot complete it; '' @
      ''``/cancel`` is for when the user explicitly calls it off.'' @ newline @ newline @
      ''**6. Disputes.** If something goes wrong (gold sent and the user denies it, partial trade, etc.), DO NOT cancel or '' @
      ''confirm. Open a ticket in the support channel and ping ``@admin`` '' @ uc 0x2014 @
      '' they'll open a ``/admin-dispute-open`` and the case lands in ``#disputes`` for tracking.'')]"

definition reconcile_welcome_embeds :: "bot_env \<Rightarrow> reconcile_outcome list cmd" where
  "reconcile_welcome_embeds B =
     for_each (\<lambda>(embed_key, title, description).
       bindC (query (config_value (''channel_id_'' @ embed_key))) (\<lambda>fallback.
       reconcile_welcome_embed B embed_key fallback title description 0)) default_welcomes"

definition update_dynamic_embed_content :: "bot_env \<Rightarrow> string \<Rightarrow> string \<Rightarrow> string \<Rightarrow> int \<Rightarrow> reconcile_outcome cmd" where
  "update_dynamic_embed_content B embed_key title description actor_id =
     seqC (update_embed B embed_key (\<lambda>r. r\<lparr>er_title := title, er_description := description, er_updated_by := actor_id\<rparr>))
     (bindC (select_embed embed_key) (\<lambda>row.
      case row of
        None \<Rightarrow> ret (skipped embed_key ''no_row_yet'')
      | Some r \<Rightarrow>
          if \<not> be_known_channel B (er_channel_id r) then ret (skipped embed_key ''channel_not_found'')
          else bindC (post_or_edit B (er_channel_id r) embed_key (build_embed_from_row B r) (er_message_id r)) (\<lambda>am.
               ret (outcome_of embed_key am))))"

section \<open>The live list of cashiers\<close>

definition live_tick :: "bot_env \<Rightarrow> int \<Rightarrow> int option cmd" where
  "live_tick B channel_id =
     (if \<not> be_known_channel B channel_id then ret None
      else bindC (query fetch_online_roster) (\<lambda>snapshot.
           bindC (utcnow B) (\<lambda>last_updated.
           bindC (select_embed ''online_cashiers'') (\<lambda>row.
           bindC (ensure_row B ''online_cashiers'' channel_id ''Online cashiers'' ''Live roster updated every 30 seconds.'' 0 row)
             (\<lambda>r.
           bindC (post_or_edit B channel_id ''online_cashiers'' (online_cashiers_live_embed snapshot last_updated)
                    (er_message_id r)) (\<lambda>am. ret (Some (snd am))))))))"

section \<open>Statistics\<close>

text \<open>A plain \<^verbatim>\<open>UPDATE\<close>: its errors are the engine's and leave the database as it was.\<close>

definition plain_update :: "(pg_env \<Rightarrow> db \<Rightarrow> pg_error + db) \<Rightarrow> pg_env \<Rightarrow> db \<Rightarrow> unit py" where
  "plain_update f E d = (case f E d of Inl e \<Rightarrow> (Inl (Engine e), d) | Inr d' \<Rightarrow> (Inr (), d'))"

definition stats_tick :: "bot_env \<Rightarrow> int cmd" where
  "stats_tick B =
     bindC (query (\<lambda>d. sort (map st_discord_id (cashier_stats d)))) (\<lambda>ids.
     bindC (for_each (\<lambda>discord_id.
              try_any (seqC (sql B (plain_update (\<lambda>E. recompute_stats E discord_id))) (ret 1)) (\<lambda>_. ret 0)) ids)
       (\<lambda>updated. ret (sum_list updated)))"

section \<open>The contract\<close>

lemma stmt_plain: "(\<And>E d. \<exists>c. bot_call c \<and> exec E c d = f E d) \<Longrightarrow> stmt_ok (plain_update f)"
  unfolding stmt_ok_def plain_update_def
  by (clarsimp split: sum.split) (metis bot_reach.step)

lemma stmt_recompute [stmt_intros]: "stmt_ok (plain_update (\<lambda>E. recompute_stats E c))"
  by (rule stmt_plain) (metis exec.simps bot_call.simps)

lemma lawful_welcome [lawful_intros]:
  "lawful B 0 (post_or_edit B ch key e m)" "lawful B 0 (ensure_row B key c t s a r)"
  "lawful B 0 (reconcile_welcome_embed B key fb t s a)" "lawful B 0 (reconcile_welcome_embeds B)"
  "lawful B 0 (update_dynamic_embed_content B key t s a)" "lawful B 0 (live_tick B ch)" "lawful B 0 (stats_tick B)"
  unfolding post_or_edit_def persist_message_id_def ensure_row_def reconcile_welcome_embed_def
    reconcile_welcome_embeds_def update_dynamic_embed_content_def live_tick_def stats_tick_def
  by (rule lawful_intros | rule stmt_intros | simp)+

section \<open>Reconciling twice\<close>

text \<open>After a guide was posted or edited its row knows the message and the channel.\<close>

definition row_known :: "bot_env \<Rightarrow> string \<Rightarrow> int option \<Rightarrow> int \<Rightarrow> world \<Rightarrow> bool" where
  "row_known B key fallback m w \<longleftrightarrow>
     (\<exists>r. sel_key er_embed_key key (wd_embeds w) = Some r \<and> er_message_id r = Some m \<and> be_known_channel B (er_channel_id r)
       \<and> (fallback = None \<or> fallback = Some (er_channel_id r)))"

lemma sel_embed_upd:
  "(\<And>r. er_embed_key (f r) = er_embed_key r) \<Longrightarrow>
    sel_key er_embed_key key (upd_key er_embed_key key (\<lambda>r. (f r)\<lparr>er_updated_at := t\<rparr>) rs)
      = map_option (\<lambda>r. (f r)\<lparr>er_updated_at := t\<rparr>) (sel_key er_embed_key key rs)"
  by (simp add: sel_key_upd)

lemma embeds_same [simp]: "wd_embeds (snd (request B r w)) = wd_embeds w" "wd_embeds (snd (send B r w)) = wd_embeds w"
  using still_request [of B r] still_send [of B r] by (simp_all add: still_def)

lemma embeds_kept: "still m \<Longrightarrow> m w = (r, w') \<Longrightarrow> wd_embeds w' = wd_embeds w"
  unfolding still_def by (metis snd_conv)

lemma post_and_persist:
  assumes "bindC (request B q) (\<lambda>sent. seqC (persist_message_id B key sent) (ret (act, sent))) w = (Inr am, w')"
    and "sel_key er_embed_key key (wd_embeds w) = Some r"
  shows "\<exists>r'. sel_key er_embed_key key (wd_embeds w') = Some r' \<and> er_message_id r' = Some (snd am) \<and> er_channel_id r' = er_channel_id r"
  using assms
  by (auto simp: bindC_def seqC_def ret_def persist_message_id_def update_embed_def sel_embed_upd
      split: prod.splits sum.splits dest!: embeds_kept [OF still_request])

lemma post_or_edit_row:
  assumes "post_or_edit B ch key e (er_message_id r) w = (Inr am, w')" and "sel_key er_embed_key key (wd_embeds w) = Some r"
  shows "\<exists>r'. sel_key er_embed_key key (wd_embeds w') = Some r' \<and> er_message_id r' = Some (snd am) \<and> er_channel_id r' = er_channel_id r"
proof (cases "er_message_id r")
  case None
  then show ?thesis using assms post_and_persist by (fastforce simp: post_or_edit_def)
next
  case (Some m)
  let ?edit = "seqC (send B (Fetch_message ch m)) (seqC (send B (Edit_message ch m (Card e))) (ret (''edited'', m)))"
  have st: "still ?edit" by (intro still_intros)
  show ?thesis
  proof (cases "?edit w")
    case (Pair x w1)
    have w1: "sel_key er_embed_key key (wd_embeds w1) = Some r" using embeds_kept [OF st Pair] assms(2) by simp
    show ?thesis
    proof (cases x)
      case (Inl err)
      with assms(1) Some Pair have "bindC (request B (Channel_send ch (Card e)))
          (\<lambda>sent. seqC (persist_message_id B key sent) (ret (''reposted'', sent))) w1 = (Inr am, w')"
        by (auto simp: post_or_edit_def try_found_def try_any_def throw_def split: if_splits)
      then show ?thesis using w1 by (rule post_and_persist)
    next
      case (Inr y)
      have "y = (''edited'', m)"
        using Pair Inr by (auto simp: seqC_def bindC_def ret_def split: prod.splits sum.splits)
      moreover have "am = y" "w' = w1" using assms(1) Some Pair Inr
        by (auto simp: post_or_edit_def try_found_def try_any_def)
      ultimately show ?thesis using w1 Some by auto
    qed
  qed
qed

lemma retarget_row:
  assumes "(if row \<noteq> None \<and> er_channel_id (the row) \<noteq> target
      then seqC (update_embed B key (\<lambda>r. r\<lparr>er_channel_id := target, er_message_id := None\<rparr>)) (select_embed key)
      else ret row) w = (Inr row1, w1)"
    and "sel_key er_embed_key key (wd_embeds w) = row"
  shows "sel_key er_embed_key key (wd_embeds w1) = row1 \<and> (\<forall>r. row1 = Some r \<longrightarrow> er_channel_id r = target)"
  using assms
  by (auto simp: seqC_def bindC_def ret_def update_embed_def select_embed_def sel_embed_upd split: if_splits)

lemma ensured_row:
  assumes "ensure_row B key target title description actor row w = (Inr r, w1)"
    and "sel_key er_embed_key key (wd_embeds w) = row" and "\<And>r. row = Some r \<Longrightarrow> er_channel_id r = target"
  shows "sel_key er_embed_key key (wd_embeds w1) = Some r \<and> er_channel_id r = target"
  using assms
  by (auto simp: ensure_row_def seqC_def bindC_def ret_def throw_def insert_embed_def select_embed_def has_key_sel
      split: option.splits if_splits prod.splits sum.splits)

lemma bindC_Inr: "bindC m f w = (Inr y, w') \<longleftrightarrow> (\<exists>x w1. m w = (Inr x, w1) \<and> f x w1 = (Inr y, w'))"
  by (auto simp: bindC_def split: prod.splits sum.splits)

lemma reconciled_row:
  assumes run: "reconcile_welcome_embed B key fallback title description actor w = (Inr out, w')"
    and "ro_action out \<noteq> ''skipped''"
  shows "\<exists>m. row_known B key fallback m w' \<and> ro_message_id out = Some m"
proof -
  let ?row = "sel_key er_embed_key key (wd_embeds w)"
  let ?w0 = "w\<lparr>wd_step := Suc (wd_step w)\<rparr>"
  obtain target where target: "(case fallback of Some c \<Rightarrow> Some c | None \<Rightarrow> map_option er_channel_id ?row) = Some target"
    using assms by (cases "case fallback of Some c \<Rightarrow> Some c | None \<Rightarrow> map_option er_channel_id ?row")
      (auto simp: reconcile_welcome_embed_def bindC_def select_embed_def ret_def skipped_def)
  then obtain row1 w1 r w2 am where
    1: "(if ?row \<noteq> None \<and> er_channel_id (the ?row) \<noteq> target
      then seqC (update_embed B key (\<lambda>r. r\<lparr>er_channel_id := target, er_message_id := None\<rparr>)) (select_embed key)
      else ret ?row) ?w0 = (Inr row1, w1)" and
    2: "ensure_row B key target title description actor row1 w1 = (Inr r, w2)" and
    3: "be_known_channel B target" and
    4: "post_or_edit B target key (build_embed_from_row B r) (er_message_id r) w2 = (Inr am, w')" and
    5: "out = outcome_of key am"
    using run assms(2) unfolding reconcile_welcome_embed_def
    by (simp add: bindC_Inr select_embed_def split del: if_split)
      (auto simp: bindC_Inr ret_def skipped_def split: if_split_asm)
  have "sel_key er_embed_key key (wd_embeds w1) = row1 \<and> (\<forall>r. row1 = Some r \<longrightarrow> er_channel_id r = target)"
    by (rule retarget_row [OF 1]) simp
  then have "sel_key er_embed_key key (wd_embeds w2) = Some r \<and> er_channel_id r = target"
    using ensured_row [OF 2] by blast
  then show ?thesis using post_or_edit_row [OF 4] 3 5 target
    by (auto simp: row_known_def outcome_of_def split: option.splits)
qed

lemma reconcile_again:
  assumes "row_known B key fallback m w" and "\<And>n. wd_step w \<le> n \<Longrightarrow> be_api B n = Accepted"
  shows "\<exists>w' c e. reconcile_welcome_embed B key fallback title description actor w = (Inr (outcome_of key (''edited'', m)), w')
    \<and> wd_sent w' = wd_sent w @ [Fetch_message c m, Edit_message c m (Card e)] \<and> wd_embeds w' = wd_embeds w"
proof -
  obtain r where r: "sel_key er_embed_key key (wd_embeds w) = Some r" "er_message_id r = Some m"
    "be_known_channel B (er_channel_id r)" "fallback = None \<or> fallback = Some (er_channel_id r)"
    using assms(1) by (auto simp: row_known_def)
  show ?thesis
    using r(4)
    by (elim disjE) (simp_all add: reconcile_welcome_embed_def bindC_def select_embed_def r(1-3) ensure_row_def ret_def
        post_or_edit_def try_found_def try_any_def seqC_def send_def request_def assms(2))
qed

text \<open>C34: Restarting the bot does not multiply its messages. When reconciling a guide has posted, edited or
  reposted its message, reconciling it again with Discord answering edits that same message and
  sends nothing new, and the table of guides stays as it is.\<close>

theorem reconcile_idempotent:
  assumes "reconcile_welcome_embed B key fallback title description actor w = (Inr out, w1)"
    and "ro_action out \<noteq> ''skipped''" and "\<And>n. wd_step w1 \<le> n \<Longrightarrow> be_api B n = Accepted"
  shows "\<exists>w2 m c e. ro_message_id out = Some m
    \<and> reconcile_welcome_embed B key fallback title description actor w1 = (Inr (outcome_of key (''edited'', m)), w2)
    \<and> wd_sent w2 = wd_sent w1 @ [Fetch_message c m, Edit_message c m (Card e)] \<and> wd_embeds w2 = wd_embeds w1"
proof -
  obtain m where m: "row_known B key fallback m w1" "ro_message_id out = Some m"
    using reconciled_row [OF assms(1,2)] by blast
  from reconcile_again [OF m(1) assms(3)] m(2) show ?thesis by fastforce
qed

text \<open>A first start: the guide is posted.\<close>

lemma demo_reconcile:
  "\<exists>w1. reconcile_welcome_embed demo_bot ''how_to_deposit'' (Some 5) ''t'' ''d'' 0 (demo_world demo_db)
    = (Inr (outcome_of ''how_to_deposit'' (''posted'', 103)), w1)"
  by (simp add: reconcile_welcome_embed_def bindC_def select_embed_def ensure_row_def ret_def post_or_edit_def seqC_def
      request_def insert_embed_def persist_message_id_def update_embed_def demo_world_def has_key_def)

theorem reconcile_idempotent_witness:
  "\<exists>w1 w2. reconcile_welcome_embed demo_bot ''how_to_deposit'' (Some 5) ''t'' ''d'' 0 (demo_world demo_db)
      = (Inr (outcome_of ''how_to_deposit'' (''posted'', 103)), w1)
    \<and> reconcile_welcome_embed demo_bot ''how_to_deposit'' (Some 5) ''t'' ''d'' 0 w1
      = (Inr (outcome_of ''how_to_deposit'' (''edited'', 103)), w2)"
proof -
  obtain w1 where run: "reconcile_welcome_embed demo_bot ''how_to_deposit'' (Some 5) ''t'' ''d'' 0 (demo_world demo_db)
    = (Inr (outcome_of ''how_to_deposit'' (''posted'', 103)), w1)" using demo_reconcile by blast
  with reconcile_idempotent [OF run] show ?thesis by (auto simp: outcome_of_def)
qed

end
