(* ===== verification/Setup.thy ===== *)
theory Setup
  imports Welcome "HOL-Library.AList"
begin

text \<open>
  The bootstrap of a server: the canonical categories and channels with their permission matrix
  (\<^verbatim>\<open>setup/channel_factory.py\<close>), the writer of the bindings (\<^verbatim>\<open>setup/global_config_writer.py\<close>) and the
  command \<^verbatim>\<open>/admin-setup\<close> (\<^verbatim>\<open>cogs/admin.py\<close>). A category or channel that was created is in the client's
  cache at once.
\<close>

section \<open>Specifications\<close>

record category_spec =
  ca_key :: string
  ca_name :: string
  ca_private_to_staff :: bool
  ca_private_to_admin_only :: bool

record channel_spec =
  cn_key :: string
  cn_name :: string
  cn_category_key :: string

definition category_specs :: "category_spec list" where
  "category_specs =
    [\<lparr>ca_key = ''banking'', ca_name = ''Banking'', ca_private_to_staff = False, ca_private_to_admin_only = False\<rparr>,
     \<lparr>ca_key = ''cashier'', ca_name = ''Cashier'', ca_private_to_staff = True, ca_private_to_admin_only = False\<rparr>,
     \<lparr>ca_key = ''admin'', ca_name = ''Admin'', ca_private_to_staff = True, ca_private_to_admin_only = True\<rparr>]"

definition channel_specs :: "channel_spec list" where
  "channel_specs =
    [\<lparr>cn_key = ''how_to_deposit'', cn_name = ''how-to-deposit'', cn_category_key = ''banking''\<rparr>,
     \<lparr>cn_key = ''how_to_withdraw'', cn_name = ''how-to-withdraw'', cn_category_key = ''banking''\<rparr>,
     \<lparr>cn_key = ''deposit'', cn_name = ''deposit'', cn_category_key = ''banking''\<rparr>,
     \<lparr>cn_key = ''withdraw'', cn_name = ''withdraw'', cn_category_key = ''banking''\<rparr>,
     \<lparr>cn_key = ''online_cashiers'', cn_name = ''online-cashiers'', cn_category_key = ''banking''\<rparr>,
     \<lparr>cn_key = ''cashier_alerts'', cn_name = ''cashier-alerts'', cn_category_key = ''cashier''\<rparr>,
     \<lparr>cn_key = ''cashier_onboarding'', cn_name = ''cashier-onboarding'', cn_category_key = ''cashier''\<rparr>,
     \<lparr>cn_key = ''disputes'', cn_name = ''disputes'', cn_category_key = ''cashier''\<rparr>,
     \<lparr>cn_key = ''audit_log'', cn_name = ''audit-log'', cn_category_key = ''admin''\<rparr>]"

record category_outcome =
  co_key :: string
  co_name :: string
  co_discord_id :: "int option"
  co_created :: bool

record channel_outcome =
  no_key :: string
  no_name :: string
  no_category_key :: string
  no_discord_id :: "int option"
  no_created :: bool

record setup_report =
  sr_categories :: "category_outcome list"
  sr_channels :: "channel_outcome list"
  sr_dry_run :: bool

definition created_count :: "setup_report \<Rightarrow> nat" where
  "created_count r = length (filter co_created (sr_categories r)) + length (filter no_created (sr_channels r))"

definition reused_count :: "setup_report \<Rightarrow> nat" where
  "reused_count r =
     length (filter (\<lambda>c. \<not> co_created c) (sr_categories r)) + length (filter (\<lambda>c. \<not> no_created c) (sr_channels r))"

section \<open>The permission matrix\<close>

definition guide_keys :: "string list" where
  "guide_keys = [''how_to_deposit'', ''how_to_withdraw'', ''online_cashiers'']"

definition everyone_overwrite :: "string \<Rightarrow> overwrite" where
  "everyone_overwrite key =
     (if key \<in> set guide_keys then [(''view_channel'', True), (''read_message_history'', True), (''send_messages'', False)]
      else if key \<in> {''deposit'', ''withdraw''}
      then [(''view_channel'', True), (''read_message_history'', True), (''send_messages'', True),
            (''use_application_commands'', True)]
      else [(''view_channel'', False)])"

definition cashier_overwrite :: "string \<Rightarrow> overwrite option" where
  "cashier_overwrite key =
     (if key \<in> set guide_keys then Some [(''view_channel'', True), (''send_messages'', False)]
      else if key \<in> {''deposit'', ''withdraw''}
      then Some [(''view_channel'', True), (''manage_threads'', True), (''read_message_history'', True)]
      else if key = ''cashier_alerts''
      then Some [(''view_channel'', True), (''send_messages'', True), (''read_message_history'', True)]
      else if key = ''cashier_onboarding''
      then Some [(''view_channel'', True), (''send_messages'', True), (''read_message_history'', True),
                 (''use_application_commands'', True)]
      else if key = ''disputes'' then Some [(''view_channel'', False)]
      else if key = ''audit_log'' then Some [(''view_channel'', False)]
      else None)"

definition admin_overwrite :: overwrite where
  "admin_overwrite =
     [(''view_channel'', True), (''send_messages'', True), (''read_message_history'', True), (''use_application_commands'', True)]"

definition bot_overwrite :: "string \<Rightarrow> overwrite" where
  "bot_overwrite key =
     [(''view_channel'', True), (''send_messages'', True), (''read_message_history'', True),
      (''use_application_commands'', True), (''embed_links'', True), (''attach_files'', True),
      (''manage_messages'', key \<in> set guide_keys), (''manage_threads'', key \<in> {''deposit'', ''withdraw''}),
      (''manage_channels'', key = ''deposit'')]"

text \<open>\<^verbatim>\<open>overwrites[who] = what\<close> where \<open>who\<close> may be missing.\<close>

definition put_role :: "int option \<Rightarrow> overwrite option \<Rightarrow> (principal \<times> overwrite) list \<Rightarrow> (principal \<times> overwrite) list" where
  "put_role who what ow = (case (who, what) of (Some r, Some p) \<Rightarrow> AList.update (Role r) p ow | _ \<Rightarrow> ow)"

definition category_overwrites ::
    "category_spec \<Rightarrow> int \<Rightarrow> int option \<Rightarrow> int option \<Rightarrow> (principal \<times> overwrite) list" where
  "category_overwrites spec everyone cashier admin =
     (let base =
        (if ca_private_to_admin_only spec
         then put_role cashier (Some [(''view_channel'', False)]) [(Role everyone, [(''view_channel'', False)])]
         else if ca_private_to_staff spec
         then put_role cashier (Some [(''view_channel'', True)]) [(Role everyone, [(''view_channel'', False)])]
         else [(Role everyone, [(''view_channel'', True), (''read_message_history'', True)])])
      in AList.update Bot_member
           [(''view_channel'', True), (''send_messages'', True), (''manage_channels'', True), (''manage_messages'', True),
            (''manage_threads'', True), (''read_message_history'', True)]
           (put_role admin (Some [(''view_channel'', True), (''send_messages'', True), (''read_message_history'', True)]) base))"

definition channel_overwrites :: "string \<Rightarrow> int \<Rightarrow> int option \<Rightarrow> int option \<Rightarrow> (principal \<times> overwrite) list" where
  "channel_overwrites key everyone cashier admin =
     AList.update Bot_member (bot_overwrite key)
       (put_role admin (Some admin_overwrite)
         (put_role cashier (cashier_overwrite key) [(Role everyone, everyone_overwrite key)]))"

section \<open>Provisioning\<close>

definition get_role :: "bot_env \<Rightarrow> int option \<Rightarrow> int option" where
  "get_role B role_id = (case role_id of Some r \<Rightarrow> if be_known_role B r then Some r else None | None \<Rightarrow> None)"

definition find_category :: "string \<Rightarrow> int option cmd" where
  "find_category name w = (Inr (map_option fst (find (\<lambda>c. snd c = name) (wd_categories w))), w)"

definition find_channel :: "string \<Rightarrow> string \<Rightarrow> int option cmd" where
  "find_channel name parent_name w =
     (Inr (map_option ch_id (find (\<lambda>c. ch_name c = name \<and> ch_category c = Some parent_name) (wd_channels w))), w)"

definition create_category :: "bot_env \<Rightarrow> string \<Rightarrow> (principal \<times> overwrite) list \<Rightarrow> int cmd" where
  "create_category B name ow =
     bindC (request B (Create_category name ow)) (\<lambda>i w. (Inr i, w\<lparr>wd_categories := wd_categories w @ [(i, name)]\<rparr>))"

definition create_text_channel ::
    "bot_env \<Rightarrow> string \<Rightarrow> int option \<Rightarrow> string \<Rightarrow> (principal \<times> overwrite) list \<Rightarrow> int cmd" where
  "create_text_channel B name parent parent_name ow =
     bindC (request B (Create_channel name parent ow)) (\<lambda>i w.
       (Inr i, w\<lparr>wd_channels := wd_channels w @ [\<lparr>ch_id = i, ch_name = name, ch_category = map_option (\<lambda>_. parent_name) parent\<rparr>]\<rparr>))"

definition setup_category :: "bot_env \<Rightarrow> int option \<Rightarrow> int option \<Rightarrow> bool \<Rightarrow> category_spec \<Rightarrow> category_outcome cmd" where
  "setup_category B cashier admin dry_run spec =
     bindC (find_category (ca_name spec)) (\<lambda>existing.
     case existing of
       Some i \<Rightarrow> ret \<lparr>co_key = ca_key spec, co_name = ca_name spec, co_discord_id = Some i, co_created = False\<rparr>
     | None \<Rightarrow>
         if dry_run then ret \<lparr>co_key = ca_key spec, co_name = ca_name spec, co_discord_id = None, co_created = True\<rparr>
         else bindC (create_category B (ca_name spec) (category_overwrites spec (be_everyone_role B) cashier admin)) (\<lambda>i.
              ret \<lparr>co_key = ca_key spec, co_name = ca_name spec, co_discord_id = Some i, co_created = True\<rparr>))"

text \<open>The name and the id of the parent category, by its key.\<close>

definition category_name :: "string \<Rightarrow> string" where
  "category_name key = (case find (\<lambda>s. ca_key s = key) category_specs of Some s \<Rightarrow> ca_name s | None \<Rightarrow> [])"

definition category_id :: "category_outcome list \<Rightarrow> string \<Rightarrow> int option" where
  "category_id cats key = Option.bind (find (\<lambda>c. co_key c = key) cats) co_discord_id"

definition setup_channel ::
    "bot_env \<Rightarrow> int option \<Rightarrow> int option \<Rightarrow> bool \<Rightarrow> category_outcome list \<Rightarrow> channel_spec \<Rightarrow> channel_outcome cmd" where
  "setup_channel B cashier admin dry_run cats spec =
     (let parent_name = category_name (cn_category_key spec);
          outcome = (\<lambda>i created. \<lparr>no_key = cn_key spec, no_name = cn_name spec, no_category_key = cn_category_key spec,
                       no_discord_id = i, no_created = created\<rparr>)
      in bindC (find_channel (cn_name spec) parent_name) (\<lambda>existing.
         case existing of
           Some i \<Rightarrow> ret (outcome (Some i) False)
         | None \<Rightarrow>
             if dry_run then ret (outcome None True)
             else bindC (create_text_channel B (cn_name spec) (category_id cats (cn_category_key spec)) parent_name
                           (channel_overwrites (cn_key spec) (be_everyone_role B) cashier admin)) (\<lambda>i.
                  ret (outcome (Some i) True))))"

definition id_map :: "channel_outcome list \<Rightarrow> (string \<times> int) list" where
  "id_map chs = map (\<lambda>c. (no_key c, the (no_discord_id c))) (filter (\<lambda>c. no_discord_id c \<noteq> None) chs)"

definition setup_or_reuse_channels ::
    "bot_env \<Rightarrow> int option \<Rightarrow> int option \<Rightarrow> bool \<Rightarrow> ((string \<times> int) list \<Rightarrow> unit cmd) option \<Rightarrow> setup_report cmd" where
  "setup_or_reuse_channels B cashier_role_id admin_role_id dry_run persist =
     (let cashier = get_role B cashier_role_id; admin = get_role B admin_role_id
      in bindC (for_each (setup_category B cashier admin dry_run) category_specs) (\<lambda>cats.
         bindC (for_each (setup_channel B cashier admin dry_run cats) channel_specs) (\<lambda>chs.
         seqC (case persist of Some f \<Rightarrow> if \<not> dry_run then f (id_map chs) else ret () | None \<Rightarrow> ret ())
           (ret \<lparr>sr_categories = cats, sr_channels = chs, sr_dry_run = dry_run\<rparr>))))"

section \<open>Writing the bindings\<close>

definition persist_config_int :: "bot_env \<Rightarrow> string \<Rightarrow> int \<Rightarrow> int \<Rightarrow> unit cmd" where
  "persist_config_int B key v actor_id = sql B (\<lambda>E d. (Inr (), upsert_config E key v actor_id d))"

definition persist_channel_ids :: "bot_env \<Rightarrow> int \<Rightarrow> (string \<times> int) list \<Rightarrow> unit cmd" where
  "persist_channel_ids B actor_id channel_id_map =
     seqC (for_each (\<lambda>(key, i). persist_config_int B (''channel_id_'' @ key) i actor_id) channel_id_map) (ret ())"

definition persist_role_ids :: "bot_env \<Rightarrow> int \<Rightarrow> (string \<times> int) list \<Rightarrow> unit cmd" where
  "persist_role_ids B actor_id role_id_map =
     seqC (for_each (\<lambda>(key, i). persist_config_int B (''role_id_'' @ key) i actor_id) role_id_map) (ret ())"

section \<open>The command\<close>

definition outcome_line :: "string \<Rightarrow> string \<Rightarrow> bool \<Rightarrow> string" where
  "outcome_line key shown created =
     uc 0x2022 @ '' `'' @ key @ ''` ('' @ shown @ '') '' @ uc 0x2014 @ '' '' @ (if created then ''created'' else ''reused'')"

definition build_setup_report_embed :: "setup_report \<Rightarrow> string option \<Rightarrow> bool \<Rightarrow> embed" where
  "build_setup_report_embed report welcome_summary dry_run =
     (let created = show_int (int (created_count report)); reused = show_int (int (reused_count report));
          title = (if dry_run then uc 0x1F6E0 @ uc 0xFE0F @ '' /admin setup '' @ uc 0x2014 @ '' DRY RUN preview''
                   else uc 0x2705 @ '' /admin setup complete'');
          description = (if dry_run then ''Would create **'' @ created @ ''** entities; **'' @ reused @ ''** already present.''
                         else ''Created **'' @ created @ ''** entities; reused **'' @ reused @ ''**.'')
      in with_fields
           ([(''Categories'', join newline (map (\<lambda>c. outcome_line (co_key c) (co_name c) (co_created c)) (sr_categories report)), False),
             (''Channels'', join newline (map (\<lambda>c. outcome_line (no_key c) (''#'' @ no_name c) (no_created c)) (sr_channels report)),
              False)] @
            (if truthy welcome_summary then [(''Welcome embeds'', the welcome_summary, False)] else []))
           (new_embed title (Some description) (if dry_run then 0xC8511C else 0x5DBE5A) None))"

definition role_id_map :: "int option \<Rightarrow> int option \<Rightarrow> (string \<times> int) list" where
  "role_id_map cashier_role admin_role =
     (case cashier_role of Some r \<Rightarrow> [(''cashier'', r)] | None \<Rightarrow> []) @ (case admin_role of Some r \<Rightarrow> [(''admin'', r)] | None \<Rightarrow> [])"

definition setup_cmd :: "bot_env \<Rightarrow> interaction \<Rightarrow> bool \<Rightarrow> int option \<Rightarrow> int option \<Rightarrow> unit cmd" where
  "setup_cmd B i dry_run cashier_role admin_role =
     with_pool B
     (if \<not> in_guild i then respond B ''This command must be used in a server.''
      else seqC (send B Defer)
      (bindC (setup_or_reuse_channels B cashier_role admin_role dry_run
                (if dry_run then None else Some (persist_channel_ids B (in_user i)))) (\<lambda>report.
       seqC (if \<not> dry_run \<and> role_id_map cashier_role admin_role \<noteq> []
             then persist_role_ids B (in_user i) (role_id_map cashier_role admin_role) else ret ())
       (bindC (if dry_run then ret None
               else try_any
                 (bindC (reconcile_welcome_embeds B) (\<lambda>outcomes.
                  ret (Some (join '', '' (map (\<lambda>o1. ro_embed_key o1 @ ''='' @ ro_action o1) outcomes)))))
                 (\<lambda>_. ret (Some (''(reconciler errored '' @ uc 0x2014 @ '' see logs)'')))) (\<lambda>welcome_summary.
        send B (Followup (Card (build_setup_report_embed report welcome_summary dry_run))))))))"

section \<open>The contract\<close>

lemma stmt_config: "setting_ok k v \<Longrightarrow> stmt_ok (\<lambda>E d. (Inr (), upsert_config E k v a d))"
  by (rule stmt_done [where c = "\<lambda>_. Set_config k v a"]) simp_all

lemma lawful_config_int: "setting_ok key v \<Longrightarrow> lawful B 0 (persist_config_int B key v a)"
  unfolding persist_config_int_def by (intro lawful_sql stmt_config)

lemma binding_ok: "setting_ok (''channel_id_'' @ key) v" "setting_ok (''role_id_'' @ key) v"
  by (simp_all add: setting_ok_def limit_keys_def)

lemma lawful_config [lawful_intros]: "lawful B 0 (persist_channel_ids B a m)" "lawful B 0 (persist_role_ids B a m)"
  unfolding persist_channel_ids_def persist_role_ids_def
  by (rule lawful_intros lawful_config_int binding_ok)+

lemma lawful_cache [lawful_intros]:
  "lawful B 0 (find_category n)" "lawful B 0 (find_channel n p)"
  "lawful B 0 (\<lambda>w. (Inr x, w\<lparr>wd_categories := cs w\<rparr>))" "lawful B 0 (\<lambda>w. (Inr x, w\<lparr>wd_channels := chs w\<rparr>))"
  by (rule lawful_quiet; auto simp: find_category_def find_channel_def)+

lemma lawful_setup_entities [lawful_intros]:
  "lawful B 0 (setup_category B ca ad dry spec)" "lawful B 0 (setup_channel B ca ad dry cats spec')"
  unfolding setup_category_def setup_channel_def create_category_def create_text_channel_def Let_def
  by (rule lawful_intros | simp)+

lemma lawful_persist: "pred_option (\<lambda>f. \<forall>m. lawful B 0 (f m)) persist \<Longrightarrow>
    lawful B 0 (case persist of Some f \<Rightarrow> if \<not> dry then f m else ret () | None \<Rightarrow> ret ())"
  by (cases persist) (simp_all add: lawful_ret)

lemma lawful_setup [lawful_intros]:
  "pred_option (\<lambda>f. \<forall>m. lawful B 0 (f m)) persist \<Longrightarrow> lawful B 0 (setup_or_reuse_channels B ci ai dry persist)"
  unfolding setup_or_reuse_channels_def Let_def
  by (assumption | rule lawful_persist | rule lawful_intros)+

lemma lawful_setup_cmd [lawful_intros]: "lawful B 1 (setup_cmd B i dry ca ad)"
proof -
  have persist: "pred_option (\<lambda>f. \<forall>m. lawful B 0 (f m)) (if dry then None else Some (persist_channel_ids B (in_user i)))"
    by (simp add: lawful_config(1))
  show ?thesis unfolding setup_cmd_def
    by (rule persist | rule lawful_acks | rule lawful_intros | simp)+
qed

section \<open>Provisioning converges\<close>

text \<open>A loop establishes for each element what its step establishes and the other steps keep.\<close>

lemma for_each_Inr:
  assumes "for_each f xs w = (Inr ys, w')"
    and "\<And>x y w w1. x \<in> set xs \<Longrightarrow> f x w = (Inr y, w1) \<Longrightarrow> P x y w1"
    and "\<And>x y x' y' w w1. x \<in> set xs \<Longrightarrow> x' \<in> set xs \<Longrightarrow> f x' w = (Inr y', w1) \<Longrightarrow> P x y w \<Longrightarrow> P x y w1"
  shows "list_all2 (\<lambda>x y. P x y w') xs ys"
proof -
  have keeps: "P x y w \<Longrightarrow> P x y w'" if "for_each f zs w = (Inr ys', w')" "set zs \<subseteq> set xs" "x \<in> set xs" for x y zs w w' ys'
    using that
  proof (induction zs arbitrary: w ys')
    case (Cons z zs)
    then show ?case by (auto simp: bindC_Inr ret_def) (meson assms(3))
  qed (simp add: ret_def)
  have "list_all2 (\<lambda>x y. P x y w') zs ys'" if "for_each f zs w = (Inr ys', w')" "set zs \<subseteq> set xs" for zs w ys'
    using that
  proof (induction zs arbitrary: w ys')
    case (Cons z zs)
    then show ?case by (auto simp: bindC_Inr ret_def) (meson assms(2) keeps)
  qed (simp add: ret_def)
  then show ?thesis using assms(1) by blast
qed

lemma for_each_frame_in:
  assumes "for_each f xs w = (Inr ys, w')" and "\<And>x y w w1. x \<in> set xs \<Longrightarrow> f x w = (Inr y, w1) \<Longrightarrow> Q w1 = Q w"
  shows "Q w' = Q w"
  using assms
proof (induction xs arbitrary: w ys)
  case (Cons x xs)
  from Cons.prems(1) obtain y w1 ys1 where "f x w = (Inr y, w1)" "for_each f xs w1 = (Inr ys1, w')"
    by (auto simp: bindC_Inr ret_def)
  then show ?case using Cons by (metis list.set_intros(1,2))
qed (simp add: ret_def)

definition has_category :: "world \<Rightarrow> category_spec \<Rightarrow> bool" where
  "has_category w spec \<longleftrightarrow> (\<exists>c \<in> set (wd_categories w). snd c = ca_name spec)"

definition is_channel :: "world \<Rightarrow> channel_spec \<Rightarrow> int \<Rightarrow> bool" where
  "is_channel w spec i \<longleftrightarrow> (\<exists>c \<in> set (wd_channels w). ch_id c = i \<and> ch_name c = cn_name spec
     \<and> ch_category c = Some (category_name (cn_category_key spec)))"

lemma find_Some_in: "find P xs = Some x \<Longrightarrow> x \<in> set xs \<and> P x"
  by (induction xs) (auto split: if_splits)

lemma setup_category_Inr:
  assumes "setup_category B ca ad False spec w = (Inr out, w')"
  shows "has_category w' spec" and "co_key out = ca_key spec" and "co_discord_id out \<noteq> None"
    and "has_category w spec' \<Longrightarrow> has_category w' spec'"
  using assms
  by (auto simp: setup_category_def find_category_def create_category_def bindC_def ret_def request_def has_category_def
      dest!: find_Some_in split: option.splits answer.splits prod.splits sum.splits if_splits)

lemma setup_channel_Inr:
  assumes "setup_channel B ca ad False cats spec w = (Inr out, w')" and "category_id cats (cn_category_key spec) \<noteq> None"
  shows "\<exists>i. no_discord_id out = Some i \<and> is_channel w' spec i" and "no_key out = cn_key spec"
    and "is_channel w spec' j \<Longrightarrow> is_channel w' spec' j"
    and "wd_categories w' = wd_categories w"
  using assms
  by (auto simp: setup_channel_def find_channel_def create_text_channel_def bindC_def ret_def request_def is_channel_def Let_def
      dest!: find_Some_in split: option.splits answer.splits prod.splits sum.splits if_splits)

lemma setup_categories_Inr:
  assumes "for_each (setup_category B ca ad False) category_specs w = (Inr cats, w')"
  shows "list_all2 (\<lambda>spec out. has_category w' spec \<and> co_key out = ca_key spec \<and> co_discord_id out \<noteq> None) category_specs cats"
  by (rule for_each_Inr [OF assms]) (auto dest: setup_category_Inr)

lemma category_ids:
  assumes "list_all2 (\<lambda>spec out. Q spec \<and> co_key out = ca_key spec \<and> co_discord_id out \<noteq> None) category_specs cats"
    and "spec \<in> set channel_specs"
  shows "category_id cats (cn_category_key spec) \<noteq> None"
  using assms by (auto simp: category_specs_def channel_specs_def category_id_def list_all2_Cons1)

lemma setup_channels_Inr:
  assumes run: "for_each (setup_channel B ca ad False cats) channel_specs w = (Inr chs, w')"
    and ids: "\<And>spec. spec \<in> set channel_specs \<Longrightarrow> category_id cats (cn_category_key spec) \<noteq> None"
  shows "list_all2 (\<lambda>spec out. (\<exists>i. no_discord_id out = Some i \<and> is_channel w' spec i) \<and> no_key out = cn_key spec) channel_specs chs"
proof (rule for_each_Inr [OF run])
  fix spec out v v1
  assume "spec \<in> set channel_specs" and step: "setup_channel B ca ad False cats spec v = (Inr out, v1)"
  then show "(\<exists>i. no_discord_id out = Some i \<and> is_channel v1 spec i) \<and> no_key out = cn_key spec"
    using setup_channel_Inr(1,2) [OF step ids] by blast
next
  fix spec out spec' out' v v1
  assume "spec' \<in> set channel_specs" and step: "setup_channel B ca ad False cats spec' v = (Inr out', v1)"
    and "(\<exists>i. no_discord_id out = Some i \<and> is_channel v spec i) \<and> no_key out = cn_key spec"
  then show "(\<exists>i. no_discord_id out = Some i \<and> is_channel v1 spec i) \<and> no_key out = cn_key spec"
    using setup_channel_Inr(3) [OF step ids] by blast
qed

lemma persist_config_run:
  "persist_config_int B key v a w = (Inr u, w1) \<Longrightarrow>
    wd_channels w1 = wd_channels w \<and> wd_categories w1 = wd_categories w \<and> wd_sent w1 = wd_sent w
    \<and> config_value k (wd_db w1) = (if k = key then Some v else config_value k (wd_db w))"
  by (auto simp: persist_config_int_def sql_def config_value_def config_int_upsert)

lemma persist_Inr:
  assumes run: "persist_channel_ids B a m w = (Inr u, w')" and "distinct (map fst m)"
  shows "\<forall>(key, i) \<in> set m. config_value (''channel_id_'' @ key) (wd_db w') = Some i"
    and "wd_channels w' = wd_channels w" and "wd_categories w' = wd_categories w" and "wd_sent w' = wd_sent w"
proof -
  obtain ys where loop: "for_each (\<lambda>(key, i). persist_config_int B (''channel_id_'' @ key) i a) m w = (Inr ys, w')"
    using run by (auto simp: persist_channel_ids_def seqC_def bindC_Inr ret_def)
  have "list_all2 (\<lambda>x y. config_value (''channel_id_'' @ fst x) (wd_db w') = Some (snd x)) m ys"
  proof (rule for_each_Inr [OF loop])
    fix x y v v1
    assume "(case x of (key, i) \<Rightarrow> persist_config_int B (''channel_id_'' @ key) i a) v = (Inr y, v1)"
    then show "config_value (''channel_id_'' @ fst x) (wd_db v1) = Some (snd x)"
      using persist_config_run [where k = "''channel_id_'' @ fst x"] by (cases x) fastforce
  next
    fix x y x' y' v v1
    assume "x \<in> set m" "x' \<in> set m" and here: "config_value (''channel_id_'' @ fst x) (wd_db v) = Some (snd x)"
      and step: "(case x' of (key, i) \<Rightarrow> persist_config_int B (''channel_id_'' @ key) i a) v = (Inr y', v1)"
    then have "fst x = fst x' \<longrightarrow> snd x = snd x'" using assms(2) by (metis eq_key_imp_eq_value prod.collapse)
    moreover have "config_value (''channel_id_'' @ fst x) (wd_db v1)
        = (if fst x = fst x' then Some (snd x') else config_value (''channel_id_'' @ fst x) (wd_db v))"
      using persist_config_run [where k = "''channel_id_'' @ fst x"] step by (cases x') fastforce
    ultimately show "config_value (''channel_id_'' @ fst x) (wd_db v1) = Some (snd x)" using here by simp
  qed
  then show "\<forall>(key, i) \<in> set m. config_value (''channel_id_'' @ key) (wd_db w') = Some i"
    by (auto simp: list_all2_conv_all_nth in_set_conv_nth) (metis fst_conv snd_conv)
  show "wd_channels w' = wd_channels w" "wd_categories w' = wd_categories w" "wd_sent w' = wd_sent w"
    by (rule for_each_frame_in [OF loop], auto dest: persist_config_run)+
qed

section \<open>A server that is already set up\<close>

definition provisioned :: "world \<Rightarrow> bool" where
  "provisioned w \<longleftrightarrow> (\<forall>spec \<in> set category_specs. has_category w spec) \<and> (\<forall>spec \<in> set channel_specs. \<exists>i. is_channel w spec i)"

lemma find_exists: "\<exists>x \<in> set xs. P x \<Longrightarrow> \<exists>x. find P xs = Some x"
  by (induction xs) auto

lemma setup_category_reuse:
  assumes "has_category w spec"
  shows "\<exists>out. setup_category B ca ad False spec w = (Inr out, w) \<and> \<not> co_created out"
proof -
  obtain c where "find (\<lambda>c. snd c = ca_name spec) (wd_categories w) = Some c"
    using assms find_exists [of "wd_categories w" "\<lambda>c. snd c = ca_name spec"] unfolding has_category_def by blast
  then show ?thesis by (simp add: setup_category_def find_category_def bindC_def ret_def)
qed

lemma setup_channel_reuse:
  assumes "is_channel w spec i"
  shows "\<exists>out. setup_channel B ca ad False cats spec w = (Inr out, w) \<and> \<not> no_created out"
proof -
  obtain c where "find (\<lambda>c. ch_name c = cn_name spec \<and> ch_category c = Some (category_name (cn_category_key spec))) (wd_channels w) = Some c"
    using assms find_exists [of "wd_channels w" "\<lambda>c. ch_name c = cn_name spec \<and> ch_category c = Some (category_name (cn_category_key spec))"]
    unfolding is_channel_def by blast
  then show ?thesis by (simp add: setup_channel_def find_channel_def bindC_def ret_def Let_def)
qed

lemma for_each_still:
  "\<forall>x \<in> set xs. \<exists>y. f x w = (Inr y, w) \<and> Q y \<Longrightarrow> \<exists>ys. for_each f xs w = (Inr ys, w) \<and> (\<forall>y \<in> set ys. Q y)"
  by (induction xs) (fastforce simp: bindC_def ret_def)+

lemma for_each_total:
  "\<forall>x w. \<exists>y w1. f x w = (Inr y, w1) \<Longrightarrow> \<exists>ys w1. for_each f xs w = (Inr ys, w1)"
proof (induction xs arbitrary: w)
  case (Cons x xs)
  obtain y w1 where "f x w = (Inr y, w1)" using Cons.prems by blast
  moreover obtain ys w2 where "for_each f xs w1 = (Inr ys, w2)" using Cons by blast
  ultimately show ?case by (simp add: bindC_def ret_def)
qed (simp add: ret_def)

lemma persist_total: "\<exists>w1. persist_channel_ids B a m w = (Inr (), w1)"
proof -
  have "\<forall>x v. \<exists>y w1. (\<lambda>(key, i). persist_config_int B (''channel_id_'' @ key) i a) x v = (Inr y, w1)"
    by (simp add: persist_config_int_def sql_def)
  from for_each_total [OF this] obtain ys w1
    where "for_each (\<lambda>(key, i). persist_config_int B (''channel_id_'' @ key) i a) m w = (Inr ys, w1)" by blast
  then show ?thesis by (simp add: persist_channel_ids_def seqC_def bindC_def ret_def)
qed

lemma id_map_keys:
  assumes "list_all2 (\<lambda>spec out. (\<exists>i. no_discord_id out = Some i \<and> R spec i) \<and> no_key out = cn_key spec) specs chs"
  shows "map fst (id_map chs) = map cn_key specs" and "spec \<in> set specs \<Longrightarrow> \<exists>i. (cn_key spec, i) \<in> set (id_map chs) \<and> R spec i"
  using assms by (induction rule: list_all2_induct) (auto simp: id_map_def)

lemma setup_run:
  assumes "setup_or_reuse_channels B ci ai False (Some (persist_channel_ids B a)) w = (Inr report, w1)"
  obtains cats w' chs w'' u where "for_each (setup_category B (get_role B ci) (get_role B ai) False) category_specs w = (Inr cats, w')"
    and "for_each (setup_channel B (get_role B ci) (get_role B ai) False cats) channel_specs w' = (Inr chs, w'')"
    and "persist_channel_ids B a (id_map chs) w'' = (Inr u, w1)"
    and "report = \<lparr>sr_categories = cats, sr_channels = chs, sr_dry_run = False\<rparr>"
  using assms by (auto simp: setup_or_reuse_channels_def Let_def seqC_def bindC_Inr ret_def)

lemma keys_distinct: "distinct (map cn_key channel_specs)"
  by (simp add: channel_specs_def)

lemma setup_provisions:
  assumes "setup_or_reuse_channels B ci ai False (Some (persist_channel_ids B a)) w = (Inr report, w1)"
  shows "provisioned w1"
    and "spec \<in> set channel_specs \<Longrightarrow> \<exists>i. is_channel w1 spec i \<and> config_value (''channel_id_'' @ cn_key spec) (wd_db w1) = Some i"
proof -
  from setup_run [OF assms] obtain cats w' chs w'' u
    where cats: "for_each (setup_category B (get_role B ci) (get_role B ai) False) category_specs w = (Inr cats, w')"
      and chs: "for_each (setup_channel B (get_role B ci) (get_role B ai) False cats) channel_specs w' = (Inr chs, w'')"
      and ids: "persist_channel_ids B a (id_map chs) w'' = (Inr u, w1)" by metis
  note cat = setup_categories_Inr [OF cats]
  note known = category_ids [OF cat]
  note all = setup_channels_Inr [OF chs known]
  have "distinct (map fst (id_map chs))" using id_map_keys(1) [OF all] keys_distinct by simp
  note kept = persist_Inr [OF ids this]
  have same: "wd_categories w'' = wd_categories w'"
    by (rule for_each_frame_in [OF chs]) (use setup_channel_Inr(4) known in blast)
  have here: "is_channel w1 s i \<longleftrightarrow> is_channel w'' s i" for s i using kept(2) by (simp add: is_channel_def)
  show bound: "\<exists>i. is_channel w1 spec i \<and> config_value (''channel_id_'' @ cn_key spec) (wd_db w1) = Some i"
    if "spec \<in> set channel_specs" for spec
    using id_map_keys(2) [OF all that] kept(1) here by fast
  have "has_category w1 s" if "s \<in> set category_specs" for s
    using cat that same kept(3) by (auto simp: list_all2_conv_all_nth in_set_conv_nth has_category_def)
  then show "provisioned w1" using bound unfolding provisioned_def by blast
qed

lemma setup_reuses:
  assumes "provisioned w"
  shows "\<exists>again w2. setup_or_reuse_channels B ci ai False (Some (persist_channel_ids B a)) w = (Inr again, w2)
    \<and> created_count again = 0 \<and> wd_sent w2 = wd_sent w \<and> wd_channels w2 = wd_channels w"
proof -
  obtain cats where cats: "for_each (setup_category B (get_role B ci) (get_role B ai) False) category_specs w = (Inr cats, w)"
      "\<forall>c \<in> set cats. \<not> co_created c"
    using for_each_still [of category_specs "setup_category B (get_role B ci) (get_role B ai) False" w "\<lambda>c. \<not> co_created c"]
      setup_category_reuse assms unfolding provisioned_def by blast
  obtain chs where chs: "for_each (setup_channel B (get_role B ci) (get_role B ai) False cats) channel_specs w = (Inr chs, w)"
      "\<forall>c \<in> set chs. \<not> no_created c"
    using for_each_still [of channel_specs "setup_channel B (get_role B ci) (get_role B ai) False cats" w "\<lambda>c. \<not> no_created c"]
      setup_channel_reuse assms unfolding provisioned_def by blast
  have known: "category_id cats (cn_category_key spec) \<noteq> None" if "spec \<in> set channel_specs" for spec
    by (rule category_ids [OF setup_categories_Inr [OF cats(1)] that])
  have "distinct (map fst (id_map chs))" using id_map_keys(1) [OF setup_channels_Inr [OF chs(1) known]] keys_distinct by simp
  moreover obtain w2 where w2: "persist_channel_ids B a (id_map chs) w = (Inr (), w2)" using persist_total by blast
  ultimately have "wd_sent w2 = wd_sent w" "wd_channels w2 = wd_channels w" by (auto dest: persist_Inr)
  with cats chs w2 show ?thesis
    by (simp add: setup_or_reuse_channels_def Let_def seqC_def bindC_def ret_def created_count_def)
qed

text \<open>C33: A run of the bootstrap that is not a dry run and that ends leaves every canonical channel present under its category,
  with a binding in the configuration that names it; a second run, by whomever and with whatever roles, ends
  too, creates nothing and sends no request.
\<close>

theorem setup_converges:
  assumes "setup_or_reuse_channels B ci ai False (Some (persist_channel_ids B a)) w = (Inr report, w1)"
  shows "(\<forall>spec \<in> set channel_specs. \<exists>i. is_channel w1 spec i \<and> config_value (''channel_id_'' @ cn_key spec) (wd_db w1) = Some i)
    \<and> (\<exists>again w2. setup_or_reuse_channels B ci' ai' False (Some (persist_channel_ids B a')) w1 = (Inr again, w2)
        \<and> created_count again = 0 \<and> wd_sent w2 = wd_sent w1 \<and> wd_channels w2 = wd_channels w1)"
  using setup_provisions [OF assms] setup_reuses by blast

lemma demo_setup: "\<exists>report w1. setup_or_reuse_channels demo_bot (Some 7) None False (Some (persist_channel_ids demo_bot 9)) w = (Inr report, w1)"
proof -
  have "\<forall>x v. \<exists>y w1. setup_category demo_bot ca ad False x v = (Inr y, w1)" for ca ad
    by (simp add: setup_category_def find_category_def create_category_def bindC_def ret_def request_def split: option.splits)
  from for_each_total [OF this] obtain cats w1
    where "for_each (setup_category demo_bot (get_role demo_bot (Some 7)) (get_role demo_bot None) False) category_specs w = (Inr cats, w1)" by blast
  moreover have "\<forall>x v. \<exists>y w1. setup_channel demo_bot ca ad False cats x v = (Inr y, w1)" for ca ad
    by (simp add: setup_channel_def find_channel_def create_text_channel_def bindC_def ret_def request_def Let_def split: option.splits)
  from for_each_total [OF this] obtain chs w2
    where "for_each (setup_channel demo_bot (get_role demo_bot (Some 7)) (get_role demo_bot None) False cats) channel_specs w1 = (Inr chs, w2)" by blast
  moreover obtain w3 where "persist_channel_ids demo_bot 9 (id_map chs) w2 = (Inr (), w3)" using persist_total by blast
  ultimately show ?thesis by (simp add: setup_or_reuse_channels_def Let_def seqC_def bindC_def ret_def)
qed

theorem setup_converges_witness:
  "\<exists>report w1 again w2.
    setup_or_reuse_channels demo_bot (Some 7) None False (Some (persist_channel_ids demo_bot 9)) (demo_world demo_db) = (Inr report, w1)
    \<and> setup_or_reuse_channels demo_bot None None False (Some (persist_channel_ids demo_bot 9)) w1 = (Inr again, w2)
    \<and> created_count again = 0"
proof -
  obtain report w1 where run: "setup_or_reuse_channels demo_bot (Some 7) None False (Some (persist_channel_ids demo_bot 9)) (demo_world demo_db)
    = (Inr report, w1)" using demo_setup by blast
  show ?thesis using run setup_converges [OF run] by blast
qed

end
