(* ===== verification/Admin_Cog.thy ===== *)
theory Admin_Cog
  imports Setup
begin

text \<open>
  The commands of administrators (\<^verbatim>\<open>cogs/admin.py\<close>): the toolkit for stuck tickets and cashiers,
  disputes, bans, the audit log, the guides, the configuration and the treasury. Discord shows them
  to administrators only; nothing here depends on that.
\<close>

section \<open>Cashiers and tickets\<close>

definition force_cashier_offline_cmd :: "bot_env \<Rightarrow> interaction \<Rightarrow> int \<Rightarrow> string \<Rightarrow> unit cmd" where
  "force_cashier_offline_cmd B i cashier reason =
     with_pool B
     (try_balance (sql B (\<lambda>E. set_cashier_status_py E cashier ''offline''))
        (\<lambda>cls msg. respond B (cross @ ''Could not set offline: '' @ msg))
        (\<lambda>_. seqC (respond B (check @ mention cashier @ '' is now offline. Reason logged: '' @ reason))
              (audit_force_cashier_offline B (mention (in_user i)) (mention cashier) reason)))"

definition promote_cashier_cmd :: "bot_env \<Rightarrow> int \<Rightarrow> unit cmd" where
  "promote_cashier_cmd B user =
     respond B (''To promote '' @ mention user @ '' to cashier, add them to the `@cashier` role via *Server Settings '' @
       uc 0x2192 @ '' Members*.'' @ newline @ ''The bot deliberately does not manage roles (spec '' @ uc 0xA7 @ ''6.5 '' @
       uc 0x2014 @ '' Manage Roles intent is forbidden).'')"

definition demote_cashier_cmd :: "bot_env \<Rightarrow> int \<Rightarrow> unit cmd" where
  "demote_cashier_cmd B user =
     respond B (''To demote '' @ mention user @ '', remove them from the `@cashier` role via *Server Settings '' @
       uc 0x2192 @ '' Members*. After removal, run `/admin-force-cashier-offline` so the audit log records the transition.'')"

definition cashier_stats_cmd :: "bot_env \<Rightarrow> int \<Rightarrow> unit cmd" where
  "cashier_stats_cmd B cashier =
     with_pool B
     (bindC (query (\<lambda>d. sel_key st_discord_id cashier (cashier_stats d))) (\<lambda>row.
      send B (Respond (Card (stats_embed (mention cashier) row)) True)))"

definition followup :: "bot_env \<Rightarrow> string \<Rightarrow> unit cmd" where
  "followup B txt = send B (Followup (Plain txt))"

definition starts_with :: "string \<Rightarrow> string \<Rightarrow> bool" where
  "starts_with s p \<longleftrightarrow> take (length p) s = p"

definition force_cancel_ticket_cmd :: "bot_env \<Rightarrow> interaction \<Rightarrow> string \<Rightarrow> string \<Rightarrow> unit cmd" where
  "force_cancel_ticket_cmd B i ticket_uid reason =
     (let db_reason = ''admin force: '' @ reason;
          failed = (\<lambda>cls msg.
            if cls = TicketNotFound then followup B (cross @ ''Ticket `'' @ ticket_uid @ ''` not found.'')
            else if cls = TicketAlreadyTerminal
            then followup B (cross @ ''Ticket `'' @ ticket_uid @ ''` is already in a terminal state.'')
            else followup B (cross @ ''Could not force-cancel: '' @ msg));
          cancelled = seqC (followup B (check @ ''Force-cancelled `'' @ ticket_uid @ ''`. Reason: '' @ reason))
            (audit_force_cancel_ticket B (mention (in_user i)) ticket_uid reason)
      in with_pool B
         (seqC (send B Defer)
         (if starts_with ticket_uid ''deposit-''
          then try_balance (sql B (\<lambda>E. cancel_deposit_py E ticket_uid (in_user i) db_reason)) failed (\<lambda>_. cancelled)
          else if starts_with ticket_uid ''withdraw-''
          then try_balance (sql B (\<lambda>E. cancel_withdraw_py E ticket_uid (in_user i) db_reason)) failed (\<lambda>_. cancelled)
          else followup B (cross @ ''Unknown ticket prefix in `'' @ ticket_uid @ ''`. Expected `deposit-N` or `withdraw-N`.''))))"

definition force_close_thread_cmd :: "bot_env \<Rightarrow> interaction \<Rightarrow> int \<Rightarrow> string \<Rightarrow> unit cmd" where
  "force_close_thread_cmd B i thread reason =
     seqC (respond B (uc 0x23F3 @ '' Archiving '' @ channel_mention thread @ ''...''))
     (bindC (try_any (seqC (send B (Thread_archive thread)) (ret None)) (\<lambda>e. ret (Some e))) (\<lambda>failure.
      case failure of
        Some e \<Rightarrow> attempt (send B (Edit_response (cross @ ''Could not archive: '' @ be_exception_text B e)))
      | None \<Rightarrow>
          seqC (if be_pool_ready B
                then audit_force_close_thread B (mention (in_user i)) (channel_mention thread) reason else ret ())
            (attempt (send B (Edit_response (check @ ''Archived '' @ channel_mention thread @ ''. Reason: '' @ reason))))))"

section \<open>Disputes\<close>

definition dispute_open_cmd :: "bot_env \<Rightarrow> interaction \<Rightarrow> string \<Rightarrow> string \<Rightarrow> string \<Rightarrow> unit cmd" where
  "dispute_open_cmd B i ticket_type ticket_uid reason =
     with_pool B
     (seqC (send B Defer)
     (try_balance (sql B (\<lambda>E. open_dispute_py E ticket_type ticket_uid (in_user i) ''admin'' reason))
        (\<lambda>cls msg.
           if cls = TicketNotFound then followup B (cross @ ''Ticket `'' @ ticket_uid @ ''` not found.'')
           else followup B (cross @ ''Could not open dispute: '' @ msg))
        (\<lambda>dispute_id.
           seqC (followup B (check @ ''Dispute `#'' @ show_int dispute_id @ ''` opened on `'' @ ticket_uid @ ''`.''))
           (bindC (utcnow B) (\<lambda>opened_at.
            seqC (post_dispute_open_embed B dispute_id ticket_type ticket_uid (mention (in_user i)) ''admin'' reason opened_at)
             (audit_dispute_opened B dispute_id ticket_type ticket_uid (mention (in_user i)) ''admin'' reason))))))"

definition list_disputes :: "string option \<Rightarrow> db \<Rightarrow> dispute_row list" where
  "list_disputes status d =
     take 25 (sort_key (\<lambda>r. - d_opened_at r)
       (filter (\<lambda>r. case status of None \<Rightarrow> True | Some s \<Rightarrow> dispute_status_text (d_status r) = s) (disputes d)))"

definition dispute_list_cmd :: "bot_env \<Rightarrow> string option \<Rightarrow> unit cmd" where
  "dispute_list_cmd B status =
     with_pool B
     (bindC (query (list_disputes status)) (\<lambda>rows. send B (Respond (Card (dispute_list_embed rows status)) True)))"

definition dispute_ticket_uid :: "int \<Rightarrow> string cmd" where
  "dispute_ticket_uid dispute_id =
     query (\<lambda>d. case select_dispute dispute_id d of Some r \<Rightarrow> d_ticket_uid r | None \<Rightarrow> ''?'')"

definition dispute_ref :: "int \<Rightarrow> string" where
  "dispute_ref dispute_id = ''Dispute `#'' @ show_int dispute_id @ ''`''"

definition dispute_resolve_cmd :: "bot_env \<Rightarrow> interaction \<Rightarrow> int \<Rightarrow> string \<Rightarrow> int option \<Rightarrow> unit cmd" where
  "dispute_resolve_cmd B i dispute_id action amount =
     with_pool B
     (seqC (send B Defer)
     (try_balance (sql B (\<lambda>E. resolve_dispute_py E dispute_id action amount (in_user i)))
        (\<lambda>cls msg. followup B (cross @
           (if cls = DisputeNotFound then dispute_ref dispute_id @ '' not found.''
            else if cls = DisputeAlreadyTerminal then dispute_ref dispute_id @ '' is already in a terminal state.''
            else if cls = PartialRefundRequiresPositiveAmount then ''`partial-refund` requires a positive `amount`.''
            else if cls = RefundFullOnlyForWithdrawDisputes then ''`refund-full` is only valid for withdraw disputes.''
            else ''Could not resolve: '' @ msg)))
        (\<lambda>_. bindC (dispute_ticket_uid dispute_id) (\<lambda>ticket_uid.
           seqC (followup B (check @ dispute_ref dispute_id @ '' resolved as `'' @ action @ ''`.''))
           (bindC (utcnow B) (\<lambda>resolved_at.
            seqC (update_dispute_status_embed B dispute_id
                    (dispute_resolved_embed dispute_id ticket_uid
                       (''action='' @ action @
                        (case amount of Some n \<Rightarrow> if n \<noteq> 0 then '', amount='' @ fmt_thousands n @ ''g'' else [] | None \<Rightarrow> []))
                       (mention (in_user i)) resolved_at ''resolved''))
             (audit_dispute_resolved B dispute_id ticket_uid (mention (in_user i)) action amount)))))))"

definition dispute_reject_cmd :: "bot_env \<Rightarrow> interaction \<Rightarrow> int \<Rightarrow> string \<Rightarrow> unit cmd" where
  "dispute_reject_cmd B i dispute_id reason =
     with_pool B
     (seqC (send B Defer)
     (try_balance (sql B (\<lambda>E. reject_dispute_py E dispute_id reason (in_user i)))
        (\<lambda>cls msg. followup B (cross @
           (if cls = DisputeNotFound then dispute_ref dispute_id @ '' not found.''
            else if cls = DisputeAlreadyTerminal then dispute_ref dispute_id @ '' is already in a terminal state.''
            else ''Could not reject: '' @ msg)))
        (\<lambda>_. bindC (dispute_ticket_uid dispute_id) (\<lambda>ticket_uid.
           seqC (followup B (check @ dispute_ref dispute_id @ '' rejected.''))
           (bindC (utcnow B) (\<lambda>resolved_at.
            seqC (update_dispute_status_embed B dispute_id
                    (dispute_resolved_embed dispute_id ticket_uid reason (mention (in_user i)) resolved_at ''rejected''))
             (audit_dispute_rejected B dispute_id ticket_uid (mention (in_user i)) reason)))))))"

section \<open>Bans and the audit log\<close>

definition ban_user_cmd :: "bot_env \<Rightarrow> interaction \<Rightarrow> int \<Rightarrow> string \<Rightarrow> unit cmd" where
  "ban_user_cmd B i user reason =
     with_pool B
     (try_balance (sql B (\<lambda>E. ban_user_py E user reason (in_user i)))
        (\<lambda>cls msg. if cls = CannotBanTreasury then respond B (cross @ ''The treasury account cannot be banned.'')
                    else respond B (cross @ ''Could not ban: '' @ msg))
        (\<lambda>_. seqC (respond B (uc 0x1F6AB @ '' '' @ mention user @ '' is now blacklisted. Reason: '' @ reason))
              (audit_user_banned B (mention (in_user i)) (mention user) reason)))"

definition unban_user_cmd :: "bot_env \<Rightarrow> interaction \<Rightarrow> int \<Rightarrow> unit cmd" where
  "unban_user_cmd B i user =
     with_pool B
     (try_balance (sql B (\<lambda>E. unban_user_py E user (in_user i)))
        (\<lambda>cls msg. if cls = UserNotRegistered
           then respond B (cross @ mention user @ '' has no balance row '' @ uc 0x2014 @ '' never banned to begin with.'')
           else respond B (cross @ ''Could not unban: '' @ msg))
        (\<lambda>_. seqC (respond B (check @ mention user @ '' is no longer blacklisted.''))
              (audit_user_unbanned B (mention (in_user i)) (mention user))))"

text \<open>The tick of the verifier, whose errors are not translated.\<close>

definition verifier_statement :: "pg_env \<Rightarrow> db \<Rightarrow> verify_result py" where
  "verifier_statement E d = (case verifier_tick E d of Inl e \<Rightarrow> (Inl (Engine e), d) | Inr (res, d') \<Rightarrow> (Inr res, d'))"

definition verify_audit_cmd :: "bot_env \<Rightarrow> unit cmd" where
  "verify_audit_cmd B =
     with_pool B
     (seqC (send B Defer)
     (bindC (try_any (bindC (sql B verifier_statement) (\<lambda>res. ret (Inr res))) (\<lambda>e. ret (Inl e))) (\<lambda>outcome.
      case outcome of
        Inl e \<Rightarrow> followup B (cross @ ''Verifier crashed: `'' @ be_exception_name B e @ ''` '' @ uc 0x2014 @ '' see logs.'')
      | Inr res \<Rightarrow>
          (case broken_at_id res of
             Some b \<Rightarrow> followup B (uc 0x1F6A8 @ '' **Chain break detected at id `'' @ show_int b @ ''`** '' @ uc 0x2014 @
               '' checked '' @ show_int (checked_count res) @ '' rows; last verified id is `'' @
               show_int (last_verified_id res) @ ''`. Investigate immediately.'')
           | None \<Rightarrow> followup B (check @ ''Chain verified across '' @ show_int (checked_count res) @
               '' new row(s). Last verified id: `'' @ show_int (last_verified_id res) @ ''`.'')))))"

definition effective_limit :: "int option \<Rightarrow> int" where
  "effective_limit limit = max 1 (min (case limit of None \<Rightarrow> 25 | Some n \<Rightarrow> if n = 0 then 25 else n) 25)"

definition view_audit_cmd :: "bot_env \<Rightarrow> int option \<Rightarrow> int option \<Rightarrow> unit cmd" where
  "view_audit_cmd B user limit =
     with_pool B
     (bindC (query (list_audit_events_py user (effective_limit limit))) (\<lambda>rows.
      send B (Respond (Card (audit_log_list_embed rows user)) True)))"

section \<open>Guides and configuration\<close>

definition open_dynamic_embed_modal :: "bot_env \<Rightarrow> string \<Rightarrow> unit cmd" where
  "open_dynamic_embed_modal B embed_key =
     with_pool B
     (bindC (select_embed embed_key) (\<lambda>row.
      case row of
        None \<Rightarrow> respond B (cross @ ''No `'' @ embed_key @ ''` row yet. Run `/admin-setup` first.'')
      | Some r \<Rightarrow> send B (Send_modal (Guide_modal embed_key (er_title r) (er_description r)))))"

definition set_deposit_guide_cmd :: "bot_env \<Rightarrow> unit cmd" where
  "set_deposit_guide_cmd B = open_dynamic_embed_modal B ''how_to_deposit''"

definition set_withdraw_guide_cmd :: "bot_env \<Rightarrow> unit cmd" where
  "set_withdraw_guide_cmd B = open_dynamic_embed_modal B ''how_to_withdraw''"

definition set_cashier_onboarding_guide_cmd :: "bot_env \<Rightarrow> unit cmd" where
  "set_cashier_onboarding_guide_cmd B = open_dynamic_embed_modal B ''cashier_onboarding''"

text \<open>\<^verbatim>\<open>on_submit\<close> of the guide form and the callback it runs.\<close>

definition guide_modal_on_submit :: "bot_env \<Rightarrow> string \<Rightarrow> interaction \<Rightarrow> pystr \<Rightarrow> pystr \<Rightarrow> unit cmd" where
  "guide_modal_on_submit B embed_key i title description =
     (case edit_dynamic_embed_input (be_trim B) title description of
        Inl errs \<Rightarrow> respond B (format_validation_error B errs)
      | Inr (t, s) \<Rightarrow>
          if \<not> be_pool_ready B then throw Assertion_failed
          else bindC (update_dynamic_embed_content B embed_key (utf8 t) (utf8 s) (in_user i)) (\<lambda>outcome.
               seqC (respond B (check @ ''`'' @ embed_key @ ''` updated '' @ uc 0x2014 @ '' '' @ ro_action outcome @ ''.''))
                 (audit_config_changed B (mention (in_user i)) (''dynamic_embeds.'' @ embed_key)
                    (''title='' @ be_repr B t @ '' ('' @ show_int (int (length s)) @ '' chars desc)'') None)))"

definition handle_set_pair :: "bot_env \<Rightarrow> interaction \<Rightarrow> string \<Rightarrow> string \<Rightarrow> int \<Rightarrow> int \<Rightarrow> unit cmd" where
  "handle_set_pair B i key_min key_max min_value max_value =
     with_pool B
     (if min_value \<le> 0 \<or> max_value \<le> 0 then respond B (cross @ ''Both `min_g` and `max_g` must be positive.'')
      else if min_value > max_value
      then respond B (cross @ ''`min_g` ('' @ fmt_thousands min_value @ '') must be <= `max_g` ('' @ fmt_thousands max_value @ '').'')
      else seqC (persist_config_int B key_min min_value (in_user i))
          (seqC (persist_config_int B key_max max_value (in_user i))
          (seqC (respond B (check @ ''`'' @ key_min @ ''` = `'' @ fmt_thousands min_value @ ''g`, `'' @ key_max @ ''` = `'' @
                   fmt_thousands max_value @ ''g`.''))
          (seqC (audit_config_changed B (mention (in_user i)) key_min (fmt_thousands min_value @ ''g'') None)
          (audit_config_changed B (mention (in_user i)) key_max (fmt_thousands max_value @ ''g'') None)))))"

definition set_deposit_limits_cmd :: "bot_env \<Rightarrow> interaction \<Rightarrow> int \<Rightarrow> int \<Rightarrow> unit cmd" where
  "set_deposit_limits_cmd B i min_g max_g = handle_set_pair B i ''min_deposit_g'' ''max_deposit_g'' min_g max_g"

definition set_withdraw_limits_cmd :: "bot_env \<Rightarrow> interaction \<Rightarrow> int \<Rightarrow> int \<Rightarrow> unit cmd" where
  "set_withdraw_limits_cmd B i min_g max_g = handle_set_pair B i ''min_withdraw_g'' ''max_withdraw_g'' min_g max_g"

text \<open>\<^verbatim>\<open>bps / 100\<close> with two decimals.\<close>

definition fmt_percent :: "int \<Rightarrow> string" where
  "fmt_percent bps = show_int (bps div 100) @ ''.'' @ two_digits (bps mod 100)"

definition set_fee_withdraw_cmd :: "bot_env \<Rightarrow> interaction \<Rightarrow> int \<Rightarrow> unit cmd" where
  "set_fee_withdraw_cmd B i bps =
     with_pool B
     (if bps < 0 \<or> bps > 10000 then respond B (cross @ ''Bps must be 0-10000 (got '' @ show_int bps @ '').'')
      else seqC (persist_config_int B ''withdraw_fee_bps'' bps (in_user i))
          (seqC (respond B (check @ ''`withdraw_fee_bps` = `'' @ show_int bps @ ''` ('' @ fmt_percent bps @ ''%).''))
          (audit_config_changed B (mention (in_user i)) ''withdraw_fee_bps'' (show_int bps) None)))"

section \<open>The treasury\<close>

definition treasury_balance_cmd :: "bot_env \<Rightarrow> unit cmd" where
  "treasury_balance_cmd B =
     with_pool B
     (bindC (query (\<lambda>d. map_option b_balance (select_balance 0 d))) (\<lambda>balance.
      case balance of
        None \<Rightarrow> respond B (cross @ ''Treasury seed row missing '' @ uc 0x2014 @ '' escalate to ops.'')
      | Some n \<Rightarrow> respond B (uc 0x1F3E6 @ '' Treasury balance: **'' @ fmt_thousands n @ ''g**.'' @ newline @
          ''_Note: actual gold lives in the in-game guild bank; this is the bot's accounting view._'')))"

definition treasury_sweep_cmd :: "bot_env \<Rightarrow> int \<Rightarrow> unit cmd" where
  "treasury_sweep_cmd B amount =
     with_pool B
     (if amount \<le> 0 then respond B (cross @ ''Amount must be a positive integer.'')
      else send B (Send_modal (Sweep_modal amount)))"

definition treasury_sweep_on_confirm :: "bot_env \<Rightarrow> int \<Rightarrow> string \<Rightarrow> interaction \<Rightarrow> unit cmd" where
  "treasury_sweep_on_confirm B amount reason i =
     (if \<not> be_pool_ready B then throw Assertion_failed else
      try_balance (sql B (\<lambda>E. treasury_sweep_py E amount (in_user i) reason))
        (\<lambda>cls msg. if cls = InsufficientTreasury then respond B (cross @ ''Treasury has less than the requested amount.'')
                    else respond B (cross @ ''Sweep failed: '' @ msg))
        (\<lambda>new_balance.
           seqC (respond B (check @ ''Swept **'' @ fmt_thousands amount @ ''g**. New treasury balance: **'' @
                   fmt_thousands new_balance @ ''g**.''))
             (audit_treasury_sweep B (mention (in_user i)) amount new_balance reason)))"

definition sweep_modal_on_submit :: "bot_env \<Rightarrow> int \<Rightarrow> string \<Rightarrow> interaction \<Rightarrow> pystr \<Rightarrow> pystr \<Rightarrow> unit cmd" where
  "sweep_modal_on_submit B expected_amount reason i magic_word amount_str =
     (case validate_treasury_sweep_confirm magic_word amount_str expected_amount of
        Some err \<Rightarrow> respond B err
      | None \<Rightarrow> treasury_sweep_on_confirm B expected_amount reason i)"

definition treasury_withdraw_to_user_cmd :: "bot_env \<Rightarrow> int \<Rightarrow> int \<Rightarrow> unit cmd" where
  "treasury_withdraw_to_user_cmd B amount user =
     with_pool B
     (if amount \<le> 0 then respond B (cross @ ''Amount must be a positive integer.'')
      else if user = 0 then respond B (cross @ ''Cannot target the treasury seed row.'')
      else send B (Send_modal (Treasury_withdraw_modal amount user)))"

definition treasury_withdraw_on_confirm :: "bot_env \<Rightarrow> int \<Rightarrow> int \<Rightarrow> string \<Rightarrow> interaction \<Rightarrow> unit cmd" where
  "treasury_withdraw_on_confirm B amount user reason i =
     (if \<not> be_pool_ready B then throw Assertion_failed else
      try_balance (sql B (\<lambda>E. treasury_withdraw_to_user_py E amount user (in_user i) reason))
        (\<lambda>cls msg. if cls = InsufficientTreasury then respond B (cross @ ''Treasury has less than the requested amount.'')
                    else respond B (cross @ ''Withdraw failed: '' @ msg))
        (\<lambda>_. seqC (respond B (check @ ''Sent **'' @ fmt_thousands amount @ ''g** from treasury to '' @ mention user @ ''.''))
              (audit_treasury_withdraw_to_user B (mention (in_user i)) (mention user) amount reason)))"

definition treasury_withdraw_modal_on_submit ::
    "bot_env \<Rightarrow> int \<Rightarrow> int \<Rightarrow> string \<Rightarrow> interaction \<Rightarrow> pystr \<Rightarrow> pystr \<Rightarrow> pystr \<Rightarrow> unit cmd" where
  "treasury_withdraw_modal_on_submit B expected_amount expected_user_id reason i magic_word amount_str user_id_str =
     (case validate_treasury_withdraw_confirm magic_word amount_str expected_amount user_id_str expected_user_id of
        Some err \<Rightarrow> respond B err
      | None \<Rightarrow> treasury_withdraw_on_confirm B expected_amount expected_user_id reason i)"

section \<open>The contract of the commands\<close>

lemma stmt_verifier [stmt_intros]: "stmt_ok verifier_statement"
proof (unfold stmt_ok_def, intro allI impI)
  fix E t d0 d assume d: "bot_reach E d0 d"
  have "snd (verifier_statement (E\<lparr>now := t\<rparr>) d) = d \<or>
      (\<exists>v. exec (E\<lparr>now := t\<rparr>) (Set_config verifier_key v 0) d = Inr (snd (verifier_statement (E\<lparr>now := t\<rparr>) d)))"
    by (auto simp: verifier_statement_def verifier_tick_def persist_last_verified_def Let_def bindE_def
        split: sum.splits option.splits if_splits)
  moreover have "bot_call (Set_config verifier_key v 0)" for v
    by (simp add: verifier_key_def setting_ok_def limit_keys_def)
  ultimately show "bot_reach E d0 (snd (verifier_statement (E\<lparr>now := t\<rparr>) d))"
    using d by (metis bot_reach.step)
qed

lemma lawful_followup [lawful_intros]: "lawful B 0 (followup B t)" "lawful B 0 (dispute_ticket_uid i)"
  unfolding followup_def dispute_ticket_uid_def by (rule lawful_intros | simp)+

lemma lawful_admin_cashiers [lawful_intros]:
  "lawful B 1 (force_cashier_offline_cmd B i c r)" "lawful B 1 (promote_cashier_cmd B u)" "lawful B 1 (demote_cashier_cmd B u)"
  "lawful B 1 (cashier_stats_cmd B c)" "lawful B 1 (force_cancel_ticket_cmd B i uid r)" "lawful B 1 (force_close_thread_cmd B i th r)"
  unfolding force_cashier_offline_cmd_def promote_cashier_cmd_def demote_cashier_cmd_def cashier_stats_cmd_def
    force_cancel_ticket_cmd_def force_close_thread_cmd_def Let_def
  by (rule lawful_acks | rule lawful_intros | rule stmt_intros | simp)+

lemma lawful_admin_disputes [lawful_intros]:
  "lawful B 1 (dispute_open_cmd B i ty uid r)" "lawful B 1 (dispute_list_cmd B st)"
  "lawful B 1 (dispute_resolve_cmd B i n act am)" "lawful B 1 (dispute_reject_cmd B i n r)"
  "lawful B 1 (ban_user_cmd B i u r)" "lawful B 1 (unban_user_cmd B i u)" "lawful B 1 (verify_audit_cmd B)"
  "lawful B 1 (view_audit_cmd B us lim)"
  unfolding dispute_open_cmd_def dispute_list_cmd_def dispute_resolve_cmd_def dispute_reject_cmd_def ban_user_cmd_def
    unban_user_cmd_def verify_audit_cmd_def view_audit_cmd_def
  by (rule lawful_acks | rule lawful_intros | rule stmt_intros)+

lemma lawful_guard: "(c \<Longrightarrow> lawful B k m) \<Longrightarrow> (\<not> c \<Longrightarrow> lawful B k m') \<Longrightarrow> lawful B k (if c then m else m')"
  by simp

lemma lawful_set_pair:
  assumes "key_min \<in> set limit_keys" and "key_max \<in> set limit_keys"
  shows "lawful B 1 (handle_set_pair B i key_min key_max n m)"
proof -
  have ok: "setting_ok key v" if "key \<in> set limit_keys" "0 < v" for key v
    using that by (auto simp: setting_ok_def limit_keys_def)
  show ?thesis unfolding handle_set_pair_def
    by (rule lawful_with_pool lawful_guard lawful_respond lawful_respond_seq lawful_seq lawful_audit_posts lawful_config_int ok
        | use assms in simp)+
qed

lemma lawful_admin_config [lawful_intros]:
  "lawful B 1 (open_dynamic_embed_modal B key)" "lawful B 1 (guide_modal_on_submit B key i t s)"
  unfolding open_dynamic_embed_modal_def guide_modal_on_submit_def
  by (rule lawful_acks | rule lawful_intros | rule stmt_intros)+

lemma lawful_admin_settings [lawful_intros]:
  "lawful B 1 (set_deposit_limits_cmd B i n m)" "lawful B 1 (set_withdraw_limits_cmd B i n m)"
  "lawful B 1 (set_fee_withdraw_cmd B i bps)"
proof -
  show "lawful B 1 (set_deposit_limits_cmd B i n m)" "lawful B 1 (set_withdraw_limits_cmd B i n m)"
    unfolding set_deposit_limits_cmd_def set_withdraw_limits_cmd_def
    by (rule lawful_set_pair; simp add: limit_keys_def)+
  have ok: "setting_ok ''withdraw_fee_bps'' v" if "\<not> (v < 0 \<or> 10000 < v)" for v
    using that by (simp add: setting_ok_def limit_keys_def)
  show "lawful B 1 (set_fee_withdraw_cmd B i bps)" unfolding set_fee_withdraw_cmd_def
    by (rule lawful_with_pool lawful_guard lawful_respond lawful_respond_seq lawful_seq lawful_audit_posts lawful_config_int ok
        | assumption)+
qed

lemma lawful_admin_treasury [lawful_intros]:
  "lawful B 1 (treasury_balance_cmd B)" "lawful B 1 (treasury_sweep_cmd B n)" "lawful B 1 (sweep_modal_on_submit B n r i m s)"
  "lawful B 1 (treasury_withdraw_to_user_cmd B n u)" "lawful B 1 (treasury_withdraw_modal_on_submit B n u r i m s s')"
  unfolding treasury_balance_cmd_def treasury_sweep_cmd_def sweep_modal_on_submit_def treasury_sweep_on_confirm_def
    treasury_withdraw_to_user_cmd_def treasury_withdraw_modal_on_submit_def treasury_withdraw_on_confirm_def
  by (rule lawful_acks | rule lawful_intros | rule stmt_intros)+

section \<open>Two factors for the treasury\<close>

lemma sweep_confirm_db:
  assumes "treasury_sweep_on_confirm B n reason i w = (r, w')" and "be_pool_ready B"
  shows "wd_db w' = snd (treasury_sweep_py ((be_pg B)\<lparr>now := be_clock B (wd_step w)\<rparr>) n (in_user i) reason (wd_db w))"
  using assms unfolding treasury_sweep_on_confirm_def
  by (simp, elim sql_try_still) (intro still_intros)+

lemma sweep_confirm_steps:
  assumes "treasury_sweep_on_confirm B n reason i w = (r, w')"
  shows "wd_db w' = wd_db w \<or> (\<exists>t bal.
    treasury_sweep ((be_pg B)\<lparr>now := t\<rparr>) (Some n) (in_user i) (Some reason) (wd_db w) = Inr (bal, wd_db w'))"
proof (cases "be_pool_ready B")
  case True
  show ?thesis using sweep_confirm_db [OF assms True] snd_facade by (fastforce simp: treasury_sweep_py_def)
qed (use assms in \<open>simp add: treasury_sweep_on_confirm_def throw_def\<close>)

lemma withdraw_confirm_steps:
  assumes "treasury_withdraw_on_confirm B n u reason i w = (r, w')"
  shows "wd_db w' = wd_db w \<or> (\<exists>t x.
    treasury_withdraw_to_user ((be_pg B)\<lparr>now := t\<rparr>) (Some n) (Some u) (in_user i) (Some reason) (wd_db w) = Inr (x, wd_db w'))"
proof (cases "be_pool_ready B")
  case True
  have "wd_db w' = snd (treasury_withdraw_to_user_py ((be_pg B)\<lparr>now := be_clock B (wd_step w)\<rparr>) n u (in_user i) reason (wd_db w))"
    using assms True unfolding treasury_withdraw_on_confirm_def
    by (simp, elim sql_try_still) (intro still_intros)+
  then show ?thesis using snd_facade by (fastforce simp: treasury_withdraw_to_user_py_def)
qed (use assms in \<open>simp add: treasury_withdraw_on_confirm_def throw_def\<close>)

text \<open>C7: The treasury moves only after both factors. If the submission of the sweep form changes the database,
  the word typed was \<^verbatim>\<open>SWEEP\<close>, the amount typed reads as the amount of the command, and the change is
  one call of \<^verbatim>\<open>dw.treasury_sweep\<close> with that amount, by the one who submitted; for a transfer to a user the
  word is \<^verbatim>\<open>TREASURY-WITHDRAW\<close> and the recipient was typed again as well.\<close>

theorem treasury_two_factor:
  assumes "wd_db w' \<noteq> wd_db w"
  shows "(sweep_modal_on_submit B n reason i word amount_str w = (r, w') \<longrightarrow>
      py_strip word = of_ascii ''SWEEP'' \<and> retyped_amount amount_str = Some n
      \<and> (\<exists>t bal. treasury_sweep ((be_pg B)\<lparr>now := t\<rparr>) (Some n) (in_user i) (Some reason) (wd_db w) = Inr (bal, wd_db w')))
    \<and> (treasury_withdraw_modal_on_submit B n u reason i word amount_str user_str w = (r, w') \<longrightarrow>
      py_strip word = of_ascii ''TREASURY-WITHDRAW'' \<and> retyped_amount amount_str = Some n \<and> py_int (py_strip user_str) = Some u
      \<and> (\<exists>t x. treasury_withdraw_to_user ((be_pg B)\<lparr>now := t\<rparr>) (Some n) (Some u) (in_user i) (Some reason) (wd_db w)
          = Inr (x, wd_db w')))"
  using assms sweep_confirm_steps [of B n reason i w r w'] withdraw_confirm_steps [of B n u reason i w r w']
    stillD [OF still_basic(6), of B _ w r w']
  by (auto simp: sweep_modal_on_submit_def treasury_withdraw_modal_on_submit_def sweep_confirm_None withdraw_confirm_None
      split: option.splits)

text \<open>A sweep of 30 gold from the treasury of the example run.\<close>

lemma demo_sweeps:
  "map_sum (\<lambda>_. ()) (\<lambda>(bal, d'). (bal, map b_balance (balances d')))
    (treasury_sweep (demo_env\<lparr>now := 1000000\<rparr>) (Some 30) 1 (Some ''r'') demo_db) = Inr (3, [3, 2000])"
  by code_simp

lemma demo_typed:
  "py_strip (of_ascii '' SWEEP'') = of_ascii ''SWEEP''" "retyped_amount (of_ascii ''3_0'') = Some 30"
  by (simp_all add: of_ascii_def py_strip_def py_space_def retyped_amount_def py_int_def py_nat_def py_digit_def digit_zeros_def)

theorem treasury_two_factor_witness:
  "\<exists>r w' bal t. sweep_modal_on_submit demo_bot 30 ''r'' (demo_user 1 Text_channel 5) (of_ascii '' SWEEP'') (of_ascii ''3_0'')
      (demo_world demo_db) = (r, w') \<and> wd_db w' \<noteq> demo_db
    \<and> treasury_sweep (demo_env\<lparr>now := t\<rparr>) (Some 30) 1 (Some ''r'') demo_db = Inr (bal, wd_db w')"
proof -
  let ?m = "sweep_modal_on_submit demo_bot 30 ''r'' (demo_user 1 Text_channel 5) (of_ascii '' SWEEP'') (of_ascii ''3_0'')"
  obtain r w' where run: "?m (demo_world demo_db) = (r, w')" by (cases "?m (demo_world demo_db)")
  have "validate_treasury_sweep_confirm (of_ascii '' SWEEP'') (of_ascii ''3_0'') 30 = None"
    by (simp only: sweep_confirm_None demo_typed simp_thms)
  with run have "treasury_sweep_on_confirm demo_bot 30 ''r'' (demo_user 1 Text_channel 5) (demo_world demo_db) = (r, w')"
    by (simp add: sweep_modal_on_submit_def)
  then have db: "wd_db w' = snd (treasury_sweep_py (demo_env\<lparr>now := 1000000\<rparr>) 30 1 ''r'' demo_db)"
    using sweep_confirm_db by fastforce
  obtain bal d' where "treasury_sweep (demo_env\<lparr>now := 1000000\<rparr>) (Some 30) 1 (Some ''r'') demo_db = Inr (bal, d')"
    and "map b_balance (balances d') = [3, 2000]"
    using map_sum_Inr [OF demo_sweeps] by auto
  with db have "map b_balance (balances (wd_db w')) = [3, 2000]" by (simp add: treasury_sweep_py_def facade_def)
  moreover have "map b_balance (balances demo_db) = [33, 2000]" by code_simp
  ultimately have "wd_db w' \<noteq> demo_db" by auto
  with treasury_two_factor [of w' "demo_world demo_db" demo_bot 30 "''r''" "demo_user 1 Text_channel 5"] run
  show ?thesis by (simp only: demo_world_simps demo_bot_simps demo_user_simps) blast
qed

text \<open>What the forms show is what they accept. Typing the magic word and the amount as the label of the
  form prints it, with thousands separators, passes the check for every amount, and so does the
  recipient as printed.\<close>

theorem treasury_forms_accept_labels:
  "sweep_modal_on_submit B n reason i (of_ascii ''SWEEP'') (of_ascii (fmt_thousands n)) = treasury_sweep_on_confirm B n reason i
    \<and> treasury_withdraw_modal_on_submit B n u reason i (of_ascii ''TREASURY-WITHDRAW'') (of_ascii (fmt_thousands n))
        (of_ascii (show_int u)) = treasury_withdraw_on_confirm B n u reason i"
proof -
  have word: "py_strip (of_ascii ''SWEEP'') = of_ascii ''SWEEP''"
    "py_strip (of_ascii ''TREASURY-WITHDRAW'') = of_ascii ''TREASURY-WITHDRAW''"
    by (simp_all add: of_ascii_def py_strip_def py_space_def)
  have "validate_treasury_sweep_confirm (of_ascii ''SWEEP'') (of_ascii (fmt_thousands n)) n = None"
    "validate_treasury_withdraw_confirm (of_ascii ''TREASURY-WITHDRAW'') (of_ascii (fmt_thousands n)) n (of_ascii (show_int u)) u = None"
    by (simp_all only: sweep_confirm_None withdraw_confirm_None retyped_thousands retyped_number word simp_thms)
  then show ?thesis by (simp add: sweep_modal_on_submit_def treasury_withdraw_modal_on_submit_def)
qed

end
