(* ===== verification/Commands.thy ===== *)
theory Commands
  imports Admin_Cog
begin

text \<open>
  The bot as a whole: every slash command and every submission of a form as an event, and the handler
  of each. An exception of a handler is logged by the library and ends that handler only. A form may
  be submitted with any captured row, also a stale one.
\<close>

section \<open>Events\<close>

datatype (plugins only: code size) event =
    Deposit_event
  | Deposit_form raw_form
  | Withdraw_event
  | Withdraw_form raw_form
  | Claim_event
  | Release_event
  | Cancel_event string
  | Cancel_mine_event
  | Confirm_event
  | Confirm_form thread_row pystr
  | Addchar_event string string string string
  | Removechar_event string string string
  | Listchars_event
  | Set_status_event string
  | Mystats_event
  | Balance_event
  | Help_event "string option"
  | Setup_event bool "int option" "int option"
  | Force_offline_event int string
  | Promote_event int
  | Demote_event int
  | Cashier_stats_event int
  | Force_cancel_event string string
  | Force_close_event int string
  | Dispute_open_event string string string
  | Dispute_list_event "string option"
  | Dispute_resolve_event int string "int option"
  | Dispute_reject_event int string
  | Ban_event int string
  | Unban_event int
  | Verify_audit_event
  | View_audit_event "int option" "int option"
  | Deposit_guide_event
  | Withdraw_guide_event
  | Cashier_guide_event
  | Guide_form string pystr pystr
  | Deposit_limits_event int int
  | Withdraw_limits_event int int
  | Fee_event int
  | Treasury_balance_event
  | Sweep_event int
  | Sweep_form int string pystr pystr
  | Treasury_withdraw_event int int
  | Treasury_withdraw_form int int string pystr pystr pystr

fun handle :: "bot_env \<Rightarrow> interaction \<Rightarrow> event \<Rightarrow> unit cmd" where
  "handle B i Deposit_event = deposit_cmd B i"
| "handle B i (Deposit_form raw) = ticket_modal_on_submit B raw (deposit_on_modal_validated B i)"
| "handle B i Withdraw_event = withdraw_cmd B i"
| "handle B i (Withdraw_form raw) = ticket_modal_on_submit B raw (withdraw_on_modal_validated B i)"
| "handle B i Claim_event = claim_cmd B i"
| "handle B i Release_event = release_cmd B i"
| "handle B i (Cancel_event reason) = cancel_cmd B i reason"
| "handle B i Cancel_mine_event = cancel_mine_cmd B i"
| "handle B i Confirm_event = confirm_cmd B i"
| "handle B i (Confirm_form r word) = confirm_modal_on_submit B r i word"
| "handle B i (Addchar_event chr realm region faction) = addchar_cmd B i chr realm region faction"
| "handle B i (Removechar_event chr realm region) = removechar_cmd B i chr realm region"
| "handle B i Listchars_event = listchars_cmd B i"
| "handle B i (Set_status_event status) = set_status_cmd B i status"
| "handle B i Mystats_event = mystats_cmd B i"
| "handle B i Balance_event = balance_cmd B i"
| "handle B i (Help_event topic) = help_cmd B topic"
| "handle B i (Setup_event dry_run cashier_role admin_role) = setup_cmd B i dry_run cashier_role admin_role"
| "handle B i (Force_offline_event cashier reason) = force_cashier_offline_cmd B i cashier reason"
| "handle B i (Promote_event user) = promote_cashier_cmd B user"
| "handle B i (Demote_event user) = demote_cashier_cmd B user"
| "handle B i (Cashier_stats_event cashier) = cashier_stats_cmd B cashier"
| "handle B i (Force_cancel_event ticket_uid reason) = force_cancel_ticket_cmd B i ticket_uid reason"
| "handle B i (Force_close_event thread reason) = force_close_thread_cmd B i thread reason"
| "handle B i (Dispute_open_event ticket_type ticket_uid reason) = dispute_open_cmd B i ticket_type ticket_uid reason"
| "handle B i (Dispute_list_event status) = dispute_list_cmd B status"
| "handle B i (Dispute_resolve_event dispute_id action amount) = dispute_resolve_cmd B i dispute_id action amount"
| "handle B i (Dispute_reject_event dispute_id reason) = dispute_reject_cmd B i dispute_id reason"
| "handle B i (Ban_event user reason) = ban_user_cmd B i user reason"
| "handle B i (Unban_event user) = unban_user_cmd B i user"
| "handle B i Verify_audit_event = verify_audit_cmd B"
| "handle B i (View_audit_event user limit) = view_audit_cmd B user limit"
| "handle B i Deposit_guide_event = set_deposit_guide_cmd B"
| "handle B i Withdraw_guide_event = set_withdraw_guide_cmd B"
| "handle B i Cashier_guide_event = set_cashier_onboarding_guide_cmd B"
| "handle B i (Guide_form key title description) = guide_modal_on_submit B key i title description"
| "handle B i (Deposit_limits_event min_g max_g) = set_deposit_limits_cmd B i min_g max_g"
| "handle B i (Withdraw_limits_event min_g max_g) = set_withdraw_limits_cmd B i min_g max_g"
| "handle B i (Fee_event bps) = set_fee_withdraw_cmd B i bps"
| "handle B i Treasury_balance_event = treasury_balance_cmd B"
| "handle B i (Sweep_event amount) = treasury_sweep_cmd B amount"
| "handle B i (Sweep_form amount reason word amount_str) = sweep_modal_on_submit B amount reason i word amount_str"
| "handle B i (Treasury_withdraw_event amount user) = treasury_withdraw_to_user_cmd B amount user"
| "handle B i (Treasury_withdraw_form amount user reason word amount_str user_str) =
     treasury_withdraw_modal_on_submit B amount user reason i word amount_str user_str"

section \<open>The contract of the bot\<close>

lemma lawful_handle: "lawful B 1 (handle B i e)"
proof (cases e)
  case Deposit_guide_event
  then show ?thesis by (simp only: handle.simps set_deposit_guide_cmd_def lawful_admin_config)
next
  case Withdraw_guide_event
  then show ?thesis by (simp only: handle.simps set_withdraw_guide_cmd_def lawful_admin_config)
next
  case Cashier_guide_event
  then show ?thesis by (simp only: handle.simps set_cashier_onboarding_guide_cmd_def lawful_admin_config)
qed (simp_all only: handle.simps lawful_ticket_commands lawful_staff_commands lawful_setup_cmd lawful_admin_cashiers
      lawful_admin_disputes lawful_admin_config lawful_admin_settings lawful_admin_treasury lawful_guards)

lemma handle_reach: "bot_reach (be_pg B) d0 (wd_db w) \<Longrightarrow> bot_reach (be_pg B) d0 (wd_db (snd (handle B i e w)))"
  using lawful_handle [of B i e] by (metis keeps_reach_def lawfulE prod.collapse)

text \<open>C6: Every interaction is acknowledged once. A command or form that ends normally has sent exactly
  one acknowledgement, the limit Discord sets, and one that ends with an exception has sent at most
  one; requests are only ever appended.\<close>

theorem interaction_answered_once:
  assumes "handle B i e w = (res, w')"
  shows "\<exists>rs. wd_sent w' = wd_sent w @ rs \<and> acks rs \<le> 1 \<and> (res = Inr () \<longrightarrow> acks rs = 1)"
proof -
  from lawful_handle assms obtain rs where "wd_sent w' = wd_sent w @ rs"
    "case res of Inr _ \<Rightarrow> acks rs = 1 | Inl _ \<Rightarrow> acks rs \<le> 1" by (rule lawfulE)
  then show ?thesis by (cases res) auto
qed

theorem interaction_answered_once_witness:
  "\<exists>res w' rs. handle demo_bot (demo_user 7 Text_channel 12) (Deposit_form demo_raw) (demo_world demo_db) = (res, w')
    \<and> wd_sent w' = rs \<and> acks rs \<le> 1"
proof -
  let ?run = "handle demo_bot (demo_user 7 Text_channel 12) (Deposit_form demo_raw) (demo_world demo_db)"
  obtain res w' where run: "?run = (res, w')" by (cases ?run)
  from interaction_answered_once [OF run] run show ?thesis by auto
qed

end
