(* ===== verification/Roles.thy ===== *)
theory Roles
  imports Contracts
begin

text \<open>
  Who may do what: a claim is exclusive, a banned player is locked out, and what the dispute and
  cashier functions do where a player has no account yet.
\<close>

section \<open>Claims\<close>

lemma update_ticket_row:
  assumes upd: "update_ticket ty uid f g d = Inr d1" and sel: "select_ticket ty uid d = Some v"
    and fg: "\<And>t. t_ticket_uid (f t) = t_ticket_uid t" "\<And>t. t_ticket_uid (g t) = t_ticket_uid t"
      "\<And>w. ticket.truncate (g w) = f (ticket.truncate w)"
  shows "select_ticket ty uid d1 = Some (f v)"
proof (cases ty)
  case Deposit
  with upd sel fg(1) show ?thesis
    by (auto simp: update_ticket_def select_ticket_def select_deposit_def update_deposit_ticket_def
        raise_simps sel_key_upd)
next
  case Withdraw
  with upd sel fg(2,3) show ?thesis
    by (auto simp: update_ticket_def select_ticket_def select_withdraw_def update_withdraw_ticket_def
        raise_simps sel_key_upd)
qed

lemma select_ticket_money: "same_money d d' \<Longrightarrow> select_ticket ty uid d' = select_ticket ty uid d"
  by (simp add: same_money_def select_ticket_def select_deposit_def select_withdraw_def split: ticket_type.split)

lemma claimed_row:
  assumes "claim_ticket E tt uid c d = Inr (x, d1)"
  obtains ty v where "ticket_type_of_text tt = Some ty" "select_ticket ty uid d1 = Some v"
    "t_status v = Claimed" "t_claimed_by v = Some c"
  using assms
proof (cases rule: claim_ticket_Inr)
  case (1 ty v d2)
  have "select_ticket ty uid d2 = Some (claim_row E c v)"
    by (rule update_ticket_row [OF 1(5,2)]) (simp_all add: claim_row_def ticket.truncate_def)
  then have "select_ticket ty uid d1 = Some (claim_row E c v)" using select_ticket_money [OF 1(6)] by simp
  with 1 that show ?thesis by (simp add: claim_row_def)
qed

text \<open>C24: A claim is exclusive. Once a cashier has claimed a ticket, every further claim is refused,
  and nobody but that cashier can release or confirm it, whatever the kind of the ticket.\<close>

theorem claim_is_exclusive:
  assumes "claim_ticket E tt uid c d = Inr (x, d1)" and "c' \<noteq> c"
  shows "claim_ticket E' tt uid c'' d1 = Inl (Raised (Already_claimed Claimed))
    \<and> release_ticket E' tt uid c' d1 = Inl (Raised (Wrong_cashier c c'))
    \<and> (tt = ''deposit'' \<longrightarrow> confirm_deposit E' uid c' d1 = Inl (Raised (Wrong_cashier c c')))
    \<and> (tt = ''withdraw'' \<longrightarrow> confirm_withdraw E' uid c' d1 = Inl (Raised (Wrong_cashier c c')))"
  using assms(1)
proof (rule claimed_row)
  fix ty v
  assume v: "ticket_type_of_text tt = Some ty" "select_ticket ty uid d1 = Some v" "t_status v = Claimed"
    "t_claimed_by v = Some c"
  have "tt = ''deposit'' \<longrightarrow> select_deposit uid d1 = Some v"
    using v(1,2) by (auto simp: ticket_type_of_text_def select_ticket_def)
  moreover have "tt = ''withdraw'' \<longrightarrow> (\<exists>w. select_withdraw uid d1 = Some w \<and> t_status w = Claimed \<and> t_claimed_by w = Some c)"
    using v by (auto simp: ticket_type_of_text_def select_ticket_def ticket.truncate_def)
  ultimately show ?thesis using v assms(2)
    by (auto simp: claim_ticket_def release_ticket_def confirm_deposit_def confirm_withdraw_def)
qed

definition demo_opened :: db where
  "demo_opened = run demo_env (take 2 demo_calls) (initial_db 0)"

lemma demo_claim: "map_sum (\<lambda>_. ()) fst (claim_ticket demo_env ''deposit'' ''deposit-1'' 9 demo_opened) = Inr ()"
  by code_simp

theorem claim_is_exclusive_witness:
  "\<exists>d1. claim_ticket demo_env ''deposit'' ''deposit-1'' 9 demo_opened = Inr ((), d1)
    \<and> confirm_deposit demo_env ''deposit-1'' 8 d1 = Inl (Raised (Wrong_cashier 9 8))"
proof -
  obtain d1 where "claim_ticket demo_env ''deposit'' ''deposit-1'' 9 demo_opened = Inr ((), d1)"
    using map_sum_Inr [OF demo_claim] by auto
  with claim_is_exclusive [OF this, of 8 demo_env] show ?thesis by simp
qed

section \<open>Bans\<close>

text \<open>C25: A banned player is locked out. Right after a ban every deposit ticket of that player is
  refused as banned, and no withdraw ticket and no new bet goes through, whatever the
  arguments.\<close>

theorem banned_player_locked_out:
  assumes "ban_user E u why admin d = Inr (x, d1)"
  shows "create_deposit_ticket E' u chr realm region faction n th pc d1 = Inl (Raised User_banned)
    \<and> (\<exists>e. create_withdraw_ticket E' u chr realm region faction n th pc d1 = Inl e)
    \<and> (sel_key bet_key (u, key) (bets d1) = None \<longrightarrow>
        (\<exists>e. apply_bet E' u game ch m sel sh cs nonce key uid d1 = Inl e))"
proof -
  have "\<exists>ur. select_user u d1 = Some ur \<and> u_banned ur"
    using assms
    by (auto simp: ban_user_def raise_simps Let_def select_user_def insert_balance_def insert_user_def has_key_sel
        sel_key_upd split: if_splits dest!: chain.append_row)
  then obtain ur where ur: "select_user u d1 = Some ur" "u_banned ur" by blast
  have "create_withdraw_ticket E' u chr realm region faction n th pc d1 \<noteq> Inr y" for y
    using ur by (cases y) (auto simp: create_withdraw_ticket_def raise_simps)
  moreover have "apply_bet E' u game ch m sel sh cs nonce key uid d1 \<noteq> Inr y"
    if "sel_key bet_key (u, key) (bets d1) = None" for y
    using ur that by (cases y) (auto simp: apply_bet_def raise_simps eq3_def)
  moreover have "create_deposit_ticket E' u chr realm region faction n th pc d1 = Inl (Raised User_banned)"
    using ur by (simp add: create_deposit_ticket_def eq3_def)
  ultimately show ?thesis by (metis sum.exhaust)
qed

lemma demo_ban: "map_sum (\<lambda>_. ()) fst (ban_user demo_env 7 None 1 demo_db) = Inr ()"
  by code_simp

theorem banned_player_locked_out_witness:
  "\<exists>d1. ban_user demo_env 7 None 1 demo_db = Inr ((), d1)
    \<and> create_deposit_ticket demo_env 7 ''a'' ''r'' ''EU'' ''Horde'' 5000 21 22 d1 = Inl (Raised User_banned)"
proof -
  obtain d1 where "ban_user demo_env 7 None 1 demo_db = Inr ((), d1)"
    using map_sum_Inr [OF demo_ban] by auto
  with banned_player_locked_out [OF this] show ?thesis by blast
qed

section \<open>Players without an account\<close>

text \<open>A player gets a row in \<^verbatim>\<open>core.users\<close> with the first confirmed deposit; a cashier may never
  have one. An audit row needs an existing target.\<close>

lemma audit_target_missing:
  assumes "chain_key Audit_chain_key_not_configured E = Inr k" and "aa_balance_before a = Some b1"
    and "aa_balance_after a = Some b2" and "aa_actor_type a \<in> set actor_types"
    and "\<not> has_key u_discord_id (aa_target_id a) (users d)"
  shows "audit_log_insert_with_chain E a d = Inl (Foreign_key_violation ''audit_log_target_id_fkey'')"
  using assms by (simp add: audit_log_insert_with_chain_def insert_audit_row_def Let_def)

lemma close_sessions_users [simp]: "users (close_sessions E u why d) = users d"
  by (simp add: close_sessions_def)

text \<open>An idle cashier without an account cannot be taken offline. The auto-offline function
  names the cashier as the audit target, so for an online cashier with no row in the user table
  it always ends with a foreign-key error and the cashier stays online.\<close>

lemma expire_cashier_unregistered:
  assumes "chain_key Audit_chain_key_not_configured E = Inr k"
    and "sel_key cs_discord_id u (cashier_status d) = Some r" and "cs_status r = Online"
    and "\<not> has_key u_discord_id u (users d)"
  shows "expire_cashier E u d = Inl (Foreign_key_violation ''audit_log_target_id_fkey'')"
  unfolding expire_cashier_def using assms
  by (simp add: Let_def audit_target_missing [OF assms(1)] actor_types_def del: has_user)

text \<open>A first deposit cannot be disputed. The dispute function names the player of the ticket
  as the audit target, so for a deposit ticket of a player with no row in the user table opening
  a dispute always ends with a foreign-key error.\<close>

theorem open_dispute_unregistered:
  assumes "chain_key Audit_chain_key_not_configured E = Inr k" and "role \<in> set opener_roles"
    and "select_deposit uid d = Some t" and "\<not> has_key u_discord_id (t_discord_id t) (users d)"
    and "\<not> has_key (\<lambda>r. (d_ticket_type r, d_ticket_uid r)) (Deposit, uid) (disputes d)"
  shows "open_dispute E ''deposit'' uid opener role (Some why) d
    = Inl (Foreign_key_violation ''audit_log_target_id_fkey'')"
proof -
  have "role \<in> set actor_types" using assms(2) by (auto simp: opener_roles_def actor_types_def)
  then show ?thesis
    using assms unfolding open_dispute_def
    by (simp add: ticket_type_of_text_def ticket_user_def select_ticket_def insert_dispute_def Let_def
        audit_target_missing [OF assms(1)] del: has_user)
qed

section \<open>Disputes\<close>

text \<open>A full refund pays the amount of the ticket from the treasury, whatever became of the
  ticket: also when the withdraw was cancelled and its gold already returned.\<close>

theorem refund_full_posts:
  assumes "reach E (initial_db t0) d" and "resolve_dispute E' i ''refund-full'' amt admin d = Inr (x, d')"
    and "select_dispute i d = Some v" and "select_withdraw (d_ticket_uid v) d = Some t"
  shows "book_of d' = post (book_of d) (Avail 0, Avail (t_discord_id t), t_amount t)"
  using assms(2)
proof (cases rule: resolve_dispute_Inr)
  case (1 v' u d1)
  with assms(3) have v': "v' = v" by simp
  have ty: "d_ticket_type v = Withdraw"
    and "\<exists>y r. treasury_withdraw_to_user E' (Some (t_amount t)) (Some u) admin r d = Inr (y, d1)"
    using 1(5) assms(4) by (auto simp: dispute_payout_def raise_simps v')
  then obtain y r where pay: "treasury_withdraw_to_user E' (Some (t_amount t)) (Some u) admin r d = Inr (y, d1)"
    by blast
  have "u = t_discord_id t"
    using 1(4) ty assms(4) by (simp add: v' ticket_user_def select_ticket_def ticket.truncate_def)
  with treasury_withdraw_refines(2) [OF reach_ledger [OF assms(1)] pay] same_money_book [OF 1(6)]
  show ?thesis by simp
qed

end
