(* ===== verification/Workers.thy ===== *)
theory Workers
  imports Orchestration Roles
begin

text \<open>
  The background workers of the deposit and withdraw bot
  (\<^verbatim>\<open>deathroll_deposit_withdraw/workers\<close>): the ticket timeout, the claim-idle and the
  cashier-idle worker and the statistics aggregator. A tick runs several statements, each with its
  own time: \<open>ts n\<close> is the time of the n-th statement of a tick. The workers also post to
  Discord channels; these posts read the configuration and swallow their own failures, so they
  change nothing here.
\<close>

section \<open>Loops over selected rows\<close>

text \<open>\<^verbatim>\<open>for row in rows: if await f(row): count += 1\<close>; an exception ends the loop.\<close>

fun count_rows :: "(nat \<Rightarrow> 'r \<Rightarrow> db \<Rightarrow> bool py) \<Rightarrow> 'r list \<Rightarrow> nat \<Rightarrow> int \<Rightarrow> db \<Rightarrow> (py_error + int \<times> nat) \<times> db" where
  "count_rows f [] n cnt d = (Inr (cnt, n), d)"
| "count_rows f (row # rows) n cnt d =
     (case f n row d of
        (Inl e, d') \<Rightarrow> (Inl e, d')
      | (Inr moved, d') \<Rightarrow> count_rows f rows (n + 1) (if moved then cnt + 1 else cnt) d')"

text \<open>\<^verbatim>\<open>try: await g() except BalanceError: return False\<close>, then \<^verbatim>\<open>return True\<close>.\<close>

definition swallow :: "'a py \<Rightarrow> bool py" where
  "swallow m =
     (case m of
        (Inr _, d) \<Rightarrow> (Inr True, d)
      | (Inl (Typed _ _), d) \<Rightarrow> (Inr False, d)
      | (Inl (Engine e), d) \<Rightarrow> (Inl (Engine e), d))"

section \<open>Ticket timeout\<close>

definition reason_open :: string where
  "reason_open = ''auto-cancel: expired (open ticket)''"

definition reason_claimed :: string where
  "reason_claimed = ''auto-cancel: expired (claimed ticket left stale)''"

text \<open>The expired unfinished tickets, the earliest expiry first (tickets of equal expiry in the
  order of the table).\<close>

definition expired_rows :: "int \<Rightarrow> 'a ticket_scheme list \<Rightarrow> 'a ticket_scheme list" where
  "expired_rows t rows =
     sort_key t_expires_at (filter (\<lambda>r. t_status r \<in> {Open, Claimed} \<and> t_expires_at r < t) rows)"

definition timeout_cancel_one :: "pg_env \<Rightarrow> string \<Rightarrow> string \<Rightarrow> ticket_status \<Rightarrow> db \<Rightarrow> bool py" where
  "timeout_cancel_one E kind ticket_uid status d =
     (let reason = (if status = Claimed then reason_claimed else reason_open)
      in if kind = ''deposit'' then swallow (cancel_deposit_py E ticket_uid 0 reason d)
         else swallow (cancel_withdraw_py E ticket_uid 0 reason d))"

definition timeout_tick :: "pg_env \<Rightarrow> (nat \<Rightarrow> int) \<Rightarrow> db \<Rightarrow> int py" where
  "timeout_tick E ts d =
     (case count_rows (\<lambda>n r. timeout_cancel_one (E\<lparr>now := ts n\<rparr>) ''deposit'' (t_ticket_uid r) (t_status r))
             (expired_rows (ts 0) (deposit_tickets d)) 1 0 d of
        (Inl e, d1) \<Rightarrow> (Inl e, d1)
      | (Inr (cnt, n), d1) \<Rightarrow>
          (case count_rows (\<lambda>n r. timeout_cancel_one (E\<lparr>now := ts n\<rparr>) ''withdraw'' (t_ticket_uid r) (t_status r))
                  (expired_rows (ts n) (withdraw_tickets d1)) (n + 1) cnt d1 of
             (Inl e, d2) \<Rightarrow> (Inl e, d2)
           | (Inr (cnt', _), d2) \<Rightarrow> (Inr cnt', d2)))"

section \<open>Idle claims\<close>

definition minutes :: "int \<Rightarrow> int" where
  "minutes m = 60000000 * m"

definition reason_long_claim :: string where
  "reason_long_claim = ''auto-cancel: cashier abandoned ticket (>2h since claim)''"

record tick_summary =
  tk_released :: int
  tk_cancelled :: int

text \<open>The two selections, over both tables, with the columns the loops use.\<close>

definition idle_claims :: "int \<Rightarrow> db \<Rightarrow> (string \<times> string \<times> int option) list" where
  "idle_claims t d =
     map (\<lambda>r. (''deposit'', t_ticket_uid r, t_claimed_by r))
       (filter (\<lambda>r. t_status r = Claimed \<and> t_last_activity_at r < t - minutes 30) (deposit_tickets d))
     @ map (\<lambda>r. (''withdraw'', t_ticket_uid r, t_claimed_by r))
       (filter (\<lambda>r. t_status r = Claimed \<and> t_last_activity_at r < t - minutes 30) (withdraw_tickets d))"

definition long_claims :: "int \<Rightarrow> db \<Rightarrow> (string \<times> string) list" where
  "long_claims t d =
     map (\<lambda>r. (''deposit'', t_ticket_uid r))
       (filter (\<lambda>r. t_status r = Claimed \<and> lt3 (t_claimed_at r) (Some (t - minutes 120))) (deposit_tickets d))
     @ map (\<lambda>r. (''withdraw'', t_ticket_uid r))
       (filter (\<lambda>r. t_status r = Claimed \<and> lt3 (t_claimed_at r) (Some (t - minutes 120))) (withdraw_tickets d))"

definition release_one :: "pg_env \<Rightarrow> string \<times> string \<times> int option \<Rightarrow> db \<Rightarrow> bool py" where
  "release_one E row d =
     (case row of (ticket_type, ticket_uid, claimed_by) \<Rightarrow>
        (case claimed_by of
           None \<Rightarrow> (Inr False, d)
         | Some c \<Rightarrow> swallow (release_ticket_py E (if ticket_type = ''deposit'' then ''deposit'' else ''withdraw'') ticket_uid c d)))"

definition idle_cancel_one :: "pg_env \<Rightarrow> string \<times> string \<Rightarrow> db \<Rightarrow> bool py" where
  "idle_cancel_one E row d =
     (case row of (ticket_type, ticket_uid) \<Rightarrow>
        if ticket_type = ''deposit'' then swallow (cancel_deposit_py E ticket_uid 0 reason_long_claim d)
        else swallow (cancel_withdraw_py E ticket_uid 0 reason_long_claim d))"

definition claim_idle_tick :: "pg_env \<Rightarrow> (nat \<Rightarrow> int) \<Rightarrow> db \<Rightarrow> tick_summary py" where
  "claim_idle_tick E ts d =
     (case count_rows (\<lambda>n. release_one (E\<lparr>now := ts n\<rparr>)) (idle_claims (ts 0) d) 1 0 d of
        (Inl e, d1) \<Rightarrow> (Inl e, d1)
      | (Inr (rel, n), d1) \<Rightarrow>
          (case count_rows (\<lambda>n. idle_cancel_one (E\<lparr>now := ts n\<rparr>)) (long_claims (ts n) d1) (n + 1) 0 d1 of
             (Inl e, d2) \<Rightarrow> (Inl e, d2)
           | (Inr (can, _), d2) \<Rightarrow> (Inr \<lparr>tk_released = rel, tk_cancelled = can\<rparr>, d2)))"

section \<open>Idle cashiers\<close>

definition idle_cashiers :: "int \<Rightarrow> db \<Rightarrow> int list" where
  "idle_cashiers t d =
     map cs_discord_id (sort_key cs_last_active_at
       (filter (\<lambda>r. cs_status r = Online \<and> cs_last_active_at r < t - minutes 60) (cashier_status d)))"

definition cashier_idle_tick :: "pg_env \<Rightarrow> (nat \<Rightarrow> int) \<Rightarrow> db \<Rightarrow> int py" where
  "cashier_idle_tick E ts d =
     (case count_rows (\<lambda>n c d. swallow (expire_cashier_py (E\<lparr>now := ts n\<rparr>) c d)) (idle_cashiers (ts 0) d) 1 0 d of
        (Inl e, d1) \<Rightarrow> (Inl e, d1)
      | (Inr (expired, _), d1) \<Rightarrow> (Inr expired, d1))"

section \<open>Working through a list of rows\<close>

text \<open>The contract of a loop body: on the first row of the remaining work it either handles the row
  and leaves the rest, or stops with an error of a known kind. The loop then handles all rows or
  stops with such an error.\<close>

locale row_worker =
  fixes f :: "nat \<Rightarrow> 'r \<Rightarrow> db \<Rightarrow> bool py" and J :: "'r list \<Rightarrow> db \<Rightarrow> bool" and Q :: "py_error \<Rightarrow> bool"
  assumes step: "J (row # rows) d \<Longrightarrow>
    (\<exists>d'. f n row d = (Inr True, d') \<and> J rows d') \<or> (\<exists>e d'. f n row d = (Inl e, d') \<and> Q e)"
begin

lemma works_off:
  "J rows d \<Longrightarrow>
   (\<exists>d'. count_rows f rows n cnt d = (Inr (cnt + int (length rows), n + length rows), d') \<and> J [] d')
   \<or> (\<exists>e d'. count_rows f rows n cnt d = (Inl e, d') \<and> Q e)"
proof (induction rows arbitrary: n cnt d)
  case (Cons row rows)
  from step [OF Cons.prems, of n] show ?case
  proof (elim disjE exE conjE)
    fix d' assume eq: "f n row d = (Inr True, d')" and J: "J rows d'"
    from Cons.IH [OF J, of "n + 1" "cnt + 1"] show ?case by (simp add: eq algebra_simps)
  qed simp
qed simp

end

lemma count_rows_append:
  "count_rows f (xs @ ys) n cnt d =
     (case count_rows f xs n cnt d of
        (Inl e, d1) \<Rightarrow> (Inl e, d1)
      | (Inr (c, m), d1) \<Rightarrow> count_rows f ys m c d1)"
  by (induction xs arbitrary: n cnt d) (auto split: prod.splits sum.splits)

lemma count_rows_map: "count_rows f (map h xs) n cnt d = count_rows (\<lambda>n x. f n (h x)) xs n cnt d"
  by (induction xs arbitrary: n cnt d) (auto split: prod.splits sum.splits)

text \<open>The remaining work on a table: the rows still to do are there unchanged, and what is pending
  in the table was there at the start and, if selected, is still to do.\<close>

definition work_left :: "('r \<Rightarrow> bool) \<Rightarrow> 'r set \<Rightarrow> 'r list \<Rightarrow> 'r list \<Rightarrow> 'r list \<Rightarrow> bool" where
  "work_left P R ts0 rows ts \<longleftrightarrow>
     distinct rows \<and> set rows \<subseteq> set ts \<and> (\<forall>t \<in> set ts. P t \<longrightarrow> t \<in> set ts0 \<and> (t \<in> R \<longrightarrow> t \<in> set rows))"

lemma work_left_init: "distinct rows \<Longrightarrow> set rows \<subseteq> set ts \<Longrightarrow> work_left P (set rows) ts rows ts"
  by (auto simp: work_left_def)

lemma work_left_step:
  assumes "work_left P R ts0 (r # rows) ts" and "distinct (map key ts)" and "\<not> P (g r)"
  shows "work_left P R ts0 rows (upd_key key (key r) g ts)"
proof -
  have r: "r \<in> set ts" using assms(1) by (simp add: work_left_def)
  have other: "t \<in> set ts \<Longrightarrow> key t = key r \<longleftrightarrow> t = r" for t
    using assms(2) r by (auto simp: distinct_map inj_on_def)
  show ?thesis
    unfolding work_left_def
  proof (intro conjI ballI impI)
    show "distinct rows" using assms(1) by (simp add: work_left_def)
    show "set rows \<subseteq> set (upd_key key (key r) g ts)"
      using assms(1) other by (force simp: work_left_def upd_key_def image_iff)
  next
    fix t assume "t \<in> set (upd_key key (key r) g ts)" and "P t"
    then have "t \<in> set ts" "t \<noteq> r" using assms(3) other by (auto simp: upd_key_def split: if_splits)
    with \<open>P t\<close> assms(1) show "t \<in> set ts0" and "t \<in> R \<Longrightarrow> t \<in> set rows" by (auto simp: work_left_def)
  qed
qed

section \<open>Single tickets\<close>

lemma update_ticket_total:
  "sel_key key k (deposit_tickets d) = Some t \<Longrightarrow> \<not> is_terminal (t_status t) \<Longrightarrow>
    update_deposit_ticket key k f d = Inr (d\<lparr>deposit_tickets := upd_key key k f (deposit_tickets d)\<rparr>)"
  "sel_key key' k' (withdraw_tickets d) = Some w \<Longrightarrow> \<not> is_terminal (t_status w) \<Longrightarrow>
    update_withdraw_ticket key' k' g d = Inr (d\<lparr>withdraw_tickets := upd_key key' k' g (withdraw_tickets d)\<rparr>)"
  by (simp_all add: update_deposit_ticket_def update_withdraw_ticket_def ticket_terminal_status_immutable_def)

lemma ticket_target: "ledger_inv E d \<Longrightarrow> has_key u_discord_id (user_or_treasury u d) (users d)"
  using treasury_in [of E d] by (auto simp: user_or_treasury_def has_key_def user_ids_def)

definition cancel_row :: "pg_env \<Rightarrow> string option \<Rightarrow> 'a ticket_scheme \<Rightarrow> 'a ticket_scheme" where
  "cancel_row E reason t = t\<lparr>t_status := Cancelled, t_cancelled_at := Some (now E), t_cancel_reason := reason,
     t_last_activity_at := now E\<rparr>"

lemma cancel_deposit_total:
  assumes inv: "ledger_inv E0 d" and key: "chain_key e E = Inr k"
    and sel: "select_deposit uid d = Some t" and nt: "\<not> is_terminal (t_status t)"
  shows "\<exists>d'. cancel_deposit E uid a reason d = Inr ((), d') \<and> ledger_inv E0 d'
    \<and> deposit_tickets d' = upd_key t_id (t_id t) (cancel_row E reason) (deposit_tickets d)
    \<and> withdraw_tickets d' = withdraw_tickets d"
proof -
  have dep: "deposits_ok (deposit_tickets d)" using inv by (simp add: ledger_parts)
  define d1 where "d1 = d\<lparr>deposit_tickets := upd_key t_id (t_id t) (cancel_row E reason) (deposit_tickets d)\<rparr>"
  have upd: "update_deposit_ticket t_id (t_id t) (\<lambda>t. t\<lparr>t_status := Cancelled, t_cancelled_at := Some (now E),
      t_cancel_reason := reason, t_last_activity_at := now E\<rparr>) d = Inr d1"
    using update_ticket_total(1) [OF deposit_row(2) [OF dep sel] nt] by (simp add: d1_def cancel_row_def [abs_def])
  have user: "has_key u_discord_id (user_or_treasury u d1) (users d1)" for u
    using ticket_target [OF inv] by (simp add: d1_def user_or_treasury_def)
  have aud: "\<exists>i d'. audit_log_insert_with_chain E x d1 = Inr (i, d')"
    if "aa_actor_type x \<in> set actor_types" "aa_target_id x = user_or_treasury u d1"
      "aa_balance_before x = Some b" "aa_balance_after x = Some b" for x u b
    using audit_total [OF key that(3,4,1), of d1] user that(2) by simp
  have "\<exists>d'. cancel_deposit E uid a reason d = Inr ((), d')"
    using sel nt upd
    by (simp add: cancel_deposit_def Let_def) (intro conjI impI; rule audit_then, rule aud, simp_all add: actor_types_def)
  then obtain d' where ret: "cancel_deposit E uid a reason d = Inr ((), d')" ..
  then have "same_money d1 d'"
    using sel nt upd by (auto simp: cancel_deposit_def Let_def raise_simps dest!: audit_same_money)
  with ret cancel_deposit_inv(1) [OF inv ret] show ?thesis
    by (auto simp: same_money_def d1_def)
qed

lemma upsert_stats_total:
  "upsert_stats c g d = Inl Numeric_out_of_range \<or> (\<exists>d'. upsert_stats c g d = Inr d' \<and> same_money d d')"
proof (cases "upsert_stats c g d")
  case (Inl e)
  then show ?thesis by (auto simp: upsert_stats_def Let_def raise_if_def split: if_splits)
next
  case (Inr d')
  then show ?thesis using upsert_stats_same_money by blast
qed

lemma cancel_withdraw_total:
  assumes inv: "ledger_inv E0 d" and key: "chain_key e E = Inr k"
    and sel: "select_withdraw uid d = Some t" and nt: "\<not> is_terminal (t_status t)"
  shows "cancel_withdraw E uid a reason d = Inl Numeric_out_of_range
    \<or> (\<exists>x d'. cancel_withdraw E uid a reason d = Inr (x, d') \<and> ledger_inv E0 d'
      \<and> withdraw_tickets d' = upd_key t_id (t_id t) (cancel_row E reason) (withdraw_tickets d)
      \<and> deposit_tickets d' = deposit_tickets d)"
proof -
  let ?u = "t_discord_id t"
  have wd: "withdraws_ok (user_ids d) (withdraw_tickets d)" and acc: "accounts_ok d"
    using inv by (simp_all add: ledger_parts)
  note row = withdraw_row [OF wd sel]
  obtain r where r: "select_balance ?u d = Some r" using accounts_row_ex [OF acc row(5)] by auto
  have lock: "t_amount t \<le> b_locked r" using ticket_lock_covered [OF inv sel nt] r by (simp add: held_of_def)
  have ok: "balance_ok r" using acc r by (auto simp: accounts_ok_def select_balance_def dest: sel_key_Some_in)
  let ?f = "\<lambda>r'. r'\<lparr>b_balance := b_balance r + t_amount t, b_locked := b_locked r' - t_amount t,
      b_updated_at := now E, b_version := b_version r' + 1\<rparr>"
  consider "update_balance ?u ?f d = Inl Numeric_out_of_range" | d1 where "update_balance ?u ?f d = Inr d1"
  proof (cases "balance_ok (?f r)")
    case True
    then show thesis using that(2) r by (auto simp: update_balance_def balance_ok_def)
  next
    case False
    then have "check_balance_row (?f r) = Inl Numeric_out_of_range"
      using ok lock row(3) by (auto simp: balance_ok_iff check_balance_row_def)
    then show thesis using that(1) r by (simp add: update_balance_def)
  qed
  then show ?thesis
  proof cases
    case 1
    then show ?thesis using sel nt r lock by (simp add: cancel_withdraw_def Let_def)
  next
    case (2 d1)
    obtain bs where d1: "d1 = d\<lparr>balances := bs\<rparr>" using update_balance_frame [OF 2] by auto
    define d2 where "d2 = d1\<lparr>withdraw_tickets := upd_key t_id (t_id t) (cancel_row E reason) (withdraw_tickets d1)\<rparr>"
    have upd: "update_withdraw_ticket t_id (t_id t) (\<lambda>t. t\<lparr>t_status := Cancelled, t_cancelled_at := Some (now E),
        t_cancel_reason := reason, t_last_activity_at := now E\<rparr>) d1 = Inr d2"
      using update_ticket_total(2) [of t_id "t_id t" d1 t] row(2) nt by (simp add: d1 d2_def cancel_row_def [abs_def])
    have user: "has_key u_discord_id ?u (users d2)" using row(5) by (simp add: d2_def d1 user_ids_def has_key_def)
    have aud: "\<exists>i d'. audit_log_insert_with_chain E x d2 = Inr (i, d')"
      if "aa_actor_type x \<in> set actor_types" "aa_target_id x = ?u"
        "aa_balance_before x = Some b" "aa_balance_after x = Some b'" for x b b'
      using audit_total [OF key that(3,4,1), of d2] user that(2) by simp
    obtain x i d3 where audit: "audit_log_insert_with_chain E x d2 = Inr (i, d3)" and "aa_action x \<noteq> ''treasury_swept''"
      and eq: "cancel_withdraw E uid a reason d =
        bindE (if a \<noteq> ?u \<and> t_claimed_by t \<noteq> None
               then upsert_stats (the (t_claimed_by t))
                 (\<lambda>r. r\<lparr>st_withdraws_cancelled := st_withdraws_cancelled r + 1, st_last_active_at := Some (now E),
                       st_updated_at := now E\<rparr>) d3
               else Inr d3) (\<lambda>d4. Inr (Some (b_balance r + t_amount t), d4))"
    proof -
      let ?x = "\<lparr>aa_actor_type = (if a = ?u then ''user'' else ''cashier''), aa_actor_id = a, aa_target_id = ?u,
          aa_action = ''withdraw_cancelled_refund'', aa_amount = Some (t_amount t),
          aa_balance_before = Some (b_balance r), aa_balance_after = Some (b_balance r + t_amount t),
          aa_reason = Some (coalesce reason ''cancelled''), aa_ref_type = ''withdraw_ticket'',
          aa_ref_id = Some uid, aa_bot_name = ''dw'', aa_metadata = JObj [(''refunded'', JInt (t_amount t))]\<rparr>"
      have "aa_actor_type ?x \<in> set actor_types" by (simp add: actor_types_def)
      then obtain i d3 where "audit_log_insert_with_chain E ?x d2 = Inr (i, d3)"
        using aud [of ?x "b_balance r" "b_balance r + t_amount t"] by auto
      with that [of ?x i d3] show thesis using sel nt r lock 2 upd by (simp add: cancel_withdraw_def Let_def)
    qed
    consider "cancel_withdraw E uid a reason d = Inl Numeric_out_of_range"
      | z d' where "cancel_withdraw E uid a reason d = Inr (z, d')" "same_money d3 d'"
    proof (cases "a \<noteq> ?u \<and> t_claimed_by t \<noteq> None")
      case True
      let ?g = "\<lambda>r. r\<lparr>st_withdraws_cancelled := st_withdraws_cancelled r + 1, st_last_active_at := Some (now E),
          st_updated_at := now E\<rparr>"
      have eq': "cancel_withdraw E uid a reason d = bindE (upsert_stats (the (t_claimed_by t)) ?g d3)
          (\<lambda>d4. Inr (Some (b_balance r + t_amount t), d4))"
        unfolding eq if_P [OF True] ..
      from upsert_stats_total [of "the (t_claimed_by t)" ?g d3] show thesis
        by (elim disjE exE conjE) (rule that, simp add: eq')+
    next
      case False
      show thesis by (rule that(2) [of "Some (b_balance r + t_amount t)" d3]) (simp add: eq if_not_P [OF False] del: not_None_eq, simp)
    qed
    then show ?thesis
    proof cases
      case (2 z d')
      then have "same_money d2 d'" using audit_same_money [OF audit] \<open>aa_action x \<noteq> _\<close> same_money_trans by blast
      then show ?thesis using cancel_withdraw_refines(1) [OF inv 2(1) sel] 2(1)
        by (auto simp: same_money_def d2_def d1)
    qed simp
  qed
qed

lemma release_total:
  assumes inv: "ledger_inv E0 d" and key: "chain_key e E = Inr k" and ty: "ticket_type_of_text tt = Some ty"
    and sel: "select_ticket ty uid d = Some v" and st: "t_status v = Claimed" "t_claimed_by v = Some c"
  shows "\<exists>d'. release_ticket E tt uid c d = Inr ((), d') \<and> ledger_inv E0 d' \<and> book_of d' = book_of d
    \<and> deposit_tickets d' = (if ty = Deposit then upd_key t_ticket_uid uid (release_row E) (deposit_tickets d) else deposit_tickets d)
    \<and> withdraw_tickets d' = (if ty = Withdraw then upd_key t_ticket_uid uid (release_row E) (withdraw_tickets d) else withdraw_tickets d)"
proof -
  have nt: "\<not> is_terminal (t_status v)" using st by (simp add: is_terminal_def)
  define d1 where "d1 = (if ty = Deposit then d\<lparr>deposit_tickets := upd_key t_ticket_uid uid (release_row E) (deposit_tickets d)\<rparr>
    else d\<lparr>withdraw_tickets := upd_key t_ticket_uid uid (release_row E) (withdraw_tickets d)\<rparr>)"
  have upd: "update_ticket ty uid (release_row E) (release_row E) d = Inr d1"
    using sel nt update_ticket_total(1) [of t_ticket_uid uid d] update_ticket_total(2) [of t_ticket_uid uid d]
    by (cases ty) (auto simp: update_ticket_def d1_def select_ticket_def select_deposit_def select_withdraw_def ticket.truncate_def)
  have user: "has_key u_discord_id (user_or_treasury u d1) (users d1)" for u
    using treasury_in [OF inv] by (auto simp: d1_def user_or_treasury_def)
  have aud: "\<exists>i d'. audit_log_insert_with_chain E x d1 = Inr (i, d')"
    if "aa_actor_type x \<in> set actor_types" "aa_target_id x = user_or_treasury u d1"
      "aa_balance_before x = Some b" "aa_balance_after x = Some b" for x u b
    using audit_total [OF key that(3,4,1), of d1] user that(2) by simp
  have "\<exists>d'. release_ticket E tt uid c d = Inr ((), d')"
    using ty sel st upd unfolding update_ticket_def release_row_def [abs_def]
    by (simp add: release_ticket_def Let_def) (rule audit_then, rule aud, simp_all add: actor_types_def)
  then obtain d' where ret: "release_ticket E tt uid c d = Inr ((), d')" ..
  then have "same_money d1 d'"
    by (rule release_ticket_Inr) (use ty upd in auto)
  with ret release_ticket_inv [OF inv ret] show ?thesis
    by (cases ty) (auto simp: same_money_def d1_def)
qed

section \<open>The timeout tick\<close>

definition unfinished :: "'a ticket_scheme \<Rightarrow> bool" where
  "unfinished t \<longleftrightarrow> t_status t \<in> {Open, Claimed}"

definition key_configured :: "pg_env \<Rightarrow> bool" where
  "key_configured E \<longleftrightarrow> (\<exists>e k. chain_key e E = Inr k)"

definition deposit_work :: "pg_env \<Rightarrow> ticket set \<Rightarrow> db \<Rightarrow> ticket list \<Rightarrow> db \<Rightarrow> bool" where
  "deposit_work E R d0 rows d \<longleftrightarrow>
     key_configured E \<and> ledger_inv E d \<and> withdraw_tickets d = withdraw_tickets d0
     \<and> list_all unfinished rows \<and> work_left unfinished R (deposit_tickets d0) rows (deposit_tickets d)"

definition withdraw_work :: "pg_env \<Rightarrow> withdraw_ticket set \<Rightarrow> db \<Rightarrow> withdraw_ticket list \<Rightarrow> db \<Rightarrow> bool" where
  "withdraw_work E R d0 rows d \<longleftrightarrow>
     key_configured E \<and> ledger_inv E d \<and> deposit_tickets d = deposit_tickets d0
     \<and> list_all unfinished rows \<and> work_left unfinished R (withdraw_tickets d0) rows (withdraw_tickets d)"

lemma unfinished_simps [simp]:
  "unfinished t \<Longrightarrow> \<not> is_terminal (t_status t)"
  "\<not> unfinished (cancel_row E reason t)"
  by (auto simp: unfinished_def is_terminal_def cancel_row_def)

interpretation expired_deposits: row_worker
  "\<lambda>n r. timeout_cancel_one (E\<lparr>now := ts n\<rparr>) ''deposit'' (t_ticket_uid r) (t_status r)"
  "deposit_work E R d0" "\<lambda>_. False" for E ts R d0
proof unfold_locales
  fix r rows d n
  assume J: "deposit_work E R d0 (r # rows) d"
  then obtain e k where key: "chain_key e (E\<lparr>now := ts n\<rparr>) = Inr k" by (auto simp: deposit_work_def key_configured_def)
  have inv: "ledger_inv E d" and dep: "deposits_ok (deposit_tickets d)"
    and r: "unfinished r" "r \<in> set (deposit_tickets d)"
    using J by (auto simp: deposit_work_def ledger_parts work_left_def)
  then have sel: "select_deposit (t_ticket_uid r) d = Some r"
    by (simp add: select_deposit_def deposits_ok_def sel_key_in)
  define why where "why = (if t_status r = Claimed then reason_claimed else reason_open)"
  from cancel_deposit_total [OF inv key sel unfinished_simps(1) [OF r(1)], of 0 "Some why"]
  obtain d' where d': "cancel_deposit (E\<lparr>now := ts n\<rparr>) (t_ticket_uid r) 0 (Some why) d = Inr ((), d')"
      "ledger_inv E d'" "withdraw_tickets d' = withdraw_tickets d"
      "deposit_tickets d' = upd_key t_id (t_id r) (cancel_row (E\<lparr>now := ts n\<rparr>) (Some why)) (deposit_tickets d)"
    by auto
  then have "deposit_work E R d0 rows d'"
    using J dep by (auto simp: deposit_work_def deposits_ok_def intro!: work_left_step)
  moreover have "timeout_cancel_one (E\<lparr>now := ts n\<rparr>) ''deposit'' (t_ticket_uid r) (t_status r) d = (Inr True, d')"
    using d'(1) by (simp add: timeout_cancel_one_def why_def [symmetric] cancel_deposit_py_def facade_def swallow_def)
  ultimately show "(\<exists>d'. timeout_cancel_one (E\<lparr>now := ts n\<rparr>) ''deposit'' (t_ticket_uid r) (t_status r) d = (Inr True, d')
      \<and> deposit_work E R d0 rows d') \<or>
    (\<exists>e d'. timeout_cancel_one (E\<lparr>now := ts n\<rparr>) ''deposit'' (t_ticket_uid r) (t_status r) d = (Inl e, d') \<and> False)" by blast
qed

interpretation expired_withdraws: row_worker
  "\<lambda>n r. timeout_cancel_one (E\<lparr>now := ts n\<rparr>) ''withdraw'' (t_ticket_uid r) (t_status r)"
  "withdraw_work E R d0" "\<lambda>e. e = Engine Numeric_out_of_range" for E ts R d0
proof unfold_locales
  fix r rows d n
  assume J: "withdraw_work E R d0 (r # rows) d"
  then obtain e k where key: "chain_key e (E\<lparr>now := ts n\<rparr>) = Inr k" by (auto simp: withdraw_work_def key_configured_def)
  have inv: "ledger_inv E d" and wd: "withdraws_ok (user_ids d) (withdraw_tickets d)"
    and r: "unfinished r" "r \<in> set (withdraw_tickets d)"
    using J by (auto simp: withdraw_work_def ledger_parts work_left_def)
  then have sel: "select_withdraw (t_ticket_uid r) d = Some r"
    by (simp add: select_withdraw_def withdraws_ok_def sel_key_in)
  define why where "why = (if t_status r = Claimed then reason_claimed else reason_open)"
  let ?one = "timeout_cancel_one (E\<lparr>now := ts n\<rparr>) ''withdraw'' (t_ticket_uid r) (t_status r) d"
  have one: "?one = swallow (facade d (cancel_withdraw (E\<lparr>now := ts n\<rparr>) (t_ticket_uid r) 0 (Some why) d))"
    by (simp add: timeout_cancel_one_def why_def [symmetric] cancel_withdraw_py_def)
  from cancel_withdraw_total [OF inv key sel unfinished_simps(1) [OF r(1)], of 0 "Some why"]
  show "(\<exists>d'. ?one = (Inr True, d') \<and> withdraw_work E R d0 rows d') \<or> (\<exists>e d'. ?one = (Inl e, d') \<and> e = Engine Numeric_out_of_range)"
  proof (elim disjE exE conjE)
    fix x d' assume d': "cancel_withdraw (E\<lparr>now := ts n\<rparr>) (t_ticket_uid r) 0 (Some why) d = Inr (x, d')"
      "ledger_inv E d'" "deposit_tickets d' = deposit_tickets d"
      "withdraw_tickets d' = upd_key t_id (t_id r) (cancel_row (E\<lparr>now := ts n\<rparr>) (Some why)) (withdraw_tickets d)"
    then have "withdraw_work E R d0 rows d'"
      using J wd by (auto simp: withdraw_work_def withdraws_ok_def intro!: work_left_step)
    then show ?thesis using d'(1) by (simp add: one facade_def swallow_def)
  qed (simp add: one facade_def swallow_def)
qed

lemma expired_rows_set: "set (expired_rows t rows) = {r \<in> set rows. unfinished r \<and> t_expires_at r < t}"
  by (auto simp: expired_rows_def unfinished_def)

lemma expired_rows_work:
  assumes "distinct rows"
  shows "work_left unfinished (set (expired_rows t rows)) rows (expired_rows t rows) rows"
    and "list_all unfinished (expired_rows t rows)"
proof -
  have "distinct (expired_rows t rows)" using assms by (simp add: expired_rows_def)
  then show "work_left unfinished (set (expired_rows t rows)) rows (expired_rows t rows) rows"
    by (rule work_left_init) (auto simp: expired_rows_set)
  show "list_all unfinished (expired_rows t rows)" by (auto simp: list_all_iff expired_rows_set)
qed

lemma work_left_expired:
  assumes "work_left unfinished (set (expired_rows t ts0)) ts0 [] ts" and "r \<in> set ts" and "unfinished r"
  shows "t \<le> t_expires_at r"
  using assms by (auto simp: work_left_def expired_rows_set not_less [symmetric])

text \<open>In every reachable database with a configured chain key, a tick either cancels every ticket of
  both tables that has expired when the tick starts and reports their number (withdraws that expire
  while it works on the deposits included), or it stops because a 64-bit column has no room for a
  refund. No exception of the stored functions, no missing row and no check stops it.\<close>

lemma timeout_tick_clears:
  assumes "reach E (initial_db t0) d" and "chain_key e E = Inr k" and "\<And>n. ts 0 \<le> ts n"
  shows "(\<exists>d'. timeout_tick E ts d = (Inl (Engine Numeric_out_of_range), d'))
    \<or> (\<exists>m d'. timeout_tick E ts d = (Inr (int (length (expired_rows (ts 0) (deposit_tickets d)))
            + int (length (expired_rows (ts m) (withdraw_tickets d)))), d')
      \<and> (\<forall>t \<in> set (deposit_tickets d'). unfinished t \<longrightarrow> ts 0 \<le> t_expires_at t)
      \<and> (\<forall>t \<in> set (withdraw_tickets d'). unfinished t \<longrightarrow> ts 0 \<le> t_expires_at t))"
proof -
  have inv: "ledger_inv E d" using assms(1) by (rule reach_ledger)
  have key: "key_configured E" using assms(2) by (auto simp: key_configured_def)
  have dist: "distinct (deposit_tickets d)" "distinct (withdraw_tickets d)"
    using inv by (auto simp: ledger_parts deposits_ok_def withdraws_ok_def distinct_map)
  let ?ds = "expired_rows (ts 0) (deposit_tickets d)"
  let ?m = "Suc (length ?ds)"
  let ?ws = "expired_rows (ts ?m) (withdraw_tickets d)"
  have "deposit_work E (set ?ds) d ?ds d"
    using inv key expired_rows_work [OF dist(1)] by (simp add: deposit_work_def)
  from expired_deposits.works_off [OF this, of ts 1 0] obtain d1 where
    one: "count_rows (\<lambda>n r. timeout_cancel_one (E\<lparr>now := ts n\<rparr>) ''deposit'' (t_ticket_uid r) (t_status r)) ?ds 1 0 d
      = (Inr (int (length ?ds), ?m), d1)" and w1: "deposit_work E (set ?ds) d [] d1" by auto
  have "withdraw_work E (set ?ws) d1 ?ws d1"
    using w1 expired_rows_work [OF dist(2)] by (simp add: deposit_work_def withdraw_work_def)
  from expired_withdraws.works_off [OF this, of ts "?m + 1" "int (length ?ds)"] show ?thesis
  proof (elim disjE exE conjE)
    fix d' assume two: "count_rows (\<lambda>n r. timeout_cancel_one (E\<lparr>now := ts n\<rparr>) ''withdraw'' (t_ticket_uid r) (t_status r))
        ?ws (?m + 1) (int (length ?ds)) d1 = (Inr (int (length ?ds) + int (length ?ws), ?m + 1 + length ?ws), d')"
      and w2: "withdraw_work E (set ?ws) d1 [] d'"
    have "timeout_tick E ts d = (Inr (int (length ?ds) + int (length ?ws)), d')"
      using one two w1 by (simp add: timeout_tick_def deposit_work_def)
    moreover have "\<forall>t \<in> set (deposit_tickets d'). unfinished t \<longrightarrow> ts 0 \<le> t_expires_at t"
      using w1 w2 work_left_expired [of "ts 0"] by (auto simp: deposit_work_def withdraw_work_def)
    moreover have "\<forall>t \<in> set (withdraw_tickets d'). unfinished t \<longrightarrow> ts 0 \<le> t_expires_at t"
      using w1 w2 work_left_expired [of "ts ?m"] assms(3) [of ?m]
      by (fastforce simp: deposit_work_def withdraw_work_def)
    ultimately show ?thesis by blast
  next
    fix e d' assume "count_rows (\<lambda>n r. timeout_cancel_one (E\<lparr>now := ts n\<rparr>) ''withdraw'' (t_ticket_uid r) (t_status r))
        ?ws (?m + 1) (int (length ?ds)) d1 = (Inl e, d')" and "e = Engine Numeric_out_of_range"
    then show ?thesis using one w1 by (simp add: timeout_tick_def deposit_work_def)
  qed
qed

text \<open>The example run, long after its withdraw ticket has expired.\<close>

lemma demo_timeout: "fst (timeout_tick demo_env (\<lambda>n. 10 ^ 15) demo_db) = Inr 1"
  by code_simp

section \<open>The claim-idle tick\<close>

definition is_claimed :: "'a ticket_scheme \<Rightarrow> bool" where
  "is_claimed t \<longleftrightarrow> t_status t = Claimed"

definition deposit_claims :: "pg_env \<Rightarrow> ticket set \<Rightarrow> db \<Rightarrow> ticket list \<Rightarrow> db \<Rightarrow> bool" where
  "deposit_claims E R d0 rows d \<longleftrightarrow>
     key_configured E \<and> ledger_inv E d \<and> withdraw_tickets d = withdraw_tickets d0 \<and> book_of d = book_of d0
     \<and> list_all is_claimed rows \<and> work_left is_claimed R (deposit_tickets d0) rows (deposit_tickets d)"

definition withdraw_claims :: "pg_env \<Rightarrow> withdraw_ticket set \<Rightarrow> db \<Rightarrow> withdraw_ticket list \<Rightarrow> db \<Rightarrow> bool" where
  "withdraw_claims E R d0 rows d \<longleftrightarrow>
     key_configured E \<and> ledger_inv E d \<and> deposit_tickets d = deposit_tickets d0 \<and> book_of d = book_of d0
     \<and> list_all is_claimed rows \<and> work_left is_claimed R (withdraw_tickets d0) rows (withdraw_tickets d)"

lemma release_not_claimed [simp]: "\<not> is_claimed (release_row E t)"
  by (simp add: is_claimed_def release_row_def)

lemma ticket_type_texts [simp]: "ticket_type_of_text ''deposit'' = Some Deposit" "ticket_type_of_text ''withdraw'' = Some Withdraw"
  by (simp_all add: ticket_type_of_text_def)

interpretation idle_deposits: row_worker
  "\<lambda>n r. release_one (E\<lparr>now := ts n\<rparr>) (''deposit'', t_ticket_uid r, t_claimed_by r)"
  "deposit_claims E R d0" "\<lambda>_. False" for E ts R d0
proof unfold_locales
  fix r rows d n
  assume J: "deposit_claims E R d0 (r # rows) d"
  then obtain e k where key: "chain_key e (E\<lparr>now := ts n\<rparr>) = Inr k" by (auto simp: deposit_claims_def key_configured_def)
  have inv: "ledger_inv E d" and dep: "deposits_ok (deposit_tickets d)"
    and r: "t_status r = Claimed" "r \<in> set (deposit_tickets d)"
    using J by (auto simp: deposit_claims_def ledger_parts work_left_def is_claimed_def)
  obtain c where c: "t_claimed_by r = Some c" using dep r by (auto simp: deposits_ok_def)
  have sel: "select_ticket Deposit (t_ticket_uid r) d = Some r"
    using dep r by (simp add: select_ticket_def select_deposit_def deposits_ok_def sel_key_in)
  from release_total [OF inv key ticket_type_texts(1) sel r(1) c] obtain d' where
    d': "release_ticket (E\<lparr>now := ts n\<rparr>) ''deposit'' (t_ticket_uid r) c d = Inr ((), d')" "ledger_inv E d'"
      "book_of d' = book_of d" "withdraw_tickets d' = withdraw_tickets d"
      "deposit_tickets d' = upd_key t_ticket_uid (t_ticket_uid r) (release_row (E\<lparr>now := ts n\<rparr>)) (deposit_tickets d)" by auto
  then have "deposit_claims E R d0 rows d'"
    using J dep by (auto simp: deposit_claims_def deposits_ok_def intro!: work_left_step)
  then show "(\<exists>d'. release_one (E\<lparr>now := ts n\<rparr>) (''deposit'', t_ticket_uid r, t_claimed_by r) d = (Inr True, d')
      \<and> deposit_claims E R d0 rows d') \<or>
    (\<exists>e d'. release_one (E\<lparr>now := ts n\<rparr>) (''deposit'', t_ticket_uid r, t_claimed_by r) d = (Inl e, d') \<and> False)"
    using d'(1) c by (simp add: release_one_def release_ticket_py_def facade_def swallow_def)
qed

interpretation idle_withdraws: row_worker
  "\<lambda>n r. release_one (E\<lparr>now := ts n\<rparr>) (''withdraw'', t_ticket_uid r, t_claimed_by r)"
  "withdraw_claims E R d0" "\<lambda>_. False" for E ts R d0
proof unfold_locales
  fix r rows d n
  assume J: "withdraw_claims E R d0 (r # rows) d"
  then obtain e k where key: "chain_key e (E\<lparr>now := ts n\<rparr>) = Inr k" by (auto simp: withdraw_claims_def key_configured_def)
  have inv: "ledger_inv E d" and wd: "withdraws_ok (user_ids d) (withdraw_tickets d)"
    and r: "t_status r = Claimed" "r \<in> set (withdraw_tickets d)"
    using J by (auto simp: withdraw_claims_def ledger_parts work_left_def is_claimed_def)
  obtain c where c: "t_claimed_by r = Some c" using wd r by (auto simp: withdraws_ok_def)
  have sel: "select_ticket Withdraw (t_ticket_uid r) d = Some (ticket.truncate r)"
    using wd r by (simp add: select_ticket_def select_withdraw_def withdraws_ok_def sel_key_in)
  have tr: "t_status (ticket.truncate r) = Claimed" "t_claimed_by (ticket.truncate r) = Some c"
    using r c by (simp_all add: ticket.truncate_def)
  from release_total [OF inv key ticket_type_texts(2) sel tr] obtain d' where
    d': "release_ticket (E\<lparr>now := ts n\<rparr>) ''withdraw'' (t_ticket_uid r) c d = Inr ((), d')" "ledger_inv E d'"
      "book_of d' = book_of d" "deposit_tickets d' = deposit_tickets d"
      "withdraw_tickets d' = upd_key t_ticket_uid (t_ticket_uid r) (release_row (E\<lparr>now := ts n\<rparr>)) (withdraw_tickets d)" by auto
  then have "withdraw_claims E R d0 rows d'"
    using J wd by (auto simp: withdraw_claims_def withdraws_ok_def intro!: work_left_step)
  then show "(\<exists>d'. release_one (E\<lparr>now := ts n\<rparr>) (''withdraw'', t_ticket_uid r, t_claimed_by r) d = (Inr True, d')
      \<and> withdraw_claims E R d0 rows d') \<or>
    (\<exists>e d'. release_one (E\<lparr>now := ts n\<rparr>) (''withdraw'', t_ticket_uid r, t_claimed_by r) d = (Inl e, d') \<and> False)"
    using d'(1) c by (simp add: release_one_def release_ticket_py_def facade_def swallow_def)
qed

definition idle_rows :: "int \<Rightarrow> 'a ticket_scheme list \<Rightarrow> 'a ticket_scheme list" where
  "idle_rows t rows = filter (\<lambda>r. t_status r = Claimed \<and> t_last_activity_at r < t - minutes 30) rows"

lemma idle_claims_rows:
  "idle_claims t d = map (\<lambda>r. (''deposit'', t_ticket_uid r, t_claimed_by r)) (idle_rows t (deposit_tickets d))
     @ map (\<lambda>r. (''withdraw'', t_ticket_uid r, t_claimed_by r)) (idle_rows t (withdraw_tickets d))"
  by (simp add: idle_claims_def idle_rows_def)

lemma idle_rows_work:
  assumes "distinct rows"
  shows "work_left is_claimed (set (idle_rows t rows)) rows (idle_rows t rows) rows \<and> list_all is_claimed (idle_rows t rows)"
proof
  show "work_left is_claimed (set (idle_rows t rows)) rows (idle_rows t rows) rows"
    by (rule work_left_init) (use assms in \<open>auto simp: idle_rows_def\<close>)
  show "list_all is_claimed (idle_rows t rows)" by (auto simp: idle_rows_def list_all_iff is_claimed_def)
qed

lemma work_left_idle:
  assumes "work_left is_claimed (set (idle_rows t ts0)) ts0 [] ts"
  shows "idle_rows t ts = []"
    and "r \<in> set ts \<Longrightarrow> t_status r = Claimed \<Longrightarrow> t - minutes 30 \<le> t_last_activity_at r"
  using assms by (auto simp: work_left_def idle_rows_def is_claimed_def filter_empty_conv not_less [symmetric])

text \<open>Once no claim is idle, no claim is old: the last activity of a claimed ticket is its claim.\<close>

lemma no_long_claims:
  assumes inv: "ledger_inv E d" and t: "t \<le> t0 + minutes 90"
    and "\<And>r. r \<in> set (deposit_tickets d) \<Longrightarrow> t_status r = Claimed \<Longrightarrow> t0 - minutes 30 \<le> t_last_activity_at r"
    and "\<And>r. r \<in> set (withdraw_tickets d) \<Longrightarrow> t_status r = Claimed \<Longrightarrow> t0 - minutes 30 \<le> t_last_activity_at r"
  shows "long_claims t d = []"
proof -
  have "\<not> lt3 (t_claimed_at r) (Some (t - minutes 120))" if "r \<in> set (deposit_tickets d)" "t_status r = Claimed" for r
    using that inv t assms(3) [OF that] by (auto simp: ledger_parts deposits_ok_def minutes_def)
  moreover have "\<not> lt3 (t_claimed_at r) (Some (t - minutes 120))" if "r \<in> set (withdraw_tickets d)" "t_status r = Claimed" for r
    using that inv t assms(4) [OF that] by (auto simp: ledger_parts withdraws_ok_def minutes_def)
  ultimately show ?thesis by (auto simp: long_claims_def filter_empty_conv)
qed

text \<open>In every reachable
  database with a configured chain key, a tick of at most 90 minutes hands every ticket whose
  claim has been idle for 30 minutes back to the queue, moves no gold, and finds no ticket for its
  two-hour cancellation: the last activity of a claimed ticket is the claim itself, so the
  30-minute release always comes first, whether or not the cashier is active.\<close>

lemma claim_idle_only_releases:
  assumes "reach E (initial_db t0) d" and "chain_key e E = Inr k" and "\<And>n. ts n \<le> ts 0 + minutes 90"
  shows "\<exists>d'. claim_idle_tick E ts d = (Inr \<lparr>tk_released = int (length (idle_claims (ts 0) d)), tk_cancelled = 0\<rparr>, d')
    \<and> idle_claims (ts 0) d' = [] \<and> book_of d' = book_of d"
proof -
  have inv: "ledger_inv E d" using assms(1) by (rule reach_ledger)
  have key: "key_configured E" using assms(2) by (auto simp: key_configured_def)
  have dist: "distinct (deposit_tickets d)" "distinct (withdraw_tickets d)"
    using inv by (auto simp: ledger_parts deposits_ok_def withdraws_ok_def distinct_map)
  let ?ds = "idle_rows (ts 0) (deposit_tickets d)" and ?ws = "idle_rows (ts 0) (withdraw_tickets d)"
  have "deposit_claims E (set ?ds) d ?ds d"
    using inv key idle_rows_work [OF dist(1)] by (simp add: deposit_claims_def)
  from idle_deposits.works_off [OF this, of ts 1 0] obtain d1 where
    one: "count_rows (\<lambda>n r. release_one (E\<lparr>now := ts n\<rparr>) (''deposit'', t_ticket_uid r, t_claimed_by r)) ?ds 1 0 d
      = (Inr (int (length ?ds), Suc (length ?ds)), d1)" and w1: "deposit_claims E (set ?ds) d [] d1" by auto
  have "withdraw_claims E (set ?ws) d1 ?ws d1"
    using w1 idle_rows_work [OF dist(2)] by (simp add: deposit_claims_def withdraw_claims_def)
  from idle_withdraws.works_off [OF this, of ts "Suc (length ?ds)" "int (length ?ds)"] obtain d2 where
    two: "count_rows (\<lambda>n r. release_one (E\<lparr>now := ts n\<rparr>) (''withdraw'', t_ticket_uid r, t_claimed_by r)) ?ws
        (Suc (length ?ds)) (int (length ?ds)) d1
      = (Inr (int (length ?ds) + int (length ?ws), Suc (length ?ds) + length ?ws), d2)"
    and w2: "withdraw_claims E (set ?ws) d1 [] d2" by auto
  let ?n = "Suc (length ?ds) + length ?ws"
  note left = work_left_idle [of "ts 0" "deposit_tickets d" "deposit_tickets d2"]
    work_left_idle [of "ts 0" "withdraw_tickets d" "withdraw_tickets d2"]
  have works: "work_left is_claimed (set ?ds) (deposit_tickets d) [] (deposit_tickets d2)"
      "work_left is_claimed (set ?ws) (withdraw_tickets d) [] (withdraw_tickets d2)"
    using w1 w2 by (auto simp: deposit_claims_def withdraw_claims_def)
  have "long_claims (ts ?n) d2 = []"
    by (rule no_long_claims [of E]) (use w2 assms(3) left(2,4) works in \<open>auto simp: withdraw_claims_def\<close>)
  then have "claim_idle_tick E ts d = (Inr \<lparr>tk_released = int (length ?ds) + int (length ?ws), tk_cancelled = 0\<rparr>, d2)"
    using one two by (simp add: claim_idle_tick_def idle_claims_rows count_rows_append count_rows_map)
  moreover have "idle_claims (ts 0) d2 = []" using left(1,3) works by (simp add: idle_claims_rows)
  moreover have "book_of d2 = book_of d" using w1 w2 by (simp add: deposit_claims_def withdraw_claims_def)
  ultimately show ?thesis by (auto simp: idle_claims_rows)
qed

lemma demo_idle: "length (idle_claims (10 ^ 10) demo_db) = 1"
  by code_simp

section \<open>The cashier-idle tick\<close>

text \<open>C38: One unregistered cashier stops the auto-offline worker for everybody. The function behind
  it names the cashier as the audit target, which must be a user. When the cashier that has been
  idle longest has no row in the user table, the tick ends with a foreign-key error before it has
  looked at anyone else and changes nothing, so the next tick meets the same cashier again.\<close>

theorem cashier_idle_starves:
  assumes "chain_key e E = Inr k" and "idle_cashiers (ts 0) d = c # cs"
    and "distinct (map cs_discord_id (cashier_status d))" and "\<not> has_key u_discord_id c (users d)"
  shows "cashier_idle_tick E ts d = (Inl (Engine (Foreign_key_violation ''audit_log_target_id_fkey'')), d)"
proof -
  have "c \<in> set (idle_cashiers (ts 0) d)" using assms(2) by simp
  then obtain r where r: "r \<in> set (cashier_status d)" "cs_status r = Online" "cs_discord_id r = c"
    by (auto simp: idle_cashiers_def)
  then have row: "sel_key cs_discord_id c (cashier_status d) = Some r" using assms(3) by (auto simp: sel_key_in)
  have key: "chain_key Audit_chain_key_not_configured (E\<lparr>now := ts 1\<rparr>) = Inr k"
    using chain_key_any [OF assms(1)] by simp
  have "expire_cashier (E\<lparr>now := ts 1\<rparr>) c d = Inl (Foreign_key_violation ''audit_log_target_id_fkey'')"
    by (rule expire_cashier_unregistered [OF key row r(2) assms(4)])
  then show ?thesis
    using assms(2) by (simp add: cashier_idle_tick_def expire_cashier_py_def facade_def swallow_def)
qed

text \<open>Cashier 55, without a user row, has been online and idle longer than cashier 7, who has one.\<close>

definition demo_idle_db :: db where
  "demo_idle_db = run demo_env [(1, Set_status 55 ''online''), (2, Ban 7 None 1), (3, Set_status 7 ''online'')] (initial_db 0)"

theorem cashier_idle_starves_witness:
  "reach demo_env (initial_db 0) demo_idle_db \<and> idle_cashiers (10 ^ 10) demo_idle_db = [55, 7]
    \<and> cashier_idle_tick demo_env (\<lambda>_. 10 ^ 10) demo_idle_db
        = (Inl (Engine (Foreign_key_violation ''audit_log_target_id_fkey'')), demo_idle_db)"
proof -
  have "idle_cashiers (10 ^ 10) demo_idle_db = [55, 7]" "distinct (map cs_discord_id (cashier_status demo_idle_db))"
    "\<not> has_key u_discord_id 55 (users demo_idle_db)" by code_simp+
  moreover have "reach demo_env (initial_db 0) demo_idle_db" unfolding demo_idle_db_def by (rule reach_run)
  ultimately show ?thesis using cashier_idle_starves [OF demo_key, of "\<lambda>_. 10 ^ 10" demo_idle_db 55 "[7]"] by simp
qed

end
