(* ===== verification/System.thy ===== *)
theory System
  imports Commands Workers
begin

text \<open>
  The whole system: the ticks of the workers with their posts to Discord (\<^verbatim>\<open>workers/ticket_timeout.py\<close>,
  \<^verbatim>\<open>workers/claim_idle.py\<close>, \<^verbatim>\<open>workers/cashier_idle.py\<close>), the guard of a tick (\<^verbatim>\<open>workers/_periodic.py\<close>), and
  runs in which interactions, ticks, reconnects and calls of the other bots alternate. A tick with
  posts does to the database what the tick of \<^theory_text>\<open>Workers\<close> does, whatever Discord answers.
\<close>

section \<open>Ticks with posts\<close>

text \<open>A selection that depends on the time.\<close>

definition select_at :: "bot_env \<Rightarrow> (int \<Rightarrow> db \<Rightarrow> 'a) \<Rightarrow> 'a cmd" where
  "select_at B f = sql B (\<lambda>E d. (Inr (f (now E) d), d))"

text \<open>\<^verbatim>\<open>try: await f except BalanceError: return False\<close>, then a post and \<^verbatim>\<open>return True\<close>.\<close>

definition moved :: "bot_env \<Rightarrow> (pg_env \<Rightarrow> db \<Rightarrow> 'a py) \<Rightarrow> unit cmd \<Rightarrow> bool cmd" where
  "moved B f report = try_balance (sql B f) (\<lambda>_ _. ret False) (\<lambda>_. seqC report (ret True))"

definition counted :: "bool list \<Rightarrow> int" where
  "counted bs = int (length (filter id bs))"

definition cancel_expired :: "bot_env \<Rightarrow> string \<Rightarrow> 'a ticket_scheme \<Rightarrow> bool cmd" where
  "cancel_expired B kind r =
     (let reason = (if t_status r = Claimed then reason_claimed else reason_open);
          report = (if t_status r = Claimed then audit_ticket_cancelled B kind (t_ticket_uid r) ''**System**'' reason else ret ())
      in if kind = ''deposit'' then moved B (\<lambda>E. cancel_deposit_py E (t_ticket_uid r) 0 reason) report
         else moved B (\<lambda>E. cancel_withdraw_py E (t_ticket_uid r) 0 reason) report)"

definition ticket_timeout_tick :: "bot_env \<Rightarrow> int cmd" where
  "ticket_timeout_tick B =
     bindC (select_at B (\<lambda>t d. expired_rows t (deposit_tickets d))) (\<lambda>expired_deposits.
     bindC (for_each (cancel_expired B ''deposit'') expired_deposits) (\<lambda>ds.
     bindC (select_at B (\<lambda>t d. expired_rows t (withdraw_tickets d))) (\<lambda>expired_withdraws.
     bindC (for_each (cancel_expired B ''withdraw'') expired_withdraws) (\<lambda>ws.
     ret (counted ds + counted ws)))))"

text \<open>The rows of the claim-idle worker, with the columns of its posts.\<close>

definition claims_where :: "(ticket \<Rightarrow> bool) \<Rightarrow> db \<Rightarrow> (string \<times> ticket) list" where
  "claims_where P d =
     map (\<lambda>r. (''deposit'', r)) (filter P (deposit_tickets d))
     @ map (\<lambda>r. (''withdraw'', ticket.truncate r)) (filter (\<lambda>r. P (ticket.truncate r)) (withdraw_tickets d))"

definition idle_claim :: "int \<Rightarrow> ticket \<Rightarrow> bool" where
  "idle_claim t r \<longleftrightarrow> t_status r = Claimed \<and> t_last_activity_at r < t - minutes 30"

definition long_claim :: "int \<Rightarrow> ticket \<Rightarrow> bool" where
  "long_claim t r \<longleftrightarrow> t_status r = Claimed \<and> lt3 (t_claimed_at r) (Some (t - minutes 120))"

definition release_idle :: "bot_env \<Rightarrow> string \<times> ticket \<Rightarrow> bool cmd" where
  "release_idle B row =
     (case row of (ticket_type, r) \<Rightarrow>
        (case t_claimed_by r of
           None \<Rightarrow> ret False
         | Some c \<Rightarrow>
             moved B (\<lambda>E. release_ticket_py E (if ticket_type = ''deposit'' then ''deposit'' else ''withdraw'') (t_ticket_uid r) c)
               (if t_region r \<notin> {''EU'', ''NA''} then ret ()
                else if t_faction r \<notin> {''Alliance'', ''Horde''} then ret ()
                else post_cashier_alert B (t_ticket_uid r) (if ticket_type = ''deposit'' then ''deposit'' else ''withdraw'')
                       (t_region r) (t_faction r) (t_amount r) (channel_mention (t_thread_id r)))))"

definition cancel_long :: "bot_env \<Rightarrow> string \<times> ticket \<Rightarrow> bool cmd" where
  "cancel_long B row =
     (case row of (ticket_type, r) \<Rightarrow>
        if ticket_type = ''deposit'' then moved B (\<lambda>E. cancel_deposit_py E (t_ticket_uid r) 0 reason_long_claim) (ret ())
        else moved B (\<lambda>E. cancel_withdraw_py E (t_ticket_uid r) 0 reason_long_claim) (ret ()))"

definition claim_idle_worker_tick :: "bot_env \<Rightarrow> tick_summary cmd" where
  "claim_idle_worker_tick B =
     bindC (select_at B (\<lambda>t. claims_where (idle_claim t))) (\<lambda>idle.
     bindC (for_each (release_idle B) idle) (\<lambda>released.
     bindC (select_at B (\<lambda>t. claims_where (long_claim t))) (\<lambda>long.
     bindC (for_each (cancel_long B) long) (\<lambda>cancelled.
     ret \<lparr>tk_released = counted released, tk_cancelled = counted cancelled\<rparr>))))"

definition cashier_idle_worker_tick :: "bot_env \<Rightarrow> int cmd" where
  "cashier_idle_worker_tick B =
     bindC (select_at B idle_cashiers) (\<lambda>idle.
     bindC (for_each (\<lambda>c. moved B (\<lambda>E. expire_cashier_py E c) (ret ())) idle) (\<lambda>expired.
     ret (counted expired)))"

section \<open>Runs\<close>

text \<open>\<^verbatim>\<open>_safe_tick\<close>: an exception of a tick is logged and forgotten.\<close>

definition safe_tick :: "'a cmd \<Rightarrow> unit cmd" where
  "safe_tick tick = attempt (seqC tick (ret ()))"

datatype (plugins only: code size) system_event =
    Interaction interaction event
  | Timeout_tick
  | Claim_idle_tick
  | Cashier_idle_tick
  | Stats_tick
  | Verifier_tick
  | Live_tick int
  | Ready_event
  | Stored_call call

text \<open>A call of another bot, at the time of the step.\<close>

definition stored_call :: "bot_env \<Rightarrow> call \<Rightarrow> unit cmd" where
  "stored_call B c = sql B (\<lambda>E d. case exec E c d of Inl e \<Rightarrow> (Inl (Engine e), d) | Inr d' \<Rightarrow> (Inr (), d'))"

fun react :: "bot_env \<Rightarrow> system_event \<Rightarrow> unit cmd" where
  "react B (Interaction i e) = handle B i e"
| "react B Timeout_tick = safe_tick (ticket_timeout_tick B)"
| "react B Claim_idle_tick = safe_tick (claim_idle_worker_tick B)"
| "react B Cashier_idle_tick = safe_tick (cashier_idle_worker_tick B)"
| "react B Stats_tick = safe_tick (stats_tick B)"
| "react B Verifier_tick = safe_tick (sql B verifier_statement)"
| "react B (Live_tick channel) = safe_tick (live_tick B channel)"
| "react B Ready_event = safe_tick (reconcile_welcome_embeds B)"
| "react B (Stored_call c) = stored_call B c"

fun run_system :: "bot_env \<Rightarrow> system_event list \<Rightarrow> world \<Rightarrow> world" where
  "run_system B [] w = w"
| "run_system B (e # es) w = run_system B es (snd (react B e w))"

text \<open>The events of the programs: the configuration is only written by the commands.\<close>

definition of_programs :: "system_event list \<Rightarrow> bool" where
  "of_programs es \<longleftrightarrow> list_all (\<lambda>e. case e of Stored_call c \<Rightarrow> bot_call c | _ \<Rightarrow> True) es"

section \<open>The contract of the ticks\<close>

lemma lawful_select [lawful_intros]: "lawful B 0 (select_at B f)"
  unfolding select_at_def by (rule lawful_sql) (simp add: stmt_ok_def)

lemma lawful_moved [lawful_intros]: "stmt_ok f \<Longrightarrow> lawful B 0 report \<Longrightarrow> lawful B 0 (moved B f report)"
  unfolding moved_def by (intro lawful_intros)

lemma lawful_safe_tick [lawful_intros]: "lawful B 0 m \<Longrightarrow> lawful B 0 (safe_tick m)"
  unfolding safe_tick_def by (intro lawful_intros)

lemma lawful_ticks [lawful_intros]:
  "lawful B 0 (ticket_timeout_tick B)" "lawful B 0 (claim_idle_worker_tick B)" "lawful B 0 (cashier_idle_worker_tick B)"
  unfolding ticket_timeout_tick_def cancel_expired_def Let_def claim_idle_worker_tick_def release_idle_def cancel_long_def
    cashier_idle_worker_tick_def
  by (rule lawful_intros | rule stmt_intros)+

lemma stored_reach:
  assumes "bot_call c" and "bot_reach (be_pg B) d0 (wd_db w)"
  shows "bot_reach (be_pg B) d0 (wd_db (snd (stored_call B c w)))"
  using assms by (auto simp: stored_call_def sql_def split: sum.splits intro: bot_reach.step)

lemma react_reach:
  assumes "bot_reach (be_pg B) d0 (wd_db w)" and "\<And>c. e = Stored_call c \<Longrightarrow> bot_call c"
  shows "bot_reach (be_pg B) d0 (wd_db (snd (react B e w)))"
proof -
  have quiet: "bot_reach (be_pg B) d0 (wd_db (snd (m w)))" if "lawful B 0 m" for m :: "unit cmd"
    using that assms(1) by (metis keeps_reach_def lawfulE prod.collapse)
  show ?thesis
    by (cases e) (use assms handle_reach stored_reach in
      \<open>auto intro!: quiet lawful_safe_tick lawful_ticks lawful_welcome lawful_sql stmt_verifier\<close>)
qed

lemma run_system_reach:
  "of_programs es \<Longrightarrow> bot_reach (be_pg B) d0 (wd_db w) \<Longrightarrow> bot_reach (be_pg B) d0 (wd_db (run_system B es w))"
proof (induction B es w rule: run_system.induct)
  case (2 B e es w)
  then have "bot_reach (be_pg B) d0 (wd_db (snd (react B e w)))"
    by (intro react_reach) (auto simp: of_programs_def)
  with 2 show ?case by (simp add: of_programs_def)
qed simp

section \<open>Ticks with posts refine the ticks on the database\<close>

text \<open>The same value or the same exception, and the same database.\<close>

definition agrees :: "(cmd_error + 'a) \<times> world \<Rightarrow> 'a py \<Rightarrow> bool" where
  "agrees m p \<longleftrightarrow> wd_db (snd m) = snd p
     \<and> (case fst m of Inr x \<Rightarrow> fst p = Inr x | Inl e \<Rightarrow> \<exists>e'. e = Database e' \<and> fst p = Inl e')"

lemma agrees_moved:
  assumes "harmless report"
  shows "agrees (moved B f report w) (swallow (f ((be_pg B)\<lparr>now := be_clock B (wd_step w)\<rparr>) (wd_db w)))"
proof -
  have reported: "\<exists>w2. seqC report (ret True) w1 = (Inr True, w2) \<and> wd_db w2 = wd_db w1" for w1
  proof -
    obtain w2 where "report w1 = (Inr (), w2)" "wd_db w2 = wd_db w1" using assms unfolding harmless_def by blast
    then show ?thesis by (simp add: seqC_def bindC_def ret_def)
  qed
  obtain r d where f: "f ((be_pg B)\<lparr>now := be_clock B (wd_step w)\<rparr>) (wd_db w) = (r, d)" by fastforce
  show ?thesis
  proof (cases r)
    case (Inl e)
    with f show ?thesis
      by (cases e) (auto simp: agrees_def moved_def try_balance_def sql_def swallow_def ret_def)
  next
    case (Inr x)
    obtain w2 where "seqC report (ret True) (w\<lparr>wd_db := d, wd_step := Suc (wd_step w)\<rparr>) = (Inr True, w2)" "wd_db w2 = d"
      using reported [of "w\<lparr>wd_db := d, wd_step := Suc (wd_step w)\<rparr>"] by auto
    with f Inr show ?thesis by (auto simp: agrees_def moved_def try_balance_def sql_def swallow_def)
  qed
qed

text \<open>Time does not run backwards between the steps of a command.\<close>

definition advances :: "'a cmd \<Rightarrow> bool" where
  "advances m \<longleftrightarrow> (\<forall>w. wd_step w \<le> wd_step (snd (m w)))"

named_theorems advances_intros \<open>commands that count their steps\<close>

lemma advances_basic [advances_intros]:
  "advances (ret x)" "advances (throw e)" "advances (query f)" "advances (utcnow B)" "advances (request B r)" "advances (sql B g)"
  by (auto simp: advances_def ret_def throw_def query_def utcnow_def request_def sql_def split: answer.split prod.split sum.split)

lemma advances_bind [advances_intros]: "advances m \<Longrightarrow> (\<And>x. advances (f x)) \<Longrightarrow> advances (bindC m f)"
  by (auto simp: advances_def bindC_def split: prod.split sum.split) (metis order_trans snd_conv)+

lemma advances_seq [advances_intros]: "advances m \<Longrightarrow> advances m' \<Longrightarrow> advances (seqC m m')"
  unfolding seqC_def by (rule advances_bind)

lemma advances_try [advances_intros]:
  "advances m \<Longrightarrow> (\<And>e. advances (h e)) \<Longrightarrow> advances (try_any m h)"
  "advances m \<Longrightarrow> (\<And>c t. advances (k c t)) \<Longrightarrow> (\<And>x. advances (f x)) \<Longrightarrow> advances (try_balance m k f)"
  by (auto simp: advances_def try_any_def try_balance_def split: prod.split sum.split cmd_error.split py_error.split)
    (metis order_trans snd_conv)+

lemma advances_choice [advances_intros]:
  "advances m \<Longrightarrow> advances m' \<Longrightarrow> advances (if c then m else m')"
  "advances m \<Longrightarrow> (\<And>y. advances (f y)) \<Longrightarrow> advances (case x of None \<Rightarrow> m | Some y \<Rightarrow> f y)"
  "(\<And>y. advances (f y)) \<Longrightarrow> (\<And>y. advances (g y)) \<Longrightarrow> advances (case s of Inl y \<Rightarrow> f y | Inr y \<Rightarrow> g y)"
  "(\<And>a b. advances (p a b)) \<Longrightarrow> advances (case q of (a, b) \<Rightarrow> p a b)"
  by (simp_all split: option.split sum.split prod.split)

lemma advances_posts [advances_intros]:
  "advances (audit_ticket_cancelled B kind uid am reason)" "advances (post_cashier_alert B uid ty region faction n ch)"
  unfolding audit_ticket_cancelled_def post_audit_event_def post_cashier_alert_def attempt_def send_def
    resolve_channel_id_def role_mention_def resolve_role_id_def
  by (rule advances_intros)+

lemma advances_moved [advances_intros]: "advances report \<Longrightarrow> advances (moved B f report)"
  unfolding moved_def by (intro advances_intros)

text \<open>A loop over commands that agree, row by row, with the body of a loop on the database.\<close>

lemma for_each_counts:
  assumes "\<And>r w. agrees (f r w) (g (be_clock B (wd_step w)) r (wd_db w))" and "\<And>r. advances (f r)"
  shows "\<exists>ts. (\<forall>k. \<exists>s \<ge> wd_step w. ts k = be_clock B s) \<and> wd_step w \<le> wd_step (snd (for_each f rows w))
    \<and> (\<forall>ts'. (\<forall>k. n \<le> k \<and> k < n + length rows \<longrightarrow> ts' k = ts k) \<longrightarrow>
        (case for_each f rows w of
           (Inr bs, w1) \<Rightarrow> count_rows (\<lambda>m. g (ts' m)) rows n cnt (wd_db w) = (Inr (cnt + counted bs, n + length rows), wd_db w1)
         | (Inl e, w1) \<Rightarrow> \<exists>e'. e = Database e' \<and> count_rows (\<lambda>m. g (ts' m)) rows n cnt (wd_db w) = (Inl e', wd_db w1)))"
proof (induction rows arbitrary: w n cnt)
  case Nil
  show ?case by (rule exI [of _ "\<lambda>_. be_clock B (wd_step w)"]) (auto simp: ret_def counted_def)
next
  case (Cons r rows)
  let ?t = "be_clock B (wd_step w)"
  obtain b w1 where run: "f r w = (b, w1)" by fastforce
  have step: "wd_step w \<le> wd_step w1" using assms(2) [of r] run unfolding advances_def by (metis snd_conv)
  have agree: "agrees (b, w1) (g ?t r (wd_db w))" using assms(1) [of r w] run by simp
  show ?case
  proof (cases b)
    case (Inl e)
    with agree run step show ?thesis
      by (intro exI [of _ "\<lambda>_. ?t"]) (auto simp: bindC_def agrees_def split: prod.splits)
  next
    case (Inr x)
    with agree have g: "g ?t r (wd_db w) = (Inr x, wd_db w1)" by (auto simp: agrees_def prod_eq_iff)
    obtain ts where ts: "\<forall>k. \<exists>s \<ge> wd_step w1. ts k = be_clock B s" "wd_step w1 \<le> wd_step (snd (for_each f rows w1))"
      and rest: "\<And>ts'. (\<forall>k. Suc n \<le> k \<and> k < Suc n + length rows \<longrightarrow> ts' k = ts k) \<Longrightarrow>
        (case for_each f rows w1 of
           (Inr bs, w2) \<Rightarrow> count_rows (\<lambda>m. g (ts' m)) rows (Suc n) (if x then cnt + 1 else cnt) (wd_db w1)
              = (Inr ((if x then cnt + 1 else cnt) + counted bs, Suc n + length rows), wd_db w2)
         | (Inl e, w2) \<Rightarrow> \<exists>e'. e = Database e' \<and>
              count_rows (\<lambda>m. g (ts' m)) rows (Suc n) (if x then cnt + 1 else cnt) (wd_db w1) = (Inl e', wd_db w2))"
      using Cons.IH [of w1 "Suc n" "if x then cnt + 1 else cnt"] by blast
    show ?thesis
    proof (intro exI [of _ "ts(n := ?t)"] conjI allI impI)
      show "\<exists>s \<ge> wd_step w. (ts(n := ?t)) k = be_clock B s" for k
        using ts(1) step by (metis fun_upd_apply order_refl order_trans)
      show "wd_step w \<le> wd_step (snd (for_each f (r # rows) w))"
        using run Inr step ts(2) by (auto simp: bindC_def ret_def split: prod.splits sum.splits)
      fix ts' assume same: "\<forall>k. n \<le> k \<and> k < n + length (r # rows) \<longrightarrow> ts' k = (ts(n := ?t)) k"
      then have now: "ts' n = ?t" and "\<forall>k. Suc n \<le> k \<and> k < Suc n + length rows \<longrightarrow> ts' k = ts k"
        by (auto dest: spec [of _ n])
      note later = rest [OF this(2)]
      obtain y w2 where next_run: "for_each f rows w1 = (y, w2)" by fastforce
      show "case for_each f (r # rows) w of
           (Inr bs, w1) \<Rightarrow> count_rows (\<lambda>m. g (ts' m)) (r # rows) n cnt (wd_db w) = (Inr (cnt + counted bs, n + length (r # rows)), wd_db w1)
         | (Inl e, w1) \<Rightarrow> \<exists>e'. e = Database e' \<and> count_rows (\<lambda>m. g (ts' m)) (r # rows) n cnt (wd_db w) = (Inl e', wd_db w1)"
        using later run Inr g now next_run by (cases y) (auto simp: bindC_def ret_def counted_def)
    qed
  qed
qed

lemma agrees_expired:
  "agrees (cancel_expired B kind r w)
    (timeout_cancel_one ((be_pg B)\<lparr>now := be_clock B (wd_step w)\<rparr>) kind (t_ticket_uid r) (t_status r) (wd_db w))"
  unfolding cancel_expired_def timeout_cancel_one_def Let_def audit_post_defs
  by (auto intro!: agrees_moved harmless_intros)

lemma agrees_release:
  "agrees (release_idle B (ty, r) w)
    (release_one ((be_pg B)\<lparr>now := be_clock B (wd_step w)\<rparr>) (ty, t_ticket_uid r, t_claimed_by r) (wd_db w))"
proof (cases "t_claimed_by r")
  case None
  then show ?thesis by (simp add: release_idle_def release_one_def agrees_def ret_def)
next
  case (Some c)
  show ?thesis
    unfolding release_idle_def release_one_def prod.case Some option.case
    by (rule agrees_moved) (auto intro!: harmless_intros simp: valid_region_def valid_faction_def)
qed

lemma agrees_long:
  "agrees (cancel_long B (ty, r) w)
    (idle_cancel_one ((be_pg B)\<lparr>now := be_clock B (wd_step w)\<rparr>) (ty, t_ticket_uid r) (wd_db w))"
  unfolding cancel_long_def idle_cancel_one_def prod.case
  by (auto intro!: agrees_moved harmless_intros)

lemma advances_rows [advances_intros]:
  "advances (cancel_expired B kind r)" "advances (release_idle B row)" "advances (cancel_long B row)"
  unfolding cancel_expired_def Let_def release_idle_def cancel_long_def by (rule advances_intros)+

text \<open>Two selections, each followed by a loop: the shape of a tick.\<close>

lemma select_run: "select_at B f w = (Inr (f (be_clock B (wd_step w)) (wd_db w)), w\<lparr>wd_step := Suc (wd_step w)\<rparr>)"
  by (simp add: select_at_def sql_def)

lemma two_loops:
  assumes f: "\<And>r w. agrees (f r w) (g (be_clock B (wd_step w)) r (wd_db w))" "\<And>r. advances (f r)"
    and f': "\<And>r w. agrees (f' r w) (g' (be_clock B (wd_step w)) r (wd_db w))" "\<And>r. advances (f' r)"
  shows "\<exists>ts. ts 0 = be_clock B (wd_step w) \<and> (\<forall>k. \<exists>s \<ge> wd_step w. ts k = be_clock B s)
    \<and> agrees (bindC (select_at B rows) (\<lambda>xs. bindC (for_each f xs) (\<lambda>as.
        bindC (select_at B rows') (\<lambda>ys. bindC (for_each f' ys) (\<lambda>bs. ret (counted as, counted bs))))) w)
      (case count_rows (\<lambda>m. g (ts m)) (rows (ts 0) (wd_db w)) 1 0 (wd_db w) of
         (Inl e, d1) \<Rightarrow> (Inl e, d1)
       | (Inr (a, n), d1) \<Rightarrow>
           (case count_rows (\<lambda>m. g' (ts m)) (rows' (ts n) d1) (n + 1) 0 d1 of
              (Inl e, d2) \<Rightarrow> (Inl e, d2)
            | (Inr (b, _), d2) \<Rightarrow> (Inr (a, b), d2)))"
proof -
  let ?c = "be_clock B (wd_step w)" and ?w1 = "w\<lparr>wd_step := Suc (wd_step w)\<rparr>"
  let ?xs = "rows ?c (wd_db w)"
  obtain ts1 where t1: "\<forall>k. \<exists>s \<ge> wd_step ?w1. ts1 k = be_clock B s" "wd_step ?w1 \<le> wd_step (snd (for_each f ?xs ?w1))"
    and one: "\<And>ts'. (\<forall>k. 1 \<le> k \<and> k < 1 + length ?xs \<longrightarrow> ts' k = ts1 k) \<Longrightarrow>
        (case for_each f ?xs ?w1 of
           (Inr bs, w2) \<Rightarrow> count_rows (\<lambda>m. g (ts' m)) ?xs 1 0 (wd_db ?w1) = (Inr (0 + counted bs, 1 + length ?xs), wd_db w2)
         | (Inl e, w2) \<Rightarrow> \<exists>e'. e = Database e' \<and> count_rows (\<lambda>m. g (ts' m)) ?xs 1 0 (wd_db ?w1) = (Inl e', wd_db w2))"
    using for_each_counts [of f g B, OF f, of ?w1 ?xs 1 0] by blast
  obtain y w2 where run1: "for_each f ?xs ?w1 = (y, w2)" by fastforce
  have later: "wd_step w \<le> wd_step w2" using t1(2) run1 by simp
  have c1: "\<exists>s \<ge> wd_step w. ts1 k = be_clock B s" for k using spec [OF t1(1), of k] by (auto intro: Suc_leD)
  show ?thesis
  proof (cases y)
    case (Inl e)
    let ?ts = "ts1(0 := ?c)"
    have "\<forall>k. \<exists>s \<ge> wd_step w. ?ts k = be_clock B s"
      using c1 by auto
    then show ?thesis using one [of ?ts] run1 Inl by (intro exI [of _ ?ts]) (auto simp: bindC_def select_run agrees_def)
  next
    case (Inr as)
    let ?n = "1 + length ?xs" and ?w3 = "w2\<lparr>wd_step := Suc (wd_step w2)\<rparr>" and ?c2 = "be_clock B (wd_step w2)"
    let ?ys = "rows' ?c2 (wd_db w2)"
    obtain ts3 where t3: "\<forall>k. \<exists>s \<ge> wd_step ?w3. ts3 k = be_clock B s"
      and two: "\<And>ts'. (\<forall>k. ?n + 1 \<le> k \<and> k < ?n + 1 + length ?ys \<longrightarrow> ts' k = ts3 k) \<Longrightarrow>
        (case for_each f' ?ys ?w3 of
           (Inr bs, w4) \<Rightarrow> count_rows (\<lambda>m. g' (ts' m)) ?ys (?n + 1) 0 (wd_db ?w3) = (Inr (0 + counted bs, ?n + 1 + length ?ys), wd_db w4)
         | (Inl e, w4) \<Rightarrow> \<exists>e'. e = Database e' \<and> count_rows (\<lambda>m. g' (ts' m)) ?ys (?n + 1) 0 (wd_db ?w3) = (Inl e', wd_db w4))"
      using for_each_counts [of f' g' B, OF f', of ?w3 ?ys "?n + 1" 0] by blast
    define ts where "ts = (\<lambda>k. if k = 0 then ?c else if k < ?n then ts1 k else if k = ?n then ?c2 else ts3 k)"
    have at: "ts 0 = ?c" "ts ?n = ?c2" by (simp_all add: ts_def)
    have "\<forall>k. 1 \<le> k \<and> k < 1 + length ?xs \<longrightarrow> ts k = ts1 k" by (simp add: ts_def)
    from one [OF this] have loop1: "count_rows (\<lambda>m. g (ts m)) ?xs 1 0 (wd_db w) = (Inr (counted as, ?n), wd_db w2)"
      using run1 Inr by simp
    obtain z w4 where run2: "for_each f' ?ys ?w3 = (z, w4)" by fastforce
    have "\<forall>k. ?n + 1 \<le> k \<and> k < ?n + 1 + length ?ys \<longrightarrow> ts k = ts3 k" by (simp add: ts_def)
    from two [OF this] have loop2: "case z of
           Inr bs \<Rightarrow> count_rows (\<lambda>m. g' (ts m)) ?ys (?n + 1) 0 (wd_db w2) = (Inr (counted bs, ?n + 1 + length ?ys), wd_db w4)
         | Inl e \<Rightarrow> \<exists>e'. e = Database e' \<and> count_rows (\<lambda>m. g' (ts m)) ?ys (?n + 1) 0 (wd_db w2) = (Inl e', wd_db w4)"
      unfolding run2 by (simp split: sum.splits)
    have c3: "\<exists>s \<ge> wd_step w. ts3 k = be_clock B s" for k
      using spec [OF t3, of k] later by (auto intro: Suc_leD order_trans)
    have clock: "\<exists>s \<ge> wd_step w. ts k = be_clock B s" for k
      using c1 c3 later unfolding ts_def by auto
    show ?thesis
      by (rule exI [of _ ts], cases z)
        (use at clock run1 Inr run2 loop1 loop2 in \<open>auto simp: bindC_def select_run agrees_def ret_def\<close>)
  qed
qed

text \<open>The ticks of both workers have that shape.\<close>

lemma bindC_assoc: "bindC (bindC m f) g = bindC m (\<lambda>x. bindC (f x) g)"
  by (rule ext) (simp add: bindC_def split: prod.split sum.split)

lemma bindC_ret [simp]: "bindC (ret x) f = f x"
  by (rule ext) (simp add: bindC_def ret_def)

lemma agrees_map:
  "agrees (m w) p \<Longrightarrow>
    agrees (bindC m (\<lambda>x. ret (h x)) w) (case p of (Inl e, d) \<Rightarrow> (Inl e, d) | (Inr x, d) \<Rightarrow> (Inr (h x), d))"
  by (auto simp: agrees_def bindC_def ret_def split: prod.splits sum.splits)

lemma count_rows_shift:
  "count_rows f rows n (a + b) d =
    (case count_rows f rows n b d of (Inl e, d') \<Rightarrow> (Inl e, d') | (Inr (c, m), d') \<Rightarrow> (Inr (a + c, m), d'))"
proof (induction f rows n b d rule: count_rows.induct)
  case (2 f row rows n cnt d)
  then show ?case by (auto split: prod.split sum.split simp: add.assoc)
qed simp

lemma timeout_tick_sums:
  "timeout_tick E ts d =
    (case (case count_rows (\<lambda>n r. timeout_cancel_one (E\<lparr>now := ts n\<rparr>) ''deposit'' (t_ticket_uid r) (t_status r))
             (expired_rows (ts 0) (deposit_tickets d)) 1 0 d of
         (Inl e, d1) \<Rightarrow> (Inl e, d1)
       | (Inr (a, n), d1) \<Rightarrow>
           (case count_rows (\<lambda>n r. timeout_cancel_one (E\<lparr>now := ts n\<rparr>) ''withdraw'' (t_ticket_uid r) (t_status r))
                   (expired_rows (ts n) (withdraw_tickets d1)) (n + 1) 0 d1 of
              (Inl e, d2) \<Rightarrow> (Inl e, d2)
            | (Inr (b, _), d2) \<Rightarrow> (Inr (a, b), d2))) of
       (Inl e, d') \<Rightarrow> (Inl e, d')
     | (Inr x, d') \<Rightarrow> (Inr (fst x + snd x), d'))"
proof -
  obtain r1 d1 where one: "count_rows (\<lambda>n r. timeout_cancel_one (E\<lparr>now := ts n\<rparr>) ''deposit'' (t_ticket_uid r) (t_status r))
      (expired_rows (ts 0) (deposit_tickets d)) 1 0 d = (r1, d1)" by fastforce
  show ?thesis
  proof (cases r1)
    case (Inr p)
    obtain a n where "p = (a, n)" by fastforce
    with one Inr show ?thesis
      by (simp add: timeout_tick_def count_rows_shift [where a = a and b = 0, simplified] split: prod.split sum.split)
  qed (use one in \<open>simp add: timeout_tick_def\<close>)
qed

lemma timeout_refines:
  "\<exists>ts. ts 0 = be_clock B (wd_step w) \<and> (\<forall>k. \<exists>s \<ge> wd_step w. ts k = be_clock B s)
    \<and> agrees (ticket_timeout_tick B w) (timeout_tick (be_pg B) ts (wd_db w))"
proof -
  let ?g = "\<lambda>kind t r. timeout_cancel_one ((be_pg B)\<lparr>now := t\<rparr>) kind (t_ticket_uid r) (t_status r)"
  let ?run = "bindC (select_at B (\<lambda>t d. expired_rows t (deposit_tickets d))) (\<lambda>xs.
    bindC (for_each (cancel_expired B ''deposit'') xs) (\<lambda>as.
    bindC (select_at B (\<lambda>t d. expired_rows t (withdraw_tickets d))) (\<lambda>ys.
    bindC (for_each (cancel_expired B ''withdraw'') ys) (\<lambda>bs. ret (counted as, counted bs)))))"
  have tick: "ticket_timeout_tick B = bindC ?run (\<lambda>x. ret (fst x + snd x))"
    by (simp add: ticket_timeout_tick_def bindC_assoc)
  from two_loops [of "cancel_expired B ''deposit''" "?g ''deposit''" B "cancel_expired B ''withdraw''" "?g ''withdraw''",
      OF agrees_expired advances_rows(1) agrees_expired advances_rows(1)]
  obtain ts where ts: "ts 0 = be_clock B (wd_step w)" "\<forall>k. \<exists>s \<ge> wd_step w. ts k = be_clock B s"
    and "agrees (?run w)
      (case count_rows (\<lambda>m. ?g ''deposit'' (ts m)) (expired_rows (ts 0) (deposit_tickets (wd_db w))) 1 0 (wd_db w) of
         (Inl e, d1) \<Rightarrow> (Inl e, d1)
       | (Inr (a, n), d1) \<Rightarrow>
           (case count_rows (\<lambda>m. ?g ''withdraw'' (ts m)) (expired_rows (ts n) (withdraw_tickets d1)) (n + 1) 0 d1 of
              (Inl e, d2) \<Rightarrow> (Inl e, d2)
            | (Inr (b, _), d2) \<Rightarrow> (Inr (a, b), d2)))" by blast
  from agrees_map [where m = "?run" and w = w and h = "\<lambda>x. fst x + snd x", OF this(3)]
  have "agrees (ticket_timeout_tick B w) (timeout_tick (be_pg B) ts (wd_db w))"
    unfolding tick by (rule arg_cong [where f = "agrees _", THEN iffD1, rotated]) (simp only: timeout_tick_sums split: prod.split)
  with ts show ?thesis by blast
qed

lemma idle_claims_where: "idle_claims t d = map (\<lambda>(ty, r). (ty, t_ticket_uid r, t_claimed_by r)) (claims_where (idle_claim t) d)"
  by (simp add: idle_claims_def claims_where_def idle_claim_def [abs_def] ticket.defs o_def)

lemma long_claims_where: "long_claims t d = map (\<lambda>(ty, r). (ty, t_ticket_uid r)) (claims_where (long_claim t) d)"
  by (simp add: long_claims_def claims_where_def long_claim_def [abs_def] ticket.defs o_def)

lemma claim_idle_refines:
  "\<exists>ts. ts 0 = be_clock B (wd_step w) \<and> (\<forall>k. \<exists>s \<ge> wd_step w. ts k = be_clock B s)
    \<and> agrees (claim_idle_worker_tick B w) (claim_idle_tick (be_pg B) ts (wd_db w))"
proof -
  let ?g = "\<lambda>t row. release_one ((be_pg B)\<lparr>now := t\<rparr>) (case row of (ty, r) \<Rightarrow> (ty, t_ticket_uid r, t_claimed_by r))"
  let ?g' = "\<lambda>t row. idle_cancel_one ((be_pg B)\<lparr>now := t\<rparr>) (case row of (ty, r) \<Rightarrow> (ty, t_ticket_uid r))"
  let ?run = "bindC (select_at B (\<lambda>t. claims_where (idle_claim t))) (\<lambda>xs. bindC (for_each (release_idle B) xs) (\<lambda>as.
    bindC (select_at B (\<lambda>t. claims_where (long_claim t))) (\<lambda>ys. bindC (for_each (cancel_long B) ys) (\<lambda>bs.
    ret (counted as, counted bs)))))"
  have tick: "claim_idle_worker_tick B = bindC ?run (\<lambda>x. ret \<lparr>tk_released = fst x, tk_cancelled = snd x\<rparr>)"
    by (simp add: claim_idle_worker_tick_def bindC_assoc)
  have rows: "agrees (release_idle B row v) (?g (be_clock B (wd_step v)) row (wd_db v))"
    "agrees (cancel_long B row v) (?g' (be_clock B (wd_step v)) row (wd_db v))" for row v
    using agrees_release agrees_long by (cases row; simp)+
  from two_loops [of "release_idle B" ?g B "cancel_long B" ?g', OF rows(1) advances_rows(2) rows(2) advances_rows(3)]
  obtain ts where ts: "ts 0 = be_clock B (wd_step w)" "\<forall>k. \<exists>s \<ge> wd_step w. ts k = be_clock B s"
    and "agrees (?run w)
      (case count_rows (\<lambda>m. ?g (ts m)) (claims_where (idle_claim (ts 0)) (wd_db w)) 1 0 (wd_db w) of
         (Inl e, d1) \<Rightarrow> (Inl e, d1)
       | (Inr (a, n), d1) \<Rightarrow>
           (case count_rows (\<lambda>m. ?g' (ts m)) (claims_where (long_claim (ts n)) d1) (n + 1) 0 d1 of
              (Inl e, d2) \<Rightarrow> (Inl e, d2)
            | (Inr (b, _), d2) \<Rightarrow> (Inr (a, b), d2)))" by blast
  from agrees_map [where m = "?run" and w = w and h = "\<lambda>x. \<lparr>tk_released = fst x, tk_cancelled = snd x\<rparr>", OF this(3)]
  have "agrees (claim_idle_worker_tick B w) (claim_idle_tick (be_pg B) ts (wd_db w))"
    unfolding tick claim_idle_tick_def idle_claims_where long_claims_where count_rows_map
    by (rule arg_cong [where f = "agrees _", THEN iffD1, rotated]) (auto split: prod.split sum.split)
  with ts show ?thesis by blast
qed

section \<open>The system keeps the books\<close>

text \<open>C3: Nothing the programs do breaks the books. Whatever players, cashiers and administrators send, in any
  order, with ticks of the workers, reconnects and calls of the other bot in between, with any answers
  of Discord and with exceptions at any point, the database keeps every invariant of the economy:
  the gold held is the gold deposited less the gold delivered and swept, the locks are exactly those
  of unfinished tickets and open bets, and no account is negative.\<close>

theorem system_keeps_books:
  assumes "bot_reach (be_pg B) (initial_db t0) (wd_db w)" and "of_programs es"
  shows "total_gold (wd_db (run_system B es w)) =
      deposited (wd_db (run_system B es w)) - delivered (wd_db (run_system B es w)) - swept (wd_db (run_system B es w))
    \<and> held_of u (wd_db (run_system B es w)) =
      ticket_locks u (wd_db (run_system B es w)) + bet_locks u (wd_db (run_system B es w))
    \<and> 0 \<le> avail_of u (wd_db (run_system B es w)) \<and> 0 \<le> held_of u (wd_db (run_system B es w))"
proof -
  have "ledger_inv (be_pg B) (wd_db (run_system B es w))"
    using bot_reach_reach [OF run_system_reach [OF assms(2,1)]] by (rule reach_ledger)
  then show ?thesis using ledger_conserves ledger_locks ledger_nonneg by blast
qed

text \<open>An administrator changes the fee, a worker ticks, a player submits a deposit form, the other bot places
  a bet, a player cancels in a thread, and the bot reconnects.\<close>

definition demo_events :: "system_event list" where
  "demo_events = [Interaction (demo_user 1 Text_channel 5) (Fee_event 300), Timeout_tick,
     Interaction (demo_user 7 Text_channel 12) (Deposit_form demo_raw),
     Stored_call (Apply_bet 7 ''mines'' 1 1000 JNull [] ''c'' 1 ''k2'' ''b2''),
     Interaction (demo_user 8 Thread_channel 13) (Cancel_event ''x''), Ready_event]"

lemma demo_programs: "of_programs demo_events"
  by (simp add: of_programs_def demo_events_def)

theorem system_keeps_books_witness:
  "total_gold (wd_db (run_system demo_bot demo_events (demo_world demo_db)))
      = deposited (wd_db (run_system demo_bot demo_events (demo_world demo_db)))
        - delivered (wd_db (run_system demo_bot demo_events (demo_world demo_db)))
        - swept (wd_db (run_system demo_bot demo_events (demo_world demo_db)))
    \<and> 0 \<le> avail_of 7 (wd_db (run_system demo_bot demo_events (demo_world demo_db)))"
  using system_keeps_books [of demo_bot 0 "demo_world demo_db" demo_events 7] demo_bot_reach demo_programs by simp

text \<open>C8: The settings stay sane. Whatever the programs do, the four limits of deposits and withdraws are set
  and positive and the fee stays between 0 and 10000 basis points, so the fee of a withdraw opened
  afterwards is at least zero and at most its amount, and a missing configuration is never the reason
  that opening a ticket fails.\<close>

theorem system_settings_sane:
  assumes "bot_reach (be_pg B) (initial_db t0) (wd_db w)" and "of_programs es"
  shows "settings_ok (wd_db (run_system B es w))
    \<and> (create_withdraw_ticket E u chr rl rg fc n th pc (wd_db (run_system B es w)) = Inr (uid, d') \<longrightarrow>
        (\<exists>t. select_withdraw uid d' = Some t \<and> t_amount t = n \<and> 0 \<le> w_fee t \<and> w_fee t \<le> n))
    \<and> create_deposit_ticket E u chr rl rg fc n th pc (wd_db (run_system B es w)) \<noteq> Inl (Raised Config_missing_deposit)
    \<and> create_withdraw_ticket E u chr rl rg fc n th pc (wd_db (run_system B es w)) \<noteq> Inl (Raised Config_missing_withdraw)"
proof -
  have "settings_ok (wd_db (run_system B es w))"
    using settings.kept [OF run_system_reach [OF assms(2,1)] settings_ok_initial] .
  then show ?thesis by (auto simp: config_present intro: fee_within)
qed

theorem system_settings_sane_witness:
  "settings_ok (wd_db (run_system demo_bot demo_events (demo_world demo_db)))"
  using system_settings_sane [of demo_bot 0 "demo_world demo_db" demo_events] demo_bot_reach demo_programs by simp

section \<open>What the workers achieve\<close>

text \<open>C31: The timeout worker leaves no expired ticket behind, whatever Discord answers to its posts. In every
  reachable database with a configured chain key and a clock that does not run backwards, a tick
  ends with the number of tickets it cancelled, and then no ticket is unfinished that had expired
  when the tick started; or it stops because a 64-bit column has no room for a refund. No exception
  of the stored functions, no missing row, no failed post and no check stops it.\<close>

theorem timeout_worker_clears:
  assumes "reach (be_pg B) (initial_db t0) (wd_db w)" and "chain_key e (be_pg B) = Inr k" and "mono (be_clock B)"
    and "ticket_timeout_tick B w = (r, w')"
  shows "r = Inl (Database (Engine Numeric_out_of_range))
    \<or> (\<exists>s \<ge> wd_step w. r = Inr (int (length (expired_rows (be_clock B (wd_step w)) (deposit_tickets (wd_db w))))
            + int (length (expired_rows (be_clock B s) (withdraw_tickets (wd_db w))))))
      \<and> (\<forall>t \<in> set (deposit_tickets (wd_db w')). unfinished t \<longrightarrow> be_clock B (wd_step w) \<le> t_expires_at t)
      \<and> (\<forall>t \<in> set (withdraw_tickets (wd_db w')). unfinished t \<longrightarrow> be_clock B (wd_step w) \<le> t_expires_at t)"
proof -
  obtain ts where ts: "ts 0 = be_clock B (wd_step w)" "\<forall>k. \<exists>s \<ge> wd_step w. ts k = be_clock B s"
    and agree: "agrees (r, w') (timeout_tick (be_pg B) ts (wd_db w))"
    using timeout_refines [of B w] assms(4) by metis
  have "ts 0 \<le> ts n" for n using ts monoD [OF assms(3)] by metis
  from timeout_tick_clears [where ts = ts, OF assms(1,2) this] agree ts show ?thesis
    by (auto simp: agrees_def split: sum.splits) metis+
qed

text \<open>The example run, long after its withdraw ticket has expired.\<close>

definition late_bot :: bot_env where
  "late_bot = demo_bot\<lparr>be_clock := (\<lambda>_. 10 ^ 15)\<rparr>"

lemma late_bot_simps [simp]: "be_pg late_bot = demo_env" "be_clock late_bot n = 10 ^ 15"
  by (simp_all add: late_bot_def)

theorem timeout_worker_clears_witness:
  "\<exists>w'. ticket_timeout_tick late_bot (demo_world demo_db) = (Inr 1, w')
    \<and> \<not> list_ex (\<lambda>t. unfinished t \<and> t_expires_at t < 10 ^ 15) (withdraw_tickets (wd_db w'))"
proof -
  obtain r w' where run: "ticket_timeout_tick late_bot (demo_world demo_db) = (r, w')" by fastforce
  obtain ts :: "nat \<Rightarrow> int" where ts: "\<forall>k. \<exists>s::nat \<ge> 0. ts k = 10 ^ 15" and agree: "agrees (r, w') (timeout_tick demo_env ts demo_db)"
    using timeout_refines [of late_bot "demo_world demo_db"] run by auto
  from ts have "ts = (\<lambda>_. 10 ^ 15)" by auto
  with agree have "r = Inr 1" using demo_timeout by (auto simp: agrees_def split: sum.splits)
  with timeout_worker_clears [OF _ _ _ run, of 0 Audit_chain_key_not_configured "[10, 11]"] run demo_reach demo_key
  show ?thesis by (auto simp: monoI list_ex_iff)
qed

text \<open>C32: The claim-idle worker releases every idle claim and cancels nothing, whatever Discord answers to its
  alerts. In every reachable database with a configured chain key, a tick of at most 90 minutes
  hands every ticket whose claim has been idle for 30 minutes back to the queue, moves no gold, and
  finds no ticket for its two-hour cancellation: the last activity of a claimed ticket is the claim
  itself, so the 30-minute release always comes first, whether or not the cashier is active.\<close>

theorem claim_idle_worker_releases:
  assumes "reach (be_pg B) (initial_db t0) (wd_db w)" and "chain_key e (be_pg B) = Inr k"
    and "\<And>s. wd_step w \<le> s \<Longrightarrow> be_clock B s \<le> be_clock B (wd_step w) + minutes 90"
  shows "\<exists>w'. claim_idle_worker_tick B w
      = (Inr \<lparr>tk_released = int (length (idle_claims (be_clock B (wd_step w)) (wd_db w))), tk_cancelled = 0\<rparr>, w')
    \<and> idle_claims (be_clock B (wd_step w)) (wd_db w') = [] \<and> book_of (wd_db w') = book_of (wd_db w)"
proof -
  obtain r w' where run: "claim_idle_worker_tick B w = (r, w')" by fastforce
  obtain ts where ts: "ts 0 = be_clock B (wd_step w)" "\<forall>k. \<exists>s \<ge> wd_step w. ts k = be_clock B s"
    and agree: "agrees (r, w') (claim_idle_tick (be_pg B) ts (wd_db w))"
    using claim_idle_refines [of B w] run by metis
  have "ts n \<le> ts 0 + minutes 90" for n using ts assms(3) by metis
  from claim_idle_only_releases [where ts = ts, OF assms(1,2) this] agree ts(1) run show ?thesis
    by (auto simp: agrees_def split: sum.splits)
qed

definition idle_bot :: bot_env where
  "idle_bot = demo_bot\<lparr>be_clock := (\<lambda>_. 10 ^ 10)\<rparr>"

theorem claim_idle_worker_releases_witness:
  "\<exists>w'. claim_idle_worker_tick idle_bot (demo_world demo_db) = (Inr \<lparr>tk_released = 1, tk_cancelled = 0\<rparr>, w')
    \<and> idle_claims (10 ^ 10) (wd_db w') = [] \<and> book_of (wd_db w') = book_of demo_db"
  using claim_idle_worker_releases [of idle_bot 0 "demo_world demo_db" Audit_chain_key_not_configured "[10, 11]"]
    demo_reach demo_key demo_idle by (simp add: idle_bot_def minutes_def)

end
