(* ===== verification/Worker_Loop.thy ===== *)
theory Worker_Loop
  imports Prelude
begin

text \<open>
  The loop around the tick of a worker (\<^verbatim>\<open>workers/_periodic.py\<close>, and the updater of
  \<^verbatim>\<open>cashiers/live_updater.py\<close>, which has the same \<^verbatim>\<open>start\<close>, \<^verbatim>\<open>stop\<close> and \<^verbatim>\<open>_run\<close>). A loop is a task of
  the event loop: it moves between its awaits, so \<^verbatim>\<open>start\<close> and the two halves of \<^verbatim>\<open>stop\<close> interleave with
  its steps. The lemmas show that a worker never has two live loops and that \<^verbatim>\<open>stop\<close> leaves none, as
  long as no \<^verbatim>\<open>start\<close> falls between the halves of a \<^verbatim>\<open>stop\<close>, and what happens when one does.
\<close>

section \<open>The loop of a worker\<close>

text \<open>A task is in a tick, waits for the next one, was asked to cancel, or is done.\<close>

datatype task = Ticking | Waiting | Cancelling | Finished

text \<open>The tasks ever created, the one in \<^verbatim>\<open>_task\<close>, the stop event, and the tasks that calls of
  \<^verbatim>\<open>stop\<close> wait for.\<close>

record worker =
  wk_tasks :: "task list"
  wk_task :: "nat option"
  wk_stop_event :: bool
  wk_stoppers :: "nat list"

definition new_worker :: worker where
  "new_worker = \<lparr>wk_tasks = [], wk_task = None, wk_stop_event = False, wk_stoppers = []\<rparr>"

definition is_done :: "worker \<Rightarrow> nat \<Rightarrow> bool" where
  "is_done w i \<longleftrightarrow> wk_tasks w ! i = Finished"

definition start :: "worker \<Rightarrow> worker" where
  "start w =
     (case wk_task w of
        Some i \<Rightarrow> if \<not> is_done w i then w
                  else w\<lparr>wk_stop_event := False, wk_tasks := wk_tasks w @ [Ticking], wk_task := Some (length (wk_tasks w))\<rparr>
      | None \<Rightarrow> w\<lparr>wk_stop_event := False, wk_tasks := wk_tasks w @ [Ticking], wk_task := Some (length (wk_tasks w))\<rparr>)"

text \<open>\<^verbatim>\<open>stop\<close> up to its await, and after it.\<close>

definition stop_request :: "worker \<Rightarrow> worker" where
  "stop_request w =
     (case wk_task w of
        None \<Rightarrow> w
      | Some i \<Rightarrow> w\<lparr>wk_stop_event := True,
                    wk_tasks := (wk_tasks w)[i := if is_done w i then Finished else Cancelling],
                    wk_stoppers := i # wk_stoppers w\<rparr>)"

definition stop_return :: "nat \<Rightarrow> worker \<Rightarrow> worker" where
  "stop_return i w = w\<lparr>wk_task := None, wk_stoppers := remove1 i (wk_stoppers w)\<rparr>"

definition set_task :: "nat \<Rightarrow> task \<Rightarrow> worker \<Rightarrow> worker" where
  "set_task i t w = w\<lparr>wk_tasks := (wk_tasks w)[i := t]\<rparr>"

text \<open>\<^verbatim>\<open>_run\<close>: a tick ends, whatever its exceptions, with a look at the stop event; the wait ends by its
  timeout or by the event; a cancellation ends the task at its next await.\<close>

inductive loop_step :: "worker \<Rightarrow> worker \<Rightarrow> bool" where
  tick_ends: "i < length (wk_tasks w) \<Longrightarrow> wk_tasks w ! i = Ticking \<Longrightarrow>
    loop_step w (set_task i (if wk_stop_event w then Finished else Waiting) w)"
| time_out: "i < length (wk_tasks w) \<Longrightarrow> wk_tasks w ! i = Waiting \<Longrightarrow> loop_step w (set_task i Ticking w)"
| woken: "i < length (wk_tasks w) \<Longrightarrow> wk_tasks w ! i = Waiting \<Longrightarrow> wk_stop_event w \<Longrightarrow> loop_step w (set_task i Finished w)"
| cancelled: "i < length (wk_tasks w) \<Longrightarrow> wk_tasks w ! i = Cancelling \<Longrightarrow> loop_step w (set_task i Finished w)"

text \<open>The life of a worker. With \<open>orderly\<close> no \<^verbatim>\<open>start\<close> falls between the halves of a \<^verbatim>\<open>stop\<close>.\<close>

inductive worker_step :: "bool \<Rightarrow> worker \<Rightarrow> worker \<Rightarrow> bool" for orderly where
  run: "loop_step w w' \<Longrightarrow> worker_step orderly w w'"
| starts: "orderly \<longrightarrow> wk_stoppers w = [] \<Longrightarrow> worker_step orderly w (start w)"
| stops: "worker_step orderly w (stop_request w)"
| stopped: "i \<in> set (wk_stoppers w) \<Longrightarrow> is_done w i \<Longrightarrow> worker_step orderly w (stop_return i w)"

definition live :: "worker \<Rightarrow> nat set" where
  "live w = {i. i < length (wk_tasks w) \<and> wk_tasks w ! i \<noteq> Finished}"

section \<open>One loop at a time\<close>

text \<open>Only the task in \<^verbatim>\<open>_task\<close> is live, and calls of \<^verbatim>\<open>stop\<close> wait for it.\<close>

definition worker_ok :: "worker \<Rightarrow> bool" where
  "worker_ok w \<longleftrightarrow>
     (\<forall>i \<in> live w. wk_task w = Some i)
     \<and> (\<forall>i. wk_task w = Some i \<longrightarrow> i < length (wk_tasks w))
     \<and> (\<forall>i \<in> set (wk_stoppers w). i < length (wk_tasks w) \<and> wk_tasks w ! i \<in> {Cancelling, Finished}
          \<and> (wk_task w = Some i \<or> wk_task w = None))"

lemma set_task_simps [simp]:
  "wk_tasks (set_task i t w) = (wk_tasks w)[i := t]" "wk_task (set_task i t w) = wk_task w"
  "wk_stop_event (set_task i t w) = wk_stop_event w" "wk_stoppers (set_task i t w) = wk_stoppers w"
  by (simp_all add: set_task_def)

lemma live_task: "worker_ok w \<Longrightarrow> i \<in> live w \<Longrightarrow> wk_task w = Some i"
  by (simp add: worker_ok_def)

lemma task_in: "worker_ok w \<Longrightarrow> wk_task w = Some i \<Longrightarrow> i < length (wk_tasks w)"
  by (simp add: worker_ok_def)

lemma stopper_in:
  assumes "worker_ok w" and "i \<in> set (wk_stoppers w)"
  shows "i < length (wk_tasks w)" and "wk_tasks w ! i \<in> {Cancelling, Finished}" and "wk_task w \<in> {Some i, None}"
  using assms unfolding worker_ok_def by auto

lemma worker_okI:
  assumes "\<And>i. i \<in> live w \<Longrightarrow> wk_task w = Some i" and "\<And>i. wk_task w = Some i \<Longrightarrow> i < length (wk_tasks w)"
    and "\<And>i. i \<in> set (wk_stoppers w) \<Longrightarrow> i < length (wk_tasks w)"
    and "\<And>i. i \<in> set (wk_stoppers w) \<Longrightarrow> wk_tasks w ! i \<in> {Cancelling, Finished}"
    and "\<And>i. i \<in> set (wk_stoppers w) \<Longrightarrow> wk_task w \<in> {Some i, None}"
  shows "worker_ok w"
  using assms unfolding worker_ok_def by auto

lemma set_task_ok:
  assumes ok: "worker_ok w" and "i < length (wk_tasks w)" and "wk_tasks w ! i \<noteq> Finished"
    and "i \<in> set (wk_stoppers w) \<Longrightarrow> t \<in> {Cancelling, Finished}"
  shows "worker_ok (set_task i t w)"
proof (rule worker_okI)
  fix j
  show "j \<in> live (set_task i t w) \<Longrightarrow> wk_task (set_task i t w) = Some j"
    using live_task [OF ok, of j] assms(2,3) by (cases "j = i") (simp_all add: live_def)
  show "wk_task (set_task i t w) = Some j \<Longrightarrow> j < length (wk_tasks (set_task i t w))"
    using task_in [OF ok, of j] by simp
  assume j: "j \<in> set (wk_stoppers (set_task i t w))"
  then show "j < length (wk_tasks (set_task i t w))" and "wk_task (set_task i t w) \<in> {Some j, None}"
    using stopper_in [OF ok, of j] by simp_all
  show "wk_tasks (set_task i t w) ! j \<in> {Cancelling, Finished}"
    using j stopper_in(2) [OF ok, of j] assms(2,4) by (cases "j = i") simp_all
qed

lemma loop_step_ok: "loop_step w w' \<Longrightarrow> worker_ok w \<Longrightarrow> worker_ok w'"
  by (induction rule: loop_step.induct) (rule set_task_ok; fastforce dest: stopper_in(2))+

definition spawn :: "worker \<Rightarrow> worker" where
  "spawn w = w\<lparr>wk_stop_event := False, wk_tasks := wk_tasks w @ [Ticking], wk_task := Some (length (wk_tasks w))\<rparr>"

lemma start_cases:
  obtains (running) i where "wk_task w = Some i" "\<not> is_done w i" "start w = w"
  | (spawned) "\<And>i. wk_task w = Some i \<Longrightarrow> is_done w i" "start w = spawn w"
proof (cases "wk_task w")
  case None
  then show thesis by (intro that(2)) (simp_all add: start_def spawn_def)
next
  case (Some i)
  then show thesis
    using that by (cases "is_done w i") (simp_all add: start_def spawn_def)
qed

lemma live_spawn: "live (spawn w) = insert (length (wk_tasks w)) (live w)"
  by (auto simp: live_def spawn_def nth_append)

lemma no_live:
  assumes ok: "worker_ok w" and ended: "\<And>i. wk_task w = Some i \<Longrightarrow> is_done w i"
  shows "live w = {}"
proof (rule equals0I)
  fix i assume "i \<in> live w"
  with ended [OF live_task [OF ok]] show False by (auto simp: live_def is_done_def)
qed

lemma start_ok:
  assumes "worker_ok w" and "wk_stoppers w = []"
  shows "worker_ok (start w)"
proof (cases rule: start_cases [of w])
  case running
  with assms(1) show ?thesis by simp
next
  case spawned
  then have "live (spawn w) = {length (wk_tasks w)}" using no_live [OF assms(1)] by (simp add: live_spawn)
  then show ?thesis unfolding spawned(2) by (intro worker_okI) (simp_all add: spawn_def assms(2))
qed

lemma stop_request_Some:
  "wk_task w = Some i \<Longrightarrow> stop_request w = (set_task i (if is_done w i then Finished else Cancelling) w)
      \<lparr>wk_stop_event := True, wk_stoppers := i # wk_stoppers w\<rparr>"
  by (simp add: stop_request_def set_task_def)

lemma stop_request_ok:
  assumes ok: "worker_ok w"
  shows "worker_ok (stop_request w)"
proof (cases "wk_task w")
  case None
  with ok show ?thesis by (simp add: stop_request_def)
next
  case (Some i)
  let ?w = "set_task i (if is_done w i then Finished else Cancelling) w"
  have i: "i < length (wk_tasks w)" by (rule task_in [OF ok Some])
  have same: "(wk_tasks w)[i := Finished] = wk_tasks w" if "is_done w i"
    using that by (simp add: is_done_def list_update_same_conv i)
  have okw: "worker_ok ?w"
    using set_task_ok [OF ok i] ok same by (auto simp: is_done_def set_task_def)
  show ?thesis
    unfolding stop_request_Some [OF Some]
  proof (rule worker_okI, goal_cases)
    case (1 j)
    then show ?case using live_task [OF okw, of j] by (simp add: live_def)
  next
    case (2 j)
    then show ?case using task_in [OF okw, of j] by simp
  next
    case (3 j)
    then show ?case using stopper_in(1) [OF okw, of j] i by auto
  next
    case (4 j)
    then show ?case using stopper_in(2) [OF okw, of j] i by (cases "j = i") simp_all
  next
    case (5 j)
    then show ?case using stopper_in(3) [OF okw, of j] Some by auto
  qed
qed

lemma stop_return_ok:
  assumes ok: "worker_ok w" and i: "i \<in> set (wk_stoppers w)" and "is_done w i"
  shows "worker_ok (stop_return i w)" and "live (stop_return i w) = {}"
proof -
  have "wk_task w \<in> {Some i, None}" by (rule stopper_in(3) [OF ok i])
  then have none: "live w = {}" using no_live [OF ok] assms(3) by auto
  then show "live (stop_return i w) = {}" by (simp add: live_def stop_return_def)
  have sub: "set (remove1 i (wk_stoppers w)) \<subseteq> set (wk_stoppers w)" by (rule set_remove1_subset)
  show "worker_ok (stop_return i w)"
    using none sub stopper_in(1,2) [OF ok] by (intro worker_okI) (auto simp: stop_return_def live_def)
qed

lemma worker_step_ok: "worker_step True w w' \<Longrightarrow> worker_ok w \<Longrightarrow> worker_ok w'"
  by (induction rule: worker_step.induct) (auto intro: loop_step_ok start_ok stop_request_ok stop_return_ok(1))

definition worker_reach :: "bool \<Rightarrow> worker \<Rightarrow> bool" where
  "worker_reach orderly = (worker_step orderly)\<^sup>*\<^sup>* new_worker"

lemma worker_reach_ok: "worker_reach True w \<Longrightarrow> worker_ok w"
  unfolding worker_reach_def
proof (induction rule: rtranclp_induct)
  case base
  show ?case by (rule worker_okI) (simp_all add: new_worker_def live_def)
qed (rule worker_step_ok)

text \<open>At most one loop is live; when \<^verbatim>\<open>stop\<close> returns, none is.\<close>

lemma one_live_loop: "worker_reach True w \<Longrightarrow> i \<in> live w \<Longrightarrow> j \<in> live w \<Longrightarrow> i = j"
  by (metis live_task option.inject worker_reach_ok)

lemma stop_leaves_none: "worker_reach True w \<Longrightarrow> i \<in> set (wk_stoppers w) \<Longrightarrow> is_done w i \<Longrightarrow> live (stop_return i w) = {}"
  using worker_reach_ok stop_return_ok(2) by blast

text \<open>A \<^verbatim>\<open>start\<close> between the end of the task and the return of the \<^verbatim>\<open>stop\<close> that waited for it: \<^verbatim>\<open>stop\<close> then
  forgets the new task, and the next \<^verbatim>\<open>start\<close> adds a second loop. The bot does not do this, since it
  starts each worker once.\<close>

lemma overlapping_start: "\<exists>w. worker_reach False w \<and> {1, 2} \<subseteq> live w"
proof -
  let ?step = "\<lambda>w w'. worker_step False w w'"
  define w1 where "w1 = start new_worker"
  define w2 where "w2 = stop_request w1"
  define w3 where "w3 = set_task 0 Finished w2"
  define w4 where "w4 = start w3"
  define w5 where "w5 = stop_return 0 w4"
  define w6 where "w6 = start w5"
  note defs = w1_def w2_def w3_def w4_def w5_def w6_def new_worker_def start_def stop_request_def stop_return_def is_done_def set_task_def
  have "?step new_worker w1" "?step w1 w2" unfolding w1_def w2_def by (rule worker_step.starts worker_step.stops; simp)+
  moreover have "?step w2 w3"
    unfolding w3_def by (rule worker_step.run, rule loop_step.cancelled) (simp_all add: defs)
  moreover have "?step w3 w4" unfolding w4_def by (rule worker_step.starts) simp
  moreover have "?step w4 w5" unfolding w5_def by (rule worker_step.stopped) (simp_all add: defs)
  moreover have "?step w5 w6" unfolding w6_def by (rule worker_step.starts) simp
  ultimately have "worker_reach False w6" unfolding worker_reach_def by (meson rtranclp.rtrancl_into_rtrancl rtranclp.rtrancl_refl)
  moreover have "{1, 2} \<subseteq> live w6" by (simp add: defs live_def)
  ultimately show ?thesis by blast
qed

text \<open>Without a request to stop the loop goes on for ever: whatever the ticks raise, the task is never
  done.\<close>

lemma runs_on:
  assumes "loop_step w w'" and "\<not> wk_stop_event w" and "\<forall>t \<in> set (wk_tasks w). t \<in> {Ticking, Waiting}"
  shows "\<not> wk_stop_event w' \<and> (\<forall>t \<in> set (wk_tasks w'). t \<in> {Ticking, Waiting})"
  using assms
proof (induction rule: loop_step.induct)
  case (cancelled i w)
  then show ?case using nth_mem by fastforce
qed (auto dest: set_update_subset_insert [THEN subsetD])

end
