(* ===== verification/Process.thy ===== *)
theory Process
  imports System Worker_Loop
begin

text \<open>
  The process of the bot: the client that owns the connection pool and the workers
  (\<^verbatim>\<open>deathroll_deposit_withdraw/client.py\<close>) and the health check (\<^verbatim>\<open>healthcheck.py\<close>). The events of the
  client are run whole, and the loops of its workers move in between. A worker the client lets go
  stays in \<open>cl_retired\<close>, so that a loop which outlives it would be seen.
\<close>

section \<open>The client\<close>

datatype slot =
    Online_cashiers_updater
  | Ticket_timeout_worker
  | Claim_idle_worker
  | Cashier_idle_worker
  | Stats_aggregator_worker
  | Audit_chain_verifier_worker
  | Metrics_refresher_worker

record client =
  cl_pool :: bool
  cl_cogs :: "string list"
  cl_slots :: "slot \<Rightarrow> worker option"
  cl_live_channel :: "int option"
  cl_http :: bool
  cl_retired :: "worker list"

definition new_client :: client where
  "new_client = \<lparr>cl_pool = False, cl_cogs = [], cl_slots = (\<lambda>_. None), cl_live_channel = None, cl_http = False, cl_retired = []\<rparr>"

definition EXTENSIONS :: "string list" where
  "EXTENSIONS = map (\<lambda>c. ''deathroll_deposit_withdraw.cogs.'' @ c)
     [''account'', ''admin'', ''cashier'', ''deposit'', ''ticket'', ''withdraw'']"

text \<open>Loading stops at the first cog that fails; the flag says that all were loaded.\<close>

fun load_extensions :: "(string \<Rightarrow> bool) \<Rightarrow> string list \<Rightarrow> client \<Rightarrow> bool \<times> client" where
  "load_extensions loads [] c = (True, c)"
| "load_extensions loads (ext # exts) c =
     (if loads ext then load_extensions loads exts (c\<lparr>cl_cogs := cl_cogs c @ [ext]\<rparr>) else (False, c))"

definition setup_hook :: "bool \<Rightarrow> (string \<Rightarrow> bool) \<Rightarrow> client \<Rightarrow> bool \<times> client" where
  "setup_hook pool_opens loads c =
     (if \<not> pool_opens then (False, c) else load_extensions loads EXTENSIONS (c\<lparr>cl_pool := True\<rparr>))"

text \<open>\<^verbatim>\<open>if self._x is None: self._x = X(...); self._x.start()\<close>.\<close>

definition ensure_worker :: "slot \<Rightarrow> client \<Rightarrow> client" where
  "ensure_worker s c =
     (case cl_slots c s of Some _ \<Rightarrow> c | None \<Rightarrow> c\<lparr>cl_slots := (cl_slots c)(s := Some (start new_worker))\<rparr>)"

definition ensure_updater :: "int option \<Rightarrow> client \<Rightarrow> client" where
  "ensure_updater channel_id c =
     (case channel_id of
        Some ch \<Rightarrow> if cl_slots c Online_cashiers_updater = None
                   then ensure_worker Online_cashiers_updater (c\<lparr>cl_live_channel := Some ch\<rparr>) else c
      | None \<Rightarrow> c)"

definition start_workers :: "bool \<Rightarrow> client \<Rightarrow> client" where
  "start_workers http_starts c =
     (let c1 = fold ensure_worker
            [Ticket_timeout_worker, Claim_idle_worker, Cashier_idle_worker, Stats_aggregator_worker, Audit_chain_verifier_worker] c;
          c2 = (if cl_http c1 then c1 else c1\<lparr>cl_http := http_starts\<rparr>)
      in ensure_worker Metrics_refresher_worker c2)"

definition resolve_online_cashiers_channel :: "int option cmd" where
  "resolve_online_cashiers_channel = query (config_value ''channel_id_online_cashiers'')"

text \<open>The gateway is ready. \<open>synced\<close> says whether Discord accepts the command tree; if not, the event ends
  with an exception.\<close>

definition on_ready :: "bot_env \<Rightarrow> bool \<Rightarrow> bool \<Rightarrow> client \<Rightarrow> client cmd" where
  "on_ready B synced http_starts c =
     (if \<not> synced then throw (Http Refused)
      else if \<not> cl_pool c then ret c
      else seqC (safe_tick (reconcile_welcome_embeds B))
          (bindC resolve_online_cashiers_channel (\<lambda>channel_id.
           ret (start_workers http_starts (ensure_updater channel_id c)))))"

text \<open>\<^verbatim>\<open>stop\<close> awaited to its end: the task is done when it returns.\<close>

definition stop :: "worker \<Rightarrow> worker" where
  "stop w =
     (case wk_task w of
        None \<Rightarrow> w
      | Some i \<Rightarrow> stop_return i (set_task i Finished (stop_request w)))"

definition drop_worker :: "slot \<Rightarrow> client \<Rightarrow> client" where
  "drop_worker s c =
     (case cl_slots c s of
        None \<Rightarrow> c
      | Some w \<Rightarrow> c\<lparr>cl_slots := (cl_slots c)(s := None), cl_retired := stop w # cl_retired c\<rparr>)"

definition all_slots :: "slot list" where
  "all_slots = [Online_cashiers_updater, Ticket_timeout_worker, Claim_idle_worker, Cashier_idle_worker,
     Stats_aggregator_worker, Audit_chain_verifier_worker, Metrics_refresher_worker]"

definition close_pool :: "client \<Rightarrow> client" where
  "close_pool c = (fold drop_worker all_slots c)\<lparr>cl_http := False, cl_pool := False\<rparr>"

section \<open>The life of the client\<close>

inductive client_reach :: "bot_env \<Rightarrow> client \<Rightarrow> bool" for B where
  new: "client_reach B new_client"
| hook: "client_reach B c \<Longrightarrow> client_reach B (snd (setup_hook pool_opens loads c))"
| ready: "client_reach B c \<Longrightarrow> on_ready B synced http_starts c w = (Inr c', w') \<Longrightarrow> client_reach B c'"
| progress: "client_reach B c \<Longrightarrow> cl_slots c s = Some wk \<Longrightarrow> loop_step wk wk' \<Longrightarrow>
    client_reach B (c\<lparr>cl_slots := (cl_slots c)(s := Some wk')\<rparr>)"
| close: "client_reach B c \<Longrightarrow> client_reach B (close_pool c)"

text \<open>A running worker: its one task goes on, and nobody has asked it to stop.\<close>

definition running :: "worker \<Rightarrow> bool" where
  "running w \<longleftrightarrow> (\<exists>t \<in> {Ticking, Waiting}. wk_tasks w = [t]) \<and> wk_task w = Some 0 \<and> \<not> wk_stop_event w \<and> wk_stoppers w = []"

definition client_ok :: "client \<Rightarrow> bool" where
  "client_ok c \<longleftrightarrow> (\<forall>s w. cl_slots c s = Some w \<longrightarrow> running w) \<and> (\<forall>w \<in> set (cl_retired c). live w = {})"

lemma running_live: "running w \<Longrightarrow> live w = {0}"
  by (auto simp: running_def live_def)

lemma running_start [simp]: "running (start new_worker)"
  by (simp add: running_def start_def new_worker_def)

lemma running_step: "loop_step w w' \<Longrightarrow> running w \<Longrightarrow> running w'"
  by (induction rule: loop_step.induct) (auto simp: running_def)

lemma stop_dead: "running w \<Longrightarrow> live (stop w) = {}"
  by (auto simp: running_def stop_def stop_request_def stop_return_def live_def)

lemma ensure_ok: "client_ok c \<Longrightarrow> client_ok (ensure_worker s c)"
  by (auto simp: client_ok_def ensure_worker_def split: option.split)

lemma channel_ok [simp]: "client_ok (c\<lparr>cl_live_channel := ch\<rparr>) = client_ok c" "client_ok (c\<lparr>cl_http := b\<rparr>) = client_ok c"
  "client_ok (c\<lparr>cl_pool := p\<rparr>) = client_ok c" "client_ok (c\<lparr>cl_cogs := es\<rparr>) = client_ok c"
  by (simp_all add: client_ok_def)

lemma start_workers_ok: "client_ok c \<Longrightarrow> client_ok (start_workers b (ensure_updater ch c))"
  by (auto simp: start_workers_def ensure_updater_def Let_def intro!: ensure_ok split: option.split)

lemma drop_ok: "client_ok c \<Longrightarrow> client_ok (drop_worker s c)"
  using stop_dead by (fastforce simp: client_ok_def drop_worker_def split: option.split)

lemma close_ok: "client_ok c \<Longrightarrow> client_ok (close_pool c)"
  by (simp add: close_pool_def all_slots_def drop_ok)

lemma load_ok: "client_ok c \<Longrightarrow> client_ok (snd (load_extensions loads exts c))"
  by (induction loads exts c rule: load_extensions.induct) auto

lemma ready_result:
  assumes "on_ready B synced http_starts c w = (Inr c', w')"
  shows "synced" and "c' = (if cl_pool c then start_workers http_starts
      (ensure_updater (config_value ''channel_id_online_cashiers'' (wd_db (snd (safe_tick (reconcile_welcome_embeds B) w)))) c) else c)"
  using assms
  by (auto simp: on_ready_def throw_def ret_def seqC_def bindC_def query_def resolve_online_cashiers_channel_def
      split: if_splits prod.splits sum.splits)

lemma reach_client_ok: "client_reach B c \<Longrightarrow> client_ok c"
proof (induction rule: client_reach.induct)
  case new
  then show ?case by (simp add: client_ok_def new_client_def)
next
  case (ready c synced http_starts w c' w')
  with ready_result(2) [OF ready(2)] show ?case by (simp add: start_workers_ok)
next
  case (progress c s wk wk')
  then show ?case by (auto simp: client_ok_def intro: running_step)
qed (simp_all add: setup_hook_def load_ok close_ok)

text \<open>Every worker the client holds has exactly one live loop, however often \<^verbatim>\<open>on_ready\<close> fires and
  whatever the ticks raise, and no loop outlives the worker.\<close>

lemma one_loop_each:
  assumes "client_reach B c"
  shows "cl_slots c s = Some w \<Longrightarrow> live w = {0}" and "w \<in> set (cl_retired c) \<Longrightarrow> live w = {}"
  using reach_client_ok [OF assms] running_live by (auto simp: client_ok_def)

definition has_worker :: "client \<Rightarrow> slot \<Rightarrow> bool" where
  "has_worker c s \<longleftrightarrow> cl_slots c s \<noteq> None"

lemma ensure_slot [simp]: "has_worker (ensure_worker s c) s' \<longleftrightarrow> s' = s \<or> has_worker c s'"
  by (auto simp: has_worker_def ensure_worker_def split: option.split)

lemma has_worker_http [simp]: "has_worker (c\<lparr>cl_http := h\<rparr>) s = has_worker c s" "has_worker (c\<lparr>cl_live_channel := ch\<rparr>) s = has_worker c s"
  by (simp_all add: has_worker_def)

lemma start_slots: "has_worker (start_workers h c) s \<longleftrightarrow> s \<noteq> Online_cashiers_updater \<or> has_worker c s"
  unfolding start_workers_def Let_def by (cases s) simp_all

lemma updater_slot: "ch \<noteq> None \<Longrightarrow> has_worker (ensure_updater ch c) Online_cashiers_updater"
  by (auto simp: ensure_updater_def) (simp add: has_worker_def)

text \<open>After a ready event with an open pool all workers run; the updater does when its channel is set.\<close>

lemma ready_starts_all:
  assumes "on_ready B synced http_starts c w = (Inr c', w')" and "cl_pool c"
  shows "s \<noteq> Online_cashiers_updater \<Longrightarrow> has_worker c' s"
    and "config_value ''channel_id_online_cashiers'' (wd_db (snd (safe_tick (reconcile_welcome_embeds B) w))) \<noteq> None \<Longrightarrow>
      has_worker c' Online_cashiers_updater"
  using ready_result(2) [OF assms(1)] assms(2) by (simp_all add: start_slots updater_slot del: not_None_eq)

lemma drop_slot: "cl_slots (drop_worker s c) s' = (if s' = s then None else cl_slots c s')"
  by (simp add: drop_worker_def split: option.split)

lemma close_pool_stops: "cl_slots (close_pool c) s = None" "\<not> cl_pool (close_pool c)"
  by (cases s) (simp_all add: close_pool_def all_slots_def drop_slot)

text \<open>A ready event does to the database what its one command does.\<close>

lemma lawful_ready: "lawful B 0 (on_ready B synced http_starts c)"
  unfolding on_ready_def resolve_online_cashiers_channel_def
  by (intro lawful_intros lawful_safe_tick lawful_welcome)

section \<open>The address in the log\<close>

text \<open>\<^verbatim>\<open>dsn.rsplit("@", 1)[1]\<close>.\<close>

definition redact_dsn :: "string \<Rightarrow> string" where
  "redact_dsn dsn = (if CHR ''@'' \<in> set dsn then rev (takeWhile (\<lambda>c. c \<noteq> CHR ''@'') (rev dsn)) else dsn)"

text \<open>What comes before the last \<^verbatim>\<open>@\<close>, the user and the password, is cut off.\<close>

lemma redact_cuts: "CHR ''@'' \<notin> set rest \<Longrightarrow> redact_dsn (secret @ CHR ''@'' # rest) = rest"
  by (simp add: redact_dsn_def takeWhile_append)

text \<open>An address without user information is logged as it is, also when it gives the password as a
  parameter.\<close>

lemma redact_keeps_parameters:
  "redact_dsn ''postgresql:///deathroll?user=deathroll_dw&password=x'' = ''postgresql:///deathroll?user=deathroll_dw&password=x''"
  by (simp add: redact_dsn_def)

section \<open>The health check\<close>

text \<open>What \<^verbatim>\<open>fetchval("SELECT 1")\<close> answers within the time limit, if it does.\<close>

definition ping :: "int option \<Rightarrow> bool" where
  "ping fetched = (case fetched of None \<Rightarrow> False | Some result \<Rightarrow> result = 1)"

definition healthcheck_run :: "bool \<Rightarrow> int option \<Rightarrow> int" where
  "healthcheck_run pool_opens fetched = (if \<not> pool_opens then 1 else if ping fetched then 0 else 1)"

definition healthcheck_main :: "string option \<Rightarrow> bool \<Rightarrow> int option \<Rightarrow> int" where
  "healthcheck_main dsn pool_opens fetched =
     (if coalesce dsn [] = [] then 1 else healthcheck_run pool_opens fetched)"

lemma healthy_iff:
  "healthcheck_main dsn pool_opens fetched = 0 \<longleftrightarrow> (\<exists>s. dsn = Some s \<and> s \<noteq> []) \<and> pool_opens \<and> fetched = Some 1"
  by (cases dsn) (auto simp: healthcheck_main_def healthcheck_run_def ping_def coalesce_def split: option.splits)

end
