(* ===== verification/Metrics.thy ===== *)
theory Metrics
  imports Settings Roster "HOL-Library.AList"
begin

text \<open>
  The Prometheus gauges (\<^verbatim>\<open>deathroll_deposit_withdraw/metrics.py\<close>): what a refresh reads from the database
  and sets. A labelled gauge is the list of its labels with their values; \<^verbatim>\<open>clear\<close> empties it and
  \<^verbatim>\<open>labels(l).set(v)\<close> puts a value. A query may fail, each on its own. The rate of disputes is kept as
  its two counts.
\<close>

section \<open>Gauges\<close>

type_synonym gauge = "(string \<times> int) list"

record gauges =
  mg_deposit_tickets :: gauge
  mg_withdraw_tickets :: gauge
  mg_deposit_volume :: gauge
  mg_withdraw_volume :: gauge
  mg_treasury_balance :: int
  mg_cashiers_online :: gauge
  mg_dispute_rate :: "(string \<times> int \<times> int) list"
  mg_fee_revenue :: int

definition set_all :: "(string \<times> 'v) list \<Rightarrow> (string \<times> 'v) list" where
  "set_all rows = fold (\<lambda>(l, v). AList.update l v) rows []"

section \<open>Queries\<close>

text \<open>\<^verbatim>\<open>SELECT key, agg(...) ... GROUP BY key\<close>.\<close>

definition group_by :: "('r \<Rightarrow> 'k) \<Rightarrow> ('r list \<Rightarrow> 'v) \<Rightarrow> 'r list \<Rightarrow> ('k \<times> 'v) list" where
  "group_by key agg rows = map (\<lambda>k. (k, agg (filter (\<lambda>r. key r = k) rows))) (remdups (map key rows))"

definition count_by_status :: "'a ticket_scheme list \<Rightarrow> (string \<times> int) list" where
  "count_by_status ts = group_by (\<lambda>t. ticket_status_text (t_status t)) (\<lambda>rs. int (length rs)) ts"

definition volume_by_region :: "'a ticket_scheme list \<Rightarrow> (string \<times> int) list" where
  "volume_by_region ts = group_by t_region (\<lambda>rs. sum_list (map t_amount rs)) (filter (\<lambda>t. t_status t = Confirmed) ts)"

definition online_pairs :: "db \<Rightarrow> (string \<times> int) list" where
  "online_pairs d =
     concat (map (\<lambda>cs. map (\<lambda>cc. (cc_region cc, cs_discord_id cs))
         (filter (\<lambda>cc. cc_discord_id cc = cs_discord_id cs \<and> cc_removed_at cc = None) (cashier_characters d)))
       (filter (\<lambda>cs. cs_status cs = Online) (cashier_status d)))"

definition online_by_region :: "db \<Rightarrow> (string \<times> int) list" where
  "online_by_region d = group_by fst (\<lambda>rs. int (length (remdups (map snd rs)))) (online_pairs d)"

definition fees_confirmed :: "db \<Rightarrow> int" where
  "fees_confirmed d = sum_list (map w_fee (filter (\<lambda>t. t_status t = Confirmed) (withdraw_tickets d)))"

text \<open>The confirmed tickets and the disputed tickets per cashier. A dispute joins the ticket of its type
  and uid; one whose ticket nobody claimed counts for nobody.\<close>

definition claimers :: "'a ticket_scheme list \<Rightarrow> int list" where
  "claimers ts = List.map_filter t_claimed_by ts"

definition confirmations :: "db \<Rightarrow> (int \<times> int) list" where
  "confirmations d =
     group_by id (\<lambda>rs. int (length rs))
       (claimers (filter (\<lambda>t. t_status t = Confirmed) (deposit_tickets d))
        @ claimers (filter (\<lambda>t. t_status t = Confirmed) (withdraw_tickets d)))"

definition disputes_by_cashier :: "db \<Rightarrow> (int \<times> int) list" where
  "disputes_by_cashier d =
     group_by id (\<lambda>rs. int (length rs))
       (concat (map (\<lambda>r. claimers (filter (\<lambda>t. t_ticket_uid t = d_ticket_uid r \<and> d_ticket_type r = Deposit) (deposit_tickets d)))
          (disputes d)))
     @ group_by id (\<lambda>rs. int (length rs))
       (concat (map (\<lambda>r. claimers (filter (\<lambda>t. t_ticket_uid t = d_ticket_uid r \<and> d_ticket_type r = Withdraw) (withdraw_tickets d)))
          (disputes d)))"

definition dispute_rates :: "db \<Rightarrow> (int \<times> int \<times> int) list" where
  "dispute_rates d =
     map (\<lambda>(c, confs). (c, sum_list (map snd (filter (\<lambda>(c', _). c' = c) (disputes_by_cashier d))), confs)) (confirmations d)"

section \<open>Refreshing\<close>

text \<open>\<open>answers\<close> says of each query, by the name it has in the log, whether it succeeds.\<close>

definition refresh_from_db :: "(string \<Rightarrow> bool) \<Rightarrow> db \<Rightarrow> gauges \<Rightarrow> gauges" where
  "refresh_from_db answers d g0 =
     (let g1 = (case map_option b_balance (select_balance 0 d) of
                  Some balance \<Rightarrow> if answers ''treasury'' then g0\<lparr>mg_treasury_balance := balance\<rparr> else g0
                | None \<Rightarrow> g0);
          g2 = (if answers ''deposit_tickets'' then g1\<lparr>mg_deposit_tickets := set_all (count_by_status (deposit_tickets d))\<rparr> else g1);
          g3 = (if answers ''withdraw_tickets'' then g2\<lparr>mg_withdraw_tickets := set_all (count_by_status (withdraw_tickets d))\<rparr> else g2);
          g4 = (if answers ''deposit_volume'' then g3\<lparr>mg_deposit_volume := set_all (volume_by_region (deposit_tickets d))\<rparr> else g3);
          g5 = (if answers ''withdraw_volume'' then g4\<lparr>mg_withdraw_volume := set_all (volume_by_region (withdraw_tickets d))\<rparr> else g4);
          g6 = (if answers ''cashiers_online'' then g5\<lparr>mg_cashiers_online := set_all (online_by_region d)\<rparr> else g5);
          g7 = (if answers ''fee_revenue'' then g6\<lparr>mg_fee_revenue := fees_confirmed d\<rparr> else g6)
      in if answers ''dispute_rate''
         then g7\<lparr>mg_dispute_rate := set_all (map (\<lambda>(c, n, confs). (show_int c, n, confs))
                (filter (\<lambda>(c, n, confs). confs \<noteq> 0) (dispute_rates d)))\<rparr>
         else g7)"

section \<open>Groups\<close>

lemma keys_group [simp]: "map fst (group_by key agg rows) = remdups (map key rows)"
  by (simp add: group_by_def o_def)

lemma fold_update_distinct:
  "distinct (map fst rows) \<Longrightarrow> fst ` set rows \<inter> fst ` set acc = {} \<Longrightarrow>
    fold (\<lambda>(l, v). AList.update l v) rows acc = acc @ rows"
proof (induction rows arbitrary: acc)
  case (Cons r rows)
  obtain l v where r: "r = (l, v)" by fastforce
  have "AList.update l v acc = acc @ [(l, v)]" using Cons.prems(2) r by (induction acc) auto
  moreover have "fold (\<lambda>(l, v). AList.update l v) rows (acc @ [(l, v)]) = (acc @ [(l, v)]) @ rows"
    by (rule Cons.IH) (use Cons.prems r in auto)
  ultimately show ?case using r by simp
qed simp

lemma set_all_distinct: "distinct (map fst rows) \<Longrightarrow> set_all rows = rows"
  unfolding set_all_def using fold_update_distinct [of rows "[]"] by simp

lemma set_all_group [simp]: "set_all (group_by key agg rows) = group_by key agg rows"
  by (rule set_all_distinct) simp

text \<open>The sums of the groups add up to the sum of the rows.\<close>

lemma sum_split: "sum_list (map f rows) =
  sum_list (map f (filter P rows)) + sum_list (map f (filter (\<lambda>r. \<not> P r) rows))" for f :: "'r \<Rightarrow> int"
  by (induction rows) auto

lemma sum_groups:
  fixes f :: "'r \<Rightarrow> int"
  assumes "distinct ks" and "key ` set rows \<subseteq> set ks"
  shows "sum_list (map (\<lambda>k. sum_list (map f (filter (\<lambda>r. key r = k) rows))) ks) = sum_list (map f rows)"
  using assms
proof (induction ks arbitrary: rows)
  case (Cons k ks)
  let ?rest = "filter (\<lambda>r. key r \<noteq> k) rows"
  have same: "filter (\<lambda>r. key r = k') rows = filter (\<lambda>r. key r = k') ?rest" if "k' \<in> set ks" for k'
    using that Cons.prems(1) by (auto simp: filter_filter intro: filter_cong)
  have "sum_list (map (\<lambda>k'. sum_list (map f (filter (\<lambda>r. key r = k') rows))) ks)
      = sum_list (map (\<lambda>k'. sum_list (map f (filter (\<lambda>r. key r = k') ?rest))) ks)"
    by (rule arg_cong [where f = sum_list], rule map_cong) (simp_all only: same)
  also have "\<dots> = sum_list (map f ?rest)" by (rule Cons.IH) (use Cons.prems in auto)
  finally show ?case using sum_split [of f rows "\<lambda>r. key r = k"] by simp
qed auto

lemma sum_group_by:
  "sum_list (map snd (group_by key (\<lambda>rs. sum_list (map f rs)) rows)) = sum_list (map f rows)" for f :: "'r \<Rightarrow> int"
  unfolding group_by_def using sum_groups [of "remdups (map key rows)" key rows f] by (simp add: o_def)

lemma count_group_by: "sum_list (map snd (group_by key (\<lambda>rs. int (length rs)) rows)) = int (length rows)"
  using sum_group_by [of key "\<lambda>_. 1" rows] by (simp add: sum_list_triv)

lemma map_of_keys: "map_of (map (\<lambda>k. (k, h k)) ks) k = (if k \<in> set ks then Some (h k) else None)"
  by (induction ks) auto

lemma map_of_group: "map_of (group_by key agg rows) k = (if k \<in> key ` set rows then Some (agg (filter (\<lambda>r. key r = k) rows)) else None)"
  unfolding group_by_def map_of_keys by simp

section \<open>The tables of the cashiers\<close>

text \<open>A character is active exactly when it was not removed, and a cashier has one status row.\<close>

definition cashiers_ok :: "db \<Rightarrow> bool" where
  "cashiers_ok d \<longleftrightarrow> list_all (\<lambda>cc. cc_is_active cc \<longleftrightarrow> cc_removed_at cc = None) (cashier_characters d)
     \<and> distinct (map cs_discord_id (cashier_status d))"

lemma aside_cashiers: "aside d d' \<Longrightarrow> cashiers_ok d \<Longrightarrow> cashiers_ok d'"
  by (simp add: aside_def cashiers_ok_def)

lemma audit_cashiers: "audit_log_insert_with_chain E a d = Inr (i, d') \<Longrightarrow> cashiers_ok d \<Longrightarrow> cashiers_ok d'"
  by (rule aside_cashiers) (auto dest: settings_frame)

lemma map_upd_key: "(\<And>r. key (f r) = key r) \<Longrightarrow> map key (upd_key key k f rs) = map key rs"
  by (simp add: upd_key_def)

lemma character_cashiers:
  assumes "cashiers_ok d"
  shows "add_cashier_character E u chr rl rg fc d = Inr (x, d') \<Longrightarrow> cashiers_ok d'"
    and "remove_cashier_character E u chr rl rg d = Inr (y, d') \<Longrightarrow> cashiers_ok d'"
  using assms
  by (auto simp: add_cashier_character_def remove_cashier_character_def upsert_character_def raise_simps Let_def
      cashiers_ok_def list_all_iff upd_key_def split: option.splits prod.splits dest!: settings_frame simp: aside_def)

lemma status_ids: "distinct (map cs_discord_id (cashier_status d)) \<Longrightarrow> distinct (map cs_discord_id (cashier_status (upsert_status E u st d)))"
  by (auto simp: upsert_status_def map_upd_key has_key_def)

lemma status_cashiers:
  assumes "cashiers_ok d"
  shows "set_cashier_status E u st d = Inr (x, d') \<Longrightarrow> cashiers_ok d'"
    and "expire_cashier E u d = Inr (y, d') \<Longrightarrow> cashiers_ok d'"
proof -
  have "cashiers_ok (upsert_status E u s d)" for s
    using assms status_ids by (auto simp: cashiers_ok_def upsert_status_def)
  then show "set_cashier_status E u st d = Inr (x, d') \<Longrightarrow> cashiers_ok d'"
    by (auto simp: set_cashier_status_def raise_simps Let_def open_session_def close_sessions_def cashiers_ok_def aside_def
        split: if_splits dest!: settings_frame)
  show "expire_cashier E u d = Inr (y, d') \<Longrightarrow> cashiers_ok d'"
    using assms by (auto simp: expire_cashier_def raise_simps Let_def close_sessions_def cashiers_ok_def aside_def map_upd_key
        dest!: settings_frame)
qed

lemma config_cashiers: "cashiers_ok (upsert_config E k v a d) = cashiers_ok d"
  by (simp add: cashiers_ok_def upsert_config_def)

interpretation cashiers: stable E cashiers_ok for E
proof unfold_locales
  fix d t c d'
  assume ok: "cashiers_ok d" and ret: "exec (E\<lparr>now := t\<rparr>) c d = Inr d'"
  show "cashiers_ok d'"
  proof (cases "cashier_call c")
    case True
    with ok ret show ?thesis
      by (cases c) (auto simp: raise_simps config_cashiers intro: character_cashiers status_cashiers)
  next
    case False
    with aside_cashiers [OF exec_aside [OF ret] ok] show ?thesis by simp
  qed
qed

lemma reach_cashiers: "reach E (initial_db t) d \<Longrightarrow> cashiers_ok d"
  by (erule cashiers.stable_reach) (simp add: cashiers_ok_def initial_db_def)

lemma online_pairs_iff:
  assumes "cashiers_ok d"
  shows "(r, i) \<in> set (online_pairs d) \<longleftrightarrow>
    (\<exists>cs \<in> set (cashier_status d). cs_discord_id cs = i \<and> cs_status cs = Online \<and> has_active_char i r d)"
proof -
  have "cc_removed_at cc = None \<longleftrightarrow> cc_is_active cc" if "cc \<in> set (cashier_characters d)" for cc
    using assms that by (auto simp: cashiers_ok_def list_all_iff)
  then show ?thesis by (auto simp: online_pairs_def has_active_char_def list_ex_iff)
qed

lemma set_snd_filter: "set (map snd (filter (\<lambda>p. fst p = r) ps)) = {i. (r, i) \<in> set ps}"
  by force

lemma online_roster:
  assumes "cashiers_ok d"
  shows "coalesce (map_of (online_by_region d) r) 0 = int (length (bucket (rs_online_by_region (fetch_online_roster d)) r))"
proof -
  let ?on = "filter (\<lambda>cs. cs_status cs = Online \<and> has_active_char (cs_discord_id cs) r d) (cashier_status d)"
  let ?ids = "map snd (filter (\<lambda>p. fst p = r) (online_pairs d))"
  have len: "length (bucket (rs_online_by_region (fetch_online_roster d)) r) = length ?on"
    by (simp add: roster_bucket roster_rows_def filter_map o_def active_char_region)
  have "set ?ids = set (map cs_discord_id ?on)"
    unfolding set_snd_filter online_pairs_iff [OF assms] by auto
  moreover have "distinct (map cs_discord_id ?on)" using assms by (simp add: cashiers_ok_def distinct_map_filter)
  ultimately have count: "length (remdups ?ids) = length ?on"
    using distinct_card [of "map cs_discord_id ?on"] by (simp add: length_remdups_card_conv)
  show ?thesis
  proof (cases "r \<in> fst ` set (online_pairs d)")
    case False
    then have "filter (\<lambda>p. fst p = r) (online_pairs d) = []" unfolding filter_empty_conv by blast
    then have "?on = []" using count by simp
    with False show ?thesis unfolding online_by_region_def map_of_group len by (simp add: coalesce_def)
  qed (simp add: online_by_region_def map_of_group len count coalesce_def)
qed

section \<open>The dashboard\<close>

text \<open>C39: The dashboard shows the books. After a refresh in which every query answers, on any reachable
  database, the volumes of deposits over all regions add up to the gold deposited, the volumes of
  withdraws less the fee revenue to the gold delivered, so that together with the sweeps they account
  for all gold held; the status counts add up to the number of tickets, the treasury gauge is the
  balance of the treasury, and the number of cashiers shown for a region is that of the live roster. The
  values are integers here; the metrics library stores doubles, which are exact up to \<open>2 ^ 53\<close>.\<close>

theorem dashboard_reconciles:
  assumes "reach E (initial_db t0) d" and "\<And>q. answers q" and "refresh_from_db answers d g0 = g"
  shows "sum_list (map snd (mg_deposit_volume g)) = deposited d
    \<and> sum_list (map snd (mg_withdraw_volume g)) - mg_fee_revenue g = delivered d
    \<and> total_gold d = sum_list (map snd (mg_deposit_volume g)) - (sum_list (map snd (mg_withdraw_volume g)) - mg_fee_revenue g) - swept d
    \<and> sum_list (map snd (mg_deposit_tickets g)) = int (length (deposit_tickets d))
    \<and> sum_list (map snd (mg_withdraw_tickets g)) = int (length (withdraw_tickets d))
    \<and> mg_treasury_balance g = avail_of 0 d
    \<and> coalesce (map_of (mg_cashiers_online g) r) 0 = int (length (bucket (rs_online_by_region (fetch_online_roster d)) r))"
proof -
  have inv: "ledger_inv E d" using assms(1) by (rule reach_ledger)
  obtain b where b: "select_balance 0 d = Some b"
    using accounts_row_ex [of d 0] treasury_in [OF inv] inv by (auto simp: ledger_parts)
  have g: "mg_deposit_volume g = volume_by_region (deposit_tickets d)" "mg_withdraw_volume g = volume_by_region (withdraw_tickets d)"
      "mg_fee_revenue g = fees_confirmed d" "mg_deposit_tickets g = count_by_status (deposit_tickets d)"
      "mg_withdraw_tickets g = count_by_status (withdraw_tickets d)" "mg_treasury_balance g = b_balance b"
      "mg_cashiers_online g = online_by_region d"
    using assms(2,3) b
    by (auto simp: refresh_from_db_def volume_by_region_def count_by_status_def online_by_region_def)
  have vol: "sum_list (map snd (volume_by_region ts)) = sum_list (map t_amount (filter (\<lambda>t. t_status t = Confirmed) ts))"
    for ts :: "'a ticket_scheme list" by (simp add: volume_by_region_def sum_group_by)
  have "sum_list (map snd (mg_deposit_volume g)) = deposited d" by (simp add: g vol deposited_def sum_where_def)
  moreover have "sum_list (map snd (mg_withdraw_volume g)) - mg_fee_revenue g = delivered d"
    by (simp add: g vol delivered_def sum_where_def fees_confirmed_def sum_list_subtractf)
  moreover have "total_gold d = deposited d - delivered d - swept d" by (rule ledger_conserves [OF inv])
  ultimately show ?thesis
    using b online_roster [OF reach_cashiers [OF assms(1)], of r]
    by (simp add: g count_by_status_def count_group_by avail_of_def)
qed

definition zero_gauges :: gauges where
  "zero_gauges = \<lparr>mg_deposit_tickets = [], mg_withdraw_tickets = [], mg_deposit_volume = [], mg_withdraw_volume = [],
     mg_treasury_balance = 0, mg_cashiers_online = [], mg_dispute_rate = [], mg_fee_revenue = 0\<rparr>"

theorem dashboard_reconciles_witness:
  "sum_list (map snd (mg_deposit_volume (refresh_from_db (\<lambda>_. True) demo_db zero_gauges))) = 5000
    \<and> mg_treasury_balance (refresh_from_db (\<lambda>_. True) demo_db zero_gauges) = avail_of 0 demo_db"
proof -
  have "deposited demo_db = 5000" by code_simp
  then show ?thesis using dashboard_reconciles [OF demo_reach _ refl, of "\<lambda>_. True" zero_gauges] by simp
qed

end
