(* ===== verification/Sha2.thy ===== *)
theory Sha2
  imports Prelude
begin

text \<open>
  The hash functions the sources take from Python's standard library: \<^verbatim>\<open>hashlib.sha256\<close>,
  \<^verbatim>\<open>hashlib.sha512\<close> and \<^verbatim>\<open>hmac.new(key, msg, hashlib.sha512)\<close>, as FIPS 180-4 and RFC 2104
  define them, on lists of bytes.
\<close>

unbundle bit_operations_syntax

section \<open>Definitions\<close>

type_synonym w32 = "32 word"
type_synonym w64 = "64 word"

definition be_word :: "bytea \<Rightarrow> 'a::len word" where
  "be_word bs = foldl (\<lambda>a b. push_bit 8 a OR ucast b) 0 bs"

definition bytes_of_w32 :: "w32 \<Rightarrow> bytea" where
  "bytes_of_w32 w = [ucast (drop_bit 24 w), ucast (drop_bit 16 w), ucast (drop_bit 8 w), ucast w]"

definition bytes_of_w64 :: "w64 \<Rightarrow> bytea" where
  "bytes_of_w64 w = [ucast (drop_bit 56 w), ucast (drop_bit 48 w), ucast (drop_bit 40 w), ucast (drop_bit 32 w),
     ucast (drop_bit 24 w), ucast (drop_bit 16 w), ucast (drop_bit 8 w), ucast w]"

fun chunks :: "nat \<Rightarrow> 'a list \<Rightarrow> 'a list list" where
  "chunks n xs = (if n = 0 \<or> xs = [] then [] else take n xs # chunks n (drop n xs))"

declare chunks.simps [simp del]

text \<open>Padding: a one bit, zeros, and the length in bits.\<close>

definition pad256 :: "bytea \<Rightarrow> bytea" where
  "pad256 m = m @ [0x80] @ replicate ((119 - length m mod 64) mod 64) 0
     @ bytes_of_w64 (word_of_nat (8 * length m))"

definition pad512 :: "bytea \<Rightarrow> bytea" where
  "pad512 m = m @ [0x80] @ replicate ((239 - length m mod 128) mod 128) 0
     @ bytes_of_w64 (word_of_nat (8 * length m div 2 ^ 64)) @ bytes_of_w64 (word_of_nat (8 * length m))"

definition k256 :: "w32 list" where
  "k256 =
    [1116352408, 1899447441, 3049323471, 3921009573, 961987163, 1508970993, 2453635748, 2870763221,
     3624381080, 310598401, 607225278, 1426881987, 1925078388, 2162078206, 2614888103, 3248222580,
     3835390401, 4022224774, 264347078, 604807628, 770255983, 1249150122, 1555081692, 1996064986,
     2554220882, 2821834349, 2952996808, 3210313671, 3336571891, 3584528711, 113926993, 338241895,
     666307205, 773529912, 1294757372, 1396182291, 1695183700, 1986661051, 2177026350, 2456956037,
     2730485921, 2820302411, 3259730800, 3345764771, 3516065817, 3600352804, 4094571909, 275423344,
     430227734, 506948616, 659060556, 883997877, 958139571, 1322822218, 1537002063, 1747873779,
     1955562222, 2024104815, 2227730452, 2361852424, 2428436474, 2756734187, 3204031479, 3329325298]"

definition k512 :: "w64 list" where
  "k512 =
    [4794697086780616226, 8158064640168781261, 13096744586834688815, 16840607885511220156,
     4131703408338449720, 6480981068601479193, 10538285296894168987, 12329834152419229976,
     15566598209576043074, 1334009975649890238, 2608012711638119052, 6128411473006802146,
     8268148722764581231, 9286055187155687089, 11230858885718282805, 13951009754708518548,
     16472876342353939154, 17275323862435702243, 1135362057144423861, 2597628984639134821,
     3308224258029322869, 5365058923640841347, 6679025012923562964, 8573033837759648693,
     10970295158949994411, 12119686244451234320, 12683024718118986047, 13788192230050041572,
     14330467153632333762, 15395433587784984357, 489312712824947311, 1452737877330783856,
     2861767655752347644, 3322285676063803686, 5560940570517711597, 5996557281743188959,
     7280758554555802590, 8532644243296465576, 9350256976987008742, 10552545826968843579,
     11727347734174303076, 12113106623233404929, 14000437183269869457, 14369950271660146224,
     15101387698204529176, 15463397548674623760, 17586052441742319658, 1182934255886127544,
     1847814050463011016, 2177327727835720531, 2830643537854262169, 3796741975233480872,
     4115178125766777443, 5681478168544905931, 6601373596472566643, 7507060721942968483,
     8399075790359081724, 8693463985226723168, 9568029438360202098, 10144078919501101548,
     10430055236837252648, 11840083180663258601, 13761210420658862357, 14299343276471374635,
     14566680578165727644, 15097957966210449927, 16922976911328602910, 17689382322260857208,
     500013540394364858, 748580250866718886, 1242879168328830382, 1977374033974150939,
     2944078676154940804, 3659926193048069267, 4368137639120453308, 4836135668995329356,
     5532061633213252278, 6448918945643986474, 6902733635092675308, 7801388544844847127]"

definition h256 :: "w32 list" where
  "h256 =
    [1779033703, 3144134277, 1013904242, 2773480762, 1359893119, 2600822924, 528734635, 1541459225]"

definition h512 :: "w64 list" where
  "h512 =
    [7640891576956012808, 13503953896175478587, 4354685564936845355, 11912009170470909681,
     5840696475078001361, 11170449401992604703, 2270897969802886507, 6620516959819538809]"

definition ch :: "'a::len word \<Rightarrow> 'a word \<Rightarrow> 'a word \<Rightarrow> 'a word" where
  "ch x y z = (x AND y) XOR (NOT x AND z)"

definition maj :: "'a::len word \<Rightarrow> 'a word \<Rightarrow> 'a word \<Rightarrow> 'a word" where
  "maj x y z = (x AND y) XOR (x AND z) XOR (y AND z)"

text \<open>The message schedule, newest word first.\<close>

fun schedule :: "('a::len word \<Rightarrow> 'a word) \<Rightarrow> ('a word \<Rightarrow> 'a word) \<Rightarrow> nat \<Rightarrow> 'a word list \<Rightarrow> 'a word list" where
  "schedule s0 s1 0 ws = rev ws"
| "schedule s0 s1 (Suc n) ws =
     schedule s0 s1 n ((s1 (ws ! 1) + ws ! 6 + s0 (ws ! 14) + ws ! 15) # ws)"

text \<open>The rounds on the eight working variables.\<close>

fun rounds ::
    "('a::len word \<Rightarrow> 'a word) \<Rightarrow> ('a word \<Rightarrow> 'a word) \<Rightarrow> ('a word \<times> 'a word) list \<Rightarrow> 'a word list \<Rightarrow> 'a word list" where
  "rounds S0 S1 ((k, w) # kws) [a, b, c, d, e, f, g, h] =
     (let t1 = h + S1 e + ch e f g + k + w; t2 = S0 a + maj a b c
      in rounds S0 S1 kws [t1 + t2, a, b, c, d + t1, e, f, g])"
| "rounds S0 S1 kws st = st"

definition compress256 :: "w32 list \<Rightarrow> bytea \<Rightarrow> w32 list" where
  "compress256 st block =
     map2 (+) st
       (rounds (\<lambda>x. word_rotr 2 x XOR word_rotr 13 x XOR word_rotr 22 x)
          (\<lambda>x. word_rotr 6 x XOR word_rotr 11 x XOR word_rotr 25 x)
          (zip k256 (schedule (\<lambda>x. word_rotr 7 x XOR word_rotr 18 x XOR drop_bit 3 x)
            (\<lambda>x. word_rotr 17 x XOR word_rotr 19 x XOR drop_bit 10 x) 48 (rev (map be_word (chunks 4 block))))) st)"

definition compress512 :: "w64 list \<Rightarrow> bytea \<Rightarrow> w64 list" where
  "compress512 st block =
     map2 (+) st
       (rounds (\<lambda>x. word_rotr 28 x XOR word_rotr 34 x XOR word_rotr 39 x)
          (\<lambda>x. word_rotr 14 x XOR word_rotr 18 x XOR word_rotr 41 x)
          (zip k512 (schedule (\<lambda>x. word_rotr 1 x XOR word_rotr 8 x XOR drop_bit 7 x)
            (\<lambda>x. word_rotr 19 x XOR word_rotr 61 x XOR drop_bit 6 x) 64 (rev (map be_word (chunks 8 block))))) st)"

definition sha256 :: "bytea \<Rightarrow> bytea" where
  "sha256 m = concat (map bytes_of_w32 (foldl compress256 h256 (chunks 64 (pad256 m))))"

definition sha512 :: "bytea \<Rightarrow> bytea" where
  "sha512 m = concat (map bytes_of_w64 (foldl compress512 h512 (chunks 128 (pad512 m))))"

definition hmac_sha512 :: "bytea \<Rightarrow> bytea \<Rightarrow> bytea" where
  "hmac_sha512 key msg =
     (let k0 = (if 128 < length key then sha512 key else key);
          k = k0 @ replicate (128 - length k0) 0
      in sha512 (map (\<lambda>b. b XOR 0x5c) k @ sha512 (map (\<lambda>b. b XOR 0x36) k @ msg)))"

section \<open>Digest lengths\<close>

lemma length_rounds: "length st = 8 \<Longrightarrow> length (rounds S0 S1 kws st) = 8"
  by (induction S0 S1 kws st rule: rounds.induct) (simp_all add: Let_def)

lemma length_compress256: "length st = 8 \<Longrightarrow> length (compress256 st b) = 8"
  by (simp add: compress256_def length_rounds)

lemma length_compress512: "length st = 8 \<Longrightarrow> length (compress512 st b) = 8"
  by (simp add: compress512_def length_rounds)

lemma length_foldl:
  "(\<And>st b. length st = 8 \<Longrightarrow> length (f st b) = 8) \<Longrightarrow> length st = 8 \<Longrightarrow> length (foldl f st bs) = 8"
  by (induction bs arbitrary: st) auto

lemma length_concat_const:
  "(\<And>x. length (f x) = n) \<Longrightarrow> length (concat (map f xs)) = n * length xs"
  by (induction xs) auto

lemma length_sha256 [simp]: "length (sha256 m) = 32"
proof -
  have "length (foldl compress256 h256 (chunks 64 (pad256 m))) = 8"
    by (rule length_foldl) (simp_all add: length_compress256 h256_def)
  then show ?thesis
    by (simp add: sha256_def length_concat_const [of bytes_of_w32 4] bytes_of_w32_def)
qed

lemma length_sha512 [simp]: "length (sha512 m) = 64"
proof -
  have "length (foldl compress512 h512 (chunks 128 (pad512 m))) = 8"
    by (rule length_foldl) (simp_all add: length_compress512 h512_def)
  then show ?thesis
    by (simp add: sha512_def length_concat_const [of bytes_of_w64 8] bytes_of_w64_def)
qed

lemma length_hmac_sha512 [simp]: "length (hmac_sha512 key msg) = 64"
  by (simp add: hmac_sha512_def Let_def)

end
