(* ===== verification/Decoders.thy ===== *)
theory Decoders
  imports Sha2 Schema "HOL-Library.Multiset"
begin

text \<open>
  The provably fair outcome decoders (\<^verbatim>\<open>deathroll_core/fairness/engine.py\<close> and
  \<^verbatim>\<open>decoders.py\<close>): the byte iterator over the HMAC output and its SHA-256 chain, the
  Fisher-Yates shuffles and the decoder of every game.

  A Python iterator is a state and a function that returns the next byte or raises. The locale
  \<open>byte_source\<close> is the contract of an iterator with a known sequence of bytes; the shuffles are
  shown correct for every such iterator, and the chain iterator is an instance.
\<close>

unbundle bit_operations_syntax

section \<open>Definitions\<close>

datatype py_error = ValueError | IndexError | OverflowError | LookupError | SystemExit | Uncaught pg_error

text \<open>\<^verbatim>\<open>engine.compute\<close>: the HMAC of \<^verbatim>\<open>client_seed:nonce\<close> under the server seed.\<close>

definition compute :: "bytea \<Rightarrow> string \<Rightarrow> int \<Rightarrow> bytea" where
  "compute server_seed client_seed nonce =
     hmac_sha512 server_seed (text_bytes (client_seed @ '':'' @ show_int nonce))"

text \<open>\<^verbatim>\<open>counter.to_bytes(4, 'big')\<close>.\<close>

definition to_bytes4 :: "nat \<Rightarrow> py_error + bytea" where
  "to_bytes4 n = raise_if (2 ^ 32 \<le> n) OverflowError (Inr (bytes_of_w32 (word_of_nat n)))"

record byte_iter =
  it_out :: bytea
  it_pending :: bytea
  it_counter :: nat

definition byte_stream :: "bytea \<Rightarrow> byte_iter" where
  "byte_stream out = \<lparr>it_out = out, it_pending = out, it_counter = 0\<rparr>"

definition next_byte :: "byte_iter \<Rightarrow> py_error + byte \<times> byte_iter" where
  "next_byte it =
     (case it_pending it of
        b # bs \<Rightarrow> Inr (b, it\<lparr>it_pending := bs\<rparr>)
      | [] \<Rightarrow>
          (let counter = it_counter it + 1
           in bindE (to_bytes4 counter) (\<lambda>c.
              let chunk = sha256 (it_out it @ c)
              in Inr (hd chunk, it\<lparr>it_pending := tl chunk, it_counter := counter\<rparr>))))"

text \<open>\<^verbatim>\<open>_pull_uint\<close>, with the accumulated value.\<close>

fun pull_uint :: "('s \<Rightarrow> py_error + byte \<times> 's) \<Rightarrow> nat \<Rightarrow> nat \<Rightarrow> 's \<Rightarrow> py_error + nat \<times> 's" where
  "pull_uint nxt 0 value s = Inr (value, s)"
| "pull_uint nxt (Suc width) value s =
     bindE (nxt s) (\<lambda>(b, s1). pull_uint nxt width (push_bit 8 value OR unat b) s1)"

definition swap :: "'a list \<Rightarrow> nat \<Rightarrow> nat \<Rightarrow> 'a list" where
  "swap arr i j = arr[i := arr ! j, j := arr ! i]"

text \<open>The sweep over the given positions.\<close>

fun sweep :: "('s \<Rightarrow> py_error + byte \<times> 's) \<Rightarrow> nat \<Rightarrow> nat list \<Rightarrow> 'a list \<Rightarrow> 's \<Rightarrow> py_error + 'a list \<times> 's" where
  "sweep nxt w [] arr s = Inr (arr, s)"
| "sweep nxt w (i # is) arr s =
     bindE (pull_uint nxt w 0 s) (\<lambda>(v, s1). sweep nxt w is (swap arr i (v mod (i + 1))) s1)"

definition fisher_yates_partial ::
    "('s \<Rightarrow> py_error + byte \<times> 's) \<Rightarrow> 's \<Rightarrow> int \<Rightarrow> int \<Rightarrow> nat \<Rightarrow> py_error + nat list" where
  "fisher_yates_partial nxt s n k w =
     raise_if (\<not> (0 < k \<and> k \<le> n)) ValueError
     (let arr = [0..<nat n]; bound = nat (max 1 (n - k))
      in bindE (sweep nxt w (rev [bound..<nat n]) arr s) (\<lambda>(arr1, _).
         Inr (rev (drop (nat (n - k)) arr1))))"

definition fisher_yates_full :: "('s \<Rightarrow> py_error + byte \<times> 's) \<Rightarrow> 's \<Rightarrow> int \<Rightarrow> nat \<Rightarrow> py_error + nat list" where
  "fisher_yates_full nxt s n w =
     bindE (sweep nxt w (rev [1..<nat n]) [0..<nat n] s) (\<lambda>(arr, _). Inr arr)"

text \<open>\<^verbatim>\<open>out[i]\<close> and \<^verbatim>\<open>int.from_bytes(bs, 'big')\<close>.\<close>

definition byte_at :: "bytea \<Rightarrow> nat \<Rightarrow> py_error + nat" where
  "byte_at out i = raise_if (length out \<le> i) IndexError (Inr (unat (out ! i)))"

definition from_bytes :: "bytea \<Rightarrow> nat" where
  "from_bytes bs = foldl (\<lambda>a b. 256 * a + unat b) 0 bs"

datatype coin = Heads | Tails

datatype temperature = Hot | Cold | Rainbow

definition decode_coinflip :: "bytea \<Rightarrow> py_error + coin" where
  "decode_coinflip out = bindE (byte_at out 0) (\<lambda>b. Inr (if b AND 1 = 0 then Heads else Tails))"

text \<open>The roll in hundredths: the code returns this number divided by 100.\<close>

definition decode_dice :: "bytea \<Rightarrow> nat" where
  "decode_dice out = from_bytes (take 4 out) mod 10000"

definition decode_99x :: "bytea \<Rightarrow> py_error + nat" where
  "decode_99x out = bindE (byte_at out 0) (\<lambda>b. Inr (b mod 100 + 1))"

definition decode_hotcold :: "bytea \<Rightarrow> temperature" where
  "decode_hotcold out =
     (let n = from_bytes (take 2 out) mod 10000
      in if n < 500 then Rainbow else if n < 5250 then Hot else Cold)"

definition decode_roulette_eu :: "bytea \<Rightarrow> nat" where
  "decode_roulette_eu out = from_bytes (take 2 out) mod 37"

definition decode_mines_positions :: "bytea \<Rightarrow> int \<Rightarrow> int \<Rightarrow> py_error + nat list" where
  "decode_mines_positions out mines_count grid_size =
     raise_if (\<not> (1 \<le> mines_count \<and> mines_count < grid_size)) ValueError
     (fisher_yates_partial next_byte (byte_stream out) grid_size mines_count 4)"

definition shoe :: "nat \<Rightarrow> nat list" where
  "shoe decks = concat (map (replicate decks) [0..<52])"

definition decode_blackjack_deck :: "bytea \<Rightarrow> int \<Rightarrow> py_error + nat list" where
  "decode_blackjack_deck out decks =
     raise_if (decks \<le> 0) ValueError
     (let cards = shoe (nat decks); n = length cards
      in bindE (sweep next_byte 4 (rev [1..<n]) cards (byte_stream out)) (\<lambda>(cards1, _). Inr cards1))"

definition decode_dice_duel :: "bytea \<Rightarrow> py_error + nat \<times> nat" where
  "decode_dice_duel out =
     bindE (byte_at out 0) (\<lambda>a. bindE (byte_at out 1) (\<lambda>b. Inr (a mod 12 + 1, b mod 12 + 1)))"

record staking_round =
  player_roll :: nat
  bot_roll :: nat

fun staking_rounds :: "('s \<Rightarrow> py_error + byte \<times> 's) \<Rightarrow> nat \<Rightarrow> 's \<Rightarrow> py_error + staking_round list" where
  "staking_rounds nxt 0 s = Inr []"
| "staking_rounds nxt (Suc n) s =
     bindE (nxt s) (\<lambda>(p, s1). bindE (nxt s1) (\<lambda>(b, s2).
     bindE (staking_rounds nxt n s2) (\<lambda>rs.
     Inr (\<lparr>player_roll = unat p mod 12 + 1, bot_roll = unat b mod 12 + 1\<rparr> # rs))))"

definition decode_staking_duel :: "bytea \<Rightarrow> int \<Rightarrow> py_error + staking_round list" where
  "decode_staking_duel out max_rounds =
     raise_if (max_rounds \<le> 0) ValueError
     (staking_rounds next_byte (nat max_rounds) (byte_stream out))"

definition decode_raffle_winners :: "bytea \<Rightarrow> int \<Rightarrow> py_error + nat list" where
  "decode_raffle_winners out ticket_count =
     raise_if (ticket_count < 3) ValueError
     (fisher_yates_partial next_byte (byte_stream out) ticket_count 3 4)"

text \<open>The bytes of the stream by position, and how many there are before the counter overflows.\<close>

definition chain_at :: "bytea \<Rightarrow> nat \<Rightarrow> nat \<Rightarrow> byte" where
  "chain_at out counter i =
     sha256 (out @ bytes_of_w32 (word_of_nat (counter + 1 + i div 32))) ! (i mod 32)"

definition iter_at :: "byte_iter \<Rightarrow> nat \<Rightarrow> byte" where
  "iter_at it i =
     (let p = it_pending it
      in if i < length p then p ! i else chain_at (it_out it) (it_counter it) (i - length p))"

definition iter_supply :: "byte_iter \<Rightarrow> nat" where
  "iter_supply it = length (it_pending it) + 32 * (2 ^ 32 - 1 - it_counter it)"

text \<open>The shuffle as a function of the bytes alone.\<close>

definition uint_of :: "bytea \<Rightarrow> nat" where
  "uint_of bs = foldl (\<lambda>v b. push_bit 8 v OR unat b) 0 bs"

fun sweep_bytes :: "nat \<Rightarrow> nat list \<Rightarrow> 'a list \<Rightarrow> (nat \<Rightarrow> byte) \<Rightarrow> 'a list" where
  "sweep_bytes w [] arr f = arr"
| "sweep_bytes w (i # is) arr f =
     sweep_bytes w is (swap arr i (uint_of (map f [0..<w]) mod (i + 1))) (\<lambda>k. f (k + w))"

section \<open>Iterators with known bytes\<close>

locale byte_source =
  fixes nxt :: "'s \<Rightarrow> py_error + byte \<times> 's" and known :: "'s \<Rightarrow> nat \<Rightarrow> byte" and stock :: "'s \<Rightarrow> nat"
  assumes next_known: "0 < stock s \<Longrightarrow>
    \<exists>s'. nxt s = Inr (known s 0, s') \<and> (\<forall>i. known s' i = known s (i + 1)) \<and> stock s' = stock s - 1"
begin

lemma pull_uint_known:
  assumes "w \<le> stock s"
  shows "\<exists>s'. pull_uint nxt w v s = Inr (foldl (\<lambda>v b. push_bit 8 v OR unat b) v (map (known s) [0..<w]), s')
    \<and> (\<forall>i. known s' i = known s (i + w)) \<and> stock s' = stock s - w"
  using assms
proof (induction w arbitrary: s v)
  case 0
  then show ?case by simp
next
  case (Suc w)
  then obtain s1 where s1: "nxt s = Inr (known s 0, s1)" "\<forall>i. known s1 i = known s (i + 1)" "stock s1 = stock s - 1"
    using next_known [of s] by auto
  have bytes: "map (known s) [0..<Suc w] = known s 0 # map (known s1) [0..<w]"
    using s1(2) by (simp add: upt_conv_Cons map_Suc_upt [symmetric] del: upt_Suc)
  have "w \<le> stock s1" using Suc.prems s1(3) by simp
  from Suc.IH [OF this, of "push_bit 8 v OR unat (known s 0)"] obtain s2 where
    s2: "pull_uint nxt w (push_bit 8 v OR unat (known s 0)) s1 = Inr (foldl (\<lambda>v b. push_bit 8 v OR unat b)
        (push_bit 8 v OR unat (known s 0)) (map (known s1) [0..<w]), s2)"
      "\<forall>i. known s2 i = known s1 (i + w)" "stock s2 = stock s1 - w" by blast
  have "pull_uint nxt (Suc w) v s = Inr (foldl (\<lambda>v b. push_bit 8 v OR unat b) v (map (known s) [0..<Suc w]), s2)"
    unfolding bytes by (simp add: s1(1) s2(1))
  then show ?case using s1 s2 by (auto simp: add.assoc)
qed

lemma sweep_known:
  assumes "w * length is \<le> stock s"
  shows "\<exists>s'. sweep nxt w is arr s = Inr (sweep_bytes w is arr (known s), s')"
  using assms
proof (induction "is" arbitrary: arr s)
  case Nil
  then show ?case by simp
next
  case (Cons i "is")
  then have "w \<le> stock s" by simp
  then obtain s1 where s1: "pull_uint nxt w 0 s = Inr (uint_of (map (known s) [0..<w]), s1)"
      "\<forall>i. known s1 i = known s (i + w)" "stock s1 = stock s - w"
    using pull_uint_known [of w s 0] by (auto simp: uint_of_def)
  moreover from this have "known s1 = (\<lambda>k. known s (k + w))" by auto
  ultimately show ?case using Cons.IH [of s1] Cons.prems by (auto simp: algebra_simps)
qed

lemma staking_known:
  assumes "2 * n \<le> stock s"
  shows "staking_rounds nxt n s = Inr (map (\<lambda>k. \<lparr>player_roll = unat (known s (2 * k)) mod 12 + 1,
    bot_roll = unat (known s (2 * k + 1)) mod 12 + 1\<rparr>) [0..<n])"
  using assms
proof (induction n arbitrary: s)
  case 0
  then show ?case by simp
next
  case (Suc n)
  then obtain s1 where s1: "nxt s = Inr (known s 0, s1)" "\<forall>i. known s1 i = known s (i + 1)" "stock s1 = stock s - 1"
    using next_known [of s] by auto
  moreover obtain s2 where s2: "nxt s1 = Inr (known s1 0, s2)" "\<forall>i. known s2 i = known s1 (i + 1)" "stock s2 = stock s1 - 1"
    using next_known [of s1] Suc.prems s1(3) by auto
  moreover have "staking_rounds nxt n s2 = Inr (map (\<lambda>k. \<lparr>player_roll = unat (known s2 (2 * k)) mod 12 + 1,
      bot_roll = unat (known s2 (2 * k + 1)) mod 12 + 1\<rparr>) [0..<n])"
    using Suc s1(3) s2(3) by simp
  ultimately show ?case
    by (simp add: upt_conv_Cons map_Suc_upt [symmetric] comp_def del: upt_Suc)
qed

end

text \<open>The chain iterator is such a source.\<close>

lemma to_bytes4_Inr: "n < 2 ^ 32 \<Longrightarrow> to_bytes4 n = Inr (bytes_of_w32 (word_of_nat n))"
  by (simp add: to_bytes4_def)

interpretation chain_source: byte_source next_byte iter_at iter_supply
proof
  fix it :: byte_iter
  assume stock: "0 < iter_supply it"
  show "\<exists>s'. next_byte it = Inr (iter_at it 0, s') \<and> (\<forall>i. iter_at s' i = iter_at it (i + 1))
      \<and> iter_supply s' = iter_supply it - 1"
  proof (cases "it_pending it")
    case (Cons b bs)
    then show ?thesis
      by (intro exI [of _ "it\<lparr>it_pending := bs\<rparr>"])
        (auto simp: next_byte_def iter_at_def iter_supply_def nth_Cons')
  next
    case Nil
    let ?c = "it_counter it + 1"
    let ?chunk = "sha256 (it_out it @ bytes_of_w32 (word_of_nat ?c))"
    let ?s = "it\<lparr>it_pending := tl ?chunk, it_counter := ?c\<rparr>"
    from stock Nil have c: "?c < 2 ^ 32" by (simp add: iter_supply_def)
    have ne: "?chunk \<noteq> []" using length_sha256 [of "it_out it @ bytes_of_w32 (word_of_nat ?c)"] by (metis list.size(3) zero_neq_numeral)
    have "next_byte it = Inr (iter_at it 0, ?s)"
      using Nil ne to_bytes4_Inr [OF c] by (simp add: next_byte_def iter_at_def chain_at_def hd_conv_nth Let_def)
    moreover have "iter_at ?s i = iter_at it (i + 1)" for i
    proof (cases "i < 31")
      case True
      then show ?thesis using Nil by (simp add: iter_at_def chain_at_def nth_tl)
    next
      case False
      then obtain k where k: "i = k + 31" by (metis le_Suc_ex linorder_not_less add.commute)
      have "(k + 32) div 32 = k div 32 + 1" and "(k + 32) mod 32 = k mod 32" by simp_all
      then show ?thesis using Nil by (simp add: iter_at_def chain_at_def k add.commute add.left_commute)
    qed
    moreover have "iter_supply ?s = iter_supply it - 1" using Nil c by (simp add: iter_supply_def)
    ultimately show ?thesis by blast
  qed
qed

section \<open>Shuffles\<close>

lemma length_swap [simp]: "length (swap arr i j) = length arr"
  by (simp add: swap_def)

lemma mset_swap_eq: "i < length arr \<Longrightarrow> j < length arr \<Longrightarrow> mset (swap arr i j) = mset arr"
  by (simp add: swap_def mset_swap)

lemma length_sweep_bytes [simp]: "length (sweep_bytes w is arr f) = length arr"
  by (induction w "is" arr f rule: sweep_bytes.induct) simp_all

lemma mset_sweep_bytes:
  "\<forall>i \<in> set is. i < length arr \<Longrightarrow> mset (sweep_bytes w is arr f) = mset arr"
proof (induction w "is" arr f rule: sweep_bytes.induct)
  case (2 w i "is" arr f)
  have "uint_of (map f [0..<w]) mod (i + 1) < length arr"
  proof -
    have "uint_of (map f [0..<w]) mod (i + 1) < i + 1" by simp
    moreover have "i + 1 \<le> length arr" using "2.prems" by simp
    ultimately show ?thesis by (rule less_le_trans)
  qed
  with 2 show ?case by (simp add: mset_swap_eq)
qed simp

lemma sweep_bytes_cong:
  "\<forall>i < w * length is. f i = g i \<Longrightarrow> sweep_bytes w is arr f = sweep_bytes w is arr g"
proof (induction w "is" arr f arbitrary: g rule: sweep_bytes.induct)
  case (2 w i "is" arr f)
  have head: "map f [0..<w] = map g [0..<w]" using "2.prems" by (intro map_cong) auto
  have "\<forall>k < w * length is. f (k + w) = g (k + w)" using "2.prems" by (auto simp: algebra_simps)
  from "2.IH" [OF this] show ?case by (simp only: sweep_bytes.simps head)
qed simp

definition stream_at :: "bytea \<Rightarrow> nat \<Rightarrow> byte" where
  "stream_at out = iter_at (byte_stream out)"

lemma stock_stream: "iter_supply (byte_stream out) = length out + 32 * (2 ^ 32 - 1)"
  by (simp add: iter_supply_def byte_stream_def)

lemma sweep_stream:
  assumes "w * length is \<le> length out + 32 * (2 ^ 32 - 1)"
  obtains s' where "sweep next_byte w is arr (byte_stream out) = Inr (sweep_bytes w is arr (stream_at out), s')"
  using chain_source.sweep_known [of w "is" "byte_stream out" arr] assms
  by (auto simp: stock_stream stream_at_def)

lemma partial_stream:
  assumes k: "0 < k" "k \<le> n" and room: "4 * nat n \<le> length out + 32 * (2 ^ 32 - 1)"
  shows "fisher_yates_partial next_byte (byte_stream out) n k 4 =
    Inr (rev (drop (nat (n - k)) (sweep_bytes 4 (rev [nat (max 1 (n - k))..<nat n]) [0..<nat n] (stream_at out))))"
proof -
  have "4 * length (rev [nat (max 1 (n - k))..<nat n]) \<le> length out + 32 * (2 ^ 32 - 1)"
    using room by simp
  from sweep_stream [OF this] obtain s' where
    "sweep next_byte 4 (rev [nat (max 1 (n - k))..<nat n]) [0..<nat n] (byte_stream out) =
      Inr (sweep_bytes 4 (rev [nat (max 1 (n - k))..<nat n]) [0..<nat n] (stream_at out), s')" by blast
  with k show ?thesis by (simp add: fisher_yates_partial_def Let_def)
qed

text \<open>A draw without replacement: distinct positions of the range, as many as asked for.\<close>

lemma partial_draw:
  assumes k: "0 < k" "k \<le> n" and room: "4 * nat n \<le> length out + 32 * (2 ^ 32 - 1)"
  shows "\<exists>ps. fisher_yates_partial next_byte (byte_stream out) n k 4 = Inr ps
    \<and> distinct ps \<and> set ps \<subseteq> {..<nat n} \<and> length ps = nat k"
proof -
  let ?arr = "sweep_bytes 4 (rev [nat (max 1 (n - k))..<nat n]) [0..<nat n] (stream_at out)"
  have m: "mset ?arr = mset [0..<nat n]" by (rule mset_sweep_bytes) auto
  then have "distinct ?arr" and "set ?arr = {..<nat n}"
    by (metis distinct_upt mset_eq_imp_distinct_iff, metis atLeast0LessThan mset_eq_setD set_upt)
  moreover have "set (drop j ?arr) \<subseteq> set ?arr" for j by (rule set_drop_subset)
  moreover have "nat n - nat (n - k) = nat k" using k by simp
  ultimately show ?thesis
    using partial_stream [OF assms] by (auto simp: distinct_drop)
qed

section \<open>The decoders\<close>

lemma count_upt: "count (mset [0..<n]) c = (if c < n then 1 else 0)"
  using iffD1 [OF distinct_count_atmost_1 distinct_upt [of 0 n]] by simp

text \<open>Mines positions are drawn without replacement. For every grid and mine count the
  decoder accepts, it returns exactly the asked number of distinct cells of the grid; any other
  count is rejected.\<close>

lemma mines_positions_draw:
  assumes "grid_size \<le> 2 ^ 30"
  shows "if 1 \<le> mines_count \<and> mines_count < grid_size
    then \<exists>ps. decode_mines_positions out mines_count grid_size = Inr ps
      \<and> distinct ps \<and> set ps \<subseteq> {..<nat grid_size} \<and> length ps = nat mines_count
    else decode_mines_positions out mines_count grid_size = Inl ValueError"
proof (cases "1 \<le> mines_count \<and> mines_count < grid_size")
  case True
  have "4 * nat grid_size \<le> length out + 32 * (2 ^ 32 - 1)" using assms by simp
  with True show ?thesis
    using partial_draw [of mines_count grid_size out] by (simp add: decode_mines_positions_def)
next
  case False
  then show ?thesis by (auto simp: decode_mines_positions_def)
qed

text \<open>C13: A blackjack shoe is a permutation of its cards. For every positive number of decks
  (within the reach of the byte chain) the decoder returns a shoe in which each of the 52 cards
  occurs exactly once per deck.\<close>

theorem blackjack_shoe_permutation:
  assumes "0 < decks" and "decks \<le> 2 ^ 24"
  shows "\<exists>cards. decode_blackjack_deck out decks = Inr cards \<and> length cards = 52 * nat decks
    \<and> set cards \<subseteq> {..<52} \<and> (\<forall>c < 52. count (mset cards) c = nat decks)"
proof -
  let ?n = "length (shoe (nat decks))"
  let ?cards = "sweep_bytes 4 (rev [1..<?n]) (shoe (nat decks)) (stream_at out)"
  have n: "?n = 52 * nat decks" by (simp add: shoe_def length_concat comp_def sum_list_triv)
  have "nat decks \<le> 2 ^ 24" using assms(2) by simp
  then have "4 * length (rev [1..<?n]) \<le> length out + 32 * (2 ^ 32 - 1)" by (simp add: n)
  from sweep_stream [OF this] obtain s' where
    "sweep next_byte 4 (rev [1..<?n]) (shoe (nat decks)) (byte_stream out) = Inr (?cards, s')" by blast
  then have ret: "decode_blackjack_deck out decks = Inr ?cards"
    using assms(1) by (simp add: decode_blackjack_deck_def Let_def)
  have m: "mset ?cards = mset (shoe (nat decks))" by (rule mset_sweep_bytes) auto
  have "count (mset (concat (map (replicate k) xs))) c = k * count (mset xs) c" for k xs and c :: nat
    by (induction xs) auto
  then have cnt: "count (mset (shoe (nat decks))) c = nat decks * count (mset [0..<52]) c" for c
    unfolding shoe_def by blast
  note one = count_upt [of 52]
  have "c < 52" if "c \<in> set ?cards" for c
  proof -
    from that have "count (mset ?cards) c \<noteq> 0" by (simp add: count_mset_0_iff)
    then show ?thesis unfolding m cnt one by (simp split: if_splits)
  qed
  moreover have "length ?cards = 52 * nat decks" by (simp only: length_sweep_bytes n)
  moreover have "\<forall>c < 52. count (mset ?cards) c = nat decks" unfolding m cnt one by simp
  ultimately show ?thesis using ret by blast
qed

theorem blackjack_shoe_permutation_witness:
  "\<exists>cards. decode_blackjack_deck (replicate 64 1) 6 = Inr cards \<and> length cards = 312
    \<and> set cards \<subseteq> {..<52} \<and> (\<forall>c < 52. count (mset cards) c = 6)"
  using blackjack_shoe_permutation [of 6 "replicate 64 1"] by simp

text \<open>A raffle draw picks three different tickets of the pool; a pool of fewer than three is
  rejected.\<close>

theorem raffle_winners_draw:
  assumes "ticket_count \<le> 2 ^ 30"
  shows "if 3 \<le> ticket_count
    then \<exists>ws. decode_raffle_winners out ticket_count = Inr ws
      \<and> distinct ws \<and> set ws \<subseteq> {..<nat ticket_count} \<and> length ws = 3
    else decode_raffle_winners out ticket_count = Inl ValueError"
proof (cases "3 \<le> ticket_count")
  case True
  have "4 * nat ticket_count \<le> length out + 32 * (2 ^ 32 - 1)" using assms by simp
  with True show ?thesis
    using partial_draw [of 3 ticket_count out] by (simp add: decode_raffle_winners_def)
next
  case False
  then show ?thesis by (auto simp: decode_raffle_winners_def)
qed

theorem raffle_winners_draw_witness:
  "\<exists>ws. decode_raffle_winners (replicate 64 9) 100 = Inr ws \<and> distinct ws \<and> set ws \<subseteq> {..<100} \<and> length ws = 3"
  using raffle_winners_draw [of 100 "replicate 64 9"] by simp

lemma byte_at_64: "length out = 64 \<Longrightarrow> i < 64 \<Longrightarrow> byte_at out i = Inr (unat (out ! i))"
  by (simp add: byte_at_def)

lemma length_compute [simp]: "length (compute s c n) = 64"
  by (simp add: compute_def)

text \<open>On the output of the engine every single-roll decoder returns an outcome in the range
  of its game: a coin side, a roll of 0.00 to 99.99, a number of 1 to 100, a wheel number of 0 to
  36, two dice of 1 to 12.\<close>

theorem single_rolls_in_range:
  "let out = compute s c n in
    (\<exists>side. decode_coinflip out = Inr side)
    \<and> decode_dice out \<le> 9999
    \<and> (\<exists>x. decode_99x out = Inr x \<and> 1 \<le> x \<and> x \<le> 100)
    \<and> decode_roulette_eu out \<le> 36
    \<and> (\<exists>a b. decode_dice_duel out = Inr (a, b) \<and> 1 \<le> a \<and> a \<le> 12 \<and> 1 \<le> b \<and> b \<le> 12)"
proof -
  let ?out = "compute s c n"
  have [simp]: "byte_at ?out 0 = Inr (unat (?out ! 0))" "byte_at ?out (Suc 0) = Inr (unat (?out ! 1))"
    by (simp_all add: byte_at_64)
  have "x mod 10000 \<le> 9999" "x mod 37 \<le> 36" "x mod 100 < 100" "x mod 12 < 12" for x :: nat
    using mod_less_divisor [of 10000 x] mod_less_divisor [of 37 x] by linarith+
  then show ?thesis
    by (simp add: decode_coinflip_def decode_dice_def decode_99x_def decode_roulette_eu_def
        decode_dice_duel_def Suc_le_eq)
qed

text \<open>A staking duel has exactly the asked number of rounds and both rolls of every round are
  on a twelve-sided die, however many bytes of the chain that takes.\<close>

theorem staking_duel_rounds:
  assumes "0 < max_rounds" and "max_rounds \<le> 2 ^ 30"
  shows "\<exists>rs. decode_staking_duel out max_rounds = Inr rs \<and> length rs = nat max_rounds
    \<and> (\<forall>r \<in> set rs. player_roll r \<in> {1..12} \<and> bot_roll r \<in> {1..12})"
proof -
  have "nat max_rounds \<le> 2 ^ 30" using assms(2) by simp
  then have "2 * nat max_rounds \<le> iter_supply (byte_stream out)" by (simp add: stock_stream)
  note known = chain_source.staking_known [OF this]
  have "x mod 12 < 12" for x :: nat by simp
  with assms(1) show ?thesis
    by (auto simp: decode_staking_duel_def known Suc_le_eq)
qed

theorem staking_duel_rounds_witness:
  "\<exists>rs. decode_staking_duel (replicate 64 200) 40 = Inr rs \<and> length rs = 40
    \<and> (\<forall>r \<in> set rs. player_roll r \<in> {1..12} \<and> bot_roll r \<in> {1..12})"
  using staking_duel_rounds [of 40 "replicate 64 200"] by simp

end
