(* ===== verification/Fairness.thy ===== *)
theory Fairness
  imports Decoders Economy
begin

text \<open>
  Seeds and draws: \<^verbatim>\<open>deathroll_core/fairness/seeds.py\<close> and \<^verbatim>\<open>api.py\<close>. A draw takes the
  next nonce and computes the outcome bytes from the secret seed; only the public state leaves
  the functions.
\<close>

section \<open>Definitions\<close>

text \<open>\<^verbatim>\<open>bs[:n]\<close>.\<close>

definition slice_to :: "int \<Rightarrow> 'a list \<Rightarrow> 'a list" where
  "slice_to n xs = (if 0 \<le> n then take (nat n) xs else take (length xs - nat (- n)) xs)"

function extend_loop :: "bytea \<Rightarrow> int \<Rightarrow> bytea \<Rightarrow> nat \<Rightarrow> py_error + bytea" where
  "extend_loop out byte_count extended counter =
     (if int (length extended) < byte_count
      then bindE (to_bytes4 (counter + 1)) (\<lambda>c.
           extend_loop out byte_count (extended @ sha256 (out @ c)) (counter + 1))
      else Inr (slice_to byte_count extended))"
  by pat_completeness auto

termination
  by (relation "measure (\<lambda>(out, n, ext, c). nat (n - int (length ext)))") auto

declare extend_loop.simps [simp del]

definition extend_bytes :: "bytea \<Rightarrow> int \<Rightarrow> py_error + bytea" where
  "extend_bytes out byte_count =
     (if byte_count \<le> int (length out) then Inr (slice_to byte_count out)
      else extend_loop out byte_count out 0)"

record seed_state =
  sd_server_seed_hash :: bytea
  sd_client_seed :: string
  sd_nonce :: int

definition public_state :: "seed_row \<Rightarrow> seed_state" where
  "public_state s = \<lparr>sd_server_seed_hash = f_server_seed_hash s, sd_client_seed = f_client_seed s,
     sd_nonce = f_nonce s\<rparr>"

text \<open>An error of the database ends the call.\<close>

definition sql :: "pg_error + 'a \<Rightarrow> py_error + 'a" where
  "sql m = (case m of Inl e \<Rightarrow> Inl (Uncaught e) | Inr x \<Rightarrow> Inr x)"

definition seed_char :: "char \<Rightarrow> bool" where
  "seed_char c =
     (let n = of_char c :: nat
      in (65 \<le> n \<and> n \<le> 90) \<or> (97 \<le> n \<and> n \<le> 122) \<or> (48 \<le> n \<and> n \<le> 57) \<or> n = 95 \<or> n = 45)"

definition validate_client_seed :: "string \<Rightarrow> py_error + string" where
  "validate_client_seed v =
     raise_if (\<not> (1 \<le> length v \<and> length v \<le> 64 \<and> list_all seed_char v)) ValueError (Inr v)"

definition get_public_state :: "int \<Rightarrow> db \<Rightarrow> seed_state option" where
  "get_public_state uid d = map_option public_state (select_seed uid d)"

text \<open>\<open>rnd_seed\<close> and \<open>rnd_client\<close>: the random bytes the database draws.\<close>

definition ensure_seeds :: "pg_env \<Rightarrow> bytea \<Rightarrow> bytea \<Rightarrow> int \<Rightarrow> db \<Rightarrow> py_error + seed_state option \<times> db" where
  "ensure_seeds E rnd_seed rnd_client uid d =
     (case select_seed uid d of
        Some s \<Rightarrow> Inr (Some (public_state s), d)
      | None \<Rightarrow>
          bindE (sql (rotate_user_seed E rnd_seed rnd_client uid ''system'' d)) (\<lambda>(_, d1).
          Inr (get_public_state uid d1, d1)))"

definition set_client_seed :: "int \<Rightarrow> string \<Rightarrow> db \<Rightarrow> py_error + seed_state \<times> db" where
  "set_client_seed uid new d =
     bindE (validate_client_seed new) (\<lambda>validated.
     let d1 = update_client_seed uid validated d
     in case select_seed uid d1 of
          None \<Rightarrow> Inl LookupError
        | Some s \<Rightarrow> Inr (public_state s, d1))"

record rotate_result =
  revealed_server_seed :: "bytea option"
  new_state :: "seed_state option"

definition rotate_seed ::
    "pg_env \<Rightarrow> bytea \<Rightarrow> bytea \<Rightarrow> int \<Rightarrow> string \<Rightarrow> db \<Rightarrow> py_error + rotate_result \<times> db" where
  "rotate_seed E rnd_seed rnd_client uid rotated_by d =
     raise_if (rotated_by \<notin> {''user'', ''system'', ''admin''}) ValueError
     (case rotate_user_seed E rnd_seed rnd_client uid rotated_by d of
        Inl (Raised_luck (Invalid_rotated_by _)) \<Rightarrow> Inl ValueError
      | Inl e \<Rightarrow> Inl (Uncaught e)
      | Inr ((revealed, _), d1) \<Rightarrow>
          Inr (\<lparr>revealed_server_seed = revealed, new_state = get_public_state uid d1\<rparr>, d1))"

record fairness_ticket =
  hmac_bytes :: bytea
  fk_server_seed_hash :: bytea
  fk_client_seed :: string
  fk_nonce :: int

definition request_outcome_bytes :: "int \<Rightarrow> int \<Rightarrow> db \<Rightarrow> py_error + fairness_ticket \<times> db" where
  "request_outcome_bytes uid byte_count d =
     raise_if (byte_count \<le> 0) ValueError
     (case select_seed uid d of
        None \<Rightarrow> Inl LookupError
      | Some _ \<Rightarrow>
          bindE (sql (next_nonce uid d)) (\<lambda>(used_nonce, d1).
          case select_seed uid d1 of
            None \<Rightarrow> Inl LookupError
          | Some row \<Rightarrow>
              (let head = compute (f_server_seed row) (f_client_seed row) used_nonce
               in bindE (extend_bytes head byte_count) (\<lambda>bytes_out.
                  Inr (\<lparr>hmac_bytes = bytes_out, fk_server_seed_hash = f_server_seed_hash row,
                        fk_client_seed = f_client_seed row, fk_nonce = used_nonce\<rparr>, d1)))))"

section \<open>The chain extension\<close>

lemma stream_at_simps:
  "stream_at out i = (if i < length out then out ! i else chain_at out 0 (i - length out))"
  by (simp add: stream_at_def iter_at_def byte_stream_def Let_def)

lemma stream_chunk:
  "map (stream_at out) [length out + 32 * c..<length out + 32 * c + 32]
    = sha256 (out @ bytes_of_w32 (word_of_nat (c + 1)))"
proof (rule nth_equalityI)
  fix i
  assume "i < length (map (stream_at out) [length out + 32 * c..<length out + 32 * c + 32])"
  then have i: "i < 32" by simp
  then have "(32 * c + i) div 32 = c" "(32 * c + i) mod 32 = i" by auto
  with i show "map (stream_at out) [length out + 32 * c..<length out + 32 * c + 32] ! i
      = sha256 (out @ bytes_of_w32 (word_of_nat (c + 1))) ! i"
    by (simp add: stream_at_simps chain_at_def nth_append add.commute del: of_nat_Suc of_nat_add)
qed simp

lemma stream_prefix: "n \<le> length out \<Longrightarrow> map (stream_at out) [0..<n] = take n out"
  by (rule nth_equalityI) (simp_all add: stream_at_simps)

lemma extend_loop_stream:
  assumes "ext = map (stream_at out) [0..<length out + 32 * c]"
    and "nat n \<le> length out + 32 * (2 ^ 32 - 1)" and "0 \<le> n"
  shows "extend_loop out n ext c = Inr (map (stream_at out) [0..<nat n])"
  using assms
proof (induction out n ext c rule: extend_loop.induct)
  case (1 out n ext c)
  have len: "length ext = length out + 32 * c" using "1.prems"(1) by simp
  show ?case
  proof (cases "int (length ext) < n")
    case True
    with "1.prems" len have c: "c + 1 < 2 ^ 32" by linarith
    let ?chunk = "sha256 (out @ bytes_of_w32 (word_of_nat (c + 1)))"
    have "ext @ ?chunk = map (stream_at out) [0..<length out + 32 * (c + 1)]"
    proof -
      have "[0..<length out + 32 * (c + 1)] = [0..<length out + 32 * c] @ [length out + 32 * c..<length out + 32 * c + 32]"
        using upt_add_eq_append [of 0 "length out + 32 * c" 32] by (simp add: ac_simps)
      then show ?thesis using stream_chunk [of out c] "1.prems"(1) by simp
    qed
    with 1 True to_bytes4_Inr [OF c] show ?thesis by (subst extend_loop.simps) simp
  next
    case False
    with "1.prems" len have le: "nat n \<le> length out + 32 * c" by linarith
    then have "take (nat n) ext = map (stream_at out) [0..<nat n]"
      using "1.prems"(1) by (simp add: take_map)
    with False "1.prems"(3) show ?thesis by (subst extend_loop.simps) (simp add: slice_to_def)
  qed
qed

lemma extend_stream:
  assumes "0 \<le> n" and "nat n \<le> length out + 32 * (2 ^ 32 - 1)"
  shows "extend_bytes out n = Inr (map (stream_at out) [0..<nat n])"
proof (cases "n \<le> int (length out)")
  case True
  with assms show ?thesis by (simp add: extend_bytes_def slice_to_def stream_prefix)
next
  case False
  have "out = map (stream_at out) [0..<length out + 32 * 0]" by (simp add: stream_prefix)
  with False assms show ?thesis by (simp add: extend_bytes_def extend_loop_stream)
qed

text \<open>Asking for more bytes does not change the ones already there. The extension returns
  exactly the first bytes of the decoders' byte stream, for any number of bytes up to the end of
  the chain, and never a different sequence.\<close>

theorem extension_is_stream:
  assumes "0 \<le> n" and "n \<le> 2 ^ 36"
  shows "extend_bytes out n = Inr (map (iter_at (byte_stream out)) [0..<nat n])"
proof -
  have "nat n \<le> length out + 32 * (2 ^ 32 - 1)" using assms by simp
  then show ?thesis using extend_stream [OF assms(1)] by (simp add: stream_at_def)
qed

section \<open>Draws\<close>

lemma next_nonce_seed:
  assumes "next_nonce uid d = Inr (n, d')"
  shows "\<exists>s. select_seed uid d = Some s \<and> n = f_nonce s
    \<and> (\<forall>v. select_seed v d' = (if v = uid then Some (s\<lparr>f_nonce := f_nonce s + 1\<rparr>) else select_seed v d))"
  using assms by (auto simp: next_nonce_def raise_simps select_seed_def sel_key_upd)

lemma request_Inr:
  assumes ret: "request_outcome_bytes uid n d = Inr (tk, d')" and sel: "select_seed uid d = Some s"
    and n: "n \<le> 2 ^ 36"
  shows "fk_nonce tk = f_nonce s" and "fk_client_seed tk = f_client_seed s"
    and "fk_server_seed_hash tk = f_server_seed_hash s"
    and "hmac_bytes tk = map (stream_at (compute (f_server_seed s) (f_client_seed s) (f_nonce s))) [0..<nat n]"
    and "next_nonce uid d = Inr (f_nonce s, d')" and "0 < n"
proof -
  from ret have pos: "0 < n" by (auto simp: request_outcome_bytes_def raise_simps)
  from ret sel obtain m d1 where nn: "next_nonce uid d = Inr (m, d1)"
    by (auto simp: request_outcome_bytes_def raise_simps sql_def split: sum.splits)
  from next_nonce_seed [OF nn] sel have m: "m = f_nonce s" and s1: "select_seed uid d1 = Some (s\<lparr>f_nonce := f_nonce s + 1\<rparr>)"
    by auto
  have "nat n \<le> 64 + 32 * (2 ^ 32 - 1)" using n by simp
  then have ext: "extend_bytes (compute (f_server_seed s) (f_client_seed s) (f_nonce s)) n =
      Inr (map (stream_at (compute (f_server_seed s) (f_client_seed s) (f_nonce s))) [0..<nat n])"
    using pos by (intro extend_stream) simp_all
  show "fk_nonce tk = f_nonce s" and "fk_client_seed tk = f_client_seed s"
    and "fk_server_seed_hash tk = f_server_seed_hash s"
    and "hmac_bytes tk = map (stream_at (compute (f_server_seed s) (f_client_seed s) (f_nonce s))) [0..<nat n]"
    and "next_nonce uid d = Inr (f_nonce s, d')" and "0 < n"
    using ret sel nn m s1 ext pos by (auto simp: request_outcome_bytes_def sql_def)
qed

lemma request_seed: "request_outcome_bytes uid n d = Inr (tk, d') \<Longrightarrow> \<exists>s. select_seed uid d = Some s"
  by (auto simp: request_outcome_bytes_def raise_simps split: option.splits)

lemma request_total:
  assumes "select_seed uid d = Some s" and "in_int8 (f_nonce s + 1)" and "0 < n" and "n \<le> 2 ^ 36"
  shows "\<exists>tk d1. request_outcome_bytes uid n d = Inr (tk, d1)"
proof -
  obtain m d1 where nn: "next_nonce uid d = Inr (m, d1)"
    using assms(1,2) by (auto simp: next_nonce_def select_seed_def chk8_def)
  from next_nonce_seed [OF nn] assms(1) obtain s1 where "select_seed uid d1 = Some s1" by auto
  moreover have "\<exists>bs. extend_bytes (compute (f_server_seed s1) (f_client_seed s1) m) n = Inr bs"
    using assms(3,4) by (subst extend_stream) auto
  ultimately show ?thesis using nn assms(1,3)
    by (auto simp: request_outcome_bytes_def sql_def)
qed

lemma next_nonce_reach:
  assumes "next_nonce uid d = Inr (n, d')"
  shows "reach E d d'"
  using reach.step [OF reach.init, where t = 0 and c = "Next_nonce uid"] assms by (simp add: state_of_def)

lemma rotate_reveals:
  assumes "rotate_seed E rnd_seed rnd_client uid rb d = Inr (res, d')" and "select_seed uid d = Some s"
  shows "revealed_server_seed res = Some (f_server_seed s)"
  using assms
  by (auto simp: rotate_seed_def rotate_user_seed_def select_seed_def raise_simps Let_def raise_if_def split: if_splits)

lemma reach_seeds:
  assumes "reach E (initial_db t) d"
  shows "seeds_committed E d"
proof -
  have "keys_unique (initial_db t) \<and> seeds_committed E (initial_db t) \<and> nonces_grow (initial_db t) (initial_db t)"
    using log_initial nonces_grow_refl by (auto simp: seeds_committed_def initial_db_def)
  from seeds.stable_reach [OF assms this] show ?thesis by simp
qed

lemma reach_nonces:
  assumes "reach E (initial_db t) d" and "reach E d d'"
  shows "nonces_grow d d'"
  using seeds.stable_reach [OF assms(2), of d] reach_unique [OF assms(1)] reach_seeds [OF assms(1)] nonces_grow_refl
  by blast

lemma reach_trans: "reach E d1 d2 \<Longrightarrow> reach E d0 d1 \<Longrightarrow> reach E d0 d2"
  by (induction rule: reach.induct) (auto intro: reach.step)

text \<open>C11: Commit and reveal. After a draw from a reachable database and any calls that do not
  rotate the seed of that user, the next rotation reveals the seed the draw committed to: its
  digest is the hash on the ticket, and from it, the client seed and the nonce on the ticket
  anyone recomputes exactly the bytes of the draw.\<close>

theorem commit_reveal:
  assumes "reach E (initial_db t) d" and "request_outcome_bytes uid n d = Inr (tk, d1)" and "n \<le> 2 ^ 36"
    and "reach E d1 d2" and "rotations uid d2 = rotations uid d1"
    and "rotate_seed (E\<lparr>now := t'\<rparr>) rnd_seed rnd_client uid rb d2 = Inr (res, d3)"
  shows "\<exists>seed. revealed_server_seed res = Some seed \<and> digest_sha256 E seed = fk_server_seed_hash tk
    \<and> extend_bytes (compute seed (fk_client_seed tk) (fk_nonce tk)) n = Inr (hmac_bytes tk)"
proof -
  obtain s where s: "select_seed uid d = Some s" using request_seed [OF assms(2)] by blast
  note r = request_Inr [OF assms(2) s assms(3)]
  have hash: "digest_sha256 E (f_server_seed s) = f_server_seed_hash s"
    using reach_seeds [OF assms(1)] s by (auto simp: seeds_committed_def select_seed_def dest: sel_key_Some_in)
  from next_nonce_seed [OF r(5)] s have s1: "select_seed uid d1 = Some (s\<lparr>f_nonce := f_nonce s + 1\<rparr>)" by auto
  have "reach E (initial_db t) d1" using next_nonce_reach [OF r(5)] assms(1) by (rule reach_trans)
  from nonces_growD [OF reach_nonces [OF this assms(4)] s1] assms(5) obtain s2
    where "select_seed uid d2 = Some s2" "f_server_seed s2 = f_server_seed s"
    by (metis less_irrefl seed_row.select_convs(2) seed_row.surjective seed_row.update_convs(5))
  then have "revealed_server_seed res = Some (f_server_seed s)" using rotate_reveals [OF assms(6)] by simp
  moreover have "extend_bytes (compute (f_server_seed s) (f_client_seed s) (f_nonce s)) n = Inr (hmac_bytes tk)"
    using r(4,6) assms(3) by (subst extend_stream) simp_all
  ultimately show ?thesis using hash r by auto
qed

text \<open>A run in which a player gets a seed, for the concrete instances.\<close>

definition demo_seed_db :: db where
  "demo_seed_db = run demo_env [(1, Rotate_seed [1, 2, 3] [10, 11] 0 ''system'')] (initial_db 0)"

lemma demo_seed: "map_option (\<lambda>s. (f_server_seed s, f_client_seed s, f_nonce s)) (select_seed 0 demo_seed_db)
    = Some ([1, 2, 3], ''0a0b'', 0)"
  by code_simp

lemma demo_seed_reach: "reach demo_env (initial_db 0) demo_seed_db"
  unfolding demo_seed_db_def by (rule reach_run)

lemma rotate_seed_total:
  assumes "select_seed uid d = Some s" and "has_key u_discord_id uid (users d)" and "rb \<in> set rotators"
  shows "\<exists>res d'. rotate_seed E rnd_seed rnd_client uid rb d = Inr (res, d')"
  using assms by (auto simp: rotate_seed_def rotate_user_seed_def select_seed_def rotators_def Let_def)

theorem commit_reveal_witness:
  "\<exists>tk d1 res d2. request_outcome_bytes 0 80 demo_seed_db = Inr (tk, d1)
    \<and> rotate_seed (demo_env\<lparr>now := 9\<rparr>) [9] [8] 0 ''user'' d1 = Inr (res, d2)
    \<and> (\<exists>seed. revealed_server_seed res = Some seed \<and> digest_sha256 demo_env seed = fk_server_seed_hash tk
      \<and> extend_bytes (compute seed (fk_client_seed tk) (fk_nonce tk)) 80 = Inr (hmac_bytes tk))"
proof -
  obtain s where sel: "select_seed 0 demo_seed_db = Some s" and nonce: "f_nonce s = 0"
    using demo_seed by auto
  obtain tk d1 where req: "request_outcome_bytes 0 80 demo_seed_db = Inr (tk, d1)"
    using request_total [OF sel, of 80] nonce by (auto simp: in_int8_def)
  have nn: "next_nonce 0 demo_seed_db = Inr (f_nonce s, d1)" using request_Inr(5) [OF req sel] by simp
  have "users d1 = users demo_seed_db" using nn by (auto simp: next_nonce_def raise_simps)
  moreover have "has_key u_discord_id 0 (users demo_seed_db)" by code_simp
  moreover obtain s1 where "select_seed 0 d1 = Some s1" using next_nonce_seed [OF nn] by auto
  ultimately obtain res d2 where rot: "rotate_seed (demo_env\<lparr>now := 9\<rparr>) [9] [8] 0 ''user'' d1 = Inr (res, d2)"
    using rotate_seed_total [of 0 d1 s1 "''user''" "demo_env\<lparr>now := 9\<rparr>" "[9]" "[8]"] by (auto simp: rotators_def)
  with commit_reveal [OF demo_seed_reach req _ reach.init _ rot] req show ?thesis by simp
qed

text \<open>C12: No nonce is used twice with one seed. If a user draws, any calls follow and the user
  draws again, then the second nonce is larger than the first unless the seed of the user was
  rotated in between.\<close>

theorem nonce_never_reused:
  assumes "reach E (initial_db t) d" and "next_nonce uid d = Inr (n, d1)" and "reach E d1 d2"
    and "next_nonce uid d2 = Inr (n', d3)"
  shows "n < n' \<or> rotations uid d1 < rotations uid d2"
proof -
  obtain s where s: "select_seed uid d1 = Some s" "f_nonce s = n + 1"
    using next_nonce_seed [OF assms(2)] by auto
  have "reach E (initial_db t) d1" using next_nonce_reach [OF assms(2)] assms(1) by (rule reach_trans)
  from nonces_growD [OF reach_nonces [OF this assms(3)] s(1)] obtain s2 where "select_seed uid d2 = Some s2"
    "rotations uid d1 < rotations uid d2 \<or> f_nonce s \<le> f_nonce s2"
    by blast
  with next_nonce_seed [OF assms(4)] s(2) show ?thesis by auto
qed

theorem nonce_never_reused_witness:
  "\<exists>d1 d2. next_nonce 0 demo_seed_db = Inr (0, d1) \<and> next_nonce 0 d1 = Inr (1, d2) \<and> (0::int) < 1"
proof -
  obtain s where sel: "select_seed 0 demo_seed_db = Some s" and nonce: "f_nonce s = 0"
    using demo_seed by auto
  then obtain d1 where n1: "next_nonce 0 demo_seed_db = Inr (0, d1)"
    by (auto simp: next_nonce_def select_seed_def chk8_def in_int8_def)
  from next_nonce_seed [OF this] nonce sel obtain s1 where "select_seed 0 d1 = Some s1" "f_nonce s1 = 1" by auto
  then obtain d2 where n2: "next_nonce 0 d1 = Inr (1, d2)"
    by (auto simp: next_nonce_def select_seed_def chk8_def in_int8_def)
  from nonce_never_reused [OF demo_seed_reach n1 reach.init n2] n1 n2 show ?thesis by auto
qed

text \<open>Every seed is committed. In every reachable database the hash of each player's seed,
  and of each archived seed, is the digest of the seed itself.\<close>

theorem seeds_always_committed:
  assumes "reach E (initial_db t) d"
  shows "(\<forall>s \<in> set (user_seeds d). f_server_seed_hash s = digest_sha256 E (f_server_seed s))
    \<and> (\<forall>h \<in> set (seed_history d). h_server_seed_hash h = digest_sha256 E (h_revealed_server_seed h))"
  using reach_seeds [OF assms] by (simp add: seeds_committed_def)

end
