(* ===== verification/Force_Rotate.thy ===== *)
theory Force_Rotate
  imports Contracts Fairness Manager Text
begin

text \<open>
  The operator's script \<^verbatim>\<open>ops/scripts/force_rotate.py\<close>: it rotates the seed of one player or of all
  players and writes a row of the audit log for each. A rotation and its log row are two statements on
  a connection that commits each, so a failing insert leaves a rotation without a log row.
\<close>

section \<open>Definitions\<close>

definition rotation_args :: "int \<Rightarrow> int \<Rightarrow> string \<Rightarrow> int \<Rightarrow> bytea \<Rightarrow> audit_args" where
  "rotation_args target_id admin_actor_id reason bal new_hash =
     \<lparr>aa_actor_type = ''admin'', aa_actor_id = admin_actor_id, aa_target_id = target_id,
      aa_action = ''fairness_rotated'', aa_amount = Some 0, aa_balance_before = Some bal, aa_balance_after = Some bal,
      aa_reason = Some reason, aa_ref_type = ''fairness_rotation'', aa_ref_id = Some (show_int target_id),
      aa_bot_name = ''ops'', aa_metadata = JObj [(''new_server_seed_hash'', JStr (hex_encode new_hash))]\<rparr>"

text \<open>The times of the two statements are \<open>t\<close> and \<open>t'\<close>. The id of the admin is a parameter of type
  \<^verbatim>\<open>bigint\<close> of the second: one that needs more than 64 bits fails there, after the rotation.\<close>

definition rotate_one :: "pg_env \<Rightarrow> int \<Rightarrow> int \<Rightarrow> bytea \<times> bytea \<Rightarrow> int \<Rightarrow> int \<Rightarrow> string \<Rightarrow> db \<Rightarrow> string py" where
  "rotate_one E t t' rnd target_id admin_actor_id reason d =
     (case rotate_user_seed (E\<lparr>now := t\<rparr>) (fst rnd) (snd rnd) target_id ''admin'' d of
        Inl e \<Rightarrow> (Inl (Engine e), d)
      | Inr ((_, new_hash), d1) \<Rightarrow>
          let bal = coalesce (map_option b_balance (select_balance target_id d1)) 0
          in if \<not> in_int8 admin_actor_id then (Inl (Engine Numeric_out_of_range), d1)
             else case audit_log_insert_with_chain (E\<lparr>now := t'\<rparr>) (rotation_args target_id admin_actor_id reason bal new_hash) d1 of
               Inl e \<Rightarrow> (Inl (Engine e), d1)
             | Inr (_, d2) \<Rightarrow> (Inr (hex_encode new_hash), d2))"

definition all_user_ids :: "db \<Rightarrow> int list" where
  "all_user_ids d = sort (map f_discord_id (user_seeds d))"

text \<open>The loop over the users, with the clock and the random bytes of each statement: the first
  exception ends it.\<close>

fun rotate_each ::
    "pg_env \<Rightarrow> (nat \<Rightarrow> int) \<Rightarrow> (nat \<Rightarrow> bytea \<times> bytea) \<Rightarrow> int \<Rightarrow> string \<Rightarrow> nat \<Rightarrow> int list \<Rightarrow> db \<Rightarrow> (int \<times> string) list py" where
  "rotate_each E clock rnd admin_actor_id reason n [] d = (Inr [], d)"
| "rotate_each E clock rnd admin_actor_id reason n (uid # ids) d =
     (case rotate_one E (clock n) (clock (Suc n)) (rnd n) uid admin_actor_id reason d of
        (Inl e, d1) \<Rightarrow> (Inl e, d1)
      | (Inr new_hash, d1) \<Rightarrow>
          (case rotate_each E clock rnd admin_actor_id reason (Suc (Suc n)) ids d1 of
             (Inl e, d2) \<Rightarrow> (Inl e, d2)
           | (Inr printed, d2) \<Rightarrow> (Inr ((uid, new_hash) # printed), d2)))"

text \<open>\<^verbatim>\<open>--user u\<close> is \<open>Some u\<close>, \<^verbatim>\<open>--all\<close> is \<open>None\<close>. The ids of \<^verbatim>\<open>--all\<close> come from a
  \<^verbatim>\<open>bigint\<close> column; the one of the command line is bound to a \<^verbatim>\<open>bigint\<close> parameter.\<close>

definition main_async ::
    "pg_env \<Rightarrow> (nat \<Rightarrow> int) \<Rightarrow> (nat \<Rightarrow> bytea \<times> bytea) \<Rightarrow> int \<Rightarrow> int option \<Rightarrow> string \<Rightarrow> db \<Rightarrow> (int \<times> string) list py" where
  "main_async E clock rnd admin_actor_id target_user reason d =
     (case target_user of
        None \<Rightarrow> rotate_each E clock rnd admin_actor_id reason 0 (all_user_ids d) d
      | Some u \<Rightarrow>
          if \<not> in_int8 u then (Inl (Engine Numeric_out_of_range), d)
          else rotate_each E clock rnd admin_actor_id reason 0 [u] d)"

text \<open>The whole script: the exit code and what it printed, or the exception that ended it. A missing
  address of the database, or a missing or malformed id of the admin, ends it before it connects.\<close>

definition force_rotate_main ::
    "pg_env \<Rightarrow> (nat \<Rightarrow> int) \<Rightarrow> (nat \<Rightarrow> bytea \<times> bytea) \<Rightarrow> pystr option \<Rightarrow> pystr option \<Rightarrow> int option \<Rightarrow> string \<Rightarrow> db
      \<Rightarrow> (int \<times> (int \<times> string) list) py" where
  "force_rotate_main E clock rnd dsn admin_actor_id_str target_user reason d =
     (if coalesce dsn [] = [] then (Inr (2, []), d)
      else if coalesce admin_actor_id_str [] = [] then (Inr (2, []), d)
      else case py_int (coalesce admin_actor_id_str []) of
             None \<Rightarrow> (Inr (2, []), d)
           | Some admin_actor_id \<Rightarrow>
               (case main_async E clock rnd admin_actor_id target_user reason d of
                  (Inl e, d1) \<Rightarrow> (Inl e, d1)
                | (Inr printed, d1) \<Rightarrow> (Inr (0, printed), d1)))"

section \<open>The owners of seeds are users\<close>

definition grows :: "db \<Rightarrow> db \<Rightarrow> bool" where
  "grows d d' \<longleftrightarrow> user_ids d \<subseteq> user_ids d' \<and> map f_discord_id (user_seeds d') = map f_discord_id (user_seeds d)"

text \<open>Most statements touch neither table.\<close>

definition owners_same :: "db \<Rightarrow> db \<Rightarrow> bool" where
  "owners_same d d' \<longleftrightarrow> users d' = users d \<and> user_seeds d' = user_seeds d"

named_theorems owners_frame \<open>statements that touch neither the users nor the seeds\<close>

lemma statement_owners [owners_frame]:
  "audit_log_insert_with_chain E a d = Inr (i, d') \<Longrightarrow> owners_same d d'"
  "update_balance u f d = Inr d' \<Longrightarrow> owners_same d d'"
  "insert_balance E u d = Inr d' \<Longrightarrow> owners_same d d'"
  "upsert_stats c g d = Inr d' \<Longrightarrow> owners_same d d'"
  "insert_deposit_ticket t d = Inr d' \<Longrightarrow> owners_same d d'"
  "insert_withdraw_ticket wt d = Inr d' \<Longrightarrow> owners_same d d'"
  "update_deposit_ticket ky k tf d = Inr d' \<Longrightarrow> owners_same d d'"
  "update_withdraw_ticket ky' k wg d = Inr d' \<Longrightarrow> owners_same d d'"
  "insert_bet b d = Inr d' \<Longrightarrow> owners_same d d'"
  "update_pool q n d = Inr d' \<Longrightarrow> owners_same d d'"
  by (auto simp: owners_same_def audit_log_insert_with_chain_def insert_audit_row_def not_null_def update_balance_def
      insert_balance_def upsert_stats_def update_deposit_ticket_def update_withdraw_ticket_def insert_deposit_ticket_def
      insert_withdraw_ticket_def insert_bet_def update_pool_def raise_if_def bindE_def Let_def
      split: option.splits sum.splits if_splits prod.splits)

lemma plain_owners [simp]:
  "user_seeds (insert_user E u d) = user_seeds d" "user_ids (insert_user E u d) = insert u (user_ids d)"
  "user_seeds (update_bet i f d) = user_seeds d" "users (update_bet i f d) = users d"
  by (auto simp: insert_user_def update_bet_def user_ids_def has_key_def)

lemma insert_user_ids [simp]:
  "u_discord_id ` set (users (insert_user E u d)) = insert u (u_discord_id ` set (users d))"
  using plain_owners(2) by (simp add: user_ids_def)

lemma credit_owners [owners_frame]:
  "credit_treasury E n d = Inr d' \<Longrightarrow> owners_same d d'"
  "credit_rake E q n d = Inr d' \<Longrightarrow> owners_same d d'"
  by (auto simp: owners_same_def credit_treasury_def credit_rake_def raise_simps Let_def
      split: if_splits option.splits dest!: owners_frame)

lemma update_owners [owners_frame]:
  "(case ty of Deposit \<Rightarrow> update_deposit_ticket ky k tf d | Withdraw \<Rightarrow> update_withdraw_ticket ky' k wg d) = Inr d' \<Longrightarrow>
    owners_same d d'"
  by (cases ty) (auto dest: owners_frame)

lemmas grows_simps = grows_def owners_same_def user_ids_def raise_simps Let_def

lemma ticket_grows:
  "create_deposit_ticket E u chr rl rg fc n th pc d = Inr (x, d') \<Longrightarrow> grows d d'"
  "confirm_deposit E uid c d = Inr (y, d') \<Longrightarrow> grows d d'"
  "cancel_deposit E uid a r d = Inr (z, d') \<Longrightarrow> grows d d'"
  "create_withdraw_ticket E u chr rl rg fc n th pc d = Inr (x, d') \<Longrightarrow> grows d d'"
  "confirm_withdraw E uid c d = Inr (y, d') \<Longrightarrow> grows d d'"
  "cancel_withdraw E uid a r d = Inr (z1, d') \<Longrightarrow> grows d d'"
  "claim_ticket E ty uid c d = Inr (w1, d') \<Longrightarrow> grows d d'"
  "release_ticket E ty uid c d = Inr (w2, d') \<Longrightarrow> grows d d'"
  by (auto simp: grows_simps create_deposit_ticket_def confirm_deposit_def cancel_deposit_def create_withdraw_ticket_def
      confirm_withdraw_def cancel_withdraw_def claim_ticket_def release_ticket_def
      split: if_splits option.splits dest!: owners_frame)

lemma upd_owners [simp]: "u_discord_id ` set (upd_key u_discord_id u (\<lambda>r. r\<lparr>u_banned := b, u_banned_reason := why,
    u_banned_at := at_time, u_updated_at := t\<rparr>) us) = u_discord_id ` set us"
proof -
  have "map u_discord_id (upd_key u_discord_id u (\<lambda>r. r\<lparr>u_banned := b, u_banned_reason := why,
      u_banned_at := at_time, u_updated_at := t\<rparr>) us) = map u_discord_id us" by (simp add: upd_key_def)
  then show ?thesis by (metis list.set_map)
qed

lemma treasury_grows:
  "treasury_sweep E n1 a1 r1 d = Inr (x, d') \<Longrightarrow> grows d d'"
  "treasury_withdraw_to_user E n1 u1 a1 r1 d = Inr (y, d') \<Longrightarrow> grows d d'"
  by (auto simp: grows_simps treasury_sweep_def treasury_withdraw_to_user_def
      split: if_splits option.splits prod.splits dest!: owners_frame)

lemma ban_grows:
  "ban_user E u r2 a d = Inr (y, d') \<Longrightarrow> grows d d'"
  "unban_user E u a d = Inr (z, d') \<Longrightarrow> grows d d'"
  by (auto simp: grows_simps ban_user_def unban_user_def split: if_splits option.splits prod.splits dest!: owners_frame)

lemma payout_grows: "dispute_payout E r act am u a d = Inr d' \<Longrightarrow> grows d d'"
  by (auto simp: dispute_payout_def raise_simps dest: treasury_grows split: if_splits) (simp add: grows_def)

lemma dispute_grows:
  "open_dispute E ty uid o1 ro re d = Inr (x, d') \<Longrightarrow> grows d d'"
  "resolve_dispute E i act am b d = Inr (y, d') \<Longrightarrow> grows d d'"
  "reject_dispute E i re1 a d = Inr (z, d') \<Longrightarrow> grows d d'"
  subgoal by (auto simp: grows_simps open_dispute_def insert_dispute_def split: if_splits option.splits dest!: owners_frame)
  subgoal by (clarsimp simp: resolve_dispute_def raise_simps Let_def)
      (drule payout_grows, drule statement_owners, simp add: grows_simps)
  subgoal by (auto simp: grows_simps reject_dispute_def dest!: owners_frame)
  done

lemma cashier_grows:
  "add_cashier_character E u chr rl rg fc d = Inr (x, d') \<Longrightarrow> grows d d'"
  "remove_cashier_character E u chr rl rg d = Inr (y, d') \<Longrightarrow> grows d d'"
  "set_cashier_status E u s d = Inr (y, d') \<Longrightarrow> grows d d'"
  "expire_cashier E u d = Inr (y, d') \<Longrightarrow> grows d d'"
  "recompute_stats E u d = Inr d' \<Longrightarrow> grows d d'"
  by (auto simp: grows_simps add_cashier_character_def remove_cashier_character_def set_cashier_status_def upsert_character_def
      upsert_status_def open_session_def close_sessions_def expire_cashier_def recompute_stats_def
      split: if_splits option.splits prod.splits dest!: owners_frame)

lemma bet_grows:
  "apply_bet E u g c n s h cs no k uid d = Inr (x1, d') \<Longrightarrow> grows d d'"
  "resolve_bet E i st p out d = Inr (x2, d') \<Longrightarrow> grows d d'"
  "refund_bet E i r d = Inr (x3, d') \<Longrightarrow> grows d d'"
  by (auto simp: grows_simps apply_bet_def resolve_bet_def refund_bet_def
      split: if_splits option.splits prod.splits dest!: owners_frame)

lemma cashout_grows: "cashout_mines E i mu d = Inr (x5, d') \<Longrightarrow> grows d d'"
  by (elim cashout_mines_Inr) (rule bet_grows(2))

lemma period_grows: "insert_raffle_period E i lb s e st d = Inr d' \<Longrightarrow> grows d d'"
  by (auto simp: grows_simps insert_raffle_period_def)

lemma seed_key_map: "(\<And>s. f_discord_id (f s) = f_discord_id s) \<Longrightarrow> map f_discord_id (upd_key f_discord_id u f ss) = map f_discord_id ss"
  by (simp add: upd_key_def)

lemma luck_grows:
  "consume_rate_token E u sc w m d = Inr (x1, d') \<Longrightarrow> grows d d'"
  "next_nonce u d = Inr (x2, d') \<Longrightarrow> grows d d'"
  "grant_raffle_tickets E u p n b d = Inr (x3, d') \<Longrightarrow> grows d d'"
  by (auto simp: grows_simps consume_rate_token_def next_nonce_def grant_raffle_tickets_def seed_key_map
      split: if_splits option.splits prod.splits dest!: owners_frame)

lemma plain_calls_grow:
  "grows d (upsert_config E k v a d)" "grows d (update_client_seed u c d)" "grows d (set_dispute_message i m d)"
  by (simp_all add: grows_simps upsert_config_def update_client_seed_def set_dispute_message_def seed_key_map)

lemmas call_grows = ticket_grows treasury_grows ban_grows dispute_grows cashier_grows bet_grows cashout_grows luck_grows
  period_grows

text \<open>One seed for a user, and only for users: the keys of \<^verbatim>\<open>fairness.user_seeds\<close>.\<close>

definition owners_ok :: "db \<Rightarrow> bool" where
  "owners_ok d \<longleftrightarrow> f_discord_id ` set (user_seeds d) \<subseteq> user_ids d \<and> distinct (map f_discord_id (user_seeds d))"

lemma grows_owners: "grows d d' \<Longrightarrow> owners_ok d \<Longrightarrow> owners_ok d'"
  unfolding grows_def owners_ok_def by (metis (no_types, lifting) list.set_map order_trans)

lemma rotate_grows:
  assumes "rotate_user_seed E s c u b d = Inr (x, d')" and "select_seed u d = Some r"
  shows "grows d d'"
  using assms by (auto simp: rotate_user_seed_def raise_simps Let_def select_seed_def grows_def user_ids_def seed_key_map)

lemma rotate_owners:
  assumes ret: "rotate_user_seed E s c u b d = Inr (x, d')" and ok: "owners_ok d"
  shows "owners_ok d'"
proof (cases "select_seed u d")
  case (Some r)
  with rotate_grows [OF ret] ok show ?thesis by (blast intro: grows_owners)
next
  case None
  then have "u \<notin> f_discord_id ` set (user_seeds d)" by (simp add: select_seed_def sel_key_None_iff)
  moreover have "users d' = users d" and "u \<in> user_ids d"
    and "map f_discord_id (user_seeds d') = map f_discord_id (user_seeds d) @ [u]"
    using ret None
    by (auto simp: rotate_user_seed_def raise_simps Let_def select_seed_def has_key_def user_ids_def)
  moreover from this(3) have "f_discord_id ` set (user_seeds d') = insert u (f_discord_id ` set (user_seeds d))"
    by (metis list.set_map rotate1.simps(2) set_rotate1 list.simps(15))
  ultimately show ?thesis using ok by (simp add: owners_ok_def user_ids_def)
qed

interpretation owners: stable E owners_ok for E
proof unfold_locales
  fix d t c d'
  assume ok: "owners_ok d" and ret: "exec (E\<lparr>now := t\<rparr>) c d = Inr d'"
  then show "owners_ok d'"
    by (cases c) (auto simp: raise_simps intro: grows_owners [OF plain_calls_grow(1)] grows_owners [OF plain_calls_grow(2)]
        grows_owners [OF plain_calls_grow(3)] rotate_owners dest!: call_grows intro: grows_owners)
qed

lemma reach_owners: "reach E (initial_db t) d \<Longrightarrow> owners_ok d"
  by (erule owners.stable_reach) (simp add: owners_ok_def initial_db_def)

section \<open>One rotation\<close>

lemma audit_row_of: "audit_log_insert_with_chain E a d = Inr (i, d') \<Longrightarrow>
  \<exists>r. audit_log d' = audit_log d @ [r] \<and> a_actor_type r = aa_actor_type a \<and> a_actor_id r = aa_actor_id a
    \<and> a_target_id r = aa_target_id a \<and> a_action r = aa_action a"
  by (auto simp: audit_insert_Inr new_audit_row_def)

text \<open>What a completed rotation of \<open>u\<close> to the seed \<open>seed\<close> did: the old seed is in the history, the log has
  a row that names the admin, and nothing else changed that the ledger or the chain depends on.\<close>

definition rotated_seed :: "pg_env \<Rightarrow> int \<Rightarrow> int \<Rightarrow> bytea \<Rightarrow> db \<Rightarrow> db \<Rightarrow> bool" where
  "rotated_seed E u admin seed d d' \<longleftrightarrow>
     (\<exists>h. seed_history d' = seed_history d @ [h] \<and> h_discord_id h = u \<and> h_rotated_by h = ''admin''
        \<and> map_option f_server_seed (select_seed u d) = Some (h_revealed_server_seed h))
     \<and> (\<exists>r. audit_log d' = audit_log d @ [r] \<and> a_actor_type r = ''admin'' \<and> a_actor_id r = admin
        \<and> a_target_id r = u \<and> a_action r = ''fairness_rotated'')
     \<and> map_option f_server_seed_hash (select_seed u d') = Some (digest_sha256 E seed)
     \<and> (\<forall>v. v \<noteq> u \<longrightarrow> select_seed v d' = select_seed v d)
     \<and> grows d d' \<and> same_money d d'"

lemma rotate_stmt:
  assumes "select_seed u d = Some s" and "has_key u_discord_id u (users d)"
  obtains h d1 where "rotate_user_seed E rs rc u ''admin'' d = Inr ((Some (f_server_seed s), digest_sha256 E rs), d1)"
    and "seed_history d1 = seed_history d @ [h]" and "h_discord_id h = u" and "h_rotated_by h = ''admin''"
    and "h_revealed_server_seed h = f_server_seed s" and "audit_log d1 = audit_log d" and "users d1 = users d"
    and "map_option f_server_seed_hash (select_seed u d1) = Some (digest_sha256 E rs)"
    and "\<And>v. v \<noteq> u \<Longrightarrow> select_seed v d1 = select_seed v d"
proof -
  have "\<exists>d1. rotate_user_seed E rs rc u ''admin'' d = Inr ((Some (f_server_seed s), digest_sha256 E rs), d1)
      \<and> (\<exists>h. seed_history d1 = seed_history d @ [h] \<and> h_discord_id h = u \<and> h_rotated_by h = ''admin''
          \<and> h_revealed_server_seed h = f_server_seed s)
      \<and> audit_log d1 = audit_log d \<and> users d1 = users d
      \<and> map_option f_server_seed_hash (select_seed u d1) = Some (digest_sha256 E rs)
      \<and> (\<forall>v. v \<noteq> u \<longrightarrow> select_seed v d1 = select_seed v d)"
    using assms by (simp add: rotate_user_seed_def select_seed_def rotators_def Let_def sel_key_upd raise_if_def)
  then show thesis using that by blast
qed

lemma rotate_one_done:
  assumes ok: "owners_ok d" and key: "chain_key e E = Inr k" and sel: "select_seed u d = Some s" and admin: "in_int8 admin"
  obtains d' where "rotate_one E t t' rnd u admin reason d = (Inr (hex_encode (digest_sha256 E (fst rnd))), d')"
    and "rotated_seed E u admin (fst rnd) d d'"
    and "keys_unique d \<Longrightarrow> audit_inv E k d \<Longrightarrow> keys_unique d' \<and> audit_inv E k d'"
proof -
  have user: "has_key u_discord_id u (users d)"
    using ok sel_key_Some_in [OF sel [unfolded select_seed_def]] sel_key_Some_key [OF sel [unfolded select_seed_def]]
    by (auto simp: owners_ok_def user_ids_def has_key_def)
  obtain h d1 where rot: "rotate_user_seed (E\<lparr>now := t\<rparr>) (fst rnd) (snd rnd) u ''admin'' d
      = Inr ((Some (f_server_seed s), digest_sha256 (E\<lparr>now := t\<rparr>) (fst rnd)), d1)"
    and one: "seed_history d1 = seed_history d @ [h]" "h_discord_id h = u" "h_rotated_by h = ''admin''"
      "h_revealed_server_seed h = f_server_seed s" "audit_log d1 = audit_log d" "users d1 = users d"
      "map_option f_server_seed_hash (select_seed u d1) = Some (digest_sha256 (E\<lparr>now := t\<rparr>) (fst rnd))"
      "\<And>v. v \<noteq> u \<Longrightarrow> select_seed v d1 = select_seed v d"
    by (rule rotate_stmt [OF sel user, where E = "E\<lparr>now := t\<rparr>" and rs = "fst rnd" and rc = "snd rnd"]) blast
  let ?bal = "coalesce (map_option b_balance (select_balance u d1)) 0"
  let ?a = "rotation_args u admin reason ?bal (digest_sha256 E (fst rnd))"
  have "chain_key e (E\<lparr>now := t'\<rparr>) = Inr k" using key by simp
  from audit_total [OF this, of ?a ?bal ?bal d1] user one(6) obtain i d2
    where aud: "audit_log_insert_with_chain (E\<lparr>now := t'\<rparr>) ?a d1 = Inr (i, d2)"
    unfolding rotation_args_def by (auto simp: actor_types_def simp del: has_key_def)
  have run: "rotate_one E t t' rnd u admin reason d = (Inr (hex_encode (digest_sha256 E (fst rnd))), d2)"
    using rot aud admin by (simp add: rotate_one_def Let_def)
  have seeds: "select_seed v d2 = select_seed v d1" for v using seeds_frame [OF aud] by (simp add: select_seed_def)
  have "same_money d1 d2" by (rule audit_same_money [OF aud]) (simp add: rotation_args_def)
  then have "same_money d d2" using rotate_user_seed_same [OF rot] by (rule same_money_trans [rotated])
  moreover have "grows d d2"
    using rotate_grows [OF rot sel] statement_owners(1) [OF aud] by (simp add: grows_simps)
  ultimately have rotated: "rotated_seed E u admin (fst rnd) d d2"
    using one seeds seeds_frame [OF aud] audit_row_of [OF aud] sel
    by (simp add: rotated_seed_def rotation_args_def)
  have "keys_unique d2 \<and> audit_inv E k d2" if "keys_unique d" "audit_inv E k d"
  proof -
    have "stmts (E\<lparr>now := t\<rparr>) d d1" "keys_unique d1"
      using rotate_user_seed_path [OF rot] that(1) by (simp_all add: path_def)
    moreover from this have "keys_unique d2" using path_audit [OF aud] by (simp add: path_def)
    ultimately show ?thesis
      using audit_inv_append [OF stmts_audit_inv [OF _ that(2) key] key aud] by blast
  qed
  with run rotated show thesis by (rule that)
qed

section \<open>All rotations\<close>

lemma grows_trans: "grows d d1 \<Longrightarrow> grows d1 d2 \<Longrightarrow> grows d d2"
  by (auto simp: grows_def)

lemma rotate_each_done:
  assumes "owners_ok d" and key: "chain_key e E = Inr k" and admin: "in_int8 admin" and "distinct ids" and "set ids \<subseteq> f_discord_id ` set (user_seeds d)"
  shows "\<exists>printed hs rs d'. rotate_each E clock rnd admin reason n ids d = (Inr printed, d')
    \<and> seed_history d' = seed_history d @ hs \<and> audit_log d' = audit_log d @ rs
    \<and> map (\<lambda>h. (h_discord_id h, h_rotated_by h, Some (h_revealed_server_seed h))) hs
      = map (\<lambda>u. (u, ''admin'', map_option f_server_seed (select_seed u d))) ids
    \<and> map (\<lambda>r. (a_actor_type r, a_actor_id r, a_target_id r, a_action r)) rs
      = map (\<lambda>u. (''admin'', admin, u, ''fairness_rotated'')) ids
    \<and> map (\<lambda>(u, hash). (u, Some hash)) printed
      = map (\<lambda>u. (u, map_option (\<lambda>s. hex_encode (f_server_seed_hash s)) (select_seed u d'))) ids
    \<and> (\<forall>v. v \<notin> set ids \<longrightarrow> select_seed v d' = select_seed v d)
    \<and> same_money d d' \<and> (keys_unique d \<and> audit_inv E k d \<longrightarrow> keys_unique d' \<and> audit_inv E k d')"
  using assms(1,4,5)
proof (induction ids arbitrary: n d)
  case Nil
  show ?case by simp
next
  case (Cons u ids)
  obtain s where sel: "select_seed u d = Some s"
    using Cons.prems(3) sel_key_None_iff [of f_discord_id u "user_seeds d"] by (cases "select_seed u d") (auto simp: select_seed_def)
  obtain d1 where run: "rotate_one E (clock n) (clock (Suc n)) (rnd n) u admin reason d
      = (Inr (hex_encode (digest_sha256 E (fst (rnd n)))), d1)"
    and rot: "rotated_seed E u admin (fst (rnd n)) d d1"
    and chain: "keys_unique d \<Longrightarrow> audit_inv E k d \<Longrightarrow> keys_unique d1 \<and> audit_inv E k d1"
    by (rule rotate_one_done [OF Cons.prems(1) key sel admin, where t = "clock n" and t' = "clock (Suc n)" and rnd = "rnd n" and reason = reason]) blast
  have grows: "grows d d1" using rot by (simp add: rotated_seed_def)
  then have ok: "owners_ok d1" using Cons.prems(1) by (rule grows_owners)
  have "set ids \<subseteq> f_discord_id ` set (user_seeds d1)"
    using grows Cons.prems(3) by (auto simp: grows_def dest!: arg_cong [where f = set])
  with Cons.prems(2) Cons.IH [OF ok, where n = "Suc (Suc n)"] obtain printed hs rs d' where
    rest: "rotate_each E clock rnd admin reason (Suc (Suc n)) ids d1 = (Inr printed, d')"
      "seed_history d' = seed_history d1 @ hs" "audit_log d' = audit_log d1 @ rs"
      "map (\<lambda>h. (h_discord_id h, h_rotated_by h, Some (h_revealed_server_seed h))) hs
        = map (\<lambda>u. (u, ''admin'', map_option f_server_seed (select_seed u d1))) ids"
      "map (\<lambda>r. (a_actor_type r, a_actor_id r, a_target_id r, a_action r)) rs
        = map (\<lambda>u. (''admin'', admin, u, ''fairness_rotated'')) ids"
      "map (\<lambda>(u, hash). (u, Some hash)) printed
        = map (\<lambda>u. (u, map_option (\<lambda>s. hex_encode (f_server_seed_hash s)) (select_seed u d'))) ids"
      "\<And>v. v \<notin> set ids \<Longrightarrow> select_seed v d' = select_seed v d1"
      "same_money d1 d'" "keys_unique d1 \<and> audit_inv E k d1 \<longrightarrow> keys_unique d' \<and> audit_inv E k d'"
    by auto
  have same: "select_seed v d1 = select_seed v d" if "v \<in> set ids" for v
  proof -
    have "v \<noteq> u" using that Cons.prems(2) by auto
    with rot show ?thesis unfolding rotated_seed_def by blast
  qed
  have seeds: "map (\<lambda>v. (v, ''admin'', map_option f_server_seed (select_seed v d1))) ids
      = map (\<lambda>v. (v, ''admin'', map_option f_server_seed (select_seed v d))) ids"
    by (rule map_cong [OF refl]) (simp add: same)
  have now: "map_option f_server_seed_hash (select_seed u d') = Some (digest_sha256 E (fst (rnd n)))"
    using rot rest(7) [of u] Cons.prems(2) by (simp add: rotated_seed_def)
  obtain h r where h: "seed_history d1 = seed_history d @ [h]" "h_discord_id h = u" "h_rotated_by h = ''admin''"
      "map_option f_server_seed (select_seed u d) = Some (h_revealed_server_seed h)"
    and r: "audit_log d1 = audit_log d @ [r]" "a_actor_type r = ''admin''" "a_actor_id r = admin" "a_target_id r = u"
      "a_action r = ''fairness_rotated''"
    using rot unfolding rotated_seed_def by blast
  have untouched: "select_seed v d' = select_seed v d" if "v \<notin> set (u # ids)" for v
    using that rot rest(7) [of v] by (simp add: rotated_seed_def)
  have money: "same_money d d'" using rot rest(8) by (auto simp: rotated_seed_def intro: same_money_trans)
  show ?case
    using run rest(1-6) seeds now h r untouched money chain rest(9)
    by (intro exI [of _ "(u, hex_encode (digest_sha256 E (fst (rnd n)))) # printed"] exI [of _ "h # hs"] exI [of _ "r # rs"] exI [of _ d'])
      auto
qed

lemma all_ids: "set (all_user_ids d) = f_discord_id ` set (user_seeds d)"
  by (simp add: all_user_ids_def)

lemma all_ids_distinct: "owners_ok d \<Longrightarrow> distinct (all_user_ids d)"
  by (simp add: all_user_ids_def owners_ok_def)

text \<open>C40: A forced rotation of all seeds is complete and accounted for. With a configured chain key and
  an id of the admin of 64 bits the script ends on every reachable database, and then every player with
  a seed, each once, has the old seed in the public history as rotated by an admin, a new commitment in
  place, whose hash the script printed, and a row of the audit log that names the admin. No gold moves:
  the balances and the raffle pools are the same row by row, and so are all accounts of the book and
  all tickets and bets; the log is still an intact chain.\<close>

theorem rotate_all_accounted:
  assumes "reach E (initial_db t0) d" and "chain_key e E = Inr k" and "in_int8 admin"
  shows "\<exists>printed hs rs d'. main_async E clock rnd admin None reason d = (Inr printed, d')
    \<and> seed_history d' = seed_history d @ hs \<and> audit_log d' = audit_log d @ rs
    \<and> map (\<lambda>h. (h_discord_id h, h_rotated_by h, Some (h_revealed_server_seed h))) hs
      = map (\<lambda>u. (u, ''admin'', map_option f_server_seed (select_seed u d))) (all_user_ids d)
    \<and> map (\<lambda>r. (a_actor_type r, a_actor_id r, a_target_id r, a_action r)) rs
      = map (\<lambda>u. (''admin'', admin, u, ''fairness_rotated'')) (all_user_ids d)
    \<and> map (\<lambda>(u, hash). (u, Some hash)) printed
      = map (\<lambda>u. (u, map_option (\<lambda>s. hex_encode (f_server_seed_hash s)) (select_seed u d'))) (all_user_ids d)
    \<and> balances d' = balances d \<and> raffle_periods d' = raffle_periods d \<and> book_of d' = book_of d
    \<and> deposit_tickets d' = deposit_tickets d \<and> withdraw_tickets d' = withdraw_tickets d \<and> bets d' = bets d
    \<and> total_gold d' = total_gold d \<and> audit_inv E k d'"
proof -
  have ok: "owners_ok d" by (rule reach_owners [OF assms(1)])
  have chain: "keys_unique d \<and> audit_inv E k d" using reach_unique [OF assms(1)] reach_log [OF assms(1,2)] by simp
  from rotate_each_done [OF ok assms(2,3) all_ids_distinct [OF ok], where clock = clock and rnd = rnd and reason = reason and n = 0] obtain printed hs rs d' where
    run: "rotate_each E clock rnd admin reason 0 (all_user_ids d) d = (Inr printed, d')" and "same_money d d'"
    and rest: "seed_history d' = seed_history d @ hs" "audit_log d' = audit_log d @ rs"
      "map (\<lambda>h. (h_discord_id h, h_rotated_by h, Some (h_revealed_server_seed h))) hs
        = map (\<lambda>u. (u, ''admin'', map_option f_server_seed (select_seed u d))) (all_user_ids d)"
      "map (\<lambda>r. (a_actor_type r, a_actor_id r, a_target_id r, a_action r)) rs
        = map (\<lambda>u. (''admin'', admin, u, ''fairness_rotated'')) (all_user_ids d)"
      "map (\<lambda>(u, hash). (u, Some hash)) printed
        = map (\<lambda>u. (u, map_option (\<lambda>s. hex_encode (f_server_seed_hash s)) (select_seed u d'))) (all_user_ids d)"
    and kept: "keys_unique d \<and> audit_inv E k d \<longrightarrow> keys_unique d' \<and> audit_inv E k d'"
    by (auto simp: all_ids)
  have "balances d' = balances d" "raffle_periods d' = raffle_periods d" "deposit_tickets d' = deposit_tickets d"
    "withdraw_tickets d' = withdraw_tickets d" "bets d' = bets d"
    using \<open>same_money d d'\<close> by (simp_all add: same_money_def)
  moreover have "book_of d' = book_of d" using \<open>same_money d d'\<close> by (rule same_money_book)
  moreover have "total_gold d' = total_gold d" using \<open>same_money d d'\<close> by (simp add: total_gold_def same_money_def)
  moreover have "main_async E clock rnd admin None reason d = (Inr printed, d')" using run by (simp add: main_async_def)
  moreover have "audit_inv E k d'" using kept chain by blast
  ultimately show ?thesis using rest by blast
qed

text \<open>The two statements are not one transaction: without a chain key the script ends with an exception,
  and the seed is rotated with no row in the log.\<close>

lemma rotation_unlogged:
  assumes "select_seed u d = Some s" and "has_key u_discord_id u (users d)" and "audit_chain_key E = None"
    and "in_int8 admin"
  shows "\<exists>d'. rotate_one E t t' rnd u admin reason d = (Inl (Engine (Raised Audit_chain_key_not_configured)), d')
    \<and> audit_log d' = audit_log d \<and> rotations u d' = rotations u d + 1"
proof -
  obtain h d1 where "rotate_user_seed (E\<lparr>now := t\<rparr>) (fst rnd) (snd rnd) u ''admin'' d
      = Inr ((Some (f_server_seed s), digest_sha256 (E\<lparr>now := t\<rparr>) (fst rnd)), d1)"
    "seed_history d1 = seed_history d @ [h]" "h_discord_id h = u" "audit_log d1 = audit_log d"
    by (rule rotate_stmt [OF assms(1,2), where E = "E\<lparr>now := t\<rparr>" and rs = "fst rnd" and rc = "snd rnd"]) blast
  then show ?thesis
    using assms(3,4) by (simp add: rotate_one_def Let_def audit_log_insert_with_chain_def chain_key_def rotations_def)
qed

text \<open>A script that is called without its settings touches nothing.\<close>

lemma force_rotate_refuses:
  "force_rotate_main E clock rnd dsn admin target_user reason d = (Inr (2, printed), d') \<Longrightarrow> d' = d \<and> printed = []"
  by (auto simp: force_rotate_main_def split: if_splits option.splits prod.splits sum.splits)

text \<open>A run over a database with one seed.\<close>

theorem rotate_all_accounted_witness:
  "\<exists>hash h r d'. main_async demo_env int (\<lambda>n. ([7], [8])) 5 None ''leak'' demo_seed_db = (Inr [(0, hash)], d')
    \<and> seed_history d' = seed_history demo_seed_db @ [h] \<and> h_revealed_server_seed h = [1, 2, 3]
    \<and> audit_log d' = audit_log demo_seed_db @ [r] \<and> a_actor_id r = 5
    \<and> balances d' = balances demo_seed_db \<and> book_of d' = book_of demo_seed_db
    \<and> audit_inv demo_env [10, 11] d'"
proof -
  have ids: "all_user_ids demo_seed_db = [0]" by code_simp
  obtain s where "select_seed 0 demo_seed_db = Some s" "f_server_seed s = [1, 2, 3]" using demo_seed by auto
  then show ?thesis
    using rotate_all_accounted [OF demo_seed_reach demo_key, of 5 int "\<lambda>n. ([7], [8])" "''leak''"]
    by (auto simp: ids map_eq_Cons_conv in_int8_def)
qed

end
