(* ===== verification/Bet_Contracts.thy ===== *)
theory Bet_Contracts
  imports Contracts
begin

text \<open>
  What the bet functions and the rate limiter of the luck bot promise on every reachable
  database.
\<close>

section \<open>Raffle pools\<close>

text \<open>The periods with an amount added to the pool of one of them.\<close>

definition pool_credited :: "int option \<Rightarrow> int \<Rightarrow> period_row list \<Rightarrow> period_row list" where
  "pool_credited p n ps =
     (case p of
        None \<Rightarrow> ps
      | Some i \<Rightarrow> upd_key rp_id i (\<lambda>r. r\<lparr>rp_pool_amount := rp_pool_amount r + n\<rparr>) ps)"

lemma pool_credited_0 [simp]: "pool_credited p 0 ps = ps"
  by (simp add: pool_credited_def upd_key_def split: option.splits)

lemma pool_credited_twice [simp]: "pool_credited p m (pool_credited p n ps) = pool_credited p (n + m) ps"
  by (auto simp: pool_credited_def upd_key_def add.assoc split: option.splits)

lemma credit_treasury_pools: "credit_treasury E n d = Inr d' \<Longrightarrow> raffle_periods d' = raffle_periods d"
  by (auto simp: credit_treasury_def dest!: update_balance_frame)

lemma credit_rake_pools:
  assumes "credit_rake E p n d = Inr d'"
  shows "raffle_periods d' = pool_credited p n (raffle_periods d)"
proof (cases p)
  case None
  with assms show ?thesis by (simp add: credit_rake_def pool_credited_def credit_treasury_pools)
next
  case (Some i)
  with assms Some show ?thesis
    by (auto simp: credit_rake_def update_pool_def pool_credited_def raise_simps upd_key_absent split: option.splits)
qed

text \<open>A new bet: its row, and what it does to the pools.\<close>

lemma apply_bet_row:
  assumes "apply_bet E u game ch n sel sh cs nonce key uid d = Inr ((i, False), d')"
  shows "\<exists>b. select_bet i d' = Some b \<and> bt_rake_period_id b = active_period d
    \<and> raffle_periods d' = (if 0 < bt_rake b then pool_credited (active_period d) (bt_rake b) (raffle_periods d) else raffle_periods d)"
  using assms
proof (cases rule: apply_bet_cases)
  case (fresh g cb rb c r b d1 d2 d3 d4)
  note ins = insert_bet_Inr [OF fresh(1)]
  have bets3: "bets d3 = bets d"
    using fresh(2,3,4)
    by (auto simp: credit_treasury_def credit_rake_def update_pool_def raise_simps
        split: if_splits option.splits dest!: update_balance_frame)
  have "bets d' = bets d @ [b]" using ins(1) fresh(14) bets3 by (simp add: same_money_def)
  moreover have "sel_key bt_id i (bets d) = None" using ins(4) bets3 fresh(24) by (simp add: sel_key_None_iff)
  ultimately have "select_bet i d' = Some b" using fresh(24) by (simp add: select_bet_def)
  moreover have "raffle_periods d2 = raffle_periods d"
    using fresh(2,3) by (auto simp: credit_treasury_pools split: if_splits dest!: update_balance_frame)
  then have "raffle_periods d3 = (if 0 < r then pool_credited (active_period d) r (raffle_periods d) else raffle_periods d)"
    using fresh(4) by (auto simp: credit_rake_pools split: if_splits)
  moreover have "raffle_periods d' = raffle_periods d3" using ins(1) fresh(14) by (simp add: same_money_def)
  ultimately show ?thesis using fresh by auto
qed simp

section \<open>Placing a bet\<close>

text \<open>C19: A placed bet splits its amount. A bet that goes through moves the effective stake to the
  locked gold of the player, the commission to the treasury and the rake to the pool of the raffle
  period that is active (to the treasury when none is); the three are not negative and add up to the
  amount of the bet. Of the raffle periods only the pool of the active one changes, by the rake, and the
  bet remembers that period.\<close>

theorem apply_bet_posts:
  assumes "reach E (initial_db t0) d"
    and "apply_bet (E\<lparr>now := t\<rparr>) u game ch n sel sh cs nonce key uid d = Inr ((i, False), d')"
  shows "\<exists>b. select_bet i d' = Some b \<and> bt_status b = Bet_open
    \<and> 0 \<le> bt_effective_stake b \<and> 0 \<le> bt_commission b \<and> 0 \<le> bt_rake b
    \<and> n = bt_effective_stake b + bt_commission b + bt_rake b
    \<and> bt_rake_period_id b = active_period d
    \<and> raffle_periods d' = pool_credited (active_period d) (bt_rake b) (raffle_periods d)
    \<and> book_of d' = foldl post (book_of d)
        [(Avail u, Held u, bt_effective_stake b), (Avail u, Avail 0, bt_commission b),
         (Avail u, if bt_rake_period_id b = None then Avail 0 else Pool, bt_rake b)]"
proof -
  obtain b where b: "select_bet i d' = Some b" "bt_discord_id b = u" "bt_bet_amount b = n" "bt_status b = Bet_open"
    "open_bet_ok (user_ids d) (period_ids d) b" "book_of d' = foldl post (book_of d) (bet_postings b)"
    using apply_bet_refines(2) [OF reach_ledger [OF assms(1)] assms(2)] by auto
  have period: "bt_rake_period_id b = active_period d"
    and pools: "raffle_periods d' = (if 0 < bt_rake b then pool_credited (active_period d) (bt_rake b) (raffle_periods d) else raffle_periods d)"
    using apply_bet_row [OF assms(2)] b(1) by auto
  have "bet_postings b = [(Avail u, Held u, bt_effective_stake b), (Avail u, Avail 0, bt_commission b),
         (Avail u, if bt_rake_period_id b = None then Avail 0 else Pool, bt_rake b)]"
    using b(2) by (auto simp: bet_postings_def rake_account_def split: option.splits)
  moreover have "raffle_periods d' = pool_credited (active_period d) (bt_rake b) (raffle_periods d)"
    using pools b(5) by (cases "bt_rake b = 0") (auto simp: open_bet_ok_def)
  ultimately show ?thesis using b period by (intro exI [of _ b]) (auto simp: open_bet_ok_def)
qed

text \<open>A database with a closed and an active raffle period.\<close>

definition demo_raffle :: db where
  "demo_raffle = run demo_env [(5, Insert_raffle_period 1 ''2026-05'' 1 2 Closed),
     (6, Insert_raffle_period 2 ''2026-06'' 2 3 Active)] demo_funded"

lemma demo_raffle_reach: "reach demo_env (initial_db 0) demo_raffle"
  unfolding demo_raffle_def demo_funded_def run_append [symmetric] by (rule reach_run)

lemma demo_bet:
  "map_sum (\<lambda>_. ()) (\<lambda>(x, d). (x, map_option bt_rake (select_bet 1 d)))
     (apply_bet (demo_env\<lparr>now := 7\<rparr>) 7 ''roulette'' 1 1000 JNull [] ''c'' 0 ''k1'' ''b1'' demo_raffle)
    = Inr ((1, False), Some 10)"
  "active_period demo_raffle = Some 2"
  "map (\<lambda>r. (rp_id r, rp_pool_amount r)) (raffle_periods demo_raffle) = [(1, 0), (2, 0)]"
  by code_simp+

lemma demo_bet_placed:
  obtains d' where "apply_bet (demo_env\<lparr>now := 7\<rparr>) 7 ''roulette'' 1 1000 JNull [] ''c'' 0 ''k1'' ''b1'' demo_raffle
      = Inr ((1, False), d')" and "map_option bt_rake (select_bet 1 d') = Some 10"
  using demo_bet(1)
  by (cases "apply_bet (demo_env\<lparr>now := 7\<rparr>) 7 ''roulette'' 1 1000 JNull [] ''c'' 0 ''k1'' ''b1'' demo_raffle") auto

theorem apply_bet_posts_witness:
  "\<exists>d'. apply_bet (demo_env\<lparr>now := 7\<rparr>) 7 ''roulette'' 1 1000 JNull [] ''c'' 0 ''k1'' ''b1'' demo_raffle = Inr ((1, False), d')
    \<and> map (\<lambda>r. (rp_id r, rp_pool_amount r)) (raffle_periods d') = [(1, 0), (2, 10)]
    \<and> book_of d' Pool = book_of demo_raffle Pool + 10"
proof -
  obtain d' where ret: "apply_bet (demo_env\<lparr>now := 7\<rparr>) 7 ''roulette'' 1 1000 JNull [] ''c'' 0 ''k1'' ''b1'' demo_raffle
      = Inr ((1, False), d')" and rake: "map_option bt_rake (select_bet 1 d') = Some 10"
    by (rule demo_bet_placed)
  from apply_bet_posts [OF demo_raffle_reach ret] obtain b where "select_bet 1 d' = Some b" "bt_rake_period_id b = Some 2"
    and "raffle_periods d' = pool_credited (Some 2) (bt_rake b) (raffle_periods demo_raffle)"
    and "book_of d' = foldl post (book_of demo_raffle) [(Avail 7, Held 7, bt_effective_stake b),
        (Avail 7, Avail 0, bt_commission b), (Avail 7, if bt_rake_period_id b = None then Avail 0 else Pool, bt_rake b)]"
    unfolding demo_bet(2) by metis
  with rake have pools: "raffle_periods d' = pool_credited (Some 2) 10 (raffle_periods demo_raffle)"
    and book: "book_of d' = foldl post (book_of demo_raffle)
        [(Avail 7, Held 7, bt_effective_stake b), (Avail 7, Avail 0, bt_commission b), (Avail 7, Pool, 10)]"
    by simp_all
  have "map (\<lambda>r. (rp_id r, rp_pool_amount r)) (raffle_periods d')
      = map (\<lambda>(i, n). (i, if i = 2 then n + 10 else n)) (map (\<lambda>r. (rp_id r, rp_pool_amount r)) (raffle_periods demo_raffle))"
    by (simp add: pools pool_credited_def upd_key_def)
  moreover have "book_of d' Pool = book_of demo_raffle Pool + 10" unfolding book by (simp add: post_def)
  ultimately show ?thesis using ret by (simp add: demo_bet(3))
qed

lemma apply_bet_found:
  assumes "apply_bet E u game ch n sel sh cs nonce key uid d = Inr ((i, idem), d')"
  shows "\<exists>b. sel_key bet_key (u, key) (bets d') = Some b \<and> bt_id b = i"
  using assms
proof (cases rule: apply_bet_cases)
  case (fresh g cb rb c r b d1 d2 d3 d4)
  have bets3: "bets d3 = bets d"
    using fresh(2,3,4)
    by (auto simp: credit_treasury_def credit_rake_def update_pool_def raise_simps
        split: if_splits option.splits dest!: update_balance_frame)
  have "bets d' = bets d @ [b]"
    using insert_bet_Inr(1) [OF fresh(1)] fresh(14) bets3 by (simp add: same_money_def)
  moreover have "bet_key b = (u, key)" using fresh by (simp add: bet_key_def)
  ultimately show ?thesis using fresh(13) fresh by simp
qed auto

text \<open>A repeated bet is not placed twice. After a bet went through, any call for the same
  player with the same idempotency key, whatever its other arguments, answers with the id of
  the first bet and changes nothing.\<close>

lemma apply_bet_replay:
  assumes "apply_bet E u game ch n sel sh cs nonce key uid d = Inr ((i, idem), d1)"
  shows "apply_bet E' u game' ch' n' sel' sh' cs' nonce' key uid' d1 = Inr ((i, True), d1)"
  using apply_bet_found [OF assms] by (auto simp: apply_bet_def)

section \<open>Ending a bet\<close>

lemma refund_bet_pools:
  assumes "refund_bet E i why d = Inr (x, d')" and "select_bet i d = Some b" and "bt_status b = Bet_open"
  shows "raffle_periods d' = (if 0 < bt_rake b then pool_credited (bt_rake_period_id b) (- bt_rake b) (raffle_periods d)
    else raffle_periods d)"
  using assms(1,2)
proof (cases rule: refund_bet_cases)
  case (first d1 d2 d3)
  have "raffle_periods d2 = raffle_periods d"
    using first(2,3) by (auto simp: credit_treasury_pools split: if_splits dest!: update_balance_frame)
  then have "raffle_periods d3 = (if 0 < bt_rake b then pool_credited (bt_rake_period_id b) (- bt_rake b) (raffle_periods d)
      else raffle_periods d)"
    using first(4) by (auto simp: credit_rake_pools split: if_splits)
  then show ?thesis using first(5) by (simp add: same_money_def update_bet_def)
qed (use assms(3) in auto)

text \<open>C20: Placing and refunding a bet is a round trip: a refund returns the stake, the commission
  and the rake, so every account is as it was before the bet, and so is every raffle period with its
  pool.\<close>

theorem bet_refund_round_trip:
  assumes "reach E (initial_db t0) d"
    and "apply_bet (E\<lparr>now := t1\<rparr>) u game ch n sel sh cs nonce key uid d = Inr ((i, False), d1)"
    and "refund_bet (E\<lparr>now := t2\<rparr>) i why d1 = Inr (x, d2)"
  shows "book_of d2 = book_of d \<and> raffle_periods d2 = raffle_periods d"
proof -
  have inv: "ledger_inv E d" using assms(1) by (rule reach_ledger)
  obtain b where b: "select_bet i d1 = Some b" "bt_status b = Bet_open"
    and book: "book_of d1 = foldl post (book_of d) (bet_postings b)"
    using apply_bet_refines(2) [OF inv assms(2)] by auto
  have "book_of d2 = foldl post (book_of d1) (refund_postings b)"
    using refund_bet_refines(2) [OF apply_bet_refines(1) [OF inv assms(2)] assms(3) b(1)] b(2) by simp
  also have "\<dots> = book_of d"
    unfolding book
    by (rule ext) (auto simp: bet_postings_def refund_postings_def post_def Let_def rake_account_def split: option.splits)
  finally have "book_of d2 = book_of d" .
  moreover have "raffle_periods d2 = raffle_periods d"
    using apply_bet_row [OF assms(2)] b(1) refund_bet_pools [OF assms(3) b] by (auto split: if_splits)
  ultimately show ?thesis by simp
qed

lemma demo_refund:
  "map_sum (\<lambda>_. ()) fst
    (bindE (apply_bet (demo_env\<lparr>now := 7\<rparr>) 7 ''roulette'' 1 1000 JNull [] ''c'' 0 ''k1'' ''b1'' demo_raffle)
      (\<lambda>((i, _), d1). refund_bet (demo_env\<lparr>now := 8\<rparr>) i None d1)) = Inr ()"
  by code_simp

theorem bet_refund_round_trip_witness:
  "\<exists>d1 d2. apply_bet (demo_env\<lparr>now := 7\<rparr>) 7 ''roulette'' 1 1000 JNull [] ''c'' 0 ''k1'' ''b1'' demo_raffle = Inr ((1, False), d1)
    \<and> refund_bet (demo_env\<lparr>now := 8\<rparr>) 1 None d1 = Inr ((), d2) \<and> book_of d2 = book_of demo_raffle
    \<and> raffle_periods d2 = raffle_periods demo_raffle"
proof -
  obtain d1 where ret: "apply_bet (demo_env\<lparr>now := 7\<rparr>) 7 ''roulette'' 1 1000 JNull [] ''c'' 0 ''k1'' ''b1'' demo_raffle
      = Inr ((1, False), d1)"
    by (rule demo_bet_placed)
  moreover obtain d2 where "refund_bet (demo_env\<lparr>now := 8\<rparr>) 1 None d1 = Inr ((), d2)"
    using map_sum_Inr [OF demo_refund] by (auto simp: ret)
  ultimately show ?thesis using bet_refund_round_trip [OF demo_raffle_reach] by blast
qed

text \<open>C21: A settlement is zero-sum between the player and the treasury. Settling an open bet takes
  the effective stake from the locked gold; on a win the treasury takes the stake and pays the
  payout, on a loss it takes the stake, on a tie the stake goes back to the player. Settling a
  bet again with the same result moves nothing.\<close>

theorem resolve_bet_posts:
  assumes "reach E (initial_db t0) d" and "resolve_bet E' i s payout outcome d = Inr (x, d')"
    and "select_bet i d = Some b" and "bet_outcome_of_text s = Some st"
  shows "book_of d' = (if bt_status b \<noteq> Bet_open then book_of d else
    foldl post (book_of d)
      (let p = bt_discord_id b; stake = bt_effective_stake b
       in if st = Resolved_win then [(Held p, Avail 0, stake), (Avail 0, Avail p, payout)]
          else if st = Resolved_loss then [(Held p, Avail 0, stake)]
          else [(Held p, Avail p, stake)]))"
  using resolve_bet_refines(2) [OF reach_ledger [OF assms(1)] assms(2-4)] bet_outcome_text [OF assms(4)]
  by (auto simp: settle_postings_def Let_def)

lemma demo_resolve:
  "map_sum (\<lambda>_. ()) fst (resolve_bet demo_env 1 ''resolved_loss'' 0 None demo_db) = Inr ()"
  "map_option (\<lambda>b. (bt_status b, bt_discord_id b, bt_effective_stake b)) (select_bet 1 demo_db) = Some (Bet_open, 7, 967)"
  by code_simp+

theorem resolve_bet_posts_witness:
  "\<exists>d'. resolve_bet demo_env 1 ''resolved_loss'' 0 None demo_db = Inr ((), d')
    \<and> book_of d' = post (book_of demo_db) (Held 7, Avail 0, 967)"
proof -
  obtain d' where ret: "resolve_bet demo_env 1 ''resolved_loss'' 0 None demo_db = Inr ((), d')"
    using map_sum_Inr [OF demo_resolve(1)] by auto
  obtain b where "select_bet 1 demo_db = Some b" "bt_status b = Bet_open" "bt_discord_id b = 7" "bt_effective_stake b = 967"
    using demo_resolve(2) by auto
  with resolve_bet_posts [OF demo_reach ret, of b Resolved_loss] ret show ?thesis
    by (auto simp: bet_outcome_of_text_def)
qed

text \<open>A mines cash-out pays the effective stake times the multiplier, rounded down, and only for
  an open mines bet with a positive multiplier.\<close>

theorem cashout_mines_posts:
  assumes "reach E (initial_db t0) d" and "cashout_mines E' i (Numeric m s) d = Inr (x, d')"
    and "select_bet i d = Some b"
  shows "bt_game_name b = ''mines'' \<and> bt_status b = Bet_open \<and> 0 < m
    \<and> book_of d' = foldl post (book_of d)
        [(Held (bt_discord_id b), Avail 0, bt_effective_stake b),
         (Avail 0, Avail (bt_discord_id b), (bt_effective_stake b * m) div 10 ^ s)]"
  using assms(2)
proof (rule cashout_mines_Inr)
  fix b' outcome
  assume b': "select_bet i d = Some b'" "bt_status b' = Bet_open" "bt_game_name b' = ''mines''"
    "numeric_positive (Numeric m s)"
    and res: "resolve_bet E' i ''resolved_win'' (numeric_floor_mult (bt_effective_stake b') (Numeric m s)) outcome d = Inr (x, d')"
  show ?thesis
    using b' assms(3) resolve_bet_refines(2) [OF reach_ledger [OF assms(1)] res b'(1), of Resolved_win]
    by (simp add: bet_outcome_of_text_def settle_postings_def)
qed

section \<open>Rate limiting\<close>

text \<open>How many of a series of calls at the given times get a token; a call that raises gets none
  and leaves the table as it was.\<close>

fun tokens :: "pg_env \<Rightarrow> int \<Rightarrow> string \<Rightarrow> int \<Rightarrow> int \<Rightarrow> int list \<Rightarrow> db \<Rightarrow> nat" where
  "tokens E u sc w m [] d = 0"
| "tokens E u sc w m (t # ts) d =
     (case consume_rate_token (E\<lparr>now := t\<rparr>) u sc w m d of
        Inl _ \<Rightarrow> tokens E u sc w m ts d
      | Inr (ok, d') \<Rightarrow> (if ok then 1 else 0) + tokens E u sc w m ts d')"

definition used_tokens :: "int \<times> string \<times> int \<Rightarrow> db \<Rightarrow> int" where
  "used_tokens k d = coalesce (map_option rl_count (sel_key rate_key k (rate_limit_entries d))) 0"

lemma rate_key_count [simp]: "rate_key (r\<lparr>rl_count := n\<rparr>) = rate_key r"
  by (simp add: rate_key_def)

lemma consume_rate_token_step:
  assumes "0 < w" and "0 < m" and "used_tokens (u, sc, bucket_start E w) d + 1 < 2 ^ 31"
    and "0 \<le> used_tokens (u, sc, bucket_start E w) d"
  shows "\<exists>d'. consume_rate_token E u sc w m d = Inr (used_tokens (u, sc, bucket_start E w) d < m, d')
    \<and> used_tokens (u, sc, bucket_start E w) d' = used_tokens (u, sc, bucket_start E w) d + 1"
  using assms
  by (cases "sel_key rate_key (u, sc, bucket_start E w) (rate_limit_entries d)")
    (auto simp: consume_rate_token_def used_tokens_def chk4_def in_int4_def sel_key_upd rate_key_def Let_def)

lemma tokens_count:
  assumes "0 < w" and "0 < m" and "\<forall>t \<in> set ts. bucket_start (E\<lparr>now := t\<rparr>) w = bs"
    and "0 \<le> used_tokens (u, sc, bs) d" and "used_tokens (u, sc, bs) d + int (length ts) < 2 ^ 31"
  shows "tokens E u sc w m ts d = min (length ts) (nat (m - used_tokens (u, sc, bs) d))"
  using assms(3-)
proof (induction ts arbitrary: d)
  case (Cons t ts)
  let ?E = "E\<lparr>now := t\<rparr>" and ?c = "used_tokens (u, sc, bs) d"
  have bs: "bucket_start ?E w = bs" using Cons.prems by simp
  have "used_tokens (u, sc, bucket_start ?E w) d + 1 < 2 ^ 31" "0 \<le> used_tokens (u, sc, bucket_start ?E w) d"
    using Cons.prems bs by auto
  from consume_rate_token_step [OF assms(1,2) this] obtain d' where
    step: "consume_rate_token ?E u sc w m d = Inr (?c < m, d')" "used_tokens (u, sc, bs) d' = ?c + 1"
    by (auto simp: bs)
  have "tokens E u sc w m ts d' = min (length ts) (nat (m - (?c + 1)))"
    using Cons.IH [of d'] Cons.prems step(2) by simp
  then show ?case using step(1) by auto
qed simp

text \<open>C22: The rate limiter grants exactly its quota. Of any series of calls for one player and scope
  whose times fall into one window, with a fresh bucket, exactly the first ones up to the
  maximum get a token; never more than the maximum.\<close>

theorem rate_limit_quota:
  assumes "0 < w" and "0 < m" and "\<forall>t \<in> set ts. bucket_start (E\<lparr>now := t\<rparr>) w = bs"
    and "sel_key rate_key (u, sc, bs) (rate_limit_entries d) = None" and "int (length ts) < 2 ^ 31"
  shows "tokens E u sc w m ts d = min (length ts) (nat m)"
  using tokens_count [OF assms(1-3), of u sc d] assms(4,5) by (simp add: used_tokens_def)

theorem rate_limit_quota_witness:
  "tokens demo_env 7 ''bet'' 60 2 [60000000, 61000000, 62000000, 63000000] (initial_db 0) = 2"
proof -
  have "\<forall>t \<in> set [60000000, 61000000, 62000000, 63000000]. bucket_start (demo_env\<lparr>now := t\<rparr>) 60 = 60000000"
    by code_simp
  then show ?thesis
    using rate_limit_quota [of 60 2 "[60000000, 61000000, 62000000, 63000000]" demo_env 60000000 7 "''bet''" "initial_db 0"]
    by (simp add: initial_db_def)
qed

end
