(* ===== verification/Forensics.thy ===== *)
theory Forensics
  imports Economy
begin

text \<open>
  What the verification of the audit chain shows about a log that may have been tampered with,
  and that the verifier worker works through the whole log.
\<close>

section \<open>Locating damage\<close>

text \<open>The rows a verification looks at.\<close>

definition verified_rows :: "int \<Rightarrow> int \<Rightarrow> db \<Rightarrow> audit_row list" where
  "verified_rows p_from n d = take (nat n) (sort_key a_id (filter (\<lambda>r. p_from \<le> a_id r) (audit_log d)))"

text \<open>C27: The verifier names the first damaged row. On any log, however tampered with, a full
  verification reports a row id exactly when some row does not carry the hash expected after
  the row before it, and then all rows before the reported one are intact.\<close>

theorem verifier_names_first_damage:
  assumes "chain_key Audit_chain_key_not_configured_verify E = Inr k" and "0 \<le> n"
    and "verify_audit_chain E (Some 0) n d = Inr (checked, last_ok, broken)"
  shows "case broken of
      None \<Rightarrow> hashes_ok E k None (verified_rows 0 n d)
    | Some b \<Rightarrow> \<exists>xs r ys. verified_rows 0 n d = xs @ r # ys \<and> hashes_ok E k None xs \<and> a_id r = b
        \<and> a_row_hash r \<noteq> expected_hash E k (last_hash None xs) r"
proof -
  have v: "verify_loop E k None 0 0 (verified_rows 0 n d) = (checked, last_ok, broken)"
    using assms by (simp add: verify_audit_chain_def verified_rows_def)
  show ?thesis
  proof (cases broken)
    case None
    with verify_loop_None_iff [of E k None 0 0 "verified_rows 0 n d"] v show ?thesis by simp
  next
    case (Some b)
    with verify_loop_Some [of E k None 0 0 "verified_rows 0 n d" b] v show ?thesis by auto
  qed
qed

text \<open>A log in which somebody edited the amount of the second row.\<close>

definition demo_tampered :: db where
  "demo_tampered = demo_db\<lparr>audit_log := upd_key a_id 2 (\<lambda>r. r\<lparr>a_ts := 999, a_amount := Some 1\<rparr>) (audit_log demo_db)\<rparr>"

lemma demo_tampered_found: "verify_audit_chain demo_env (Some 0) 100 demo_tampered = Inr (1, 1, Some 2)"
  by code_simp

theorem verifier_names_first_damage_witness:
  "\<exists>xs r ys. verified_rows 0 100 demo_tampered = xs @ r # ys \<and> hashes_ok demo_env [10, 11] None xs
    \<and> a_id r = 2 \<and> a_row_hash r \<noteq> expected_hash demo_env [10, 11] (last_hash None xs) r"
  using verifier_names_first_damage [OF chain_key_any [OF demo_key] _ demo_tampered_found] by simp

section \<open>Tampering\<close>

text \<open>C26: The log is tamper-evident. Take the log of a reachable database and any other log of the
  same length that passes verification and ends in the same hash. Then the canonical contents
  of the two logs are the same row by row, or at some position the two logs hash different
  messages to the same value, so the forged log itself exhibits a collision of the keyed hash
  with a genuine row. The hash is only assumed to have 32 bytes.\<close>

theorem log_tamper_evident:
  assumes "reach E (initial_db t) d" and "chain_key Audit_chain_key_not_configured E = Inr k"
    and "\<And>m. length (hmac_sha256 E m k) = 32"
    and "hashes_ok E k None rs'" and "length rs' = length (audit_log d)"
    and "last_hash None rs' = last_row_hash d"
  shows "map (verify_canonical E) rs' = map (verify_canonical E) (audit_log d)
    \<or> (\<exists>i. i < length rs' \<and> chain_messages E None rs' ! i \<noteq> chain_messages E None (audit_log d) ! i
        \<and> hmac_sha256 E (chain_messages E None rs' ! i) k = hmac_sha256 E (chain_messages E None (audit_log d) ! i) k)"
proof (rule disjCI)
  assume nocoll: "\<not> (\<exists>i. i < length rs' \<and> chain_messages E None rs' ! i \<noteq> chain_messages E None (audit_log d) ! i
        \<and> hmac_sha256 E (chain_messages E None rs' ! i) k = hmac_sha256 E (chain_messages E None (audit_log d) ! i) k)"
  have inv: "audit_inv E k d" by (rule reach_log [OF assms(1,2)])
  show "map (verify_canonical E) rs' = map (verify_canonical E) (audit_log d)"
  proof (cases "rs' = []")
    case True
    with assms(5) show ?thesis by simp
  next
    case False
    have "map (verify_canonical E) rs' = map (verify_canonical E) (audit_log d) \<and> (None::bytea option) = None"
      by (rule chain_messages_agree [of E k None rs' None "audit_log d"])
        (use assms(3-6) inv nocoll False in \<open>auto simp: audit_inv_def chain_linked_hashes_ok\<close>)
    then show ?thesis by simp
  qed
qed

definition demo_env32 :: pg_env where
  "demo_env32 = demo_env\<lparr>hmac_sha256 := (\<lambda>m k. replicate 31 0 @ demo_hash m)\<rparr>"

definition demo_logged :: db where
  "demo_logged = run demo_env32 [(1, Add_character 9 ''cash'' ''r'' ''EU'' ''Horde'')] (initial_db 0)"

text \<open>The log with another row id, which the canonical content does not include.\<close>

definition demo_relabelled :: "audit_row list" where
  "demo_relabelled = map (\<lambda>r. r\<lparr>a_id := 5\<rparr>) (audit_log demo_logged)"

theorem log_tamper_evident_witness:
  "map a_id demo_relabelled = [5] \<and> map a_id (audit_log demo_logged) = [1]
    \<and> map (verify_canonical demo_env32) demo_relabelled = map (verify_canonical demo_env32) (audit_log demo_logged)"
proof -
  have key: "chain_key Audit_chain_key_not_configured demo_env32 = Inr [10, 11]"
    and ids: "map a_id demo_relabelled = [5]" "map a_id (audit_log demo_logged) = [1]"
    and len: "length demo_relabelled = length (audit_log demo_logged)"
    and ok: "hashes_ok demo_env32 [10, 11] None demo_relabelled"
    and last: "last_hash None demo_relabelled = last_row_hash demo_logged"
    and same: "chain_messages demo_env32 None demo_relabelled = chain_messages demo_env32 None (audit_log demo_logged)"
    by code_simp+
  have reach: "reach demo_env32 (initial_db 0) demo_logged" unfolding demo_logged_def by (rule reach_run)
  have "length (hmac_sha256 demo_env32 m [10, 11]) = 32" for m by (simp add: demo_env32_def demo_hash_def)
  from log_tamper_evident [OF reach key this ok len last] ids same show ?thesis by simp
qed

section \<open>The verifier worker\<close>

text \<open>Rows that are not behind the resume pointer.\<close>

definition pending_rows :: "db \<Rightarrow> audit_row list" where
  "pending_rows d = filter (\<lambda>r. read_last_verified d \<le> a_id r) (audit_log d)"

text \<open>The worker called again and again; an error ends the series.\<close>

fun verifier_ticks :: "nat \<Rightarrow> pg_env \<Rightarrow> db \<Rightarrow> pg_error + db" where
  "verifier_ticks 0 E d = Inr d"
| "verifier_ticks (Suc n) E d =
     bindE (verifier_tick E d) (\<lambda>(res, d1).
     if broken_at_id res \<noteq> None then Inr d1 else verifier_ticks n E d1)"

lemma read_persist [simp]: "read_last_verified (persist_last_verified E n d) = n"
  by (auto simp: read_last_verified_def persist_last_verified_def upsert_config_def config_int_def
      sel_key_upd has_key_sel split: option.splits)

lemma persist_log [simp]:
  "audit_log (persist_last_verified E n d) = audit_log d"
  "audit_inv E' k (persist_last_verified E n d) = audit_inv E' k d"
  by (simp_all add: persist_last_verified_def upsert_config_def audit_inv_def)

lemma verifier_tick_intact:
  assumes inv: "audit_inv E k d" and key: "chain_key e E = Inr k" and "0 \<le> read_last_verified d"
    and ne: "pending_rows d \<noteq> []"
  shows "\<exists>res. verifier_tick E d
    = Inr (res, persist_last_verified E (a_id (last (take 1000 (pending_rows d)))) d) \<and> broken_at_id res = None"
proof -
  have "(0::int) \<le> max_rows_per_tick" by (simp add: max_rows_per_tick_def)
  note v = verify_from_linked [OF inv key assms(3) this]
  have "take 1000 (pending_rows d) \<noteq> []" using ne by simp
  then show ?thesis
    using v by (simp add: verifier_tick_def Let_def max_rows_per_tick_def pending_rows_def)
qed

lemma sorted_suffix_ge:
  assumes "sorted_wrt (<) (map a_id rs)" and "i < length rs"
  shows "filter (\<lambda>r. a_id (rs ! i) \<le> a_id r) rs = drop i rs"
proof -
  have "rs = take i rs @ drop i rs" by simp
  moreover have "filter (\<lambda>r. a_id (rs ! i) \<le> a_id r) (take i rs) = []"
    using assms by (auto simp: filter_empty_conv in_set_conv_nth sorted_wrt_iff_nth_less not_le)
  moreover have "filter (\<lambda>r. a_id (rs ! i) \<le> a_id r) (drop i rs) = drop i rs"
  proof (subst filter_id_conv, rule ballI)
    fix r
    assume "r \<in> set (drop i rs)"
    then obtain j where "j < length rs - i" "r = rs ! (i + j)" by (auto simp: in_set_conv_nth)
    with assms show "a_id (rs ! i) \<le> a_id r"
      by (cases "j = 0") (auto simp: sorted_wrt_iff_nth_less intro: less_imp_le)
  qed
  ultimately show ?thesis by (metis append_Nil filter_append)
qed

lemma pending_after_tick:
  assumes inv: "audit_inv E k d" and ne: "pending_rows d \<noteq> []"
  shows "pending_rows (persist_last_verified E (a_id (last (take 1000 (pending_rows d)))) d)
    = drop (min 1000 (length (pending_rows d)) - 1) (pending_rows d)"
proof -
  let ?rs = "pending_rows d" and ?i = "min 1000 (length (pending_rows d)) - 1"
  have sorted: "sorted_wrt (<) (map a_id ?rs)"
    using inv unfolding pending_rows_def by (intro sorted_wrt_filter_ids) (simp add: audit_inv_def)
  have i: "?i < length ?rs" using ne by (cases ?rs) auto
  have last: "last (take 1000 ?rs) = ?rs ! ?i"
  proof -
    have "take 1000 ?rs \<noteq> []" using ne by simp
    then have "last (take 1000 ?rs) = take 1000 ?rs ! (length (take 1000 ?rs) - 1)" by (rule last_conv_nth)
    also have "\<dots> = ?rs ! ?i" using i by (simp add: min.commute)
    finally show ?thesis .
  qed
  have "read_last_verified d \<le> a_id (?rs ! ?i)"
    using nth_mem [OF i] by (simp add: pending_rows_def)
  then have "filter (\<lambda>r. a_id (?rs ! ?i) \<le> a_id r) (audit_log d) = filter (\<lambda>r. a_id (?rs ! ?i) \<le> a_id r) ?rs"
    unfolding pending_rows_def filter_filter by (intro filter_cong) auto
  with sorted_suffix_ge [OF sorted i] show ?thesis
    by (simp add: pending_rows_def [of "persist_last_verified _ _ _"] last)
qed

lemma verifier_progress:
  assumes "audit_inv E k d" and "chain_key e E = Inr k" and "0 \<le> read_last_verified d"
    and "pending_rows d \<noteq> []" and "length (pending_rows d) \<le> 999 * n + 1"
  shows "\<exists>d'. verifier_ticks n E d = Inr d' \<and> audit_log d' = audit_log d \<and> length (pending_rows d') = 1"
  using assms
proof (induction n arbitrary: d)
  case 0
  then show ?case by (cases "pending_rows d") auto
next
  case (Suc n)
  let ?d1 = "persist_last_verified E (a_id (last (take 1000 (pending_rows d)))) d"
  obtain res where tick: "verifier_tick E d = Inr (res, ?d1)" "broken_at_id res = None"
    using verifier_tick_intact [OF Suc.prems(1-4)] by auto
  have pend: "pending_rows ?d1 = drop (min 1000 (length (pending_rows d)) - 1) (pending_rows d)"
    by (rule pending_after_tick [OF Suc.prems(1,4)])
  have ne: "pending_rows ?d1 \<noteq> []" unfolding pend using Suc.prems(4) by (cases "pending_rows d") auto
  have len: "length (pending_rows ?d1) \<le> 999 * n + 1" using Suc.prems(5) by (auto simp: pend)
  have "last (take 1000 (pending_rows d)) \<in> set (audit_log d)"
    using last_in_set [of "take 1000 (pending_rows d)"] Suc.prems(4) set_take_subset
    by (fastforce simp: pending_rows_def)
  then have "0 \<le> read_last_verified ?d1" using Suc.prems(1) by (auto simp: audit_inv_def less_imp_le)
  from Suc.IH [OF _ Suc.prems(2) this ne len] Suc.prems(1) tick show ?case by auto
qed

text \<open>C28: The verifier catches up. On the log of a reachable database a worker that starts from
  scratch finds no broken row and, with one tick per 999 rows, works through the whole log:
  after that the only row it has left to look at is the newest one.\<close>

theorem verifier_catches_up:
  assumes "reach E (initial_db t) d" and "chain_key Audit_chain_key_not_configured E = Inr k"
    and "read_last_verified d = 0" and "audit_log d \<noteq> []" and "length (audit_log d) \<le> 999 * n + 1"
  shows "\<exists>d'. verifier_ticks n E d = Inr d' \<and> pending_rows d' = [last (audit_log d)]"
proof -
  have inv: "audit_inv E k d" by (rule reach_log [OF assms(1,2)])
  then have pend: "pending_rows d = audit_log d"
    using assms(3) by (auto simp: pending_rows_def audit_inv_def filter_id_conv less_imp_le)
  have "pending_rows d \<noteq> []" "length (pending_rows d) \<le> 999 * n + 1" using pend assms(4,5) by simp_all
  with verifier_progress [OF inv assms(2)] assms(3) obtain d' where d': "verifier_ticks n E d = Inr d'"
    "audit_log d' = audit_log d" "length (pending_rows d') = 1" by auto
  obtain r where r: "pending_rows d' = [r]" using d'(3) by (auto simp: length_Suc_conv)
  have "pending_rows d' = [last (audit_log d)]"
  proof -
    have sorted: "sorted_wrt (<) (map a_id (audit_log d))" using inv by (simp add: audit_inv_def)
    have "audit_log d = filter (\<lambda>r. a_id r < read_last_verified d') (audit_log d) @ pending_rows d'"
      using ids_split [OF sorted, of "read_last_verified d'"] d'(2) by (simp add: pending_rows_def)
    then have "last (audit_log d) = r" using r by (metis last_snoc)
    with r show ?thesis by simp
  qed
  with d' show ?thesis by blast
qed

theorem verifier_catches_up_witness:
  "\<exists>d'. verifier_ticks 1 demo_env demo_db = Inr d' \<and> pending_rows d' = [last (audit_log demo_db)]"
proof -
  have "read_last_verified demo_db = 0" and "length (audit_log demo_db) = 7" by code_simp+
  then show ?thesis by (intro verifier_catches_up [OF demo_reach demo_key]) auto
qed

end
