(* ===== verification/Odds.thy ===== *)
theory Odds
  imports Decoders
begin

text \<open>
  How often the decoders return an outcome: for each outcome, the number of values of the bytes
  the decoder reads that give it.
\<close>

section \<open>Counting\<close>

lemma length_filter_upt: "length (filter P [0..<n]) = card {b. b < n \<and> P b}"
proof -
  have "length (filter P [0..<n]) = card (set (filter P [0..<n]))"
    by (rule distinct_card [symmetric]) simp
  also have "set (filter P [0..<n]) = {b. b < n \<and> P b}" by auto
  finally show ?thesis .
qed

lemma unat_byte: "b < 256 \<Longrightarrow> unat (word_of_nat b :: byte) = b"
  by (simp add: unat_of_nat)

section \<open>The 99x game\<close>

lemma decode_99x_byte: "b < 256 \<Longrightarrow> decode_99x (word_of_nat b # rest) = Inr (b mod 100 + 1)"
  by (simp add: decode_99x_def byte_at_def unat_byte)

lemma residue_100_iff:
  "b < 256 \<and> b mod 100 = r \<longleftrightarrow> r < 100 \<and> b < 256 \<and> (b = r \<or> b = r + 100 \<or> b = r + 200)" for b r :: nat
proof
  assume b: "b < 256 \<and> b mod 100 = r"
  then have "b div 100 < 3" by (simp add: div_less_iff_less_mult)
  then consider "b div 100 = 0" | "b div 100 = 1" | "b div 100 = 2" by linarith
  then show "r < 100 \<and> b < 256 \<and> (b = r \<or> b = r + 100 \<or> b = r + 200)"
    using b div_mult_mod_eq [of b 100] by cases auto
qed (auto simp: mod_if)

lemma residues_100:
  "{b. b < 256 \<and> b mod 100 + 1 = x} =
    (if 1 \<le> x \<and> x \<le> 56 then {x - 1, x + 99, x + 199}
     else if 57 \<le> x \<and> x \<le> 100 then {x - 1, x + 99} else {})" for x :: nat
proof (cases "1 \<le> x")
  case True
  then have "{b. b < 256 \<and> b mod 100 + 1 = x} = {b. b < 256 \<and> b mod 100 = x - 1}" by auto
  also have "\<dots> = {b. x - 1 < 100 \<and> b < 256 \<and> (b = x - 1 \<or> b = x - 1 + 100 \<or> b = x - 1 + 200)}"
    by (simp only: residue_100_iff)
  also have "\<dots> = (if 1 \<le> x \<and> x \<le> 56 then {x - 1, x + 99, x + 199}
     else if 57 \<le> x \<and> x \<le> 100 then {x - 1, x + 99} else {})"
    using True by auto
  finally show ?thesis .
qed auto

text \<open>How many of the 256 values of the first byte make the 99x game return a number.\<close>

definition wins_99x :: "bytea \<Rightarrow> nat \<Rightarrow> nat" where
  "wins_99x rest x = length (filter (\<lambda>b. decode_99x (word_of_nat b # rest) = Inr x) [0..<256])"

text \<open>C29: The 99x numbers are not equally likely. The numbers 1 to 56 come up for three of the 256
  values of the byte, 57 to 100 for two, none for one in a hundred. At the designed payout of 95
  times the stake the expected return exceeds the stake exactly on the numbers 1 to 56.\<close>

theorem ninetyninex_odds:
  "wins_99x rest x = (if 1 \<le> x \<and> x \<le> 56 then 3 else if 57 \<le> x \<and> x \<le> 100 then 2 else 0)
    \<and> (256 < 95 * wins_99x rest x \<longleftrightarrow> 1 \<le> x \<and> x \<le> 56)"
proof -
  have "wins_99x rest x = card {b. b < 256 \<and> b mod 100 + 1 = x}"
    unfolding wins_99x_def length_filter_upt by (rule arg_cong [of _ _ card]) (auto simp: decode_99x_byte)
  then show ?thesis unfolding residues_100 by (auto simp: card_insert_if)
qed

end
