(* ===== verification/Verifier.thy ===== *)
theory Verifier
  imports Fairness
begin

text \<open>
  The public verifier (\<^verbatim>\<open>docs/verifier/verify.py\<close>), the script a player runs to recompute a bet.
  It extends the HMAC output to 4096 bytes first and runs its own copies of the decoders on those
  bytes, while the bot runs its decoders on the bytes of the draw. Its \<^verbatim>\<open>_byte_stream\<close> and
  \<^verbatim>\<open>_pull_uint\<close> are those of \<^verbatim>\<open>decoders.py\<close> word for word and share their definitions here.
\<close>

section \<open>Definitions\<close>

definition vf_compute :: "bytea \<Rightarrow> string \<Rightarrow> int \<Rightarrow> bytea" where
  "vf_compute server_seed client_seed nonce =
     hmac_sha512 server_seed (text_bytes (client_seed @ '':'' @ show_int nonce))"

function vf_extend_loop :: "bytea \<Rightarrow> int \<Rightarrow> bytea \<Rightarrow> nat \<Rightarrow> py_error + bytea" where
  "vf_extend_loop out byte_count extended counter =
     (if int (length extended) < byte_count
      then bindE (to_bytes4 (counter + 1)) (\<lambda>c.
           vf_extend_loop out byte_count (extended @ sha256 (out @ c)) (counter + 1))
      else Inr (slice_to byte_count extended))"
  by pat_completeness auto

termination
  by (relation "measure (\<lambda>(out, n, ext, c). nat (n - int (length ext)))") auto

declare vf_extend_loop.simps [simp del]

definition vf_extend :: "bytea \<Rightarrow> int \<Rightarrow> py_error + bytea" where
  "vf_extend out byte_count =
     (if byte_count \<le> int (length out) then Inr (slice_to byte_count out)
      else vf_extend_loop out byte_count out 0)"

text \<open>Without the argument check of the bot's version.\<close>

definition vf_fisher_yates_partial :: "byte_iter \<Rightarrow> int \<Rightarrow> int \<Rightarrow> nat \<Rightarrow> py_error + nat list" where
  "vf_fisher_yates_partial stream n k w =
     (let arr = [0..<nat n]; bound = nat (max 1 (n - k))
      in bindE (sweep next_byte w (rev [bound..<nat n]) arr stream) (\<lambda>(arr1, _).
         Inr (rev (drop (nat (n - k)) arr1))))"

definition vf_decode_coinflip :: "bytea \<Rightarrow> py_error + coin" where
  "vf_decode_coinflip out = bindE (byte_at out 0) (\<lambda>b. Inr (if b AND 1 = 0 then Heads else Tails))"

definition vf_decode_dice :: "bytea \<Rightarrow> nat" where
  "vf_decode_dice out = from_bytes (take 4 out) mod 10000"

definition vf_decode_99x :: "bytea \<Rightarrow> py_error + nat" where
  "vf_decode_99x out = bindE (byte_at out 0) (\<lambda>b. Inr (b mod 100 + 1))"

definition vf_decode_hotcold :: "bytea \<Rightarrow> temperature" where
  "vf_decode_hotcold out =
     (let n = from_bytes (take 2 out) mod 10000
      in if n < 500 then Rainbow else if n < 5250 then Hot else Cold)"

definition vf_decode_roulette_eu :: "bytea \<Rightarrow> nat" where
  "vf_decode_roulette_eu out = from_bytes (take 2 out) mod 37"

definition vf_decode_mines_positions :: "bytea \<Rightarrow> int \<Rightarrow> int \<Rightarrow> py_error + nat list" where
  "vf_decode_mines_positions out mines_count grid_size =
     raise_if (\<not> (1 \<le> mines_count \<and> mines_count < grid_size)) ValueError
     (vf_fisher_yates_partial (byte_stream out) grid_size mines_count 4)"

definition vf_decode_blackjack_deck :: "bytea \<Rightarrow> int \<Rightarrow> py_error + nat list" where
  "vf_decode_blackjack_deck out decks =
     raise_if (decks \<le> 0) ValueError
     (let cards = concat (map (replicate (nat decks)) [0..<52]); n = length cards
      in bindE (sweep next_byte 4 (rev [1..<n]) cards (byte_stream out)) (\<lambda>(cards1, _). Inr cards1))"

definition vf_decode_dice_duel :: "bytea \<Rightarrow> py_error + nat \<times> nat" where
  "vf_decode_dice_duel out =
     bindE (byte_at out 0) (\<lambda>a. bindE (byte_at out 1) (\<lambda>b. Inr (a mod 12 + 1, b mod 12 + 1)))"

definition vf_decode_staking_duel :: "bytea \<Rightarrow> int \<Rightarrow> py_error + staking_round list" where
  "vf_decode_staking_duel out max_rounds =
     raise_if (max_rounds \<le> 0) ValueError (staking_rounds next_byte (nat max_rounds) (byte_stream out))"

definition vf_decode_raffle_winners :: "bytea \<Rightarrow> int \<Rightarrow> py_error + nat list" where
  "vf_decode_raffle_winners out ticket_count =
     raise_if (ticket_count < 3) ValueError (vf_fisher_yates_partial (byte_stream out) ticket_count 3 4)"

text \<open>The value the script prints. The extra arguments come parsed as integers.\<close>

datatype (plugins only: code size) outcome =
    Coin coin
  | Number nat
  | Temperature temperature
  | Numbers "nat list"
  | Rounds "staking_round list"

definition mapR :: "('a \<Rightarrow> 'b) \<Rightarrow> 'e + 'a \<Rightarrow> 'e + 'b" where
  "mapR f m = bindE m (\<lambda>x. Inr (f x))"

definition vf_decode :: "string \<Rightarrow> bytea \<Rightarrow> int list \<Rightarrow> py_error + outcome" where
  "vf_decode game out args =
     (if game = ''coinflip'' then mapR Coin (vf_decode_coinflip out)
      else if game = ''dice'' then Inr (Number (vf_decode_dice out))
      else if game = ''99x'' then mapR Number (vf_decode_99x out)
      else if game = ''hotcold'' then Inr (Temperature (vf_decode_hotcold out))
      else if game = ''roulette'' then Inr (Number (vf_decode_roulette_eu out))
      else if game = ''diceduel'' then mapR (\<lambda>(a, b). Numbers [a, b]) (vf_decode_dice_duel out)
      else if game = ''mines'' then
        raise_if (length args \<noteq> 2) SystemExit (mapR Numbers (vf_decode_mines_positions out (args ! 0) (args ! 1)))
      else if game = ''blackjack'' then
        raise_if (length args \<noteq> 1) SystemExit (mapR Numbers (vf_decode_blackjack_deck out (args ! 0)))
      else if game = ''staking'' then
        raise_if (length args \<noteq> 1) SystemExit (mapR Rounds (vf_decode_staking_duel out (args ! 0)))
      else if game = ''raffle'' then
        raise_if (length args \<noteq> 1) SystemExit (mapR Numbers (vf_decode_raffle_winners out (args ! 0)))
      else Inl SystemExit)"

definition vf_main :: "string \<Rightarrow> bytea \<Rightarrow> string \<Rightarrow> int \<Rightarrow> int list \<Rightarrow> py_error + outcome" where
  "vf_main game server_seed client_seed nonce extra =
     bindE (vf_extend (vf_compute server_seed client_seed nonce) 4096) (\<lambda>extended. vf_decode game extended extra)"

text \<open>What the bot shows for a bet: its decoder of the game on the bytes of the draw.\<close>

definition bot_decode :: "string \<Rightarrow> bytea \<Rightarrow> int list \<Rightarrow> py_error + outcome" where
  "bot_decode game out args =
     (if game = ''coinflip'' then mapR Coin (decode_coinflip out)
      else if game = ''dice'' then Inr (Number (decode_dice out))
      else if game = ''99x'' then mapR Number (decode_99x out)
      else if game = ''hotcold'' then Inr (Temperature (decode_hotcold out))
      else if game = ''roulette'' then Inr (Number (decode_roulette_eu out))
      else if game = ''diceduel'' then mapR (\<lambda>(a, b). Numbers [a, b]) (decode_dice_duel out)
      else if game = ''mines'' then
        raise_if (length args \<noteq> 2) SystemExit (mapR Numbers (decode_mines_positions out (args ! 0) (args ! 1)))
      else if game = ''blackjack'' then
        raise_if (length args \<noteq> 1) SystemExit (mapR Numbers (decode_blackjack_deck out (args ! 0)))
      else if game = ''staking'' then
        raise_if (length args \<noteq> 1) SystemExit (mapR Rounds (decode_staking_duel out (args ! 0)))
      else if game = ''raffle'' then
        raise_if (length args \<noteq> 1) SystemExit (mapR Numbers (decode_raffle_winners out (args ! 0)))
      else Inl SystemExit)"

section \<open>One stream\<close>

lemma vf_extend_eq: "vf_extend out n = extend_bytes out n"
proof -
  have "vf_extend_loop out n ext c = extend_loop out n ext c" for ext c
  proof (induction out n ext c rule: extend_loop.induct)
    case (1 out n ext c)
    then show ?case
      unfolding vf_extend_loop.simps [of out n ext c] extend_loop.simps [of out n ext c]
      by (auto simp: bindE_def split: sum.splits)
  qed
  then show ?thesis by (simp add: vf_extend_def extend_bytes_def)
qed

text \<open>The extended bytes start the same stream as the output they extend.\<close>

lemma extended_stream:
  assumes "extend_bytes out n = Inr ext" and "0 \<le> n" and "n \<le> 2 ^ 36" and "i < nat n"
  shows "stream_at ext i = stream_at out i" and "length ext = nat n"
proof -
  have "nat n \<le> length out + 32 * (2 ^ 32 - 1)" using assms(3) by simp
  then have "ext = map (stream_at out) [0..<nat n]" using extend_stream [of n out] assms(1,2) by simp
  then show "stream_at ext i = stream_at out i" and "length ext = nat n"
    using assms(4) by (simp_all add: stream_at_simps)
qed

text \<open>How many bytes of the stream a game reads.\<close>

definition bytes_read :: "string \<Rightarrow> int list \<Rightarrow> nat" where
  "bytes_read game args =
     (if game = ''mines'' then 4 * nat (args ! 0)
      else if game = ''blackjack'' then 4 * (52 * nat (args ! 0) - 1)
      else if game = ''staking'' then 2 * nat (args ! 0)
      else if game = ''raffle'' then 12
      else 4)"

section \<open>The decoders read a prefix of the stream\<close>

lemma sweep_cong:
  assumes "4 * length is \<le> m" and "m \<le> 4096" and "\<And>i. i < m \<Longrightarrow> stream_at o1 i = stream_at o2 i"
  shows "mapR fst (sweep next_byte 4 is arr (byte_stream o1)) = mapR fst (sweep next_byte 4 is arr (byte_stream o2))"
proof -
  have room: "4 * length is \<le> length out + 32 * (2 ^ 32 - 1)" for out :: bytea using assms(1,2) by simp
  have "sweep_bytes 4 is arr (stream_at o1) = sweep_bytes 4 is arr (stream_at o2)"
    by (rule sweep_bytes_cong) (use assms in auto)
  then show ?thesis
    using sweep_stream [where arr = arr, OF room, of o1] sweep_stream [where arr = arr, OF room, of o2]
    by (metis mapR_def bindE_simps(2) fst_conv)
qed

lemma bind_fst: "bindE m (\<lambda>(x, _). Inr (h x)) = mapR h (mapR fst m)"
  by (cases m) (auto simp: mapR_def)

lemma partial_cong:
  assumes "4 * nat k \<le> m" and "m \<le> 4096" and "\<And>i. i < m \<Longrightarrow> stream_at o1 i = stream_at o2 i"
  shows "fisher_yates_partial next_byte (byte_stream o1) n k 4 = fisher_yates_partial next_byte (byte_stream o2) n k 4"
proof -
  have "4 * length (rev [nat (max 1 (n - k))..<nat n]) \<le> m" using assms(1) by auto
  from sweep_cong [OF this assms(2), of o1 o2 "[0..<nat n]"] assms(3) show ?thesis
    unfolding fisher_yates_partial_def Let_def bind_fst by simp
qed

lemma staking_cong:
  assumes "2 * n \<le> m" and "m \<le> 4096" and "\<And>i. i < m \<Longrightarrow> stream_at o1 i = stream_at o2 i"
  shows "staking_rounds next_byte n (byte_stream o1) = staking_rounds next_byte n (byte_stream o2)"
proof -
  have "2 * n \<le> iter_supply (byte_stream out)" for out using assms(1,2) by (simp add: stock_stream)
  note known = chain_source.staking_known [OF this, unfolded stream_at_def [symmetric]]
  show ?thesis unfolding known by (intro arg_cong [where f = Inr] map_cong refl) (use assms in auto)
qed

lemma head_cong:
  assumes "4 \<le> length o1" and "4 \<le> length o2" and "\<And>i. i < 4 \<Longrightarrow> stream_at o1 i = stream_at o2 i" 
  shows "n \<le> 4 \<Longrightarrow> take n o1 = take n o2" and "i < 4 \<Longrightarrow> byte_at o1 i = byte_at o2 i"
proof -
  show "take n o1 = take n o2" if "n \<le> 4"
    using stream_prefix [of n o1] stream_prefix [of n o2] assms that by (simp flip: stream_prefix)
  show "i < 4 \<Longrightarrow> byte_at o1 i = byte_at o2 i"
    using assms(1,2) assms(3) [of i] by (simp add: byte_at_def stream_at_simps)
qed

lemma bot_decode_cong:
  assumes len: "4 \<le> length o1" "4 \<le> length o2" and m: "bytes_read game args \<le> m" "4 \<le> m" "m \<le> 4096"
    and agree: "\<And>i. i < m \<Longrightarrow> stream_at o1 i = stream_at o2 i"
  shows "bot_decode game o1 args = bot_decode game o2 args"
proof -
  have agree4: "stream_at o1 i = stream_at o2 i" if "i < 4" for i using agree [of i] m(2) that by simp
  have simple: "take 4 o1 = take 4 o2" "take 2 o1 = take 2 o2" "byte_at o1 0 = byte_at o2 0" "byte_at o1 1 = byte_at o2 1"
    by (rule head_cong [OF len agree4]; simp)+
  have len_shoe: "length (shoe k) = 52 * k" for k by (simp add: shoe_def length_concat comp_def sum_list_triv)
  show ?thesis
  proof (cases "game = ''mines'' \<or> game = ''blackjack'' \<or> game = ''staking'' \<or> game = ''raffle''")
    case False
    then show ?thesis using simple
      by (simp add: bot_decode_def decode_coinflip_def decode_dice_def decode_99x_def decode_hotcold_def
          decode_roulette_eu_def decode_dice_duel_def)
  next
    case True
    have "decode_mines_positions o1 (args ! 0) n = decode_mines_positions o2 (args ! 0) n" if "game = ''mines''" for n
      using partial_cong [of "args ! 0" m o1 o2 n] m that agree by (simp add: decode_mines_positions_def bytes_read_def)
    moreover have "decode_blackjack_deck o1 (args ! 0) = decode_blackjack_deck o2 (args ! 0)" if "game = ''blackjack''"
      using sweep_cong [of "rev [1..<length (shoe (nat (args ! 0)))]" m o1 o2 "shoe (nat (args ! 0))"] m that agree
      by (simp add: decode_blackjack_deck_def Let_def bind_fst [where h = "\<lambda>x. x"] len_shoe bytes_read_def)
    moreover have "decode_staking_duel o1 (args ! 0) = decode_staking_duel o2 (args ! 0)" if "game = ''staking''"
      using staking_cong [of "nat (args ! 0)" m o1 o2] m that agree by (simp add: decode_staking_duel_def bytes_read_def)
    moreover have "decode_raffle_winners o1 (args ! 0) = decode_raffle_winners o2 (args ! 0)" if "game = ''raffle''"
      using partial_cong [of 3 m o1 o2 "args ! 0"] m that agree by (simp add: decode_raffle_winners_def bytes_read_def)
    ultimately show ?thesis using True by (auto simp: bot_decode_def)
  qed
qed

lemma vf_decode_eq: "vf_decode game out args = bot_decode game out args"
proof -
  have "vf_decode_mines_positions out k n = decode_mines_positions out k n" for k n
    by (simp add: vf_decode_mines_positions_def decode_mines_positions_def vf_fisher_yates_partial_def
        fisher_yates_partial_def raise_if_def)
  moreover have "vf_decode_raffle_winners out n = decode_raffle_winners out n" for n
    by (simp add: vf_decode_raffle_winners_def decode_raffle_winners_def vf_fisher_yates_partial_def
        fisher_yates_partial_def raise_if_def)
  moreover have "vf_decode_blackjack_deck out n = decode_blackjack_deck out n" for n
    by (simp add: vf_decode_blackjack_deck_def decode_blackjack_deck_def shoe_def)
  ultimately show ?thesis
    by (simp add: vf_decode_def bot_decode_def vf_decode_coinflip_def decode_coinflip_def vf_decode_dice_def
        decode_dice_def vf_decode_99x_def decode_99x_def vf_decode_hotcold_def decode_hotcold_def
        vf_decode_roulette_eu_def decode_roulette_eu_def vf_decode_dice_duel_def decode_dice_duel_def
        vf_decode_staking_duel_def decode_staking_duel_def)
qed

text \<open>C37: The public verifier and the bot agree. For every game, seed pair and nonce, and for a
  draw of at least 64 bytes, the script prints what the bot's decoder returns on the bytes of the
  draw, or fails with the same error, as long as the game reads at most the 4096 bytes the script
  prepares and no more than the draw asked for (a draw of exactly 64 bytes is the HMAC output
  itself and continues in the same chain). Blackjack with up to 19 decks is within this bound.\<close>

theorem public_verifier_agrees:
  assumes "extend_bytes (compute ss cs nonce) b = Inr out" and "64 \<le> b" and "b \<le> 2 ^ 36"
    and "bytes_read game args \<le> 4096" and "b = 64 \<or> bytes_read game args \<le> nat b"
  shows "vf_main game ss cs nonce args = bot_decode game out args"
proof -
  let ?head = "compute ss cs nonce"
  obtain ext where ext: "extend_bytes ?head 4096 = Inr ext" using extend_stream [of 4096 ?head] by simp
  note long = extended_stream [OF ext] and drawn = extended_stream [OF assms(1)]
  define m where "m = max 4 (bytes_read game args)"
  have agree: "stream_at ext i = stream_at out i" if "i < m" for i
  proof -
    have "stream_at ext i = stream_at ?head i" using long(1) [of i] that assms(4) by (simp add: m_def)
    also have "\<dots> = stream_at out i"
    proof (cases "b = 64")
      case True
      then have "out = ?head" using assms(1) by (simp add: extend_bytes_def slice_to_def)
      then show ?thesis by simp
    next
      case False
      then show ?thesis using drawn(1) [of i] assms(2,3,5) that by (auto simp: m_def)
    qed
    finally show ?thesis .
  qed
  have "length ext = 4096" "length out = nat b" using long(2) [of 0] drawn(2) [of 0] assms(2,3) by simp_all
  then have "bot_decode game ext args = bot_decode game out args"
    using assms(2,4) by (intro bot_decode_cong [where m = m] agree) (auto simp: m_def)
  moreover have "vf_compute ss cs nonce = ?head" by (simp add: vf_compute_def compute_def)
  ultimately show ?thesis by (simp add: vf_main_def vf_extend_eq ext vf_decode_eq)
qed

theorem public_verifier_agrees_witness:
  "vf_main ''blackjack'' [1, 2] ''cs'' 0 [6] = bot_decode ''blackjack'' (compute [1, 2] ''cs'' 0) [6]"
proof -
  have "extend_bytes (compute [1, 2] ''cs'' 0) 64 = Inr (compute [1, 2] ''cs'' 0)"
    by (simp add: extend_bytes_def slice_to_def)
  then show ?thesis
    by (rule public_verifier_agrees) (simp_all add: bytes_read_def)
qed

end
