(* ===== verification/Spec2Isabelle.thy ===== *)
theory Spec2Isabelle
  imports Form_Layout Process Metrics Force_Rotate Bet_Contracts Forensics Odds Verifier
begin

text \<open>
  Verification of the core of the DeathRoll gold casino.

  \<^bold>\<open>The program.\<close> DeathRoll is a set of Discord bots over one PostgreSQL database. Players deposit
  game gold through cashiers, bet it, and withdraw it. All gold moves inside stored functions
  (\<^verbatim>\<open>SECURITY DEFINER\<close>, written in the Python migration files
  \<^verbatim>\<open>ops/alembic/versions/*.py\<close>); what the bots write themselves are the configuration, the editable
  embeds, the message of a dispute and the statistics of the cashiers. Python wraps the
  functions (\<^verbatim>\<open>deathroll_core/balance\<close>), turns their errors into exceptions and those into
  outcomes for the slash commands (\<^verbatim>\<open>deathroll_deposit_withdraw/tickets\<close>), answers the commands and
  forms of Discord (\<^verbatim>\<open>deathroll_deposit_withdraw/cogs\<close>), runs periodic workers
  (\<^verbatim>\<open>deathroll_deposit_withdraw/workers\<close>), and computes game outcomes from committed seeds
  (\<^verbatim>\<open>deathroll_core/fairness\<close>), which a player can recompute with a published script
  (\<^verbatim>\<open>docs/verifier/verify.py\<close>).

  \<^bold>\<open>The model of the database.\<close> A database is a record of tables; a table is the list of its rows in
  insertion order. A stored function is a HOL function from its arguments, the environment and a
  database to an error or a result and the new database, with one branch per guard, raise and
  constraint. An error ends the transaction and leaves the database as it was. The environment holds
  the time of the transaction (\<^verbatim>\<open>NOW()\<close>), the chain key setting and the primitives the database brings
  with it: HMAC and digest, the text of JSON values and timestamps, the cast of text to integers. They
  are parameters; the only law a theorem asks for is that the keyed hash has 32 bytes (tamper
  evidence). \<^verbatim>\<open>BIGINT\<close> and \<^verbatim>\<open>INT\<close> columns are integers with
  their range checked where a statement writes them. \<^verbatim>\<open>NULL\<close> is \<open>None\<close>, and comparisons follow
  three-valued logic.

  \<^item> \<^theory_text>\<open>Prelude\<close>, \<^theory_text>\<open>Schema\<close>: results, decimal and hexadecimal text, tables; the rows of every table,
    errors, constraints, triggers and seeded rows (migrations 0001 to 0005, 0019 to 0021).
  \<^item> \<^theory_text>\<open>Audit_Log\<close>: the hash-chained log, its verifier and the verifier worker (0002, 0017, 0018).
  \<^item> \<^theory_text>\<open>Deposits\<close>, \<^theory_text>\<open>Withdraws\<close>, \<^theory_text>\<open>Lifecycle\<close>, \<^theory_text>\<open>Cashiers\<close>, \<^theory_text>\<open>Treasury\<close>, \<^theory_text>\<open>Disputes\<close>: the functions
    of the deposit and withdraw bot (0006 to 0016).
  \<^item> \<^theory_text>\<open>Bets\<close>, \<^theory_text>\<open>Luck_Helpers\<close>: the functions of the luck bot (0023 to 0025).
  \<^item> \<^theory_text>\<open>Sha2\<close>, \<^theory_text>\<open>Decoders\<close>, \<^theory_text>\<open>Fairness\<close>, \<^theory_text>\<open>Verifier\<close>: SHA-256, SHA-512 and HMAC on words; the
    byte stream, shuffles and decoders of every game; seeds and draws; the public verifier.
  \<^item> \<^theory_text>\<open>Errors\<close>, \<^theory_text>\<open>Manager\<close>, \<^theory_text>\<open>Orchestration\<close>, \<^theory_text>\<open>Workers\<close>: the exception classes and their table, the
    facade, the outcomes of the ticket commands, what one tick of each worker does to the database.

  \<^bold>\<open>The model of the bot.\<close> A command is a function on the world (the database, the editable embeds, the
  limiters, the channels of the server and the requests sent to Discord), which answers with a value
  or an exception. A statement commits on its own, so an exception keeps what was done before it. Each
  statement and request takes one step, and the surroundings say for each step the time and the answer
  of Discord, so that the theorems hold for any answers. Texts the program inspects are lists of code
  points, other texts are the bytes of their UTF-8 form.

  \<^item> \<^theory_text>\<open>Text\<close>, \<^theory_text>\<open>Limiter\<close>, \<^theory_text>\<open>Forms\<close>: the functions of the standard library on text, the limiter of ticket
    commands, the validators of forms (\<^verbatim>\<open>deathroll_core/ratelimit\<close>, \<^verbatim>\<open>models/dw_pydantic.py\<close>,
    \<^verbatim>\<open>views/modals.py\<close>).
  \<^item> \<^theory_text>\<open>Roster\<close>, \<^theory_text>\<open>Settings\<close>: the roster, its matcher and the account summary; which functions touch the
    configuration and the tables of the cashiers.
  \<^item> \<^theory_text>\<open>Discord\<close>, \<^theory_text>\<open>Form_Layout\<close>, \<^theory_text>\<open>Embeds\<close>, \<^theory_text>\<open>Posts\<close>: the world and its commands; the forms as they are
    shown; the builders of embeds; the posts to the channels of the staff (\<^verbatim>\<open>audit_log.py\<close>, \<^verbatim>\<open>disputes.py\<close>, \<^verbatim>\<open>cashiers/alert.py\<close>).
  \<^item> \<^theory_text>\<open>Ticket_Cog\<close>, \<^theory_text>\<open>Staff_Cog\<close>, \<^theory_text>\<open>Admin_Cog\<close>, \<^theory_text>\<open>Welcome\<close>, \<^theory_text>\<open>Setup\<close>: every slash command and form, the guides
    and the live list of cashiers, the bootstrap of a server.
  \<^item> \<^theory_text>\<open>Commands\<close>, \<^theory_text>\<open>System\<close>: all commands as one type of events, and runs of commands, ticks, reconnects and
    calls of the luck bot in any order.
  \<^item> \<^theory_text>\<open>Worker_Loop\<close>, \<^theory_text>\<open>Process\<close>, \<^theory_text>\<open>Metrics\<close>, \<^theory_text>\<open>Force_Rotate\<close>: the loop of a worker, the client with its
    pool and workers, the health check, the gauges, and the operator's script that rotates seeds.

  \<^bold>\<open>The economy.\<close> \<^theory_text>\<open>Books\<close> is the abstract specification: accounts (available and locked gold per
  user, the raffle pools, the outside) and postings between them. \<^theory_text>\<open>Ledger\<close>, \<^theory_text>\<open>Ledger_Tickets\<close>,
  \<^theory_text>\<open>Ledger_Treasury\<close> and \<^theory_text>\<open>Ledger_Bets\<close> show function by function that a call refines its postings
  and keeps the invariant. \<^theory_text>\<open>Statements\<close>, \<^theory_text>\<open>Seeds\<close> and \<^theory_text>\<open>Paths\<close> see every function as a sequence of
  elementary statements and carry what holds per statement: the log only grows and stays chained,
  the rows of final tickets and settled bets stay as they are, nonces grow, seeds match their
  commitments. \<^theory_text>\<open>Api\<close> joins all functions in one type of calls with a reachability relation, together
  with the statement that opens a raffle period: no function of the repository inserts one, the
  operator does, and the rake of a bet goes to the pool of the active one. The locale \<open>stable\<close> is the
  contract of an invariant, and its interpretations carry the invariants to every reachable
  database. Reachability starts from the migrated database and allows any calls at any times, in
  any order. The bots make fewer calls, because the commands check what they write to the
  configuration: the locale \<open>kept_by_bots\<close> of \<^theory_text>\<open>Settings\<close> is the contract of an invariant under these.

  \<^bold>\<open>What is shown.\<close>
  \<^item> \<^theory_text>\<open>Economy\<close>: gold is conserved, locks are exact, balances stay in range, final states are final,
    the log is append-only and verifies.
  \<^item> \<^theory_text>\<open>Contracts\<close>, \<^theory_text>\<open>Bet_Contracts\<close>: the exact postings of confirmations, cancellations, bets,
    settlements and refunds, with the pool of the raffle period that gets the rake, round trips, retried bets, that a cancellation always succeeds, the quota
    of rate tokens.
  \<^item> \<^theory_text>\<open>Roles\<close>: exclusive claims, banned players, and two functions that fail or pay where they
    should not.
  \<^item> \<^theory_text>\<open>Forensics\<close>: what the log verifier finds, tamper evidence, and that its worker catches up.
  \<^item> \<^theory_text>\<open>Fairness\<close>, \<^theory_text>\<open>Decoders\<close>, \<^theory_text>\<open>Odds\<close>, \<^theory_text>\<open>Verifier\<close>: commit and reveal, fresh nonces, draws without
    replacement, ranges, the odds of the 99x game, agreement of the public verifier with the bot.
  \<^item> \<^theory_text>\<open>Errors\<close>, \<^theory_text>\<open>Orchestration\<close>: the translation of errors is exact, and no ticket command ends in an
    unexpected outcome.
  \<^item> \<^theory_text>\<open>Forms\<close>, \<^theory_text>\<open>Form_Layout\<close>, \<^theory_text>\<open>Limiter\<close>, \<^theory_text>\<open>Roster\<close>: accepted forms are what the stored functions accept,
    the forms keep the limits of Discord, one of them only for short ids and one for guides that are not
    longer than its inputs, the limiter is a sliding window, the alert names
    exactly the matching cashiers.
  \<^item> \<^theory_text>\<open>Discord\<close> to \<^theory_text>\<open>Commands\<close>: the contract \<open>lawful\<close> of a command (its statements are calls of the bot, and
    it acknowledges its interaction once) holds for every command; a form opens one ticket or none; the
    forms of the treasury need their second factor; a confirmation ends in an exception after its
    commit; bootstrap and guides converge.
  \<^item> \<^theory_text>\<open>Workers\<close>, \<^theory_text>\<open>System\<close>: the ticks with their posts refine the ticks on the database; the timeout and
    claim-idle workers clear all their work in one tick, one unregistered cashier stops the
    auto-offline worker. The locale \<open>row_worker\<close> is the contract of a loop body, interpreted for each
    loop. Any run of the whole system keeps the books and the limits of the settings.
  \<^item> \<^theory_text>\<open>Worker_Loop\<close>, \<^theory_text>\<open>Process\<close>: a worker has at most one live loop unless \<^verbatim>\<open>start\<close> and \<^verbatim>\<open>stop\<close> overlap; over
    reconnects each worker of the client has exactly one, and none after shutdown.
  \<^item> \<^theory_text>\<open>Metrics\<close>: the gauges add up to the books. \<^theory_text>\<open>Force_Rotate\<close>: a rotation of all seeds is complete,
    accounted for and moves no gold, and what happens when its log row cannot be written.

  \<^bold>\<open>Bounds.\<close> No loop needs fuel: the loops of the source run over selected rows or to a given byte
  count and are primitive recursion or have a termination measure; the loops of the workers, which do
  not end, are a step relation. Statements about the byte chain
  ask for at most \<open>2 ^ 36\<close> bytes, because its counter has four bytes. The environment's chain key is
  the same in all calls of a run. Configuration rows may change at any time through the same upsert
  as in the source; the invariants need that commission and rake together are shares of the stake,
  which holds for the seeded rows and is not enforced by the database, so the configuration of the
  luck schema is fixed in a run.

  \<^bold>\<open>Not modelled.\<close> Concurrency: functions lock the rows they change, and runs here are serial; a command
  and a tick run whole, without other commands between their awaits. Sequences that skip values after
  a rollback: a failed call leaves its sequences unchanged here, so identifiers may differ from a
  real run, and no theorem depends on their values. The range of timestamps. The order of rows with equal
  sort keys, which the database leaves open: here it is the order of insertion. Failures of plain
  \<^verbatim>\<open>SELECT\<close> statements in the commands, and of connections. Floating-point values: a dice roll is kept in
  hundredths, times of the limiter are integers, and so are the values of the gauges, which the
  metrics library stores as doubles, exactly up to \<open>2 ^ 53\<close>. The text of \<^verbatim>\<open>json.dumps\<close>, represented by its value. Histograms
  of durations, log lines, the unused row models of \<^verbatim>\<open>dw_pydantic.py\<close>. Grants and indexes. The settings, which pydantic
  reads from the environment, the configuration of logging, connections and migrations, the parsing of
  command lines, the generator of the economics document and the two stubs of the luck bot have no
  logic of the program. \<^verbatim>\<open>luck.apply_bet\<close> of migration 0022 is replaced by that of 0023. What
  else the operator may do to the raffle tables by hand (closing a period, paying a pool out): the
  repository has no code for it.
\<close>

end
